(* ===== verification/Prelude.thy ===== *)
theory Prelude
  imports Main "HOL-Library.Word" "HOL-Library.Signed_Division"
begin

section \<open>Prelude: C integers, flags, packed structs, results\<close>

text \<open>
  What every component shares: the C integer types as words of their width, the
  \<open>BIT\<close> masks and the flag idioms built from them, the little-endian layout of packed
  structs, and the error numbers. The lemmas here are about no component; they are
  declared for the simplifier or collected, so that the component proofs are short.
\<close>

unbundle bit_operations_syntax

named_theorems c_const \<open>definitions of the program's numeric constants and masks\<close>
named_theorems wire_defs \<open>layouts of the packed structs\<close>

subsection \<open>C integers\<close>

text \<open>
  Unsigned types wrap, as \<open>+\<close>, \<open>-\<close> and \<open>*\<close> on words do. Signed types are words read by
  \<open>sint\<close>; C promotes them to \<open>int\<close> before arithmetic, so a signed expression is written
  over \<open>int\<close> and converted back with \<open>word_of_int\<close> where the code casts.
\<close>

type_synonym u8 = "8 word"
type_synonym u16 = "16 word"
type_synonym u32 = "32 word"
type_synonym s16 = "16 word"
type_synonym s32 = "32 word"

text \<open>Results: 0, or a negated error number. The numbers are those of the firmware's C library.\<close>

definition ENOENT :: int where [c_const]: "ENOENT = 2"
definition EIO :: int where [c_const]: "EIO = 5"
definition EAGAIN :: int where [c_const]: "EAGAIN = 11"
definition ENOMEM :: int where [c_const]: "ENOMEM = 12"
definition EACCES :: int where [c_const]: "EACCES = 13"
definition EFAULT :: int where [c_const]: "EFAULT = 14"
definition ENODEV :: int where [c_const]: "ENODEV = 19"
definition EINVAL :: int where [c_const]: "EINVAL = 22"
definition ENOTSUP :: int where [c_const]: "ENOTSUP = 134"

lemma errno_pos [simp]:
  "0 < ENOENT" "0 < EIO" "0 < EAGAIN" "0 < ENOMEM" "0 < EACCES" "0 < EFAULT" "0 < ENODEV"
  "0 < EINVAL" "0 < ENOTSUP"
  by (simp_all add: c_const)

lemma errno_neq_0 [simp]:
  "ENOENT \<noteq> 0" "EIO \<noteq> 0" "EAGAIN \<noteq> 0" "ENOMEM \<noteq> 0" "EACCES \<noteq> 0" "EFAULT \<noteq> 0" "ENODEV \<noteq> 0"
  "EINVAL \<noteq> 0" "ENOTSUP \<noteq> 0"
  by (simp_all add: c_const)

definition INT16_MAX :: int where [c_const]: "INT16_MAX = 32767"
definition UINT16_MAX :: u32 where [c_const]: "UINT16_MAX = 65535"
definition UINT32_MAX :: u32 where [c_const]: "UINT32_MAX = - 1"

text \<open>Ranges, for goals over \<open>uint\<close> and \<open>sint\<close>.\<close>

lemma uint8_range: "0 \<le> uint (w :: u8) \<and> uint w < 256"
  using unsigned_less [of w, where 'a = int] by simp

lemma uint16_range: "0 \<le> uint (w :: u16) \<and> uint w < 65536"
  using unsigned_less [of w, where 'a = int] by simp

lemma uint32_range: "0 \<le> uint (w :: u32) \<and> uint w < 4294967296"
  using unsigned_less [of w, where 'a = int] by simp

lemma sint16_range: "- 32768 \<le> sint (w :: s16) \<and> sint w < 32768"
  using sint_ge [of w] sint_lt [of w] by simp

lemma sint32_range: "- 2147483648 \<le> sint (w :: s32) \<and> sint w < 2147483648"
  using sint_ge [of w] sint_lt [of w] by simp

text \<open>The mathematical value of a conversion that loses nothing.\<close>

lemma uint_of_int_u8 [simp]: "0 \<le> i \<Longrightarrow> i < 256 \<Longrightarrow> uint (word_of_int i :: u8) = i"
  by (simp add: unsigned_of_int take_bit_int_eq_self)

lemma uint_of_int_u16 [simp]: "0 \<le> i \<Longrightarrow> i < 65536 \<Longrightarrow> uint (word_of_int i :: u16) = i"
  by (simp add: unsigned_of_int take_bit_int_eq_self)

lemma uint_of_int_u32 [simp]: "0 \<le> i \<Longrightarrow> i < 4294967296 \<Longrightarrow> uint (word_of_int i :: u32) = i"
  by (simp add: unsigned_of_int take_bit_int_eq_self)

lemma sint_of_int_s16: "- 32768 \<le> i \<Longrightarrow> i < 32768 \<Longrightarrow> sint (word_of_int i :: s16) = i"
  by (simp add: signed_of_int signed_take_bit_int_eq_self)

lemma sint_of_int_s32: "- 2147483648 \<le> i \<Longrightarrow> i < 2147483648 \<Longrightarrow> sint (word_of_int i :: s32) = i"
  by (simp add: signed_of_int signed_take_bit_int_eq_self)

lemma uint_ucast_16_32 [simp]: "uint (ucast (w :: u16) :: u32) = uint w"
  by (simp add: unsigned_ucast_eq take_bit_int_eq_self order_less_trans [OF conjunct2 [OF uint16_range]])

lemma ucast_16_32_less [simp]: "(ucast (a :: u16) :: u32) < ucast b \<longleftrightarrow> a < b"
  by (simp add: word_less_def)

lemma ucast_16_32_le [simp]: "(ucast (a :: u16) :: u32) \<le> ucast b \<longleftrightarrow> a \<le> b"
  by (simp add: word_le_def)

lemma ucast_16_32_eq_0 [simp]: "(ucast (a :: u16) :: u32) = 0 \<longleftrightarrow> a = 0"
  by (simp add: word_uint_eq_iff)

subsection \<open>Flags\<close>

definition BIT :: "nat \<Rightarrow> 'a::len word" where
  "BIT n = push_bit n 1"

abbreviation has_flag :: "'a::len word \<Rightarrow> 'a word \<Rightarrow> bool" where
  "has_flag w f \<equiv> w AND f \<noteq> 0"

lemma bit_BIT [simp]: "bit (BIT n :: 'a::len word) m \<longleftrightarrow> m = n \<and> n < LENGTH('a)"
  by (auto simp: BIT_def bit_exp_iff)

lemma and_BIT_eq_0 [simp]: "(w AND BIT n = (0 :: 'a::len word)) \<longleftrightarrow> \<not> bit w n"
proof
  assume *: "w AND BIT n = 0"
  show "\<not> bit w n"
  proof
    assume "bit w n"
    then have "bit (w AND BIT n) n"
      by (auto simp: bit_and_iff bit_imp_le_length)
    with * show False by simp
  qed
next
  assume "\<not> bit w n"
  then show "w AND BIT n = 0"
    by (auto intro!: bit_word_eqI simp: bit_and_iff)
qed

lemma bit_or_BIT [simp]:
  "bit (w OR BIT n :: 'a::len word) m \<longleftrightarrow> bit w m \<or> m = n \<and> n < LENGTH('a)"
  by (auto simp: bit_or_iff)

lemma bit_and_not_BIT [simp]:
  "bit (w AND NOT (BIT n) :: 'a::len word) m \<longleftrightarrow> bit w m \<and> m \<noteq> n"
  by (auto simp: bit_and_iff bit_not_iff dest: bit_imp_le_length)

lemma BIT_neq_0 [simp]: "n < LENGTH('a) \<Longrightarrow> (BIT n :: 'a::len word) \<noteq> 0"
  by (metis bit_0_eq bit_BIT bot_apply bot_bool_def)

text \<open>The other direction: a mask is contained in a word when the conjunction gives it back.\<close>

lemma and_mask_eq_iff:
  "w AND m = (m :: 'a::len word) \<longleftrightarrow> (\<forall>n. bit m n \<longrightarrow> bit w n)"
  by (auto simp: bit_eq_iff bit_and_iff dest: bit_imp_le_length)

subsection \<open>Little-endian packed layout\<close>

definition join16 :: "u8 \<Rightarrow> u8 \<Rightarrow> u16" where
  "join16 lo hi = ucast lo OR push_bit 8 (ucast hi)"

definition join32 :: "u8 \<Rightarrow> u8 \<Rightarrow> u8 \<Rightarrow> u8 \<Rightarrow> u32" where
  "join32 a b c d =
     ucast a OR push_bit 8 (ucast b) OR push_bit 16 (ucast c) OR push_bit 24 (ucast d)"

definition le16 :: "u16 \<Rightarrow> u8 list" where
  "le16 w = [ucast w, ucast (drop_bit 8 w)]"

definition le32 :: "u32 \<Rightarrow> u8 list" where
  "le32 w = [ucast w, ucast (drop_bit 8 w), ucast (drop_bit 16 w), ucast (drop_bit 24 w)]"

definition rd16 :: "u8 list \<Rightarrow> nat \<Rightarrow> u16" where
  "rd16 bs i = join16 (bs ! i) (bs ! (i + 1))"

definition rd32 :: "u8 list \<Rightarrow> nat \<Rightarrow> u32" where
  "rd32 bs i = join32 (bs ! i) (bs ! (i + 1)) (bs ! (i + 2)) (bs ! (i + 3))"

lemma length_le16 [simp]: "length (le16 w) = 2"
  by (simp add: le16_def)

lemma length_le32 [simp]: "length (le32 w) = 4"
  by (simp add: le32_def)

lemma join16_split [simp]: "join16 (ucast w) (ucast (drop_bit 8 w)) = w"
  by (rule bit_word_eqI)
    (auto simp: join16_def bit_or_iff bit_push_bit_iff bit_ucast_iff bit_drop_bit_eq)

lemma join32_split [simp]:
  "join32 (ucast w) (ucast (drop_bit 8 w)) (ucast (drop_bit 16 w)) (ucast (drop_bit 24 w)) = w"
proof (rule bit_word_eqI)
  fix n assume "n < LENGTH(32)"
  then consider "n < 8" | "8 \<le> n" "n < 16" | "16 \<le> n" "n < 24" | "24 \<le> n" "n < 32"
    by fastforce
  then show "bit (join32 (ucast w) (ucast (drop_bit 8 w)) (ucast (drop_bit 16 w))
      (ucast (drop_bit 24 w))) n = bit w n"
    by cases (auto simp: join32_def bit_or_iff bit_push_bit_iff bit_ucast_iff bit_drop_bit_eq)
qed

lemma split_join16 [simp]:
  "ucast (join16 a b) = a" "ucast (drop_bit 8 (join16 a b)) = b"
  by (rule bit_word_eqI,
      auto simp: join16_def bit_or_iff bit_push_bit_iff bit_ucast_iff bit_drop_bit_eq
        dest: bit_imp_le_length)+

lemma split_join32 [simp]:
  "ucast (join32 a b c d) = a" "ucast (drop_bit 8 (join32 a b c d)) = b"
  "ucast (drop_bit 16 (join32 a b c d)) = c" "ucast (drop_bit 24 (join32 a b c d)) = d"
  by (rule bit_word_eqI,
      auto simp: join32_def bit_or_iff bit_push_bit_iff bit_ucast_iff bit_drop_bit_eq
        dest: bit_imp_le_length)+

lemma le16_inject [simp]: "le16 v = le16 w \<longleftrightarrow> v = w"
  by (metis le16_def join16_split nth_Cons_0 nth_Cons_Suc)

end
