(* ===== verification/Smart_Tag.thy ===== *)
theory Smart_Tag
  imports Prelude
begin

section \<open>Smart Tag shared types\<close>

text \<open>
  The wire structs, enumerations and pure helpers of \<open>src/app/smart_tag.h\<close>. A struct is a
  record whose fields are the C members with a short prefix (\<open>sd_\<close> for \<open>sensor_data_t\<close>,
  \<open>st_\<close> for \<open>tag_status_t\<close>, \<open>cfg_\<close> for \<open>tag_config_t\<close>, \<open>stat_\<close> for
  \<open>tag_statistics_t\<close>, \<open>slr_\<close> for \<open>sensor_log_record_t\<close>, \<open>ev_\<close> for
  \<open>event_record_t\<close>, \<open>ch_\<close> for \<open>struct ble_log_chunk_header\<close>). The packed layout of a
  struct is its \<open>_bytes\<close> function, little-endian as on the target.
\<close>

subsection \<open>Enumerations\<close>

datatype tag_mode = TAG_MODE_ENVIRONMENT | TAG_MODE_ASSET | TAG_MODE_SHIPPING

fun tag_mode_code :: "tag_mode \<Rightarrow> u8" where
  "tag_mode_code TAG_MODE_ENVIRONMENT = 0"
| "tag_mode_code TAG_MODE_ASSET = 1"
| "tag_mode_code TAG_MODE_SHIPPING = 2"

datatype motion_state = MOTION_STATE_STATIONARY | MOTION_STATE_MOVING

fun motion_state_code :: "motion_state \<Rightarrow> u8" where
  "motion_state_code MOTION_STATE_STATIONARY = 0"
| "motion_state_code MOTION_STATE_MOVING = 1"

datatype orientation =
  ORIENTATION_UNKNOWN | ORIENTATION_X_UP | ORIENTATION_X_DOWN | ORIENTATION_Y_UP
| ORIENTATION_Y_DOWN | ORIENTATION_Z_UP | ORIENTATION_Z_DOWN

fun orientation_code :: "orientation \<Rightarrow> u8" where
  "orientation_code ORIENTATION_UNKNOWN = 0"
| "orientation_code ORIENTATION_X_UP = 1"
| "orientation_code ORIENTATION_X_DOWN = 2"
| "orientation_code ORIENTATION_Y_UP = 3"
| "orientation_code ORIENTATION_Y_DOWN = 4"
| "orientation_code ORIENTATION_Z_UP = 5"
| "orientation_code ORIENTATION_Z_DOWN = 6"

datatype event_type =
  EVENT_BOOT | EVENT_MOTION_START | EVENT_MOTION_STOP | EVENT_SHOCK | EVENT_FREE_FALL
| EVENT_ORIENTATION_CHANGE | EVENT_TAMPER | EVENT_TEMP_HIGH | EVENT_TEMP_LOW
| EVENT_HUMIDITY_HIGH | EVENT_BATTERY_LOW | EVENT_CONFIG_CHANGED | EVENT_SENSOR_FAULT
| EVENT_ZIGBEE_JOINED | EVENT_ZIGBEE_LEFT | EVENT_BLE_CONNECTED | EVENT_OTA_STARTED
| EVENT_OTA_FINISHED | EVENT_FACTORY_RESET | EVENT_GAS_LOW | EVENT_TIME_SET

fun event_code :: "event_type \<Rightarrow> u8" where
  "event_code EVENT_BOOT = 0"
| "event_code EVENT_MOTION_START = 1"
| "event_code EVENT_MOTION_STOP = 2"
| "event_code EVENT_SHOCK = 3"
| "event_code EVENT_FREE_FALL = 4"
| "event_code EVENT_ORIENTATION_CHANGE = 5"
| "event_code EVENT_TAMPER = 6"
| "event_code EVENT_TEMP_HIGH = 7"
| "event_code EVENT_TEMP_LOW = 8"
| "event_code EVENT_HUMIDITY_HIGH = 9"
| "event_code EVENT_BATTERY_LOW = 10"
| "event_code EVENT_CONFIG_CHANGED = 11"
| "event_code EVENT_SENSOR_FAULT = 12"
| "event_code EVENT_ZIGBEE_JOINED = 13"
| "event_code EVENT_ZIGBEE_LEFT = 14"
| "event_code EVENT_BLE_CONNECTED = 15"
| "event_code EVENT_OTA_STARTED = 16"
| "event_code EVENT_OTA_FINISHED = 17"
| "event_code EVENT_FACTORY_RESET = 18"
| "event_code EVENT_GAS_LOW = 19"
| "event_code EVENT_TIME_SET = 20"

datatype event_severity = EVENT_SEVERITY_INFO | EVENT_SEVERITY_WARNING | EVENT_SEVERITY_ALARM

fun severity_code :: "event_severity \<Rightarrow> u8" where
  "severity_code EVENT_SEVERITY_INFO = 0"
| "severity_code EVENT_SEVERITY_WARNING = 1"
| "severity_code EVENT_SEVERITY_ALARM = 2"

text \<open>Casting an enumerator to its stored byte loses nothing.\<close>

lemma event_code_inject [simp]: "event_code a = event_code b \<longleftrightarrow> a = b"
  by (cases a; cases b; simp)

lemma severity_code_inject [simp]: "severity_code a = severity_code b \<longleftrightarrow> a = b"
  by (cases a; cases b; simp)

lemma orientation_code_inject [simp]: "orientation_code a = orientation_code b \<longleftrightarrow> a = b"
  by (cases a; cases b; simp)

lemma motion_state_code_inject [simp]: "motion_state_code a = motion_state_code b \<longleftrightarrow> a = b"
  by (cases a; cases b; simp)

subsection \<open>Masks\<close>

text \<open>
  The masks stay folded in the component proofs: \<open>flag_defs\<close> unfolds them to \<open>BIT\<close>, whose
  lemmas in the prelude speak of single bits.
\<close>

named_theorems flag_defs \<open>masks as bits\<close>

definition ALARM_TEMP_HIGH :: u16 where [flag_defs]: "ALARM_TEMP_HIGH = BIT 0"
definition ALARM_TEMP_LOW :: u16 where [flag_defs]: "ALARM_TEMP_LOW = BIT 1"
definition ALARM_HUMIDITY_HIGH :: u16 where [flag_defs]: "ALARM_HUMIDITY_HIGH = BIT 2"
definition ALARM_SHOCK :: u16 where [flag_defs]: "ALARM_SHOCK = BIT 3"
definition ALARM_FREE_FALL :: u16 where [flag_defs]: "ALARM_FREE_FALL = BIT 4"
definition ALARM_TAMPER :: u16 where [flag_defs]: "ALARM_TAMPER = BIT 5"
definition ALARM_SENSOR_FAULT :: u16 where [flag_defs]: "ALARM_SENSOR_FAULT = BIT 6"
definition ALARM_BATTERY_LOW :: u16 where [flag_defs]: "ALARM_BATTERY_LOW = BIT 7"
definition ALARM_GAS_LOW :: u16 where [flag_defs]: "ALARM_GAS_LOW = BIT 8"

definition SENSOR_VALID_TEMP_RH :: u8 where [flag_defs]: "SENSOR_VALID_TEMP_RH = BIT 0"
definition SENSOR_VALID_PRESSURE :: u8 where [flag_defs]: "SENSOR_VALID_PRESSURE = BIT 1"
definition SENSOR_VALID_ACCEL :: u8 where [flag_defs]: "SENSOR_VALID_ACCEL = BIT 2"
definition SENSOR_VALID_BATTERY :: u8 where [flag_defs]: "SENSOR_VALID_BATTERY = BIT 3"
definition SENSOR_VALID_GAS :: u8 where [flag_defs]: "SENSOR_VALID_GAS = BIT 4"
definition SENSOR_VALID_GYRO :: u8 where [flag_defs]: "SENSOR_VALID_GYRO = BIT 5"
definition SENSOR_FLAG_MOVING :: u8 where [flag_defs]: "SENSOR_FLAG_MOVING = BIT 6"
definition SENSOR_FLAG_ALARM :: u8 where [flag_defs]: "SENSOR_FLAG_ALARM = BIT 7"

definition SMART_TAG_PROTOCOL_VERSION :: int where [c_const]: "SMART_TAG_PROTOCOL_VERSION = 4"
definition SMART_TAG_ONE_G_MG :: int where [c_const]: "SMART_TAG_ONE_G_MG = 1000"
definition SMART_TAG_BATTERY_FULL_MV :: int where [c_const]: "SMART_TAG_BATTERY_FULL_MV = 3000"
definition SMART_TAG_BATTERY_EMPTY_MV :: int where [c_const]: "SMART_TAG_BATTERY_EMPTY_MV = 2000"
definition SMART_TAG_BATTERY_HYSTERESIS_MV :: int where
  [c_const]: "SMART_TAG_BATTERY_HYSTERESIS_MV = 100"
definition SMART_TAG_GAS_ALARM_PERCENT :: u32 where [c_const]: "SMART_TAG_GAS_ALARM_PERCENT = 70"

subsection \<open>Structs\<close>

record sensor_data =
  sd_timestamp :: u32
  sd_temperature_c_x100 :: s16
  sd_humidity_x100 :: u16
  sd_pressure_pa :: s32
  sd_battery_mv :: u16
  sd_battery_percent :: u8
  sd_accel_x_mg :: s16
  sd_accel_y_mg :: s16
  sd_accel_z_mg :: s16
  sd_magnitude_mg :: u16
  sd_motion :: bool
  sd_free_fall :: bool
  sd_shock :: bool
  sd_orientation :: u8
  sd_valid :: u8
  sd_gas_resistance_ohm :: u32
  sd_gyro_x_dps_x10 :: s16
  sd_gyro_y_dps_x10 :: s16
  sd_gyro_z_dps_x10 :: s16

record tag_status =
  st_motion_state :: u8
  st_orientation :: u8
  st_operating_mode :: u8
  st_tamper :: u8
  st_alarm_flags :: u16
  st_max_shock_mg :: u16
  st_shock_count :: u32
  st_free_fall_count :: u32
  st_event_count :: u32
  st_movement_duration_s :: u32
  st_last_movement_time :: u32

record tag_config =
  cfg_sampling_interval_s :: u16
  cfg_motion_timeout_s :: u16
  cfg_motion_threshold_mg :: u16
  cfg_shock_threshold_mg :: u16
  cfg_free_fall_threshold_mg :: u16
  cfg_temp_high_c_x100 :: s16
  cfg_temp_low_c_x100 :: s16
  cfg_humidity_high_x100 :: u16
  cfg_battery_low_mv :: u16
  cfg_report_temp_delta_c_x100 :: u16
  cfg_report_humidity_delta_x100 :: u16
  cfg_report_pressure_delta_pa :: u16
  cfg_report_max_interval_s :: u16
  cfg_ble_service_window_s :: u16
  cfg_gas_low_threshold_ohm :: u32
  cfg_report_gas_delta_ohm :: u32
  cfg_operating_mode :: u8
  cfg_led_enabled :: u8
  cfg_sensor_history_enabled :: u8
  cfg_reserved :: u8

definition TAG_CONFIG_DEFAULTS :: tag_config where
  "TAG_CONFIG_DEFAULTS = \<lparr>
     cfg_sampling_interval_s = 60,
     cfg_motion_timeout_s = 30,
     cfg_motion_threshold_mg = 150,
     cfg_shock_threshold_mg = 4000,
     cfg_free_fall_threshold_mg = 300,
     cfg_temp_high_c_x100 = 4000,
     cfg_temp_low_c_x100 = - 1000,
     cfg_humidity_high_x100 = 8000,
     cfg_battery_low_mv = 2400,
     cfg_report_temp_delta_c_x100 = 50,
     cfg_report_humidity_delta_x100 = 300,
     cfg_report_pressure_delta_pa = 100,
     cfg_report_max_interval_s = 1800,
     cfg_ble_service_window_s = 120,
     cfg_gas_low_threshold_ohm = 0,
     cfg_report_gas_delta_ohm = 5000,
     cfg_operating_mode = tag_mode_code TAG_MODE_ENVIRONMENT,
     cfg_led_enabled = 1,
     cfg_sensor_history_enabled = 1,
     cfg_reserved = 0 \<rparr>"

record tag_statistics =
  stat_boot_count :: u32
  stat_total_uptime_s :: u32
  stat_motion_count :: u32
  stat_shock_count :: u32
  stat_free_fall_count :: u32
  stat_event_count :: u32
  stat_movement_duration_s :: u32
  stat_max_shock_mg :: u16
  stat_min_battery_mv :: u16
  stat_zigbee_reports :: u16
  stat_ble_connections :: u16
  stat_sensor_faults :: u16
  stat_boot_epoch_utc :: u32

record sensor_log_record =
  slr_timestamp :: u32
  slr_temperature :: s16
  slr_humidity :: u16
  slr_pressure :: s32
  slr_gas_resistance_ohm :: u32
  slr_flags :: u8

record event_record =
  ev_timestamp :: u32
  ev_type :: u8
  ev_severity :: u8
  ev_value :: s16

record ble_log_chunk_header =
  ch_chunk_index :: u16
  ch_log_id :: u8
  ch_record_count :: u8
  ch_flags :: u8
  ch_record_size :: u8
  ch_first_seq :: u32

definition BLE_LOG_CHUNK_FLAG_LAST :: u8 where [flag_defs]: "BLE_LOG_CHUNK_FLAG_LAST = BIT 0"

text \<open>Static structs start as zeroes, and \<open>memset(&x, 0, sizeof(x))\<close> makes them so.\<close>

definition sensor_data_zero :: sensor_data where
  "sensor_data_zero = \<lparr> sd_timestamp = 0, sd_temperature_c_x100 = 0, sd_humidity_x100 = 0,
     sd_pressure_pa = 0, sd_battery_mv = 0, sd_battery_percent = 0, sd_accel_x_mg = 0,
     sd_accel_y_mg = 0, sd_accel_z_mg = 0, sd_magnitude_mg = 0, sd_motion = False,
     sd_free_fall = False, sd_shock = False, sd_orientation = 0, sd_valid = 0,
     sd_gas_resistance_ohm = 0, sd_gyro_x_dps_x10 = 0, sd_gyro_y_dps_x10 = 0,
     sd_gyro_z_dps_x10 = 0 \<rparr>"

definition tag_status_zero :: tag_status where
  "tag_status_zero = \<lparr> st_motion_state = 0, st_orientation = 0, st_operating_mode = 0,
     st_tamper = 0, st_alarm_flags = 0, st_max_shock_mg = 0, st_shock_count = 0,
     st_free_fall_count = 0, st_event_count = 0, st_movement_duration_s = 0,
     st_last_movement_time = 0 \<rparr>"

definition tag_statistics_zero :: tag_statistics where
  "tag_statistics_zero = \<lparr> stat_boot_count = 0, stat_total_uptime_s = 0, stat_motion_count = 0,
     stat_shock_count = 0, stat_free_fall_count = 0, stat_event_count = 0,
     stat_movement_duration_s = 0, stat_max_shock_mg = 0, stat_min_battery_mv = 0,
     stat_zigbee_reports = 0, stat_ble_connections = 0, stat_sensor_faults = 0,
     stat_boot_epoch_utc = 0 \<rparr>"

subsection \<open>Packed layouts\<close>

definition bool_byte :: "bool \<Rightarrow> u8" where
  "bool_byte b = (if b then 1 else 0)"

definition sensor_data_bytes :: "sensor_data \<Rightarrow> u8 list" where
  [wire_defs]: "sensor_data_bytes d =
     le32 (sd_timestamp d) @
     le16 (sd_temperature_c_x100 d) @ le16 (sd_humidity_x100 d) @ le32 (sd_pressure_pa d) @
     le16 (sd_battery_mv d) @ [sd_battery_percent d] @
     le16 (sd_accel_x_mg d) @ le16 (sd_accel_y_mg d) @ le16 (sd_accel_z_mg d) @
     le16 (sd_magnitude_mg d) @
     [bool_byte (sd_motion d), bool_byte (sd_free_fall d), bool_byte (sd_shock d),
      sd_orientation d, sd_valid d] @
     le32 (sd_gas_resistance_ohm d) @
     le16 (sd_gyro_x_dps_x10 d) @ le16 (sd_gyro_y_dps_x10 d) @ le16 (sd_gyro_z_dps_x10 d)"

definition tag_status_bytes :: "tag_status \<Rightarrow> u8 list" where
  [wire_defs]: "tag_status_bytes s =
     [st_motion_state s, st_orientation s, st_operating_mode s, st_tamper s] @
     le16 (st_alarm_flags s) @ le16 (st_max_shock_mg s) @
     le32 (st_shock_count s) @ le32 (st_free_fall_count s) @ le32 (st_event_count s) @
     le32 (st_movement_duration_s s) @ le32 (st_last_movement_time s)"

definition tag_config_bytes :: "tag_config \<Rightarrow> u8 list" where
  [wire_defs]: "tag_config_bytes c =
     le16 (cfg_sampling_interval_s c) @ le16 (cfg_motion_timeout_s c) @
     le16 (cfg_motion_threshold_mg c) @ le16 (cfg_shock_threshold_mg c) @
     le16 (cfg_free_fall_threshold_mg c) @
     le16 (cfg_temp_high_c_x100 c) @ le16 (cfg_temp_low_c_x100 c) @
     le16 (cfg_humidity_high_x100 c) @ le16 (cfg_battery_low_mv c) @
     le16 (cfg_report_temp_delta_c_x100 c) @ le16 (cfg_report_humidity_delta_x100 c) @
     le16 (cfg_report_pressure_delta_pa c) @ le16 (cfg_report_max_interval_s c) @
     le16 (cfg_ble_service_window_s c) @
     le32 (cfg_gas_low_threshold_ohm c) @ le32 (cfg_report_gas_delta_ohm c) @
     [cfg_operating_mode c, cfg_led_enabled c, cfg_sensor_history_enabled c, cfg_reserved c]"

text \<open>The other direction is C's reading of a struct out of memory: \<open>bs\<close> holds its bytes.\<close>

definition tag_config_of_bytes :: "u8 list \<Rightarrow> tag_config" where
  [wire_defs]: "tag_config_of_bytes bs = \<lparr>
     cfg_sampling_interval_s = rd16 bs 0,
     cfg_motion_timeout_s = rd16 bs 2,
     cfg_motion_threshold_mg = rd16 bs 4,
     cfg_shock_threshold_mg = rd16 bs 6,
     cfg_free_fall_threshold_mg = rd16 bs 8,
     cfg_temp_high_c_x100 = rd16 bs 10,
     cfg_temp_low_c_x100 = rd16 bs 12,
     cfg_humidity_high_x100 = rd16 bs 14,
     cfg_battery_low_mv = rd16 bs 16,
     cfg_report_temp_delta_c_x100 = rd16 bs 18,
     cfg_report_humidity_delta_x100 = rd16 bs 20,
     cfg_report_pressure_delta_pa = rd16 bs 22,
     cfg_report_max_interval_s = rd16 bs 24,
     cfg_ble_service_window_s = rd16 bs 26,
     cfg_gas_low_threshold_ohm = rd32 bs 28,
     cfg_report_gas_delta_ohm = rd32 bs 32,
     cfg_operating_mode = bs ! 36,
     cfg_led_enabled = bs ! 37,
     cfg_sensor_history_enabled = bs ! 38,
     cfg_reserved = bs ! 39 \<rparr>"

definition tag_statistics_bytes :: "tag_statistics \<Rightarrow> u8 list" where
  [wire_defs]: "tag_statistics_bytes s =
     le32 (stat_boot_count s) @ le32 (stat_total_uptime_s s) @ le32 (stat_motion_count s) @
     le32 (stat_shock_count s) @ le32 (stat_free_fall_count s) @ le32 (stat_event_count s) @
     le32 (stat_movement_duration_s s) @
     le16 (stat_max_shock_mg s) @ le16 (stat_min_battery_mv s) @ le16 (stat_zigbee_reports s) @
     le16 (stat_ble_connections s) @ le16 (stat_sensor_faults s) @
     le32 (stat_boot_epoch_utc s)"

definition tag_statistics_of_bytes :: "u8 list \<Rightarrow> tag_statistics" where
  [wire_defs]: "tag_statistics_of_bytes bs = \<lparr>
     stat_boot_count = rd32 bs 0,
     stat_total_uptime_s = rd32 bs 4,
     stat_motion_count = rd32 bs 8,
     stat_shock_count = rd32 bs 12,
     stat_free_fall_count = rd32 bs 16,
     stat_event_count = rd32 bs 20,
     stat_movement_duration_s = rd32 bs 24,
     stat_max_shock_mg = rd16 bs 28,
     stat_min_battery_mv = rd16 bs 30,
     stat_zigbee_reports = rd16 bs 32,
     stat_ble_connections = rd16 bs 34,
     stat_sensor_faults = rd16 bs 36,
     stat_boot_epoch_utc = rd32 bs 38 \<rparr>"

definition sensor_log_record_bytes :: "sensor_log_record \<Rightarrow> u8 list" where
  [wire_defs]: "sensor_log_record_bytes r =
     le32 (slr_timestamp r) @ le16 (slr_temperature r) @ le16 (slr_humidity r) @
     le32 (slr_pressure r) @ le32 (slr_gas_resistance_ohm r) @ [slr_flags r]"

definition event_record_bytes :: "event_record \<Rightarrow> u8 list" where
  [wire_defs]: "event_record_bytes r =
     le32 (ev_timestamp r) @ [ev_type r, ev_severity r] @ le16 (ev_value r)"

definition event_record_of_bytes :: "u8 list \<Rightarrow> event_record" where
  [wire_defs]: "event_record_of_bytes bs = \<lparr>
     ev_timestamp = rd32 bs 0, ev_type = bs ! 4, ev_severity = bs ! 5, ev_value = rd16 bs 6 \<rparr>"

definition chunk_header_bytes :: "ble_log_chunk_header \<Rightarrow> u8 list" where
  [wire_defs]: "chunk_header_bytes h =
     le16 (ch_chunk_index h) @
     [ch_log_id h, ch_record_count h, ch_flags h, ch_record_size h] @
     le32 (ch_first_seq h)"

lemma wire_lengths [simp]:
  "length (sensor_data_bytes d) = 38"
  "length (tag_status_bytes t) = 28"
  "length (tag_config_bytes c) = 40"
  "length (tag_statistics_bytes s) = 42"
  "length (sensor_log_record_bytes r) = 17"
  "length (event_record_bytes e) = 8"
  "length (chunk_header_bytes h) = 10"
  by (simp_all add: wire_defs)

lemma tag_config_of_bytes_inverse [simp]: "tag_config_of_bytes (tag_config_bytes c) = c"
  by (cases c) (simp add: wire_defs rd16_def rd32_def le16_def le32_def)

lemma tag_statistics_of_bytes_inverse [simp]:
  "tag_statistics_of_bytes (tag_statistics_bytes s) = s"
  by (cases s) (simp add: wire_defs rd16_def rd32_def le16_def le32_def)

lemma event_record_of_bytes_inverse [simp]: "event_record_of_bytes (event_record_bytes r) = r"
  by (cases r) (simp add: wire_defs rd16_def rd32_def le16_def le32_def)

text \<open>A list of known length is the list of its elements, which lets the layouts compute.\<close>

lemma list_by_nth: "length bs = n \<Longrightarrow> map ((!) bs) [0..<n] = bs"
  using map_nth by blast

lemma upt_40: "[0..<40::nat] = [0, 1, 2, 3, 4, 5, 6, 7, 8, 9, 10, 11, 12, 13, 14, 15, 16, 17, 18, 19, 20, 21, 22,
     23, 24, 25, 26, 27, 28, 29, 30, 31, 32, 33, 34, 35, 36, 37, 38, 39]"
  by (simp add: upt_rec eval_nat_numeral)

lemma upt_42: "[0..<42::nat] = [0..<40] @ [40, 41]"
  by (simp add: upt_rec eval_nat_numeral)

lemma tag_config_bytes_inverse [simp]:
  assumes "length bs = 40"
  shows "tag_config_bytes (tag_config_of_bytes bs) = bs"
  by (rule trans [OF _ list_by_nth [OF assms]])
    (simp add: wire_defs rd16_def rd32_def le16_def le32_def upt_40 upt_42 numeral_2_eq_2 numeral_3_eq_3)

lemma tag_statistics_bytes_inverse [simp]:
  assumes "length bs = 42"
  shows "tag_statistics_bytes (tag_statistics_of_bytes bs) = bs"
  by (rule trans [OF _ list_by_nth [OF assms]])
    (simp add: wire_defs rd16_def rd32_def le16_def le32_def upt_40 upt_42 numeral_2_eq_2 numeral_3_eq_3)

subsection \<open>Pure helpers\<close>

definition smart_tag_battery_percent :: "s32 \<Rightarrow> u8" where
  "smart_tag_battery_percent millivolts =
     (let mv = sint millivolts in
      if mv \<ge> SMART_TAG_BATTERY_FULL_MV then 100
      else if mv \<le> SMART_TAG_BATTERY_EMPTY_MV then 0
      else word_of_int (((mv - SMART_TAG_BATTERY_EMPTY_MV) * 100) sdiv
                        (SMART_TAG_BATTERY_FULL_MV - SMART_TAG_BATTERY_EMPTY_MV)))"

definition smart_tag_fill_log_record :: "sensor_data \<Rightarrow> bool \<Rightarrow> sensor_log_record" where
  "smart_tag_fill_log_record d alarm =
     (let flags = sd_valid d;
          flags = (if sd_motion d then flags OR SENSOR_FLAG_MOVING else flags);
          flags = (if alarm then flags OR SENSOR_FLAG_ALARM else flags)
      in \<lparr> slr_timestamp = sd_timestamp d,
           slr_temperature = sd_temperature_c_x100 d,
           slr_humidity = sd_humidity_x100 d,
           slr_pressure = sd_pressure_pa d,
           slr_gas_resistance_ohm = sd_gas_resistance_ohm d,
           slr_flags = flags \<rparr>)"

definition smart_tag_gas_alarm_floor :: "u32 \<Rightarrow> u32" where
  "smart_tag_gas_alarm_floor baseline_ohm = (baseline_ohm * SMART_TAG_GAS_ALARM_PERCENT) div 100"

definition smart_tag_boot_epoch_utc :: "u32 \<Rightarrow> u32 \<Rightarrow> u32" where
  "smart_tag_boot_epoch_utc utc_now uptime_s =
     (if utc_now = 0 \<or> utc_now < uptime_s then 0 else utc_now - uptime_s)"

definition smart_tag_utc_from_uptime :: "u32 \<Rightarrow> u32 \<Rightarrow> u32" where
  "smart_tag_utc_from_uptime boot_epoch_utc uptime_s =
     (if boot_epoch_utc = 0 then 0 else boot_epoch_utc + uptime_s)"

text \<open>The linear map over the whole \<open>int32_t\<close> range, as one expression over integers.\<close>

lemma unat_battery_percent:
  "unat (smart_tag_battery_percent mv) = nat (max 0 (min 100 ((sint mv - 2000) div 10)))"
proof -
  let ?m = "sint mv"
  consider "?m \<ge> 3000" | "?m \<le> 2000" | "2000 < ?m" "?m < 3000" by linarith
  then show ?thesis
  proof cases
    case 3
    let ?q = "(?m - 2000) div 10"
    have "((?m - 2000) * 100) sdiv 1000 = ?q"
      using 3 by (simp add: signed_divide_int_def)
    moreover have "0 \<le> ?q" "?q < 100" using 3 by auto
    ultimately show ?thesis
      using 3 by (simp add: smart_tag_battery_percent_def c_const unsigned_of_int take_bit_int_eq_self)
  qed (simp_all add: smart_tag_battery_percent_def c_const)
qed

lemma unat_gas_alarm_floor:
  "unat (smart_tag_gas_alarm_floor b) = (unat b * 70 mod 2 ^ 32) div 100"
  by (simp add: smart_tag_gas_alarm_floor_def c_const unat_word_ariths unat_div)

end
