(* ===== verification/Flash_Manager.thy ===== *)
theory Flash_Manager
  imports Smart_Tag
begin

section \<open>Flash manager: a fixed-record circular log\<close>

text \<open>
  \<open>src/storage/flash_manager.c\<close>. The flash driver, the partition map and the CRC routine
  are not part of the repository: they are the parameter \<open>flash_env\<close>, a record of the
  functions the code calls over an unspecified medium state \<open>'f\<close> (one partition). Every
  operation is given with its error branches; slot numbers, counters, offsets and sequence
  numbers are 32-bit words as in the code.
\<close>

subsection \<open>The driver interface used by the code\<close>

record flash_area =
  fa_off :: u32
  fa_size :: u32

text \<open>
  \<open>fe_open\<close> is \<open>flash_area_open\<close> (its error and the area it hands out), \<open>fe_dev_ready\<close> the
  test that the area has a device and that the device is ready, \<open>fe_page_info\<close> is
  \<open>flash_get_page_info_by_offs\<close> (its error and the page size), and the others are
  \<open>flash_area_read\<close>, \<open>flash_area_write\<close>, \<open>flash_area_erase\<close> and \<open>crc16_ccitt\<close>.
\<close>

record 'f flash_env =
  fe_open :: "u8 \<Rightarrow> int \<times> flash_area"
  fe_dev_ready :: "flash_area \<Rightarrow> bool"
  fe_page_info :: "u32 \<Rightarrow> int \<times> u32"
  fe_read :: "'f \<Rightarrow> u32 \<Rightarrow> u32 \<Rightarrow> int \<times> u8 list"
  fe_write :: "'f \<Rightarrow> u32 \<Rightarrow> u8 list \<Rightarrow> int \<times> 'f"
  fe_erase :: "'f \<Rightarrow> u32 \<Rightarrow> u32 \<Rightarrow> int \<times> 'f"
  fe_crc16 :: "u16 \<Rightarrow> u8 list \<Rightarrow> u16"

subsection \<open>Slots\<close>

definition FLASH_LOG_SLOT_SIZE :: u32 where [c_const]: "FLASH_LOG_SLOT_SIZE = 32"
definition MAX_PAYLOAD :: nat where [c_const]: "MAX_PAYLOAD = 24"
definition RECORD_MAGIC :: u16 where [c_const]: "RECORD_MAGIC = 0x5a47"

record slot =
  slot_magic :: u16
  slot_crc_field :: u16
  slot_seq :: u32
  slot_payload :: "u8 list"

definition slot_bytes :: "slot \<Rightarrow> u8 list" where
  "slot_bytes s = le16 (slot_magic s) @ le16 (slot_crc_field s) @ le32 (slot_seq s) @ slot_payload s"

definition slot_of_bytes :: "u8 list \<Rightarrow> slot" where
  "slot_of_bytes bs = \<lparr> slot_magic = rd16 bs 0, slot_crc_field = rd16 bs 2,
                        slot_seq = rd32 bs 4, slot_payload = take 24 (drop 8 bs) \<rparr>"

definition slot_crc :: "'f flash_env \<Rightarrow> slot \<Rightarrow> u16" where
  "slot_crc env s = fe_crc16 env 0xffff (le32 (slot_seq s) @ slot_payload s)"

definition slot_valid :: "'f flash_env \<Rightarrow> slot \<Rightarrow> bool" where
  "slot_valid env s \<longleftrightarrow> slot_magic s = RECORD_MAGIC \<and> slot_crc_field s = slot_crc env s"

subsection \<open>The log\<close>

record flash_log =
  fl_partition_id :: u8
  fl_payload_size :: u16
  fl_sector_size :: u32
  fl_total_slots :: u32
  fl_slots_per_sector :: u32
  fl_head_slot :: u32
  fl_tail_slot :: u32
  fl_used_slots :: u32
  fl_next_seq :: u32
  fl_ready :: bool

definition read_slot :: "'f flash_env \<Rightarrow> 'f \<Rightarrow> u32 \<Rightarrow> int \<times> slot" where
  "read_slot env f index =
     (case fe_read env f (index * FLASH_LOG_SLOT_SIZE) FLASH_LOG_SLOT_SIZE of
        (err, bs) \<Rightarrow> (err, slot_of_bytes bs))"

text \<open>The test the code makes at every read: \<open>read_slot(...) == 0 && slot_valid(&s)\<close>.\<close>

definition read_valid :: "'f flash_env \<Rightarrow> 'f \<Rightarrow> u32 \<Rightarrow> slot option" where
  "read_valid env f index =
     (case read_slot env f index of (err, s) \<Rightarrow>
        if err = 0 \<and> slot_valid env s then Some s else None)"

subsection \<open>Scanning the partition at boot\<close>

record scan_state =
  sc_used :: u32
  sc_newest_seq :: u32
  sc_oldest_seq :: u32
  sc_newest_slot :: u32
  sc_tail_slot :: u32

definition scan_step :: "'f flash_env \<Rightarrow> 'f \<Rightarrow> u32 \<Rightarrow> scan_state \<Rightarrow> scan_state" where
  "scan_step env f i st =
     (case read_valid env f i of
        None \<Rightarrow> st
      | Some s \<Rightarrow>
          let st = st\<lparr>sc_used := sc_used st + 1\<rparr>;
              st = (if slot_seq s > sc_newest_seq st
                    then st\<lparr>sc_newest_seq := slot_seq s, sc_newest_slot := i\<rparr> else st)
          in (if slot_seq s < sc_oldest_seq st
              then st\<lparr>sc_oldest_seq := slot_seq s, sc_tail_slot := i\<rparr> else st))"

definition slot_indices :: "nat \<Rightarrow> u32 list" where
  "slot_indices n = map of_nat [0..<n]"

definition scan :: "'f flash_env \<Rightarrow> 'f \<Rightarrow> flash_log \<Rightarrow> flash_log" where
  "scan env f log =
     (let st = fold (scan_step env f) (slot_indices (unat (fl_total_slots log)))
                 \<lparr> sc_used = 0, sc_newest_seq = 0, sc_oldest_seq = UINT32_MAX,
                   sc_newest_slot = 0, sc_tail_slot = 0 \<rparr>;
          log = log\<lparr>fl_head_slot := 0, fl_tail_slot := sc_tail_slot st,
                    fl_used_slots := sc_used st, fl_next_seq := 1\<rparr>
      in if fl_used_slots log = 0 then log
         else log\<lparr>fl_head_slot := (sc_newest_slot st + 1) mod fl_total_slots log,
                  fl_next_seq := sc_newest_seq st + 1\<rparr>)"

definition flash_log_init :: "'f flash_env \<Rightarrow> 'f \<Rightarrow> flash_log \<Rightarrow> int \<times> flash_log" where
  "flash_log_init env f log =
     (let log = log\<lparr>fl_ready := False\<rparr> in
      if fl_payload_size log = 0 \<or> unat (fl_payload_size log) > MAX_PAYLOAD then (- EINVAL, log)
      else case fe_open env (fl_partition_id log) of (err, area) \<Rightarrow>
      if err \<noteq> 0 then (err, log)
      else if \<not> fe_dev_ready env area then (- ENODEV, log)
      else case fe_page_info env (fa_off area) of (err, page_size) \<Rightarrow>
      if err \<noteq> 0 then (err, log)
      else
        let log = log\<lparr>fl_sector_size := page_size,
                      fl_slots_per_sector := page_size div FLASH_LOG_SLOT_SIZE,
                      fl_total_slots := fa_size area div FLASH_LOG_SLOT_SIZE\<rparr> in
        if fl_slots_per_sector log = 0 \<or> fl_total_slots log < fl_slots_per_sector log
        then (- EINVAL, log)
        else
          let log = log\<lparr>fl_total_slots := fl_total_slots log
                          - fl_total_slots log mod fl_slots_per_sector log\<rparr>
          in (0, (scan env f log)\<lparr>fl_ready := True\<rparr>))"

subsection \<open>Appending\<close>

definition count_lost :: "'f flash_env \<Rightarrow> 'f \<Rightarrow> flash_log \<Rightarrow> u32" where
  "count_lost env f log =
     fold (\<lambda>i lost. if read_valid env f (fl_head_slot log + i) \<noteq> None then lost + 1 else lost)
       (slot_indices (unat (fl_slots_per_sector log))) 0"

definition make_room :: "'f flash_env \<Rightarrow> flash_log \<Rightarrow> 'f \<Rightarrow> int \<times> flash_log \<times> 'f" where
  "make_room env log f =
     (if fl_head_slot log mod fl_slots_per_sector log \<noteq> 0 then (0, log, f)
      else
        let lost = count_lost env f log in
        case fe_erase env f (fl_head_slot log * FLASH_LOG_SLOT_SIZE) (fl_sector_size log) of
          (err, f) \<Rightarrow>
            if err \<noteq> 0 then (err, log, f)
            else if lost > 0
            then (0, log\<lparr>fl_used_slots := fl_used_slots log - min (fl_used_slots log) lost,
                         fl_tail_slot := (fl_head_slot log + fl_slots_per_sector log)
                                         mod fl_total_slots log\<rparr>, f)
            else (0, log, f))"

definition new_slot :: "'f flash_env \<Rightarrow> flash_log \<Rightarrow> u8 list \<Rightarrow> slot" where
  "new_slot env log rec =
     (let n = unat (fl_payload_size log);
          s = \<lparr> slot_magic = RECORD_MAGIC, slot_crc_field = 0xffff, slot_seq = fl_next_seq log,
                slot_payload = take n rec @ replicate (MAX_PAYLOAD - n) 0 \<rparr>
      in s\<lparr>slot_crc_field := slot_crc env s\<rparr>)"

text \<open>
  \<open>flash_log_append\<close>: the error, the sequence number stored through \<open>seq\<close> (\<open>None\<close> when the
  code does not store one), the log and the medium.
\<close>

definition flash_log_append ::
  "'f flash_env \<Rightarrow> flash_log \<Rightarrow> 'f \<Rightarrow> u8 list \<Rightarrow> int \<times> u32 option \<times> flash_log \<times> 'f" where
  "flash_log_append env log f rec =
     (if \<not> fl_ready log then (- ENODEV, None, log, f)
      else case make_room env log f of (err, log, f) \<Rightarrow>
      if err \<noteq> 0 then (err, None, log, f)
      else case fe_write env f (fl_head_slot log * FLASH_LOG_SLOT_SIZE)
                  (slot_bytes (new_slot env log rec)) of (err, f) \<Rightarrow>
      if err \<noteq> 0 then (err, None, log, f)
      else
        let log = (if fl_used_slots log = 0 then log\<lparr>fl_tail_slot := fl_head_slot log\<rparr> else log)
        in (0, Some (fl_next_seq log),
            log\<lparr>fl_next_seq := fl_next_seq log + 1,
                fl_used_slots := fl_used_slots log + 1,
                fl_head_slot := (fl_head_slot log + 1) mod fl_total_slots log\<rparr>, f))"

subsection \<open>Reading\<close>

fun read_loop ::
  "'f flash_env \<Rightarrow> flash_log \<Rightarrow> 'f \<Rightarrow> u32 \<Rightarrow> nat \<Rightarrow> u32 list \<Rightarrow> u8 list list \<Rightarrow> u8 list list" where
  "read_loop env log f start_seq max_n [] out = out"
| "read_loop env log f start_seq max_n (i # is) out =
     (if \<not> length out < max_n then out
      else case read_valid env f ((fl_tail_slot log + i) mod fl_total_slots log) of
        None \<Rightarrow> read_loop env log f start_seq max_n is out
      | Some s \<Rightarrow>
          if slot_seq s < start_seq then read_loop env log f start_seq max_n is out
          else read_loop env log f start_seq max_n is
                 (out @ [take (unat (fl_payload_size log)) (slot_payload s)]))"

text \<open>Where the scan of the ring starts: the offset of \<open>start_seq\<close> from the oldest record.\<close>

definition read_first :: "'f flash_env \<Rightarrow> flash_log \<Rightarrow> 'f \<Rightarrow> u32 \<Rightarrow> u32" where
  "read_first env log f start_seq =
     (if fl_used_slots log > 0 then
        (case read_valid env f (fl_tail_slot log) of
           None \<Rightarrow> 0
         | Some s \<Rightarrow> if start_seq > slot_seq s then start_seq - slot_seq s else 0)
      else 0)"

text \<open>The loop counter runs over \<open>first \<le> i < used_slots\<close>; the records come back as a list.\<close>

definition flash_log_read ::
  "'f flash_env \<Rightarrow> flash_log \<Rightarrow> 'f \<Rightarrow> u32 \<Rightarrow> nat \<Rightarrow> int \<times> u8 list list" where
  "flash_log_read env log f start_seq max_n =
     (if \<not> fl_ready log then (- ENODEV, [])
      else
        let first = read_first env log f start_seq;
            out = read_loop env log f start_seq max_n
                    (map of_nat [unat first..<unat (fl_used_slots log)]) []
        in (int (length out), out))"

definition flash_log_get_oldest :: "'f flash_env \<Rightarrow> flash_log \<Rightarrow> 'f \<Rightarrow> int \<times> u8 list option" where
  "flash_log_get_oldest env log f =
     (if \<not> fl_ready log then (- ENODEV, None)
      else if fl_used_slots log > 0 then
        (case read_valid env f (fl_tail_slot log) of
           None \<Rightarrow> (- ENOENT, None)
         | Some s \<Rightarrow> (0, Some (take (unat (fl_payload_size log)) (slot_payload s))))
      else (- ENOENT, None))"

record flash_log_info =
  li_record_count :: u32
  li_capacity :: u32
  li_oldest_seq :: u32
  li_newest_seq :: u32
  li_record_size :: u16
  li_ready :: u8

definition flash_log_get_info :: "'f flash_env \<Rightarrow> flash_log \<Rightarrow> 'f \<Rightarrow> flash_log_info" where
  "flash_log_get_info env log f =
     (let info = \<lparr> li_record_count = 0, li_capacity = 0, li_oldest_seq = 0, li_newest_seq = 0,
                   li_record_size = fl_payload_size log, li_ready = 0 \<rparr> in
      if \<not> fl_ready log then info
      else
        let info = info\<lparr>li_ready := 1, li_capacity := fl_total_slots log,
                        li_record_count := fl_used_slots log\<rparr> in
        if fl_used_slots log > 0 then
          (let info = (case read_valid env f (fl_tail_slot log) of
                         None \<Rightarrow> info
                       | Some s \<Rightarrow> info\<lparr>li_oldest_seq := slot_seq s\<rparr>)
           in info\<lparr>li_newest_seq := fl_next_seq log - 1\<rparr>)
        else info)"

subsection \<open>Erasing\<close>

text \<open>
  The erase loop returns its error, the medium and how often it fed the watchdog. With a zero
  sector size it would not end, so it is a partial function: \<open>None\<close> is non-termination.
\<close>

partial_function (option) erase_loop ::
  "'f flash_env \<Rightarrow> flash_log \<Rightarrow> u32 \<Rightarrow> u32 \<Rightarrow> nat \<Rightarrow> 'f \<Rightarrow> (int \<times> 'f \<times> nat) option" where
  "erase_loop env log total_bytes offset feeds f =
     (if \<not> offset < total_bytes then Some (0, f, feeds)
      else
        let chunk = min (fl_sector_size log) (total_bytes - offset) in
        case fe_erase env f offset chunk of (err, f) \<Rightarrow>
        if err \<noteq> 0 then Some (err, f, feeds)
        else erase_loop env log total_bytes (offset + chunk) (Suc feeds) f)"

definition flash_log_erase ::
  "'f flash_env \<Rightarrow> flash_log \<Rightarrow> 'f \<Rightarrow> (int \<times> flash_log \<times> 'f \<times> nat) option" where
  "flash_log_erase env log f =
     (if \<not> fl_ready log then Some (- ENODEV, log, f, 0)
      else case erase_loop env log (fl_total_slots log * FLASH_LOG_SLOT_SIZE) 0 0 f of
        None \<Rightarrow> None
      | Some (err, f, feeds) \<Rightarrow>
          Some (err,
                (if err = 0
                 then log\<lparr>fl_head_slot := 0, fl_tail_slot := 0, fl_used_slots := 0,
                          fl_next_seq := 1\<rparr>
                 else log), f, feeds))"

end
