(* ===== verification/Ring_Arith.thy ===== *)
theory Ring_Arith
  imports Prelude
begin

section \<open>Ring arithmetic\<close>

text \<open>
  Slot numbers of a ring of \<open>T\<close> slots in sectors of \<open>S\<close>: the slot at logical position \<open>i\<close>
  from the tail \<open>t\<close> is \<open>(t + i) mod T\<close>. The tail is always at the start of a sector.
\<close>

lemma ring_pos_le:
  fixes t T i j :: nat
  assumes "i \<le> j" "j < T" "(t + i) mod T = (t + j) mod T"
  shows "i = j"
proof -
  from assms have "T dvd (t + j) - (t + i)"
    by (metis mod_eq_dvd_iff_nat nat_add_left_cancel_le)
  with assms show ?thesis by (auto dest: dvd_imp_le)
qed

lemma ring_pos_inj:
  fixes t T i j :: nat
  assumes "i < T" "j < T"
  shows "(t + i) mod T = (t + j) mod T \<longleftrightarrow> i = j"
  using ring_pos_le [of i j T t] ring_pos_le [of j i T t] assms by (metis nat_le_linear)

lemma ring_pos_surj:
  fixes t T p :: nat
  assumes "t < T" "p < T"
  shows "\<exists>i<T. p = (t + i) mod T"
proof (cases "t \<le> p")
  case True
  then show ?thesis using assms by (intro exI [of _ "p - t"]) auto
next
  case False
  then show ?thesis using assms by (intro exI [of _ "T - t + p"]) auto
qed

text \<open>A sector boundary in logical positions is one in physical positions.\<close>

lemma ring_sector_mod:
  fixes t T S i :: nat
  assumes "S dvd T" "S dvd t"
  shows "((t + i) mod T) mod S = i mod S"
  using assms by (metis dvd_eq_mod_eq_0 mod_add_eq mod_mod_cancel mod_mod_trivial add_0)

lemma ring_sector_div:
  fixes a b K S i :: nat
  assumes "0 < S"
  shows "((S * a + i) mod (S * K)) div S = (a + i div S) mod K"
  using assms by (simp add: mod_mult2_eq add.commute)

lemma same_sector_iff:
  fixes S x y :: nat
  assumes "0 < S" "S dvd y"
  shows "y \<le> x \<and> x < y + S \<longleftrightarrow> x div S = y div S"
proof
  assume "y \<le> x \<and> x < y + S"
  moreover obtain k where "y = S * k" using assms by blast
  ultimately show "x div S = y div S"
    using assms(1) by (auto intro!: div_nat_eqI simp: algebra_simps)
next
  assume *: "x div S = y div S"
  obtain k where k: "y = S * k" using assms by blast
  with * assms(1) have "x div S = k" by simp
  then have "x = S * k + x mod S" by (metis div_mult_mod_eq mult.commute)
  moreover have "x mod S < S" using assms(1) by simp
  ultimately show "y \<le> x \<and> x < y + S" unfolding k by linarith
qed

lemma ring_sector_iff:
  fixes t T S u i :: nat
  assumes "0 < S" "S dvd T" "S dvd t" "S dvd u" "u < T" "i < T"
  shows "(t + u) mod T \<le> (t + i) mod T \<and> (t + i) mod T < (t + u) mod T + S
         \<longleftrightarrow> u \<le> i \<and> i < u + S"
proof -
  obtain K a where K: "T = S * K" and a: "t = S * a"
    using assms(2,3) unfolding dvd_def by blast
  have "S dvd (t + u) mod T" using assms by (simp add: dvd_mod)
  then have "(t + u) mod T \<le> (t + i) mod T \<and> (t + i) mod T < (t + u) mod T + S
      \<longleftrightarrow> ((t + i) mod T) div S = ((t + u) mod T) div S"
    using assms(1) by (rule same_sector_iff [rotated])
  also have "\<dots> \<longleftrightarrow> (a + i div S) mod K = (a + u div S) mod K"
    unfolding K a using assms(1) by (simp add: ring_sector_div)
  also have "\<dots> \<longleftrightarrow> i div S = u div S"
    using assms(1,5,6) unfolding K by (intro ring_pos_inj) (simp_all add: less_mult_imp_div_less mult.commute)
  also have "\<dots> \<longleftrightarrow> u \<le> i \<and> i < u + S"
    using assms(1,4) by (rule same_sector_iff [symmetric])
  finally show ?thesis .
qed

text \<open>A whole sector starting inside the ring ends inside it.\<close>

lemma sector_fits:
  fixes S T h :: nat
  assumes "S dvd T" "S dvd h" "h < T"
  shows "h + S \<le> T"
  using assms by (metis add_le_cancel_left dvd_add_right_iff dvd_diff_nat dvd_imp_le le_add_diff_inverse
      less_imp_le_nat zero_less_diff)

end
