(* ===== verification/Flash_Ring.thy ===== *)
theory Flash_Ring
  imports Flash_Manager Ring_Arith
begin

section \<open>The flash log as a bounded queue\<close>

text \<open>
  The circular log of \<open>Flash_Manager\<close> against its abstract specification: a list of
  (sequence number, payload) pairs, oldest first, whose capacity is the number of slots and
  which gives up its oldest sector when a record arrives and the ring is full. The client
  side is proved in the locale \<open>flash_partition\<close>, whose assumptions are the documented
  behaviour of the flash area functions on a partition that works: a read in range returns
  the bytes, a write to erased bytes stores them, an erase leaves \<open>0xff\<close>.
\<close>

subsection \<open>Abstract specification\<close>

type_synonym log_entry = "u32 \<times> u8 list"

definition spec_append :: "nat \<Rightarrow> nat \<Rightarrow> log_entry list \<Rightarrow> log_entry \<Rightarrow> log_entry list" where
  "spec_append capacity sector entries e =
     (if length entries = capacity then drop sector entries else entries) @ [e]"

definition spec_read :: "log_entry list \<Rightarrow> u32 \<Rightarrow> nat \<Rightarrow> u8 list list" where
  "spec_read entries start_seq max_n =
     take max_n (map snd (filter (\<lambda>e. start_seq \<le> fst e) entries))"

subsection \<open>The ring on the medium\<close>

definition slot_cells :: "('f \<Rightarrow> u8 list) \<Rightarrow> 'f \<Rightarrow> nat \<Rightarrow> u8 list" where
  "slot_cells cells f p = take 32 (drop (32 * p) (cells f))"

definition erased_slot :: "u8 list" where
  "erased_slot = replicate 32 0xff"

definition slot_option :: "'f flash_env \<Rightarrow> u8 list \<Rightarrow> slot option" where
  "slot_option env bs = (let s = slot_of_bytes bs in if slot_valid env s then Some s else None)"

definition valid_at :: "'f flash_env \<Rightarrow> ('f \<Rightarrow> u8 list) \<Rightarrow> 'f \<Rightarrow> nat \<Rightarrow> slot option" where
  "valid_at env cells f p = slot_option env (slot_cells cells f p)"

text \<open>The physical slot of logical position \<open>i\<close>.\<close>

definition ring_pos :: "flash_log \<Rightarrow> nat \<Rightarrow> nat" where
  "ring_pos log i = (unat (fl_tail_slot log) + i) mod unat (fl_total_slots log)"

definition ring_slots :: "'f flash_env \<Rightarrow> ('f \<Rightarrow> u8 list) \<Rightarrow> flash_log \<Rightarrow> 'f \<Rightarrow> slot list" where
  "ring_slots env cells log f =
     map (\<lambda>i. the (valid_at env cells f (ring_pos log i))) [0..<unat (fl_used_slots log)]"

definition slot_entry :: "flash_log \<Rightarrow> slot \<Rightarrow> log_entry" where
  "slot_entry log s = (slot_seq s, take (unat (fl_payload_size log)) (slot_payload s))"

definition ring_entries ::
  "'f flash_env \<Rightarrow> ('f \<Rightarrow> u8 list) \<Rightarrow> flash_log \<Rightarrow> 'f \<Rightarrow> log_entry list" where
  "ring_entries env cells log f = map (slot_entry log) (ring_slots env cells log f)"

text \<open>The geometry that \<open>flash_log_init\<close> sets up.\<close>

definition ring_geometry :: "flash_log \<Rightarrow> nat \<Rightarrow> bool" where
  "ring_geometry log n_bytes \<longleftrightarrow>
     0 < unat (fl_payload_size log) \<and> unat (fl_payload_size log) \<le> MAX_PAYLOAD \<and>
     0 < unat (fl_slots_per_sector log) \<and> 0 < unat (fl_total_slots log) \<and>
     unat (fl_slots_per_sector log) dvd unat (fl_total_slots log) \<and>
     unat (fl_sector_size log) = 32 * unat (fl_slots_per_sector log) \<and>
     32 * unat (fl_total_slots log) \<le> n_bytes \<and> n_bytes < 2 ^ 32"

definition ring_core ::
  "'f flash_env \<Rightarrow> ('f \<Rightarrow> u8 list) \<Rightarrow> ('f \<Rightarrow> bool) \<Rightarrow> flash_log \<Rightarrow> 'f \<Rightarrow> bool" where
  "ring_core env cells medium_ok log f \<longleftrightarrow>
     (let T = unat (fl_total_slots log); S = unat (fl_slots_per_sector log);
          t = unat (fl_tail_slot log); u = unat (fl_used_slots log) in
      fl_ready log \<and> medium_ok f \<and> ring_geometry log (length (cells f)) \<and>
      t < T \<and> S dvd t \<and> u \<le> T \<and> unat (fl_head_slot log) = (t + u) mod T \<and>
      u < unat (fl_next_seq log) \<and>
      (\<forall>i<u. \<exists>s. valid_at env cells f (ring_pos log i) = Some s \<and>
                 unat (slot_seq s) + u = unat (fl_next_seq log) + i) \<and>
      (\<forall>i. u \<le> i \<and> i < T \<longrightarrow> valid_at env cells f (ring_pos log i) = None))"

text \<open>The rest of the sector the head is in is erased.\<close>

definition head_clear :: "('f \<Rightarrow> u8 list) \<Rightarrow> flash_log \<Rightarrow> 'f \<Rightarrow> bool" where
  "head_clear cells log f \<longleftrightarrow>
     (let T = unat (fl_total_slots log); S = unat (fl_slots_per_sector log);
          u = unat (fl_used_slots log) in
      \<forall>i. u \<le> i \<and> i < T \<and> i div S = u div S \<longrightarrow>
          slot_cells cells f (ring_pos log i) = erased_slot)"

definition ring_inv ::
  "'f flash_env \<Rightarrow> ('f \<Rightarrow> u8 list) \<Rightarrow> ('f \<Rightarrow> bool) \<Rightarrow> flash_log \<Rightarrow> 'f \<Rightarrow> bool" where
  "ring_inv env cells medium_ok log f \<longleftrightarrow>
     ring_core env cells medium_ok log f \<and>
     (unat (fl_used_slots log) mod unat (fl_slots_per_sector log) \<noteq> 0 \<longrightarrow>
        head_clear cells log f) \<and>
     (fl_used_slots log = 0 \<longrightarrow> fl_next_seq log = 1 \<and> fl_tail_slot log = 0)"

subsection \<open>Slots and bytes\<close>

lemma slot_of_bytes_inverse [simp]:
  assumes "length (slot_payload s) = 24"
  shows "slot_of_bytes (slot_bytes s) = s"
  using assms by (simp add: slot_of_bytes_def slot_bytes_def rd16_def rd32_def le16_def le32_def)

lemma slot_option_erased [simp]: "slot_option env erased_slot = None"
  by (simp add: slot_option_def slot_valid_def slot_of_bytes_def erased_slot_def rd16_def
      join16_def c_const)

lemma length_slot_bytes [simp]: "length (slot_payload s) = 24 \<Longrightarrow> length (slot_bytes s) = 32"
  by (simp add: slot_bytes_def)

lemma slot_cells_patch:
  assumes "length bs = 32 * n" "32 * p + 32 * n \<le> length (cells f)"
    and "cells f' = take (32 * p) (cells f) @ bs @ drop (32 * p + 32 * n) (cells f)"
    and "32 * q + 32 \<le> length (cells f)"
  shows "slot_cells cells f' q =
    (if p \<le> q \<and> q < p + n then take 32 (drop (32 * (q - p)) bs) else slot_cells cells f q)"
proof -
  consider "q < p" | "p \<le> q" "q < p + n" | "p + n \<le> q" by linarith
  then show ?thesis
  proof cases
    case 1
    then have "32 \<le> 32 * p - 32 * q" by simp
    with 1 show ?thesis using assms by (simp add: slot_cells_def drop_take min_absorb1)
  next
    case 2
    then have "32 * q - 32 * p = 32 * (q - p)" "32 * (q - p) + 32 \<le> 32 * n" by simp_all
    with 2 show ?thesis using assms by (simp add: slot_cells_def min_def)
  next
    case 3
    then have "32 * q - (32 * p + 32 * n) + (32 * p + 32 * n) = 32 * q" by simp
    with 3 show ?thesis using assms by (simp add: slot_cells_def min_def)
  qed
qed

lemma new_slot_facts [simp]:
  assumes "length rec = unat (fl_payload_size log)" "unat (fl_payload_size log) \<le> MAX_PAYLOAD"
  shows "length (slot_payload (new_slot env log rec)) = 24"
    and "slot_seq (new_slot env log rec) = fl_next_seq log"
    and "slot_valid env (new_slot env log rec)"
    and "slot_entry log (new_slot env log rec) = (fl_next_seq log, rec)"
  using assms
  by (simp_all add: new_slot_def Let_def slot_valid_def slot_crc_def slot_entry_def c_const)


lemma fold_count:
  "fold (\<lambda>i n. if P i then n + 1 else n) xs a = a + (of_nat (length (filter P xs)) :: u32)"
  by (induction xs arbitrary: a) (simp_all add: algebra_simps)

lemma ring_pos_less [simp]: "0 < unat (fl_total_slots log) \<Longrightarrow> ring_pos log i < unat (fl_total_slots log)"
  by (simp add: ring_pos_def)

subsection \<open>The medium, as the code relies on it\<close>

locale flash_partition =
  fixes env :: "'f flash_env"
    and cells :: "'f \<Rightarrow> u8 list"
    and medium_ok :: "'f \<Rightarrow> bool"
  assumes read_in_range:
    "medium_ok f \<Longrightarrow> unat off + unat len \<le> length (cells f) \<Longrightarrow>
       fe_read env f off len = (0, take (unat len) (drop (unat off) (cells f)))"
  assumes write_to_erased:
    "medium_ok f \<Longrightarrow> unat off + length bs \<le> length (cells f) \<Longrightarrow>
       take (length bs) (drop (unat off) (cells f)) = replicate (length bs) 0xff \<Longrightarrow>
       \<exists>f'. fe_write env f off bs = (0, f') \<and> medium_ok f' \<and>
            cells f' = take (unat off) (cells f) @ bs @ drop (unat off + length bs) (cells f)"
  assumes erase_in_range:
    "medium_ok f \<Longrightarrow> unat off + unat len \<le> length (cells f) \<Longrightarrow>
       \<exists>f'. fe_erase env f off len = (0, f') \<and> medium_ok f' \<and>
            cells f' = take (unat off) (cells f) @ replicate (unat len) 0xff
                       @ drop (unat off + unat len) (cells f)"
begin

lemma unat_slot_offset:
  "32 * unat p + 32 \<le> length (cells f) \<Longrightarrow> length (cells f) < 2 ^ 32 \<Longrightarrow>
     unat (p * FLASH_LOG_SLOT_SIZE) = 32 * unat p"
  by (simp add: c_const unat_word_ariths mult.commute)

lemma read_valid_eq:
  assumes "medium_ok f" "32 * unat p + 32 \<le> length (cells f)" "length (cells f) < 2 ^ 32"
  shows "read_valid env f p = valid_at env cells f (unat p)"
proof -
  have "fe_read env f (p * FLASH_LOG_SLOT_SIZE) FLASH_LOG_SLOT_SIZE
      = (0, slot_cells cells f (unat p))"
    using read_in_range [of f "p * FLASH_LOG_SLOT_SIZE" FLASH_LOG_SLOT_SIZE]
      unat_slot_offset [OF assms(2,3)] assms
    by (simp add: slot_cells_def FLASH_LOG_SLOT_SIZE_def)
  then show ?thesis
    by (simp add: read_valid_def read_slot_def valid_at_def slot_option_def)
qed

lemma write_slot:
  assumes "medium_ok f" "32 * unat p + 32 \<le> length (cells f)" "length (cells f) < 2 ^ 32"
    and "slot_cells cells f (unat p) = erased_slot" and "length bs = 32"
  shows "\<exists>f'. fe_write env f (p * FLASH_LOG_SLOT_SIZE) bs = (0, f') \<and> medium_ok f' \<and>
      length (cells f') = length (cells f) \<and>
      (\<forall>q. 32 * q + 32 \<le> length (cells f) \<longrightarrow>
           slot_cells cells f' q = (if q = unat p then bs else slot_cells cells f q))"
proof -
  have off: "unat (p * FLASH_LOG_SLOT_SIZE) = 32 * unat p"
    by (rule unat_slot_offset [OF assms(2,3)])
  obtain f' where f': "fe_write env f (p * FLASH_LOG_SLOT_SIZE) bs = (0, f')" "medium_ok f'"
    "cells f' = take (32 * unat p) (cells f) @ bs @ drop (32 * unat p + 32) (cells f)"
    using write_to_erased [OF assms(1), of "p * FLASH_LOG_SLOT_SIZE" bs] assms
    by (auto simp: off slot_cells_def erased_slot_def)
  have "slot_cells cells f' q = (if q = unat p then bs else slot_cells cells f q)"
    if "32 * q + 32 \<le> length (cells f)" for q
    using slot_cells_patch [of bs 1 "unat p" cells f f' q] assms f'(3) that by auto
  moreover have "length (cells f') = length (cells f)" using f'(3) assms by simp
  ultimately show ?thesis using f' by blast
qed

lemma erase_slots:
  assumes "medium_ok f" "32 * unat p + 32 * S \<le> length (cells f)" "length (cells f) < 2 ^ 32"
    and "unat len = 32 * S" and "0 < S"
  shows "\<exists>f'. fe_erase env f (p * FLASH_LOG_SLOT_SIZE) len = (0, f') \<and> medium_ok f' \<and>
      length (cells f') = length (cells f) \<and>
      (\<forall>q. 32 * q + 32 \<le> length (cells f) \<longrightarrow>
           slot_cells cells f' q =
             (if unat p \<le> q \<and> q < unat p + S then erased_slot else slot_cells cells f q))"
proof -
  have off: "unat (p * FLASH_LOG_SLOT_SIZE) = 32 * unat p"
    using assms by (intro unat_slot_offset [of p f]) auto
  obtain f' where f': "fe_erase env f (p * FLASH_LOG_SLOT_SIZE) len = (0, f')" "medium_ok f'"
    "cells f' = take (32 * unat p) (cells f) @ replicate (32 * S) 0xff
                @ drop (32 * unat p + 32 * S) (cells f)"
    using erase_in_range [OF assms(1), of "p * FLASH_LOG_SLOT_SIZE" len] assms by (auto simp: off)
  have "slot_cells cells f' q =
      (if unat p \<le> q \<and> q < unat p + S then erased_slot else slot_cells cells f q)"
    if "32 * q + 32 \<le> length (cells f)" for q
  proof -
    have "unat p \<le> q \<and> q < unat p + S \<Longrightarrow> 32 \<le> 32 * S - 32 * (q - unat p)" by auto
    then show ?thesis
      using slot_cells_patch [of "replicate (32 * S) 0xff" S "unat p" cells f f' q] assms f'(3) that
      by (simp add: erased_slot_def min_absorb1)
  qed
  moreover have "length (cells f') = length (cells f)" using f'(3) assms by simp
  ultimately show ?thesis using f' by blast
qed


subsection \<open>The sector at the head\<close>

text \<open>The numbers of a ring, and what a head at a sector boundary adds.\<close>

lemma ring_core_arith:
  assumes "ring_core env cells medium_ok log f"
  shows "0 < unat (fl_slots_per_sector log)" "0 < unat (fl_total_slots log)"
    and "unat (fl_slots_per_sector log) dvd unat (fl_total_slots log)"
    and "unat (fl_slots_per_sector log) dvd unat (fl_tail_slot log)"
    and "unat (fl_tail_slot log) < unat (fl_total_slots log)"
    and "unat (fl_used_slots log) \<le> unat (fl_total_slots log)"
    and "unat (fl_head_slot log) =
      (unat (fl_tail_slot log) + unat (fl_used_slots log)) mod unat (fl_total_slots log)"
    and "32 * unat (fl_total_slots log) \<le> length (cells f)" and "length (cells f) < 2 ^ 32"
    and "unat (fl_sector_size log) = 32 * unat (fl_slots_per_sector log)" and "medium_ok f"
  using assms by (auto simp: ring_core_def ring_geometry_def Let_def)

lemma ring_boundary:
  assumes core: "ring_core env cells medium_ok log f"
    and boundary: "fl_head_slot log mod fl_slots_per_sector log = 0"
  shows "unat (fl_slots_per_sector log) dvd unat (fl_used_slots log)"
    and "unat (fl_head_slot log) + unat (fl_slots_per_sector log) \<le> unat (fl_total_slots log)"
proof -
  note S = ring_core_arith [OF core]
  have h: "unat (fl_head_slot log) mod unat (fl_slots_per_sector log) = 0"
    using boundary by (metis unat_mod unat_0)
  then show "unat (fl_slots_per_sector log) dvd unat (fl_used_slots log)"
    using ring_sector_mod [OF S(3,4), of "unat (fl_used_slots log)"] S(7)
    by (simp add: dvd_eq_mod_eq_0)
  show "unat (fl_head_slot log) + unat (fl_slots_per_sector log) \<le> unat (fl_total_slots log)"
    using S h by (intro sector_fits) auto
qed

text \<open>The logical positions in the sector that starts at the head.\<close>

definition in_head_sector :: "flash_log \<Rightarrow> nat \<Rightarrow> bool" where
  "in_head_sector log i \<longleftrightarrow>
     (if fl_used_slots log = fl_total_slots log then i < unat (fl_slots_per_sector log)
      else unat (fl_used_slots log) \<le> i \<and>
        i < unat (fl_used_slots log) + unat (fl_slots_per_sector log))"

lemma in_head_sector_iff:
  assumes core: "ring_core env cells medium_ok log f"
    and boundary: "fl_head_slot log mod fl_slots_per_sector log = 0"
    and i: "i < unat (fl_total_slots log)"
  shows "unat (fl_head_slot log) \<le> ring_pos log i \<and>
      ring_pos log i < unat (fl_head_slot log) + unat (fl_slots_per_sector log) \<longleftrightarrow>
    in_head_sector log i"
proof -
  note S = ring_core_arith [OF core]
  show ?thesis
  proof (cases "fl_used_slots log = fl_total_slots log")
    case True
    then show ?thesis
      using ring_sector_iff [OF S(1,3,4), of 0 i] i S(2,5,7)
      by (simp add: in_head_sector_def ring_pos_def)
  next
    case False
    then have "unat (fl_used_slots log) < unat (fl_total_slots log)"
      using S(6) by (simp add: word_unat_eq_iff)
    then show ?thesis
      using ring_sector_iff [OF S(1,3,4) ring_boundary(1) [OF core boundary] _ i] False S(7)
      by (simp add: in_head_sector_def ring_pos_def)
  qed
qed

text \<open>At a sector boundary the sector is full of records or empty of them.\<close>

lemma head_sector_valid:
  assumes core: "ring_core env cells medium_ok log f"
    and boundary: "fl_head_slot log mod fl_slots_per_sector log = 0"
    and k: "k < unat (fl_slots_per_sector log)"
  shows "read_valid env f (fl_head_slot log + of_nat k) \<noteq> None \<longleftrightarrow>
    fl_used_slots log = fl_total_slots log"
proof -
  define T h where defs: "T = unat (fl_total_slots log)" "h = unat (fl_head_slot log)"
  note S = ring_core_arith [OF core, folded defs]
  note fits = ring_boundary(2) [OF core boundary, folded defs]
  have "unat (fl_head_slot log + of_nat k) = h + k"
    using k fits S by (simp add: unat_word_ariths unat_of_nat flip: defs)
  then have read: "read_valid env f (fl_head_slot log + of_nat k) = valid_at env cells f (h + k)"
    using k fits S by (subst read_valid_eq) auto
  obtain i where i: "i < T" "h + k = ring_pos log i"
    using ring_pos_surj [of "unat (fl_tail_slot log)" T "h + k"] S(5) fits k
    by (auto simp: ring_pos_def defs)
  then have "in_head_sector log i"
    using in_head_sector_iff [OF core boundary, of i, folded defs] k by auto
  with i(1) core S(6) show ?thesis
    unfolding read i(2) by (fastforce simp: in_head_sector_def ring_core_def Let_def defs split: if_splits)
qed

lemma count_lost_eq:
  assumes core: "ring_core env cells medium_ok log f"
    and boundary: "fl_head_slot log mod fl_slots_per_sector log = 0"
  shows "unat (count_lost env f log) =
    (if fl_used_slots log = fl_total_slots log then unat (fl_slots_per_sector log) else 0)"
proof -
  let ?S = "unat (fl_slots_per_sector log)"
  have "filter (\<lambda>i. read_valid env f (fl_head_slot log + i) \<noteq> None) (slot_indices ?S)
      = (if fl_used_slots log = fl_total_slots log then slot_indices ?S else [])"
    using head_sector_valid [OF core boundary]
    by (auto simp: slot_indices_def filter_map comp_def filter_id_conv filter_empty_conv)
  then have "count_lost env f log =
      of_nat (if fl_used_slots log = fl_total_slots log then ?S else 0)"
    by (simp add: count_lost_def fold_count slot_indices_def)
  then show ?thesis by simp
qed

lemma erase_head_sector:
  assumes core: "ring_core env cells medium_ok log f"
    and boundary: "fl_head_slot log mod fl_slots_per_sector log = 0"
  obtains f' where
    "fe_erase env f (fl_head_slot log * FLASH_LOG_SLOT_SIZE) (fl_sector_size log) = (0, f')"
    "medium_ok f'" "length (cells f') = length (cells f)"
    "\<And>i. i < unat (fl_total_slots log) \<Longrightarrow> slot_cells cells f' (ring_pos log i) =
       (if in_head_sector log i then erased_slot else slot_cells cells f (ring_pos log i))"
proof -
  note S = ring_core_arith [OF core]
  obtain f' where f':
    "fe_erase env f (fl_head_slot log * FLASH_LOG_SLOT_SIZE) (fl_sector_size log) = (0, f')"
    "medium_ok f'" "length (cells f') = length (cells f)"
    and slots: "\<And>q. 32 * q + 32 \<le> length (cells f) \<Longrightarrow> slot_cells cells f' q =
      (if unat (fl_head_slot log) \<le> q \<and> q < unat (fl_head_slot log) + unat (fl_slots_per_sector log)
       then erased_slot else slot_cells cells f q)"
    using erase_slots [of f "fl_head_slot log" "unat (fl_slots_per_sector log)" "fl_sector_size log"]
      S(1,8-11) ring_boundary(2) [OF core boundary] by auto
  have "32 * ring_pos log i + 32 \<le> length (cells f)" for i
    using ring_pos_less [of log i] S(2,8) by linarith
  then show ?thesis
    using that [OF f'] slots in_head_sector_iff [OF core boundary] by simp
qed

text \<open>Erasing a free sector at the head changes nothing but that it is erased.\<close>

lemma erase_free_sector:
  assumes core: "ring_core env cells medium_ok log f"
    and boundary: "fl_head_slot log mod fl_slots_per_sector log = 0"
    and free: "fl_used_slots log \<noteq> fl_total_slots log"
    and f': "medium_ok f'" "length (cells f') = length (cells f)"
    and slots: "\<And>i. i < unat (fl_total_slots log) \<Longrightarrow> slot_cells cells f' (ring_pos log i) =
       (if in_head_sector log i then erased_slot else slot_cells cells f (ring_pos log i))"
  shows "ring_core env cells medium_ok log f'" and "head_clear cells log f'"
    and "ring_entries env cells log f' = ring_entries env cells log f"
proof -
  note S = ring_core_arith [OF core]
  have valid: "valid_at env cells f' (ring_pos log i) =
      (if in_head_sector log i then None else valid_at env cells f (ring_pos log i))"
    if "i < unat (fl_total_slots log)" for i
    using slots [OF that] by (simp add: valid_at_def)
  show "ring_core env cells medium_ok log f'"
    using core f' S(6) by (simp add: ring_core_def Let_def valid in_head_sector_def free)
  show "head_clear cells log f'"
    unfolding head_clear_def Let_def
    using same_sector_iff [OF S(1) ring_boundary(1) [OF core boundary]] slots free
    by (auto simp: in_head_sector_def)
  show "ring_entries env cells log f' = ring_entries env cells log f"
    using S(6) free by (simp add: ring_entries_def ring_slots_def valid in_head_sector_def)
qed

text \<open>
  Erasing the sector at the head of a full ring gives up its oldest sector: logical position \<open>i\<close>
  is what position \<open>S + i\<close> was.
\<close>

lemma ring_pos_shift:
  assumes core: "ring_core env cells medium_ok log f"
    and tail: "unat (fl_tail_slot log') =
      (unat (fl_tail_slot log) + unat (fl_slots_per_sector log)) mod unat (fl_total_slots log)"
    and total: "fl_total_slots log' = fl_total_slots log"
    and i: "i < unat (fl_total_slots log)"
  shows "ring_pos log' i = ring_pos log
    (if i < unat (fl_total_slots log) - unat (fl_slots_per_sector log)
     then unat (fl_slots_per_sector log) + i
     else unat (fl_slots_per_sector log) + i - unat (fl_total_slots log))"
proof -
  let ?T = "unat (fl_total_slots log)" and ?S = "unat (fl_slots_per_sector log)"
    and ?t = "unat (fl_tail_slot log)"
  note S = ring_core_arith [OF core]
  have "ring_pos log' i = (?t + (?S + i)) mod ?T"
    by (simp add: tail total ring_pos_def mod_simps add.assoc)
  moreover have "(?t + (?S + i)) mod ?T = (?t + (?S + i - ?T)) mod ?T" if "\<not> i < ?T - ?S"
  proof -
    have "?t + (?S + i) = ?t + (?S + i - ?T) + ?T" using that dvd_imp_le [OF S(3,2)] by simp
    then show ?thesis by (metis mod_add_self2)
  qed
  ultimately show ?thesis unfolding ring_pos_def by presburger
qed

lemma drop_full_sector:
  assumes core: "ring_core env cells medium_ok log f"
    and full: "fl_used_slots log = fl_total_slots log"
    and f': "medium_ok f'" "length (cells f') = length (cells f)"
    and slots: "\<And>i. i < unat (fl_total_slots log) \<Longrightarrow> slot_cells cells f' (ring_pos log i) =
       (if in_head_sector log i then erased_slot else slot_cells cells f (ring_pos log i))"
    and log': "log' = log\<lparr>fl_used_slots := fl_used_slots log', fl_tail_slot := fl_tail_slot log'\<rparr>"
    and used: "unat (fl_used_slots log') =
      unat (fl_total_slots log) - unat (fl_slots_per_sector log)"
    and tail: "unat (fl_tail_slot log') =
      (unat (fl_tail_slot log) + unat (fl_slots_per_sector log)) mod unat (fl_total_slots log)"
  shows "ring_core env cells medium_ok log' f'" and "head_clear cells log' f'"
    and "ring_entries env cells log' f' =
      drop (unat (fl_slots_per_sector log)) (ring_entries env cells log f)"
proof -
  define T S t where defs: "T = unat (fl_total_slots log)" "S = unat (fl_slots_per_sector log)"
    "t = unat (fl_tail_slot log)"
  note arith = ring_core_arith [OF core, folded defs]
  have ST: "S \<le> T" using dvd_imp_le arith(2,3) by blast
  have same: "fl_total_slots log' = fl_total_slots log" "fl_head_slot log' = fl_head_slot log"
    "fl_slots_per_sector log' = fl_slots_per_sector log" "fl_next_seq log' = fl_next_seq log"
    "fl_payload_size log' = fl_payload_size log" "fl_sector_size log' = fl_sector_size log"
    "fl_ready log' = fl_ready log"
    by (subst log', simp)+
  have cells': "slot_cells cells f' (ring_pos log' i) =
      (if i < T - S then slot_cells cells f (ring_pos log (S + i)) else erased_slot)" if "i < T" for i
    using that ST slots full ring_pos_shift [OF core tail same(1), of i]
    by (auto simp: in_head_sector_def simp flip: defs)
  then have valid: "valid_at env cells f' (ring_pos log' i) =
      (if i < T - S then valid_at env cells f (ring_pos log (S + i)) else None)" if "i < T" for i
    using that by (simp add: valid_at_def)
  have head: "((t + S) mod T + (T - S)) mod T = t"
    using arith(5) ST by (metis mod_add_left_eq add.assoc le_add_diff_inverse mod_add_self2 mod_less)
  have live: "\<exists>s. valid_at env cells f (ring_pos log (S + i)) = Some s \<and>
      unat (slot_seq s) + (T - S) = unat (fl_next_seq log) + i" if "i < T - S" for i
  proof -
    have "S + i < unat (fl_used_slots log)" using that full by (simp add: defs)
    then obtain s where "valid_at env cells f (ring_pos log (S + i)) = Some s"
      "unat (slot_seq s) + unat (fl_used_slots log) = unat (fl_next_seq log) + (S + i)"
      using core unfolding ring_core_def Let_def by blast
    then show ?thesis using ST full by (auto simp: defs)
  qed
  have "S dvd (t + S) mod T" using arith(3,4) by (simp add: dvd_mod)
  then show "ring_core env cells medium_ok log' f'"
    using core f' arith(1-7) full head live valid tail used
    by (auto simp: ring_core_def ring_geometry_def Let_def same simp flip: defs)
  show "head_clear cells log' f'"
    using cells' by (auto simp: head_clear_def Let_def same used simp flip: defs)
  show "ring_entries env cells log' f' = drop (unat (fl_slots_per_sector log)) (ring_entries env cells log f)"
    by (rule nth_equalityI)
      (auto simp: ring_entries_def ring_slots_def used valid same full slot_entry_def simp flip: defs)
qed

lemma make_room_full:
  assumes core: "ring_core env cells medium_ok log f"
    and boundary: "fl_head_slot log mod fl_slots_per_sector log = 0"
    and full: "fl_used_slots log = fl_total_slots log"
  shows "\<exists>log' f'. make_room env log f = (0, log', f') \<and>
    ring_core env cells medium_ok log' f' \<and> head_clear cells log' f' \<and>
    fl_used_slots log' < fl_total_slots log' \<and>
    log' = log\<lparr>fl_used_slots := fl_used_slots log', fl_tail_slot := fl_tail_slot log'\<rparr> \<and>
    ring_entries env cells log' f' = drop (unat (fl_slots_per_sector log)) (ring_entries env cells log f)"
proof -
  note S = ring_core_arith [OF core] and lost = count_lost_eq [OF core boundary]
  obtain f' where erase:
    "fe_erase env f (fl_head_slot log * FLASH_LOG_SLOT_SIZE) (fl_sector_size log) = (0, f')"
    and f': "medium_ok f'" "length (cells f') = length (cells f)"
    and slots: "\<And>i. i < unat (fl_total_slots log) \<Longrightarrow> slot_cells cells f' (ring_pos log i) =
       (if in_head_sector log i then erased_slot else slot_cells cells f (ring_pos log i))"
    using erase_head_sector [OF core boundary] by metis
  let ?log = "log\<lparr>fl_used_slots := fl_used_slots log - min (fl_used_slots log) (count_lost env f log),
    fl_tail_slot := (fl_head_slot log + fl_slots_per_sector log) mod fl_total_slots log\<rparr>"
  have SU: "unat (fl_slots_per_sector log) \<le> unat (fl_used_slots log)"
    using dvd_imp_le [OF S(3,2)] full by simp
  have "make_room env log f = (0, ?log, f')"
    using lost full boundary erase S(1) by (simp add: make_room_def word_less_nat_alt)
  moreover have used: "unat (fl_used_slots ?log) = unat (fl_total_slots log) - unat (fl_slots_per_sector log)"
    using lost full SU by (simp add: min_def word_le_nat_alt unat_sub)
  moreover have "unat (fl_tail_slot ?log) =
      (unat (fl_tail_slot log) + unat (fl_slots_per_sector log)) mod unat (fl_total_slots log)"
    using ring_boundary(2) [OF core boundary] S(5,7,8,9) full by (simp add: unat_mod unat_word_ariths)
  ultimately show ?thesis
    using drop_full_sector [OF core full f' slots, of ?log] S(1,2) full
    by (auto simp: word_less_nat_alt)
qed

lemma make_room_free:
  assumes core: "ring_core env cells medium_ok log f"
    and boundary: "fl_head_slot log mod fl_slots_per_sector log = 0"
    and free: "fl_used_slots log \<noteq> fl_total_slots log"
  shows "\<exists>f'. make_room env log f = (0, log, f') \<and> ring_core env cells medium_ok log f' \<and>
    head_clear cells log f' \<and> ring_entries env cells log f' = ring_entries env cells log f"
proof -
  obtain f' where erase:
    "fe_erase env f (fl_head_slot log * FLASH_LOG_SLOT_SIZE) (fl_sector_size log) = (0, f')"
    and f': "medium_ok f'" "length (cells f') = length (cells f)"
    and slots: "\<And>i. i < unat (fl_total_slots log) \<Longrightarrow> slot_cells cells f' (ring_pos log i) =
       (if in_head_sector log i then erased_slot else slot_cells cells f (ring_pos log i))"
    using erase_head_sector [OF core boundary] by metis
  have "make_room env log f = (0, log, f')"
    using count_lost_eq [OF core boundary] free boundary erase by (simp add: make_room_def unat_eq_zero)
  then show ?thesis using erase_free_sector [OF core boundary free f' slots] by auto
qed

lemma make_room_correct:
  assumes inv: "ring_inv env cells medium_ok log f"
  shows "\<exists>log' f'. make_room env log f = (0, log', f') \<and>
    ring_core env cells medium_ok log' f' \<and> head_clear cells log' f' \<and>
    fl_used_slots log' < fl_total_slots log' \<and>
    log' = log\<lparr>fl_used_slots := fl_used_slots log', fl_tail_slot := fl_tail_slot log'\<rparr> \<and>
    ring_entries env cells log' f' =
      (if fl_used_slots log = fl_total_slots log
       then drop (unat (fl_slots_per_sector log)) (ring_entries env cells log f)
       else ring_entries env cells log f)"
proof -
  have core: "ring_core env cells medium_ok log f" using inv by (simp add: ring_inv_def)
  note S = ring_core_arith [OF core]
  show ?thesis
  proof (cases "fl_head_slot log mod fl_slots_per_sector log = 0")
    case mid: False
    have "unat (fl_head_slot log) mod unat (fl_slots_per_sector log) \<noteq> 0"
      using mid by (metis unat_mod unat_eq_zero)
    then have "unat (fl_used_slots log) mod unat (fl_slots_per_sector log) \<noteq> 0"
      using S(7) ring_sector_mod [OF S(3,4)] by simp
    moreover from this have "unat (fl_used_slots log) \<noteq> unat (fl_total_slots log)"
      using S(3) by (metis dvd_imp_mod_0)
    ultimately show ?thesis
      using inv mid S(6) by (auto simp: make_room_def ring_inv_def word_less_nat_alt word_unat_eq_iff)
  next
    case boundary: True
    have "fl_used_slots log < fl_total_slots log" if "fl_used_slots log \<noteq> fl_total_slots log"
      using that S(6) by (simp add: word_less_nat_alt word_unat_eq_iff)
    then show ?thesis
      using make_room_full [OF core boundary] make_room_free [OF core boundary] by auto
  qed
qed

text \<open>Writing the head slot extends the ring by one record.\<close>

lemma write_head_slot:
  assumes core: "ring_core env cells medium_ok log f" and clear: "head_clear cells log f"
    and room: "fl_used_slots log < fl_total_slots log" and bs: "length bs = 32"
  obtains f' where "fe_write env f (fl_head_slot log * FLASH_LOG_SLOT_SIZE) bs = (0, f')"
    "medium_ok f'" "length (cells f') = length (cells f)"
    "\<And>i. i < unat (fl_total_slots log) \<Longrightarrow> slot_cells cells f' (ring_pos log i) =
       (if i = unat (fl_used_slots log) then bs else slot_cells cells f (ring_pos log i))"
proof -
  note S = ring_core_arith [OF core]
  have u: "unat (fl_used_slots log) < unat (fl_total_slots log)"
    using room by (simp add: word_less_nat_alt)
  have h: "unat (fl_head_slot log) = ring_pos log (unat (fl_used_slots log))"
    using S(7) by (simp add: ring_pos_def)
  have pos: "32 * ring_pos log i + 32 \<le> length (cells f)" for i
    using ring_pos_less [of log i] S(2,8) by linarith
  have "slot_cells cells f (unat (fl_head_slot log)) = erased_slot"
    using clear u h by (simp add: head_clear_def Let_def)
  then obtain f' where f': "fe_write env f (fl_head_slot log * FLASH_LOG_SLOT_SIZE) bs = (0, f')"
    "medium_ok f'" "length (cells f') = length (cells f)"
    and slots: "\<And>q. 32 * q + 32 \<le> length (cells f) \<Longrightarrow> slot_cells cells f' q =
        (if q = unat (fl_head_slot log) then bs else slot_cells cells f q)"
    using write_slot [of f "fl_head_slot log" bs] S(9,11) pos [of "unat (fl_used_slots log)"] bs h
    by auto
  have "ring_pos log i = unat (fl_head_slot log) \<longleftrightarrow> i = unat (fl_used_slots log)"
    if "i < unat (fl_total_slots log)" for i
    using ring_pos_inj [OF that u] unfolding h ring_pos_def .
  then show ?thesis using that [OF f'] slots [OF pos] by simp
qed

lemma append_fields:
  assumes core: "ring_core env cells medium_ok log f"
    and room: "fl_used_slots log < fl_total_slots log"
    and seq: "unat (fl_next_seq log) + 1 < 2 ^ 32"
    and log': "log' = log\<lparr>fl_tail_slot := (if fl_used_slots log = 0 then fl_head_slot log
                                            else fl_tail_slot log),
                fl_next_seq := fl_next_seq log + 1, fl_used_slots := fl_used_slots log + 1,
                fl_head_slot := (fl_head_slot log + 1) mod fl_total_slots log\<rparr>"
  shows "unat (fl_used_slots log') = unat (fl_used_slots log) + 1"
    "unat (fl_next_seq log') = unat (fl_next_seq log) + 1"
    "unat (fl_head_slot log') = (unat (fl_tail_slot log) + (unat (fl_used_slots log) + 1)) mod unat (fl_total_slots log)"
    "fl_tail_slot log' = fl_tail_slot log"
    "fl_total_slots log' = fl_total_slots log" "fl_payload_size log' = fl_payload_size log"
    "fl_slots_per_sector log' = fl_slots_per_sector log"  "fl_sector_size log' = fl_sector_size log"
    "fl_ready log' = fl_ready log" "ring_pos log' = ring_pos log"
proof -
  note arith = ring_core_arith [OF core]
  have u: "unat (fl_used_slots log) < unat (fl_total_slots log)" using room by (simp add: word_less_nat_alt)
  show tail: "fl_tail_slot log' = fl_tail_slot log"
    using arith(5,7) by (auto simp: log' word_unat_eq_iff)
  have "(unat (fl_tail_slot log) + unat (fl_used_slots log)) mod unat (fl_total_slots log) < 2 ^ 32 - 1"
    using mod_less_divisor [OF arith(2), of "unat (fl_tail_slot log) + unat (fl_used_slots log)"] arith(8,9) by simp
  then show "unat (fl_used_slots log') = unat (fl_used_slots log) + 1"
    "unat (fl_next_seq log') = unat (fl_next_seq log) + 1"
    "unat (fl_head_slot log') = (unat (fl_tail_slot log) + (unat (fl_used_slots log) + 1)) mod unat (fl_total_slots log)"
    using u seq arith(5,7-9) by (simp_all add: log' unat_mod unat_word_ariths mod_simps)
  show "fl_total_slots log' = fl_total_slots log" "fl_payload_size log' = fl_payload_size log"
    "fl_slots_per_sector log' = fl_slots_per_sector log"  "fl_sector_size log' = fl_sector_size log"
    "fl_ready log' = fl_ready log" "ring_pos log' = ring_pos log"
    by (simp_all add: log' ring_pos_def fun_eq_iff tail [unfolded log', simplified])
qed

lemma write_head_correct:
  assumes core: "ring_core env cells medium_ok log f" and clear: "head_clear cells log f"
    and room: "fl_used_slots log < fl_total_slots log"
    and seq: "unat (fl_next_seq log) + 1 < 2 ^ 32"
    and rec: "length rec = unat (fl_payload_size log)"
    and log': "log' = log\<lparr>fl_tail_slot := (if fl_used_slots log = 0 then fl_head_slot log
                                            else fl_tail_slot log),
                fl_next_seq := fl_next_seq log + 1, fl_used_slots := fl_used_slots log + 1,
                fl_head_slot := (fl_head_slot log + 1) mod fl_total_slots log\<rparr>"
  shows "\<exists>f'. fe_write env f (fl_head_slot log * FLASH_LOG_SLOT_SIZE)
                (slot_bytes (new_slot env log rec)) = (0, f') \<and>
    ring_inv env cells medium_ok log' f' \<and>
    ring_entries env cells log' f' = ring_entries env cells log f @ [(fl_next_seq log, rec)]"
proof -
  define T S t u where defs: "T = unat (fl_total_slots log)" "S = unat (fl_slots_per_sector log)"
    "t = unat (fl_tail_slot log)" "u = unat (fl_used_slots log)"
  note arith = ring_core_arith [OF core, folded defs]
  note core' = core [unfolded ring_core_def Let_def ring_geometry_def, folded defs]
  have u: "u < T" using room by (simp add: word_less_nat_alt defs)
  let ?s = "new_slot env log rec"
  have payload: "length (slot_payload ?s) = 24" "slot_seq ?s = fl_next_seq log"
    "slot_valid env ?s" "slot_entry log ?s = (fl_next_seq log, rec)"
    using core' rec by (simp_all add: defs)
  obtain f' where f': "fe_write env f (fl_head_slot log * FLASH_LOG_SLOT_SIZE) (slot_bytes ?s) = (0, f')"
    "medium_ok f'" "length (cells f') = length (cells f)"
    and slots: "\<And>i. i < T \<Longrightarrow> slot_cells cells f' (ring_pos log i) =
       (if i = u then slot_bytes ?s else slot_cells cells f (ring_pos log i))"
    using write_head_slot [OF core clear room, of "slot_bytes ?s"] payload(1) unfolding defs by auto
  have valid: "valid_at env cells f' (ring_pos log i) =
      (if i = u then Some ?s else valid_at env cells f (ring_pos log i))" if "i < T" for i
    using slots [OF that] payload by (simp add: valid_at_def slot_option_def)
  note fields = append_fields [OF core room seq log']
  note num = fields(1-3) [folded defs] and tail = fields(4) and same = fields(5-10)
  have live: "\<exists>s. valid_at env cells f' (ring_pos log i) = Some s \<and>
      unat (slot_seq s) + (u + 1) = unat (fl_next_seq log) + 1 + i" if "i < u + 1" for i
    using that core' valid [of i] u payload(2) by (cases "i = u") auto
  have "ring_core env cells medium_ok log' f'"
    using core' f' u live valid
    by (auto simp: ring_core_def ring_geometry_def Let_def num tail same simp flip: defs)
  moreover have "head_clear cells log' f'" if "(u + 1) mod S \<noteq> 0"
  proof -
    have "(u + 1) div S = u div S" using that by (simp add: div_Suc mod_Suc split: if_splits)
    then show ?thesis
      using clear slots by (simp add: head_clear_def Let_def num same flip: defs)
  qed
  ultimately have "ring_inv env cells medium_ok log' f'"
    using num by (auto simp: ring_inv_def same unat_eq_zero simp flip: defs)
  moreover have "ring_entries env cells log' f'
      = ring_entries env cells log f @ [(fl_next_seq log, rec)]"
    using u payload(4) valid
    by (simp add: ring_entries_def ring_slots_def num same slot_entry_def flip: defs)
  ultimately show ?thesis using f' by blast
qed


lemma flash_log_append_correct:
  assumes inv: "ring_inv env cells medium_ok log f"
    and seq: "unat (fl_next_seq log) + 1 < 2 ^ 32"
    and rec: "length rec = unat (fl_payload_size log)"
  shows "\<exists>log' f'. flash_log_append env log f rec = (0, Some (fl_next_seq log), log', f') \<and>
    ring_inv env cells medium_ok log' f' \<and>
    fl_next_seq log' = fl_next_seq log + 1 \<and> fl_total_slots log' = fl_total_slots log \<and>
    fl_slots_per_sector log' = fl_slots_per_sector log \<and>
    fl_payload_size log' = fl_payload_size log \<and>
    ring_entries env cells log' f' =
      spec_append (unat (fl_total_slots log)) (unat (fl_slots_per_sector log))
        (ring_entries env cells log f) (fl_next_seq log, rec)"
proof -
  obtain log1 f1 where room: "make_room env log f = (0, log1, f1)"
    "ring_core env cells medium_ok log1 f1" "head_clear cells log1 f1"
    "fl_used_slots log1 < fl_total_slots log1"
    and log1: "log1 = log\<lparr>fl_used_slots := fl_used_slots log1, fl_tail_slot := fl_tail_slot log1\<rparr>"
    and entries: "ring_entries env cells log1 f1 =
      (if fl_used_slots log = fl_total_slots log
       then drop (unat (fl_slots_per_sector log)) (ring_entries env cells log f)
       else ring_entries env cells log f)"
    using make_room_correct [OF inv] by blast
  have same: "fl_next_seq log1 = fl_next_seq log" "fl_total_slots log1 = fl_total_slots log"
    "fl_payload_size log1 = fl_payload_size log" "fl_head_slot log1 = fl_head_slot log"
    "fl_slots_per_sector log1 = fl_slots_per_sector log"
    by (subst log1, simp)+
  define log' where log': "log' = log1\<lparr>fl_tail_slot := (if fl_used_slots log1 = 0 then fl_head_slot log1
                                            else fl_tail_slot log1),
                fl_next_seq := fl_next_seq log1 + 1, fl_used_slots := fl_used_slots log1 + 1,
                fl_head_slot := (fl_head_slot log1 + 1) mod fl_total_slots log1\<rparr>"
  obtain f' where f': "fe_write env f1 (fl_head_slot log1 * FLASH_LOG_SLOT_SIZE)
      (slot_bytes (new_slot env log1 rec)) = (0, f')" "ring_inv env cells medium_ok log' f'"
    "ring_entries env cells log' f' = ring_entries env cells log1 f1 @ [(fl_next_seq log1, rec)]"
    using write_head_correct [OF room(2-4) _ _ log'] seq rec by (auto simp: same)
  have ready: "fl_ready log" using inv by (simp add: ring_inv_def ring_core_def Let_def)
  have "flash_log_append env log f rec = (0, Some (fl_next_seq log), log', f')"
    using room(1) f'(1) ready by (simp add: flash_log_append_def log' same)
  moreover have "length (ring_entries env cells log f) = unat (fl_total_slots log)
      \<longleftrightarrow> fl_used_slots log = fl_total_slots log"
    by (simp add: ring_entries_def ring_slots_def word_unat_eq_iff)
  ultimately show ?thesis
    using f' entries by (auto simp: spec_append_def log' same)
qed

subsection \<open>Reading back\<close>

lemma read_loop_ring:
  assumes "\<And>i. i \<in> set xs \<Longrightarrow>
      read_valid env f ((fl_tail_slot log + of_nat i) mod fl_total_slots log) = Some (g i)"
  shows "read_loop env log f start_seq max_n (map of_nat xs) out =
    out @ take (max_n - length out)
      (map (snd \<circ> slot_entry log) (filter (\<lambda>s. start_seq \<le> slot_seq s) (map g xs)))"
  using assms
proof (induction xs arbitrary: out)
  case Nil
  then show ?case by simp
next
  case (Cons i xs)
  show ?case
  proof (cases "length out < max_n")
    case True
    then have "max_n - length out = Suc (max_n - Suc (length out))" by simp
    with True Cons show ?thesis by (auto simp: slot_entry_def)
  qed simp
qed

lemma ring_slot_read:
  assumes inv: "ring_inv env cells medium_ok log f" and i: "i < unat (fl_used_slots log)"
  shows "read_valid env f ((fl_tail_slot log + of_nat i) mod fl_total_slots log)
         = Some (ring_slots env cells log f ! i)"
    and "unat (slot_seq (ring_slots env cells log f ! i)) + unat (fl_used_slots log)
         = unat (fl_next_seq log) + i"
proof -
  note core = inv [unfolded ring_inv_def ring_core_def ring_geometry_def Let_def]
  obtain s where s: "valid_at env cells f (ring_pos log i) = Some s"
    "unat (slot_seq s) + unat (fl_used_slots log) = unat (fl_next_seq log) + i"
    using core i by blast
  have nth: "ring_slots env cells log f ! i = s"
    using s i by (simp add: ring_slots_def)
  have "unat ((fl_tail_slot log + of_nat i) mod fl_total_slots log) = ring_pos log i"
    using core i by (simp add: unat_mod unat_word_ariths unat_of_nat ring_pos_def)
  moreover have "32 * ring_pos log i + 32 \<le> length (cells f)"
    using core ring_pos_less [of log i] by linarith
  ultimately show "read_valid env f ((fl_tail_slot log + of_nat i) mod fl_total_slots log)
         = Some (ring_slots env cells log f ! i)"
    using core s nth by (subst read_valid_eq) auto
  show "unat (slot_seq (ring_slots env cells log f ! i)) + unat (fl_used_slots log)
         = unat (fl_next_seq log) + i"
    using s nth by simp
qed

lemma read_first_correct:
  assumes inv: "ring_inv env cells medium_ok log f"
  shows "\<forall>i < min (unat (read_first env log f start_seq)) (unat (fl_used_slots log)).
           slot_seq (ring_slots env cells log f ! i) < start_seq"
proof (cases "fl_used_slots log = 0")
  case False
  then have u: "0 < unat (fl_used_slots log)" by (simp add: unat_gt_0)
  let ?g = "\<lambda>i. ring_slots env cells log f ! i"
  have "fl_tail_slot log mod fl_total_slots log = fl_tail_slot log"
    using inv by (simp add: ring_inv_def ring_core_def Let_def word_unat_eq_iff unat_mod)
  then have oldest: "read_valid env f (fl_tail_slot log) = Some (?g 0)"
    using ring_slot_read(1) [OF inv u] by simp
  show ?thesis
  proof (intro allI impI)
    fix i assume i: "i < min (unat (read_first env log f start_seq)) (unat (fl_used_slots log))"
    then have less: "slot_seq (?g 0) < start_seq" and "i < unat (start_seq - slot_seq (?g 0))"
      using u oldest by (auto simp: read_first_def split: if_splits)
    then have "i < unat start_seq - unat (slot_seq (?g 0))"
      by (simp add: unat_sub less_imp_le)
    moreover have "unat (slot_seq (?g i)) = unat (slot_seq (?g 0)) + i"
      using ring_slot_read(2) [OF inv u] ring_slot_read(2) [OF inv, of i] i by simp
    ultimately show "slot_seq (?g i) < start_seq"
      by (simp add: word_less_nat_alt)
  qed
qed simp

lemma flash_log_read_correct:
  assumes inv: "ring_inv env cells medium_ok log f"
  shows "flash_log_read env log f start_seq max_n =
    (let out = spec_read (ring_entries env cells log f) start_seq max_n in (int (length out), out))"
proof -
  let ?u = "unat (fl_used_slots log)" and ?k = "unat (read_first env log f start_seq)"
    and ?ss = "ring_slots env cells log f"
  have len: "length ?ss = ?u" by (simp add: ring_slots_def)
  have "map ((!) ?ss) [?k..<?u] = drop ?k ?ss"
    by (simp add: list_eq_iff_nth_eq len)
  then have loop: "read_loop env log f start_seq max_n (map of_nat [?k..<?u]) [] =
      take max_n (map (snd \<circ> slot_entry log) (filter (\<lambda>s. start_seq \<le> slot_seq s) (drop ?k ?ss)))"
    using read_loop_ring [of "[?k..<?u]" f log "(!) ?ss" start_seq max_n "[]"] ring_slot_read(1) [OF inv]
    by auto
  have "filter (\<lambda>s. start_seq \<le> slot_seq s) (take ?k ?ss) = []"
    using read_first_correct [OF inv, of start_seq]
    by (auto simp: filter_empty_conv in_set_conv_nth len not_le)
  then have "filter (\<lambda>s. start_seq \<le> slot_seq s) (drop ?k ?ss) = filter (\<lambda>s. start_seq \<le> slot_seq s) ?ss"
    by (metis append_Nil append_take_drop_id filter_append)
  with loop show ?thesis
    using inv by (simp add: flash_log_read_def ring_inv_def ring_core_def Let_def spec_read_def
        ring_entries_def filter_map comp_def slot_entry_def)
qed

end

end
