(* ===== verification/Flash_Recovery.thy ===== *)
theory Flash_Recovery
  imports Flash_Ring
begin

section \<open>Boot scan, erase and log information\<close>

text \<open>
  What \<open>scan\<close> finds on a partition is characterised for any medium; on a medium left by the
  ring it is exactly the state the log had, so a reboot loses nothing. A blank partition
  becomes the empty ring, an erase ends and gives the empty ring.
\<close>

subsection \<open>What a scan finds\<close>

text \<open>The facts the scan keeps after \<open>k\<close> slots, with \<open>g p\<close> the valid slot at \<open>p\<close>, if any.\<close>

definition scan_used :: "(nat \<Rightarrow> slot option) \<Rightarrow> nat \<Rightarrow> scan_state \<Rightarrow> bool" where
  "scan_used g k st \<longleftrightarrow> unat (sc_used st) = length (filter (\<lambda>p. g p \<noteq> None) [0..<k])"

definition scan_newest :: "(nat \<Rightarrow> slot option) \<Rightarrow> nat \<Rightarrow> scan_state \<Rightarrow> bool" where
  "scan_newest g k st \<longleftrightarrow>
     (\<forall>p s. p < k \<longrightarrow> g p = Some s \<longrightarrow> slot_seq s \<le> sc_newest_seq st) \<and>
     (sc_newest_seq st \<noteq> 0 \<longrightarrow>
        unat (sc_newest_slot st) < k \<and>
        (\<exists>s. g (unat (sc_newest_slot st)) = Some s \<and> slot_seq s = sc_newest_seq st))"

definition scan_oldest :: "(nat \<Rightarrow> slot option) \<Rightarrow> nat \<Rightarrow> scan_state \<Rightarrow> bool" where
  "scan_oldest g k st \<longleftrightarrow>
     (\<forall>p s. p < k \<longrightarrow> g p = Some s \<longrightarrow> sc_oldest_seq st \<le> slot_seq s) \<and>
     (if sc_oldest_seq st = UINT32_MAX then sc_tail_slot st = 0
      else unat (sc_tail_slot st) < k \<and>
           (\<exists>s. g (unat (sc_tail_slot st)) = Some s \<and> slot_seq s = sc_oldest_seq st))"

lemma UINT32_MAX_top [simp]: "s \<le> UINT32_MAX" "\<not> UINT32_MAX < s"
  by (simp_all add: UINT32_MAX_def)

lemma scan_step_None:
  "read_valid env f i = None \<Longrightarrow> scan_step env f i st = st"
  by (simp add: scan_step_def)

lemma scan_step_Some:
  assumes "read_valid env f i = Some s"
  shows "sc_used (scan_step env f i st) = sc_used st + 1"
    "sc_newest_seq (scan_step env f i st) = max (slot_seq s) (sc_newest_seq st)"
    "sc_newest_slot (scan_step env f i st)
       = (if slot_seq s > sc_newest_seq st then i else sc_newest_slot st)"
    "sc_oldest_seq (scan_step env f i st) = min (slot_seq s) (sc_oldest_seq st)"
    "sc_tail_slot (scan_step env f i st)
       = (if slot_seq s < sc_oldest_seq st then i else sc_tail_slot st)"
  using assms by (auto simp: scan_step_def Let_def max_def min_def)

lemma scan_used_step:
  assumes "scan_used g k st" "k + 1 < 2 ^ 32" "read_valid env f (of_nat k) = g k"
  shows "scan_used g (Suc k) (scan_step env f (of_nat k) st)"
  using assms length_filter_le [of "\<lambda>p. g p \<noteq> None" "[0..<k]"]
  by (cases "g k")
    (simp_all add: scan_used_def scan_step_None scan_step_Some unat_word_ariths)

lemma scan_newest_step:
  assumes "scan_newest g k st" "k + 1 < 2 ^ 32" "read_valid env f (of_nat k) = g k"
  shows "scan_newest g (Suc k) (scan_step env f (of_nat k) st)"
proof (cases "g k")
  case None
  with assms have "scan_step env f (of_nat k) st = st" by (simp add: scan_step_None)
  with None assms(1) show ?thesis by (auto simp: scan_newest_def less_Suc_eq)
next
  case (Some s)
  note step = scan_step_Some [OF assms(3) [unfolded Some]]
  have k: "unat (of_nat k :: u32) = k" using assms(2) by (simp add: unat_of_nat)
  show ?thesis
  proof (cases "slot_seq s > sc_newest_seq st")
    case True
    with assms(1) Some show ?thesis
      by (auto simp: scan_newest_def step k max_def less_Suc_eq)
  next
    case False
    then have "max (slot_seq s) (sc_newest_seq st) = sc_newest_seq st" "slot_seq s \<le> sc_newest_seq st"
      by simp_all
    with assms(1) Some False show ?thesis
      by (auto simp: scan_newest_def step less_Suc_eq simp del: not_less)
  qed
qed

lemma scan_oldest_step:
  assumes "scan_oldest g k st" "k + 1 < 2 ^ 32" "read_valid env f (of_nat k) = g k"
  shows "scan_oldest g (Suc k) (scan_step env f (of_nat k) st)"
proof (cases "g k")
  case None
  with assms have "scan_step env f (of_nat k) st = st" by (simp add: scan_step_None)
  with None assms(1) show ?thesis by (auto simp: scan_oldest_def less_Suc_eq split: if_splits)
next
  case (Some s)
  note step = scan_step_Some [OF assms(3) [unfolded Some]]
  have k: "unat (of_nat k :: u32) = k" using assms(2) by (simp add: unat_of_nat)
  show ?thesis
  proof (cases "slot_seq s < sc_oldest_seq st")
    case True
    with assms(1) Some show ?thesis
      by (auto simp: scan_oldest_def step k min_def less_Suc_eq split: if_splits)
  next
    case False
    with assms(1) Some show ?thesis
      by (auto simp: scan_oldest_def step k min_def less_Suc_eq split: if_splits)
  qed
qed


lemma scan_fold:
  assumes "\<And>p. p < n \<Longrightarrow> read_valid env f (of_nat p) = g p" "n < 2 ^ 32"
  shows "\<exists>st. fold (scan_step env f) (slot_indices n)
      \<lparr> sc_used = 0, sc_newest_seq = 0, sc_oldest_seq = UINT32_MAX, sc_newest_slot = 0,
        sc_tail_slot = 0 \<rparr> = st \<and> scan_used g n st \<and> scan_newest g n st \<and> scan_oldest g n st"
  using assms
proof (induction n)
  case 0
  then show ?case
    by (simp add: slot_indices_def scan_used_def scan_newest_def scan_oldest_def)
next
  case (Suc n)
  then show ?case
    using scan_used_step [of g n _ env f] scan_newest_step [of g n _ env f]
      scan_oldest_step [of g n _ env f]
    by (simp add: slot_indices_def)
qed

definition same_geometry :: "flash_log \<Rightarrow> flash_log \<Rightarrow> bool" where
  "same_geometry a b \<longleftrightarrow>
     fl_partition_id a = fl_partition_id b \<and> fl_payload_size a = fl_payload_size b \<and>
     fl_sector_size a = fl_sector_size b \<and> fl_total_slots a = fl_total_slots b \<and>
     fl_slots_per_sector a = fl_slots_per_sector b"

lemma append_same_geometry:
  assumes "flash_log_append env log f rec = (err, seq, log', f')"
  shows "same_geometry log log'"
  using assms
  by (auto simp: flash_log_append_def make_room_def same_geometry_def Let_def
      split: if_splits prod.splits)

subsection \<open>A reboot loses nothing\<close>

text \<open>The log after the guards of \<open>flash_log_init\<close>, about to be scanned.\<close>

definition log_sized :: "flash_log \<Rightarrow> flash_area \<Rightarrow> u32 \<Rightarrow> flash_log" where
  "log_sized log area page_size =
     (let S = page_size div FLASH_LOG_SLOT_SIZE; T = fa_size area div FLASH_LOG_SLOT_SIZE in
      log\<lparr>fl_ready := False, fl_sector_size := page_size, fl_slots_per_sector := S,
          fl_total_slots := T - T mod S\<rparr>)"

definition log_guards :: "flash_log \<Rightarrow> flash_area \<Rightarrow> u32 \<Rightarrow> bool" where
  "log_guards log area page_size \<longleftrightarrow>
     fl_payload_size log \<noteq> 0 \<and> unat (fl_payload_size log) \<le> MAX_PAYLOAD \<and>
     page_size div FLASH_LOG_SLOT_SIZE \<noteq> 0 \<and>
     \<not> fa_size area div FLASH_LOG_SLOT_SIZE < page_size div FLASH_LOG_SLOT_SIZE"

lemma scan_geometry [simp]:
  "fl_ready (scan env f l) = fl_ready l" "fl_partition_id (scan env f l) = fl_partition_id l"
  "fl_payload_size (scan env f l) = fl_payload_size l"
  "fl_sector_size (scan env f l) = fl_sector_size l"
  "fl_total_slots (scan env f l) = fl_total_slots l"
  "fl_slots_per_sector (scan env f l) = fl_slots_per_sector l"
  by (simp_all add: scan_def Let_def)

lemma flash_log_init_success_iff:
  assumes "fe_open env (fl_partition_id log0) = (0, area)"
    "fe_dev_ready env area" "fe_page_info env (fa_off area) = (0, ps)" "log_guards log0 area ps"
  shows "flash_log_init env f log0 = (0, (scan env f (log_sized log0 area ps))\<lparr>fl_ready := True\<rparr>)"
  using assms by (simp add: flash_log_init_def log_guards_def log_sized_def Let_def)

lemma flash_log_init_success:
  assumes "flash_log_init env f log0 = (0, log)"
  shows "\<exists>area ps. fe_open env (fl_partition_id log0) = (0, area) \<and> fe_dev_ready env area \<and>
    fe_page_info env (fa_off area) = (0, ps) \<and> log_guards log0 area ps \<and>
    log = (scan env f (log_sized log0 area ps))\<lparr>fl_ready := True\<rparr>"
proof -
  obtain err area where op: "fe_open env (fl_partition_id log0) = (err, area)" by fastforce
  obtain err' ps where pg: "fe_page_info env (fa_off area) = (err', ps)" by fastforce
  have g: "fl_payload_size log0 \<noteq> 0" "unat (fl_payload_size log0) \<le> MAX_PAYLOAD"
    by (rule ccontr, use assms in \<open>simp add: flash_log_init_def Let_def\<close>)+
  have "err = 0" "fe_dev_ready env area" "err' = 0"
    using assms op pg g by (simp_all add: flash_log_init_def Let_def split: if_splits)
  moreover from this have "log_guards log0 area ps"
    using assms op pg g by (simp add: flash_log_init_def log_guards_def Let_def split: if_splits)
  ultimately show ?thesis
    using assms op pg flash_log_init_success_iff [of env log0 area ps f] by simp
qed

context flash_partition
begin

lemma ring_found:
  assumes inv: "ring_inv env cells medium_ok log f" and i: "i < unat (fl_total_slots log)"
  shows "valid_at env cells f (ring_pos log i) =
    (if i < unat (fl_used_slots log) then Some (ring_slots env cells log f ! i) else None)"
  using inv i by (auto simp: ring_inv_def ring_core_def Let_def ring_slots_def)

lemma ring_count:
  assumes inv: "ring_inv env cells medium_ok log f"
  shows "length (filter (\<lambda>p. valid_at env cells f p \<noteq> None) [0..<unat (fl_total_slots log)])
         = unat (fl_used_slots log)"
proof -
  let ?T = "unat (fl_total_slots log)" and ?t = "unat (fl_tail_slot log)"
    and ?u = "unat (fl_used_slots log)"
  have b: "?t < ?T" "?u \<le> ?T"
    using inv by (auto simp: ring_inv_def ring_core_def Let_def)
  have "{p. p < ?T \<and> valid_at env cells f p \<noteq> None} = ring_pos log ` {..<?u}" (is "?A = ?B")
  proof
    show "?A \<subseteq> ?B"
    proof
      fix p assume p: "p \<in> ?A"
      then obtain i where "i < ?T" "p = ring_pos log i"
        using ring_pos_surj [of ?t ?T p] b by (auto simp: ring_pos_def)
      with p show "p \<in> ?B" using ring_found [OF inv] by (auto split: if_splits)
    qed
    show "?B \<subseteq> ?A" using ring_found [OF inv] b by (auto intro!: ring_pos_less)
  qed
  moreover have "inj_on (ring_pos log) {..<?u}"
    using b by (auto simp: inj_on_def ring_pos_def ring_pos_inj)
  ultimately have "card ?A = ?u" by (simp add: card_image)
  then show ?thesis by (simp add: length_filter_conv_card cong: conj_cong)
qed

lemma ring_slot_at:
  assumes inv: "ring_inv env cells medium_ok log f"
    and p: "p < unat (fl_total_slots log)" "valid_at env cells f p = Some s"
  shows "\<exists>i < unat (fl_used_slots log). p = ring_pos log i \<and>
    unat (slot_seq s) + unat (fl_used_slots log) = unat (fl_next_seq log) + i"
proof -
  have "unat (fl_tail_slot log) < unat (fl_total_slots log)"
    using inv by (auto simp: ring_inv_def ring_core_def Let_def)
  from ring_pos_surj [OF this p(1)]
  obtain i where i: "i < unat (fl_total_slots log)" "p = ring_pos log i" by (auto simp: ring_pos_def)
  with p ring_found [OF inv i(1)]
  have "i < unat (fl_used_slots log)" "s = ring_slots env cells log f ! i" by (auto split: if_splits)
  with i ring_slot_read(2) [OF inv] show ?thesis by auto
qed

lemma newest_is_head:
  assumes inv: "ring_inv env cells medium_ok log f" and used: "fl_used_slots log \<noteq> 0"
    and st: "scan_newest (valid_at env cells f) (unat (fl_total_slots log)) st"
  shows "sc_newest_seq st + 1 = fl_next_seq log"
    and "(sc_newest_slot st + 1) mod fl_total_slots log = fl_head_slot log"
proof -
  let ?T = "unat (fl_total_slots log)" and ?u = "unat (fl_used_slots log)"
  have core: "ring_core env cells medium_ok log f" using inv by (simp add: ring_inv_def)
  note S = ring_core_arith [OF core]
  have u: "?u - 1 < ?u" "0 < ?u" using used by (auto simp: unat_gt_0)
  have last: "valid_at env cells f (ring_pos log (?u - 1)) = Some (ring_slots env cells log f ! (?u - 1))"
    using ring_found [OF inv, of "?u - 1"] S(6) u by simp
  then have "slot_seq (ring_slots env cells log f ! (?u - 1)) \<le> sc_newest_seq st"
    using st ring_pos_less [OF S(2)] unfolding scan_newest_def by blast
  then have newest: "unat (fl_next_seq log) \<le> unat (sc_newest_seq st) + 1"
    using ring_slot_read(2) [OF inv u(1)] u by (simp add: word_le_nat_alt)
  moreover have "?u < unat (fl_next_seq log)" using core by (simp add: ring_core_def Let_def)
  ultimately have "sc_newest_seq st \<noteq> 0" using u by auto
  then obtain s where "unat (sc_newest_slot st) < ?T"
    "valid_at env cells f (unat (sc_newest_slot st)) = Some s" "slot_seq s = sc_newest_seq st"
    using st by (auto simp: scan_newest_def)
  then obtain i where i: "i < ?u" "unat (sc_newest_slot st) = ring_pos log i"
    "unat (sc_newest_seq st) + ?u = unat (fl_next_seq log) + i"
    using ring_slot_at [OF inv] by metis
  then have i_last: "i = ?u - 1" using newest by linarith
  then show "sc_newest_seq st + 1 = fl_next_seq log"
    using i u unsigned_less [of "fl_next_seq log", where 'a = nat]
    by (simp add: word_unat_eq_iff unat_word_ariths)
  have "unat ((sc_newest_slot st + 1) mod fl_total_slots log) = unat (fl_head_slot log)"
    using i(2) i_last u S(2,7-9) ring_pos_less [OF S(2), of i]
    by (simp add: unat_mod unat_word_ariths ring_pos_def mod_simps)
  then show "(sc_newest_slot st + 1) mod fl_total_slots log = fl_head_slot log"
    by (simp add: word_unat_eq_iff)
qed

lemma oldest_is_tail:
  assumes inv: "ring_inv env cells medium_ok log f" and used: "fl_used_slots log \<noteq> 0"
    and st: "scan_oldest (valid_at env cells f) (unat (fl_total_slots log)) st"
  shows "sc_tail_slot st = fl_tail_slot log"
proof -
  let ?T = "unat (fl_total_slots log)" and ?u = "unat (fl_used_slots log)"
  have core: "ring_core env cells medium_ok log f" using inv by (simp add: ring_inv_def)
  note S = ring_core_arith [OF core]
  have u: "0 < ?u" using used by (auto simp: unat_gt_0)
  have "valid_at env cells f (ring_pos log 0) = Some (ring_slots env cells log f ! 0)"
    using ring_found [OF inv, of 0] S(2) u by simp
  then have "sc_oldest_seq st \<le> slot_seq (ring_slots env cells log f ! 0)"
    using st ring_pos_less [OF S(2)] unfolding scan_oldest_def by blast
  then have oldest: "unat (sc_oldest_seq st) + ?u \<le> unat (fl_next_seq log)"
    using ring_slot_read(2) [OF inv u] by (simp add: word_le_nat_alt)
  then have "sc_oldest_seq st \<noteq> UINT32_MAX"
    using u unsigned_less [of "fl_next_seq log", where 'a = nat]
    by (auto simp: UINT32_MAX_def unsigned_minus_1_eq_mask mask_eq_exp_minus_1)
  then obtain s where "unat (sc_tail_slot st) < ?T"
    "valid_at env cells f (unat (sc_tail_slot st)) = Some s" "slot_seq s = sc_oldest_seq st"
    using st by (auto simp: scan_oldest_def)
  then obtain j where "j < ?u" "unat (sc_tail_slot st) = ring_pos log j"
    "unat (sc_oldest_seq st) + ?u = unat (fl_next_seq log) + j"
    using ring_slot_at [OF inv] by metis
  then show ?thesis using oldest S(5) by (simp add: ring_pos_def word_unat_eq_iff)
qed

lemma oldest_of_empty:
  assumes inv: "ring_inv env cells medium_ok log f" and used: "fl_used_slots log = 0"
    and st: "scan_oldest (valid_at env cells f) (unat (fl_total_slots log)) st"
  shows "sc_tail_slot st = 0"
proof (rule ccontr)
  assume "sc_tail_slot st \<noteq> 0"
  then have "\<exists>p < unat (fl_total_slots log). valid_at env cells f p \<noteq> None"
    using st by (auto simp: scan_oldest_def split: if_splits)
  then show False using ring_count [OF inv] used by (auto simp: filter_empty_conv)
qed

lemma scan_ring:
  assumes inv: "ring_inv env cells medium_ok log f"
    and geo: "fl_total_slots log0 = fl_total_slots log"
  shows "scan env f log0 = log0\<lparr>fl_head_slot := fl_head_slot log, fl_tail_slot := fl_tail_slot log,
           fl_used_slots := fl_used_slots log, fl_next_seq := fl_next_seq log\<rparr>"
proof -
  let ?T = "unat (fl_total_slots log)" and ?g = "valid_at env cells f"
  have core: "ring_core env cells medium_ok log f" using inv by (simp add: ring_inv_def)
  note S = ring_core_arith [OF core]
  have read: "read_valid env f (of_nat p) = ?g p" if "p < ?T" for p
    using that S(8,9,11) read_valid_eq [of f "of_nat p"] by (simp add: unat_of_nat)
  have T: "?T < 2 ^ 32" using S(8,9) by linarith
  obtain st where fold: "fold (scan_step env f) (slot_indices ?T)
      \<lparr> sc_used = 0, sc_newest_seq = 0, sc_oldest_seq = UINT32_MAX, sc_newest_slot = 0,
        sc_tail_slot = 0 \<rparr> = st"
    and st: "scan_used ?g ?T st" "scan_newest ?g ?T st" "scan_oldest ?g ?T st"
    using scan_fold [OF read T] by blast
  have used: "sc_used st = fl_used_slots log"
    using st(1) ring_count [OF inv] by (simp add: scan_used_def word_unat_eq_iff)
  show ?thesis
  proof (cases "fl_used_slots log = 0")
    case True
    then have "fl_tail_slot log = 0" "fl_next_seq log = 1" "fl_head_slot log = 0"
      using inv S(7) by (auto simp: ring_inv_def unat_eq_zero)
    then show ?thesis
      using used fold True oldest_of_empty [OF inv True st(3)] by (simp add: scan_def geo)
  next
    case False
    then show ?thesis
      using used fold newest_is_head [OF inv False st(2)] oldest_is_tail [OF inv False st(3)]
      by (simp add: scan_def geo)
  qed
qed


text \<open>
  The geometry comes from the partition table, so it is the same at every boot: a later
  \<open>flash_log_init\<close> on the medium the ring was left in gives back the state it had.
\<close>

lemma flash_log_init_reboot:
  assumes first: "flash_log_init env f0 log0 = (0, log1)"
    and geo: "same_geometry log1 log"
    and inv: "ring_inv env cells medium_ok log f"
  shows "flash_log_init env f log0 = (0, log)"
proof -
  obtain area ps where init: "fe_open env (fl_partition_id log0) = (0, area)"
    "fe_dev_ready env area" "fe_page_info env (fa_off area) = (0, ps)"
    "log_guards log0 area ps" "log1 = (scan env f0 (log_sized log0 area ps))\<lparr>fl_ready := True\<rparr>"
    using flash_log_init_success [OF first] by blast
  have "fl_ready log" using inv by (simp add: ring_inv_def ring_core_def Let_def)
  moreover have "fl_total_slots (log_sized log0 area ps) = fl_total_slots log"
    using geo init(5) by (simp add: same_geometry_def)
  ultimately have "(scan env f (log_sized log0 area ps))\<lparr>fl_ready := True\<rparr> = log"
    using geo init(5) by (auto simp: same_geometry_def scan_ring [OF inv] intro!: flash_log.equality)
  then show ?thesis using flash_log_init_success_iff [OF init(1-4), of f] by simp
qed

subsection \<open>Blank and erased partitions\<close>

lemma blank_ring:
  assumes geo: "ring_geometry log (length (cells f))" and ok: "medium_ok f" "fl_ready log"
    and blank: "\<And>p. p < unat (fl_total_slots log) \<Longrightarrow> slot_cells cells f p = erased_slot"
    and reset: "fl_head_slot log = 0" "fl_tail_slot log = 0" "fl_used_slots log = 0"
      "fl_next_seq log = 1"
  shows "ring_inv env cells medium_ok log f" and "ring_entries env cells log f = []"
  using assms
  by (auto simp: ring_inv_def ring_core_def Let_def ring_entries_def ring_slots_def valid_at_def
      ring_geometry_def)

lemma scan_blank:
  assumes "\<And>p. p < unat (fl_total_slots log) \<Longrightarrow> read_valid env f (of_nat p) = None"
  shows "scan env f log = log\<lparr>fl_head_slot := 0, fl_tail_slot := 0, fl_used_slots := 0,
           fl_next_seq := 1\<rparr>"
proof -
  have "fold (scan_step env f) (slot_indices n) st = st" if "n \<le> unat (fl_total_slots log)" for n st
    using that assms by (induction n) (simp_all add: slot_indices_def scan_step_None)
  then show ?thesis by (simp add: scan_def)
qed

text \<open>One sector of the loop of \<open>flash_log_erase\<close>, the first \<open>a\<close> sectors being erased.\<close>

lemma erase_sector:
  assumes geo: "ring_geometry log (length (cells f))" and ok: "medium_ok f"
    and off: "unat off = 32 * (S * a)" and S: "S = unat (fl_slots_per_sector log)"
    and T: "S * Suc a \<le> unat (fl_total_slots log)"
    and erased: "\<And>p. p < S * a \<Longrightarrow> slot_cells cells f p = erased_slot"
  obtains f' where "fe_erase env f off (fl_sector_size log) = (0, f')" "medium_ok f'"
    "length (cells f') = length (cells f)" "unat (off + fl_sector_size log) = 32 * (S * Suc a)"
    "\<And>p. p < S * Suc a \<Longrightarrow> slot_cells cells f' p = erased_slot"
proof -
  note g = geo [unfolded ring_geometry_def]
  have S0: "0 < S" "unat (fl_sector_size log) = 32 * S" using g S by auto
  have le: "32 * (S * a) + 32 * S \<le> length (cells f)" "length (cells f) < 2 ^ 32" using g T by auto
  define p :: u32 where "p = of_nat (S * a)"
  have "S * a < 2 ^ 32" using le by linarith
  then have p: "unat p = S * a" unfolding p_def unat_of_nat by simp
  have offp: "off = p * FLASH_LOG_SLOT_SIZE"
    using unat_slot_offset [of p f] p le S0(1) off by (simp add: word_unat_eq_iff)
  obtain f' where f': "fe_erase env f off (fl_sector_size log) = (0, f')" "medium_ok f'"
    "length (cells f') = length (cells f)"
    and slots: "\<And>q. 32 * q + 32 \<le> length (cells f) \<Longrightarrow> slot_cells cells f' q =
      (if S * a \<le> q \<and> q < S * a + S then erased_slot else slot_cells cells f q)"
    using erase_slots [of f p S "fl_sector_size log"] ok p le S0 by (auto simp: offp)
  have "unat (off + fl_sector_size log) = 32 * (S * Suc a)"
    using le by (simp add: unat_word_ariths off S0(2) distrib_left)
  moreover have "slot_cells cells f' q = erased_slot" if "q < S * Suc a" for q
  proof -
    have q: "q < S * a + S" using that by simp
    then have "32 * q + 32 \<le> length (cells f)" using le by linarith
    then show ?thesis using q slots [of q] erased [of q] by (cases "q < S * a") auto
  qed
  ultimately show ?thesis using that f' by blast
qed

text \<open>The loop, counted in the sectors still to do.\<close>

lemma erase_loop_correct:
  assumes geo: "ring_geometry log (length (cells f))" and ok: "medium_ok f"
    and off: "unat off = 32 * (S * a)" and total: "unat tot = 32 * (S * (a + k))"
    and S: "S = unat (fl_slots_per_sector log)" and T: "S * (a + k) \<le> unat (fl_total_slots log)"
    and erased: "\<And>p. p < S * a \<Longrightarrow> slot_cells cells f p = erased_slot"
  shows "\<exists>f'. erase_loop env log tot off feeds f = Some (0, f', feeds + k) \<and> medium_ok f' \<and>
      length (cells f') = length (cells f) \<and>
      (\<forall>p < S * (a + k). slot_cells cells f' p = erased_slot)"
  using assms
proof (induction k arbitrary: a off f feeds)
  case 0
  then have "\<not> off < tot" by (simp add: word_less_nat_alt)
  with 0 show ?case by (subst erase_loop.simps) auto
next
  case (Suc k)
  have S0: "0 < S" "unat (fl_sector_size log) = 32 * S"
    using Suc.prems(1,5) by (auto simp: ring_geometry_def)
  have "S * a < S * (a + Suc k)" using S0(1) by (intro mult_strict_left_mono) auto
  then have less: "off < tot" unfolding word_less_nat_alt Suc.prems(3,4) by simp
  have "unat (tot - off) = 32 * (S * Suc k)"
    using less Suc.prems(3,4) by (simp add: unat_sub less_imp_le algebra_simps)
  then have chunk: "min (fl_sector_size log) (tot - off) = fl_sector_size log"
    using S0 by (simp add: min_def word_le_nat_alt)
  have "S * Suc a \<le> unat (fl_total_slots log)" using Suc.prems(6) by (simp add: algebra_simps)
  then obtain f1 where f1: "fe_erase env f off (fl_sector_size log) = (0, f1)" "medium_ok f1"
    "length (cells f1) = length (cells f)" "unat (off + fl_sector_size log) = 32 * (S * Suc a)"
    "\<And>p. p < S * Suc a \<Longrightarrow> slot_cells cells f1 p = erased_slot"
    using erase_sector [OF Suc.prems(1-3,5) _ Suc.prems(7)] by metis
  have "\<exists>f'. erase_loop env log tot (off + fl_sector_size log) (Suc feeds) f1
      = Some (0, f', Suc feeds + k) \<and> medium_ok f' \<and> length (cells f') = length (cells f1) \<and>
      (\<forall>p < S * (Suc a + k). slot_cells cells f' p = erased_slot)"
    using Suc.prems f1 by (intro Suc.IH) auto
  then show ?case
    using less f1 chunk by (subst erase_loop.simps) simp
qed

lemma flash_log_erase_correct:
  assumes inv: "ring_inv env cells medium_ok log f"
  shows "\<exists>log' f'. flash_log_erase env log f
      = Some (0, log', f', unat (fl_total_slots log) div unat (fl_slots_per_sector log)) \<and>
    ring_inv env cells medium_ok log' f' \<and> ring_entries env cells log' f' = [] \<and>
    same_geometry log' log"
proof -
  let ?T = "unat (fl_total_slots log)" and ?S = "unat (fl_slots_per_sector log)"
  note core = inv [unfolded ring_inv_def ring_core_def Let_def]
  have geo: "ring_geometry log (length (cells f))" and ok: "medium_ok f" "fl_ready log"
    using core by auto
  have S: "0 < ?S" "?S dvd ?T" "32 * ?T < 2 ^ 32" using geo by (auto simp: ring_geometry_def)
  have T: "?S * (0 + ?T div ?S) = ?T" using S by simp
  have "\<exists>f'. erase_loop env log (fl_total_slots log * FLASH_LOG_SLOT_SIZE) 0 0 f
      = Some (0, f', 0 + ?T div ?S) \<and> medium_ok f' \<and> length (cells f') = length (cells f) \<and>
      (\<forall>p < ?S * (0 + ?T div ?S). slot_cells cells f' p = erased_slot)"
    by (rule erase_loop_correct [OF geo ok(1)])
      (use S T in \<open>simp_all add: c_const unat_word_ariths mult.commute\<close>)
  then obtain f' where f': "erase_loop env log (fl_total_slots log * FLASH_LOG_SLOT_SIZE) 0 0 f
      = Some (0, f', ?T div ?S)" "medium_ok f'" "length (cells f') = length (cells f)"
    "\<And>p. p < ?T \<Longrightarrow> slot_cells cells f' p = erased_slot"
    unfolding T by auto
  let ?log = "log\<lparr>fl_head_slot := 0, fl_tail_slot := 0, fl_used_slots := 0, fl_next_seq := 1\<rparr>"
  have "ring_inv env cells medium_ok ?log f'" "ring_entries env cells ?log f' = []"
    using geo ok f' by (auto intro!: blank_ring simp: ring_geometry_def)
  then show ?thesis
    using f' ok by (auto simp: flash_log_erase_def same_geometry_def)
qed

lemma unat_numeral_32: "unat (32 :: u32) = 32"
  by simp

text \<open>The first boot on a blank partition, whose page size is a whole number of slots.\<close>

lemma flash_log_init_blank:
  assumes init: "flash_log_init env f log0 = (0, log)"
    and "medium_ok f" "cells f = replicate n 0xff" "n < 2 ^ 32"
    and "fe_open env (fl_partition_id log0) = (0, area)" "unat (fa_size area) \<le> n"
    and "fe_page_info env (fa_off area) = (0, page_size)" "page_size mod 32 = 0"
  shows "ring_inv env cells medium_ok log f" and "ring_entries env cells log f = []"
proof -
  let ?S = "page_size div 32" and ?T0 = "fa_size area div 32"
  define log1 where "log1 = log_sized log0 area page_size"
  note log1 = log1_def log_sized_def Let_def FLASH_LOG_SLOT_SIZE_def
  have "log_guards log0 area page_size" and log: "log = (scan env f log1)\<lparr>fl_ready := True\<rparr>"
    using flash_log_init_success [OF init] assms(5,7) by (auto simp: log1_def)
  then have guards: "fl_payload_size log0 \<noteq> 0" "unat (fl_payload_size log0) \<le> MAX_PAYLOAD"
    "?S \<noteq> 0" "\<not> ?T0 < ?S"
    by (simp_all add: log_guards_def FLASH_LOG_SLOT_SIZE_def)
  have "unat page_size mod 32 = 0" using assms(8) by (metis unat_0 unat_mod unat_numeral_32)
  moreover have "unat ?S \<noteq> 0" using guards(3) by (simp add: unat_eq_zero)
  moreover have "unat ?S = unat page_size div 32" by (simp add: unat_div)
  ultimately have S: "0 < unat ?S" "unat page_size = 32 * unat ?S" by auto
  have "?T0 mod ?S \<le> ?T0" by (simp add: word_le_nat_alt unat_mod)
  then have T: "unat (?T0 - ?T0 mod ?S) = unat ?T0 - unat ?T0 mod unat ?S"
    by (simp add: unat_sub unat_mod)
  have T0: "unat ?S \<le> unat ?T0" "32 * unat ?T0 \<le> n"
    using guards(4) assms(6) by (auto simp: word_less_nat_alt unat_div not_less)
  then have "unat ?T0 mod unat ?S < unat ?T0" using S by (meson le_trans mod_less_divisor not_le)
  then have pos: "0 < unat (?T0 - ?T0 mod ?S)" "unat ?S dvd unat (?T0 - ?T0 mod ?S)"
    "32 * unat (?T0 - ?T0 mod ?S) \<le> n"
    using T0 unfolding T by auto
  have blank: "slot_cells cells f p = erased_slot" if "p < unat (fl_total_slots log1)" for p
    using that pos(3) by (simp add: slot_cells_def erased_slot_def assms log1)
  have "read_valid env f (of_nat p) = None" if "p < unat (fl_total_slots log1)" for p
    using that blank [OF that] pos(3) assms read_valid_eq [of f "of_nat p"]
    by (simp add: valid_at_def unat_of_nat log1)
  then have "scan env f log1 = log1\<lparr>fl_head_slot := 0, fl_tail_slot := 0, fl_used_slots := 0,
           fl_next_seq := 1\<rparr>"
    by (rule scan_blank)
  then have log': "log = log1\<lparr>fl_head_slot := 0, fl_tail_slot := 0, fl_used_slots := 0,
           fl_next_seq := 1, fl_ready := True\<rparr>"
    by (simp add: log)
  have "ring_geometry log (length (cells f))"
    using pos S guards assms(3,4) by (simp add: ring_geometry_def log' log1 unat_gt_0)
  then show "ring_inv env cells medium_ok log f" and "ring_entries env cells log f = []"
    using assms(2) blank by (auto intro!: blank_ring simp: log')
qed

subsection \<open>Oldest record and log information\<close>

lemma oldest_slot:
  assumes inv: "ring_inv env cells medium_ok log f" and used: "fl_used_slots log \<noteq> 0"
  shows "\<exists>s. read_valid env f (fl_tail_slot log) = Some s \<and>
    slot_entry log s = hd (ring_entries env cells log f)"
proof -
  have u: "0 < unat (fl_used_slots log)" using used by (simp add: unat_gt_0)
  have "fl_tail_slot log mod fl_total_slots log = fl_tail_slot log"
    using inv by (simp add: ring_inv_def ring_core_def Let_def word_unat_eq_iff unat_mod)
  then have "read_valid env f (fl_tail_slot log) = Some (ring_slots env cells log f ! 0)"
    using ring_slot_read(1) [OF inv u] by simp
  moreover have "hd (ring_entries env cells log f) = slot_entry log (ring_slots env cells log f ! 0)"
    using u by (simp add: ring_entries_def ring_slots_def hd_map upt_rec)
  ultimately show ?thesis by simp
qed

lemma newest_entry:
  assumes inv: "ring_inv env cells medium_ok log f" and used: "fl_used_slots log \<noteq> 0"
  shows "fst (last (ring_entries env cells log f)) = fl_next_seq log - 1"
proof -
  let ?u = "unat (fl_used_slots log)" and ?ss = "ring_slots env cells log f"
  have u: "0 < ?u" using used by (simp add: unat_gt_0)
  have len: "length ?ss = ?u" by (simp add: ring_slots_def)
  then have "?ss \<noteq> []" using u by auto
  then have "last (ring_entries env cells log f) = slot_entry log (?ss ! (?u - 1))"
    unfolding ring_entries_def by (subst last_map) (simp_all add: last_conv_nth len)
  moreover have "unat (slot_seq (?ss ! (?u - 1))) = unat (fl_next_seq log) - 1"
    using ring_slot_read(2) [OF inv, of "?u - 1"] u by simp
  moreover have "1 \<le> fl_next_seq log"
    using inv u by (auto simp: ring_inv_def ring_core_def Let_def word_le_nat_alt)
  ultimately show ?thesis
    by (simp add: slot_entry_def word_unat_eq_iff unat_sub)
qed

lemma length_ring_entries: "length (ring_entries env cells log f) = unat (fl_used_slots log)"
  by (simp add: ring_entries_def ring_slots_def)

lemma flash_log_get_info_correct:
  assumes inv: "ring_inv env cells medium_ok log f"
  shows "flash_log_get_info env log f =
    (let es = ring_entries env cells log f in
     \<lparr> li_record_count = of_nat (length es), li_capacity = fl_total_slots log,
       li_oldest_seq = (if es = [] then 0 else fst (hd es)),
       li_newest_seq = (if es = [] then 0 else fst (last es)),
       li_record_size = fl_payload_size log, li_ready = 1 \<rparr>)"
proof (cases "fl_used_slots log = 0")
  case True
  then have "ring_entries env cells log f = []"
    using length_ring_entries [of log f] by simp
  then show ?thesis
    using inv True by (simp add: flash_log_get_info_def ring_inv_def ring_core_def Let_def)
next
  case False
  obtain s where s: "read_valid env f (fl_tail_slot log) = Some s"
    "slot_entry log s = hd (ring_entries env cells log f)"
    using oldest_slot [OF inv False] by blast
  then have hd: "slot_seq s = fst (hd (ring_entries env cells log f))"
    by (metis fst_conv slot_entry_def)
  have ne: "ring_entries env cells log f \<noteq> []"
    using False length_ring_entries [of log f] by (auto simp: unat_eq_zero)
  show ?thesis
    using inv False s(1) hd ne newest_entry [OF inv False]
    by (simp add: flash_log_get_info_def ring_inv_def ring_core_def Let_def length_ring_entries
        word_gt_0)
qed

lemma flash_log_get_oldest_correct:
  assumes inv: "ring_inv env cells medium_ok log f"
  shows "flash_log_get_oldest env log f =
    (case ring_entries env cells log f of [] \<Rightarrow> (- ENOENT, None) | e # _ \<Rightarrow> (0, Some (snd e)))"
proof (cases "fl_used_slots log = 0")
  case True
  then have "ring_entries env cells log f = []"
    using length_ring_entries [of log f] by simp
  then show ?thesis
    using inv True by (simp add: flash_log_get_oldest_def ring_inv_def ring_core_def Let_def)
next
  case False
  obtain s where s: "read_valid env f (fl_tail_slot log) = Some s"
    "slot_entry log s = hd (ring_entries env cells log f)"
    using oldest_slot [OF inv False] by blast
  obtain e es where es: "ring_entries env cells log f = e # es"
    using False length_ring_entries [of log f]
    by (cases "ring_entries env cells log f") (auto simp: unat_eq_zero)
  then show ?thesis
    using inv False s
    by (auto simp: flash_log_get_oldest_def ring_inv_def ring_core_def Let_def word_gt_0
        slot_entry_def)
qed

end

end
