(* ===== verification/Flash_Mock.thy ===== *)
theory Flash_Mock
  imports Flash_Recovery
begin

section \<open>The RAM-backed flash area of the unit tests\<close>

text \<open>
  \<open>tests/unit/stubs/flash_mock.c\<close> and \<open>tests/unit/stubs/crc16.c\<close>: the flash area the
  repository's own tests run \<open>flash_manager.c\<close> on, four sectors of 64 bytes whose write can
  only clear bits. It is a \<open>flash_partition\<close>, so everything proved of the log in that locale
  holds of the code as its tests build it, and it makes the hypotheses of the log's
  properties concrete.
\<close>

definition MOCK_SECTOR_SIZE :: u32 where [c_const]: "MOCK_SECTOR_SIZE = 64"
definition MOCK_FLASH_SIZE :: u32 where [c_const]: "MOCK_FLASH_SIZE = 256"
definition MOCK_ERASED :: u8 where [c_const]: "MOCK_ERASED = 0xff"

definition flash_mock_reset :: "u8 list" where
  "flash_mock_reset = replicate (unat MOCK_FLASH_SIZE) MOCK_ERASED"

text \<open>\<open>(size_t)off + len > fa->fa_size\<close>; \<open>size_t\<close> is wider than the operands on the host.\<close>

definition mock_out_of_range :: "u32 \<Rightarrow> nat \<Rightarrow> bool" where
  "mock_out_of_range off len \<longleftrightarrow> unat off + len > unat MOCK_FLASH_SIZE"

definition mock_flash_area_read :: "u8 list \<Rightarrow> u32 \<Rightarrow> u32 \<Rightarrow> int \<times> u8 list" where
  "mock_flash_area_read mem off len =
     (if mock_out_of_range off (unat len) then (- EINVAL, [])
      else (0, take (unat len) (drop (unat off) mem)))"

definition mock_flash_area_write :: "u8 list \<Rightarrow> u32 \<Rightarrow> u8 list \<Rightarrow> int \<times> u8 list" where
  "mock_flash_area_write mem off bytes =
     (if mock_out_of_range off (length bytes) then (- EINVAL, mem)
      else (0, take (unat off) mem
               @ map2 (AND) (take (length bytes) (drop (unat off) mem)) bytes
               @ drop (unat off + length bytes) mem))"

definition mock_flash_area_erase :: "u8 list \<Rightarrow> u32 \<Rightarrow> u32 \<Rightarrow> int \<times> u8 list" where
  "mock_flash_area_erase mem off len =
     (if mock_out_of_range off (unat len) then (- EINVAL, mem)
      else (0, take (unat off) mem @ replicate (unat len) MOCK_ERASED
               @ drop (unat off + unat len) mem))"

text \<open>CRC-16-CCITT with polynomial 0x1021, bit by bit.\<close>

definition crc16_bit :: "u16 \<Rightarrow> u16" where
  "crc16_bit crc = (if has_flag crc 0x8000 then push_bit 1 crc XOR 0x1021 else push_bit 1 crc)"

definition crc16_byte :: "u16 \<Rightarrow> u8 \<Rightarrow> u16" where
  "crc16_byte crc b = (crc16_bit ^^ 8) (crc XOR push_bit 8 (ucast b))"

definition crc16_ccitt :: "u16 \<Rightarrow> u8 list \<Rightarrow> u16" where
  "crc16_ccitt seed src = foldl crc16_byte seed src"

definition mock_env :: "u8 list flash_env" where
  "mock_env = \<lparr>
     fe_open = \<lambda>id. (0, \<lparr> fa_off = 0, fa_size = MOCK_FLASH_SIZE \<rparr>),
     fe_dev_ready = \<lambda>area. True,
     fe_page_info = \<lambda>off. (0, MOCK_SECTOR_SIZE),
     fe_read = mock_flash_area_read,
     fe_write = mock_flash_area_write,
     fe_erase = mock_flash_area_erase,
     fe_crc16 = crc16_ccitt \<rparr>"

definition mock_medium_ok :: "u8 list \<Rightarrow> bool" where
  "mock_medium_ok mem \<longleftrightarrow> length mem = unat MOCK_FLASH_SIZE"

subsection \<open>It is a working partition\<close>

text \<open>Clearing bits of an erased byte stores the byte.\<close>

lemma map2_and_erased: "map2 (AND) (replicate (length bs) 0xff) bs = (bs :: u8 list)"
proof (induction bs)
  case (Cons b bs)
  have all_ones: "(255 :: u8) = - 1" by simp
  have "(255 :: u8) AND b = b" unfolding all_ones by simp
  with Cons show ?case by simp
qed simp

interpretation mock: flash_partition mock_env "\<lambda>mem. mem" mock_medium_ok
proof unfold_locales
  fix f and off len :: u32
  assume "mock_medium_ok f" "unat off + unat len \<le> length f"
  then show "fe_read mock_env f off len = (0, take (unat len) (drop (unat off) f))"
    by (simp add: mock_env_def mock_flash_area_read_def mock_out_of_range_def mock_medium_ok_def)
next
  fix f and off :: u32 and bs :: "u8 list"
  assume "mock_medium_ok f" "unat off + length bs \<le> length f"
    and erased: "take (length bs) (drop (unat off) f) = replicate (length bs) 0xff"
  then show "\<exists>f'. fe_write mock_env f off bs = (0, f') \<and> mock_medium_ok f' \<and>
      f' = take (unat off) f @ bs @ drop (unat off + length bs) f"
    by (simp add: mock_env_def mock_flash_area_write_def mock_out_of_range_def mock_medium_ok_def
        map2_and_erased)
next
  fix f and off len :: u32
  assume "mock_medium_ok f" "unat off + unat len \<le> length f"
  then show "\<exists>f'. fe_erase mock_env f off len = (0, f') \<and> mock_medium_ok f' \<and>
      f' = take (unat off) f @ replicate (unat len) 0xff @ drop (unat off + unat len) f"
    by (simp add: mock_env_def mock_flash_area_erase_def mock_out_of_range_def mock_medium_ok_def
        MOCK_ERASED_def)
qed

subsection \<open>A log on it\<close>

text \<open>A log of 8-byte records before its first \<open>flash_log_init\<close>, and after it.\<close>

definition mock_log_static :: flash_log where
  "mock_log_static = \<lparr> fl_partition_id = 0, fl_payload_size = 8, fl_sector_size = 0,
     fl_total_slots = 0, fl_slots_per_sector = 0, fl_head_slot = 0, fl_tail_slot = 0,
     fl_used_slots = 0, fl_next_seq = 0, fl_ready = False \<rparr>"

definition mock_log :: flash_log where
  "mock_log = snd (flash_log_init mock_env flash_mock_reset mock_log_static)"

lemma mock_log_init: "flash_log_init mock_env flash_mock_reset mock_log_static = (0, mock_log)"
  by (simp add: mock_log_def flash_log_init_def mock_log_static_def mock_env_def c_const)

lemma mock_log_ring:
  "ring_inv mock_env (\<lambda>mem. mem) mock_medium_ok mock_log flash_mock_reset"
  "ring_entries mock_env (\<lambda>mem. mem) mock_log flash_mock_reset = []"
proof -
  have "mock_medium_ok flash_mock_reset" "flash_mock_reset = replicate 256 0xff"
    by (simp_all add: mock_medium_ok_def flash_mock_reset_def c_const)
  moreover have "fe_open mock_env (fl_partition_id mock_log_static) = (0, \<lparr> fa_off = 0, fa_size = 256 \<rparr>)"
    "fe_page_info mock_env (fa_off \<lparr> fa_off = 0, fa_size = 256 \<rparr>) = (0, 64)"
    by (simp_all add: mock_env_def c_const)
  ultimately show
    "ring_inv mock_env (\<lambda>mem. mem) mock_medium_ok mock_log flash_mock_reset"
    "ring_entries mock_env (\<lambda>mem. mem) mock_log flash_mock_reset = []"
    by (auto intro!: mock.flash_log_init_blank [OF mock_log_init])
qed

lemma mock_log_fields [simp]:
  "fl_payload_size mock_log = 8" "fl_total_slots mock_log = 8" "fl_slots_per_sector mock_log = 2"
  "fl_next_seq mock_log = 1" "fl_used_slots mock_log = 0" "fl_ready mock_log"
proof -
  show "fl_next_seq mock_log = 1" "fl_used_slots mock_log = 0"
    using mock_log_ring mock.length_ring_entries [of mock_log flash_mock_reset]
    by (auto simp: ring_inv_def unat_eq_zero)
qed (simp_all add: mock_log_def flash_log_init_def mock_log_static_def mock_env_def c_const Let_def)

end
