(* ===== verification/Log_Properties.thy ===== *)
theory Log_Properties
  imports Flash_Mock
begin

section \<open>Properties of the flash log\<close>

text \<open>
  What the rest of the firmware relies on: an append and a read are those of a bounded queue,
  a reboot and an erase leave the log they should, and whatever the medium holds, only records
  whose checksum matches are handed out. The hypothesis \<open>flash_partition env cells medium_ok\<close> is
  the documented behaviour of the flash area functions; the witnesses instantiate it with the
  flash area of the unit tests.
\<close>

text \<open>
  C1: \<open>flash_log_append\<close> refines the bounded queue. It succeeds, hands out the next sequence
  number, keeps the ring invariant, and the stored entries become those of \<open>spec_append\<close>: the
  record is added at the end, and only a full ring gives up its oldest sector.
\<close>

theorem append_refines_queue:
  assumes "flash_partition env cells medium_ok" and "ring_inv env cells medium_ok log f"
    and "unat (fl_next_seq log) + 1 < 2 ^ 32" and "length rec = unat (fl_payload_size log)"
  shows "\<exists>log' f'. flash_log_append env log f rec = (0, Some (fl_next_seq log), log', f') \<and>
    ring_inv env cells medium_ok log' f' \<and> fl_next_seq log' = fl_next_seq log + 1 \<and>
    ring_entries env cells log' f' =
      spec_append (unat (fl_total_slots log)) (unat (fl_slots_per_sector log))
        (ring_entries env cells log f) (fl_next_seq log, rec)"
  using flash_partition.flash_log_append_correct [OF assms] by blast

theorem append_refines_queue_witness:
  "\<exists>log' f'. flash_log_append mock_env mock_log flash_mock_reset (replicate 8 7)
      = (0, Some 1, log', f') \<and>
    ring_entries mock_env (\<lambda>mem. mem) log' f' = [(1, replicate 8 7)]"
  using append_refines_queue [OF mock.flash_partition_axioms mock_log_ring(1), of "replicate 8 7"]
  by (auto simp: mock_log_ring(2) spec_append_def)

text \<open>
  C2: \<open>flash_log_read\<close> returns the payloads of the first \<open>max\<close> stored entries whose sequence
  number is at least \<open>start_seq\<close>, oldest first, and their count.
\<close>

theorem read_refines_queue:
  assumes "flash_partition env cells medium_ok" and "ring_inv env cells medium_ok log f"
  shows "flash_log_read env log f start_seq max_n =
    (let out = spec_read (ring_entries env cells log f) start_seq max_n in (int (length out), out))"
  using assms by (rule flash_partition.flash_log_read_correct)

theorem read_refines_queue_witness:
  "\<exists>log' f'. flash_log_append mock_env mock_log flash_mock_reset (replicate 8 7)
      = (0, Some 1, log', f') \<and>
    flash_log_read mock_env log' f' 0 5 = (1, [replicate 8 7]) \<and>
    flash_log_read mock_env log' f' 2 5 = (0, [])"
proof -
  obtain log' f' where app: "flash_log_append mock_env mock_log flash_mock_reset (replicate 8 7)
      = (0, Some 1, log', f')" "ring_inv mock_env (\<lambda>mem. mem) mock_medium_ok log' f'"
    "ring_entries mock_env (\<lambda>mem. mem) log' f' = [(1, replicate 8 7)]"
    using mock.flash_log_append_correct [OF mock_log_ring(1), of "replicate 8 7"]
    by (auto simp: mock_log_ring(2) spec_append_def)
  then show ?thesis
    by (simp add: read_refines_queue [OF mock.flash_partition_axioms app(2)] spec_read_def word_le_nat_alt)
qed

text \<open>
  C3: a reboot loses nothing. When \<open>flash_log_init\<close> succeeded once and the ring was left in a
  state of that geometry, running it again on the medium gives back exactly that state: head,
  tail, number of records and next sequence number.
\<close>

theorem reboot_restores_log:
  assumes "flash_partition env cells medium_ok" and "flash_log_init env f0 log0 = (0, log1)"
    and "same_geometry log1 log" and "ring_inv env cells medium_ok log f"
  shows "flash_log_init env f log0 = (0, log)"
  using assms by (rule flash_partition.flash_log_init_reboot)

theorem reboot_restores_log_witness:
  "\<exists>log' f'. flash_log_append mock_env mock_log flash_mock_reset (replicate 8 7)
      = (0, Some 1, log', f') \<and> flash_log_init mock_env f' mock_log_static = (0, log')"
proof -
  obtain log' f' where app: "flash_log_append mock_env mock_log flash_mock_reset (replicate 8 7)
      = (0, Some 1, log', f')" "ring_inv mock_env (\<lambda>mem. mem) mock_medium_ok log' f'"
    using mock.flash_log_append_correct [OF mock_log_ring(1), of "replicate 8 7"] by auto
  have "same_geometry mock_log log'" using append_same_geometry [OF app(1)] .
  then show ?thesis
    using app reboot_restores_log [OF mock.flash_partition_axioms mock_log_init] by blast
qed

text \<open>
  \<open>flash_log_erase\<close> ends, feeds the watchdog once per sector, and leaves an empty ring of
  the same geometry.
\<close>

lemma erase_empties_log:
  assumes "flash_partition env cells medium_ok" and "ring_inv env cells medium_ok log f"
  shows "\<exists>log' f'. flash_log_erase env log f
      = Some (0, log', f', unat (fl_total_slots log) div unat (fl_slots_per_sector log)) \<and>
    ring_inv env cells medium_ok log' f' \<and> ring_entries env cells log' f' = [] \<and>
    same_geometry log' log"
  using assms by (rule flash_partition.flash_log_erase_correct)

lemma erase_empties_log_witness:
  "\<exists>log' f'. flash_log_erase mock_env mock_log flash_mock_reset = Some (0, log', f', 4) \<and>
    ring_entries mock_env (\<lambda>mem. mem) log' f' = []"
  using erase_empties_log [OF mock.flash_partition_axioms mock_log_ring(1)] by auto

text \<open>
  \<open>flash_log_get_info\<close> reports the number of stored entries, the capacity, and the sequence
  numbers of the oldest and the newest of them.
\<close>

lemma info_describes_queue:
  assumes "flash_partition env cells medium_ok" and "ring_inv env cells medium_ok log f"
  shows "flash_log_get_info env log f =
    (let es = ring_entries env cells log f in
     \<lparr> li_record_count = of_nat (length es), li_capacity = fl_total_slots log,
       li_oldest_seq = (if es = [] then 0 else fst (hd es)),
       li_newest_seq = (if es = [] then 0 else fst (last es)),
       li_record_size = fl_payload_size log, li_ready = 1 \<rparr>)"
  using assms by (rule flash_partition.flash_log_get_info_correct)

lemma info_describes_queue_witness:
  "flash_log_get_info mock_env mock_log flash_mock_reset =
     \<lparr> li_record_count = 0, li_capacity = 8, li_oldest_seq = 0, li_newest_seq = 0,
       li_record_size = 8, li_ready = 1 \<rparr>"
  using info_describes_queue [OF mock.flash_partition_axioms mock_log_ring(1)]
  by (simp add: mock_log_ring(2))

lemma read_loop_safe:
  assumes "rec \<in> set (read_loop env log f start_seq max_n is out)" "rec \<notin> set out"
  shows "\<exists>i s. read_valid env f i = Some s \<and> start_seq \<le> slot_seq s \<and>
    rec = take (unat (fl_payload_size log)) (slot_payload s)"
  using assms
  by (induction "is" arbitrary: out) (fastforce split: if_splits option.splits)+

lemma length_read_loop:
  "length out \<le> max_n \<Longrightarrow> length (read_loop env log f start_seq max_n is out) \<le> max_n"
  by (induction "is" arbitrary: out) (auto split: option.splits)

text \<open>
  C31: whatever the medium holds (a torn write, a worn cell), every record \<open>flash_log_read\<close>
  returns is the payload of a slot with the record magic, a matching checksum and a sequence
  number of at least \<open>start_seq\<close>; and it returns at most \<open>max\<close> of them.
\<close>

theorem read_only_valid_records:
  assumes "flash_log_read env log f start_seq max_n = (n, out)" and "rec \<in> set out"
  shows "length out \<le> max_n \<and> n = int (length out) \<and>
    (\<exists>i s. read_slot env f i = (0, s) \<and> slot_magic s = RECORD_MAGIC \<and>
           slot_crc_field s = slot_crc env s \<and> start_seq \<le> slot_seq s \<and>
           rec = take (unat (fl_payload_size log)) (slot_payload s))"
proof -
  have out: "out = read_loop env log f start_seq max_n
      (map of_nat [unat (read_first env log f start_seq)..<unat (fl_used_slots log)]) []"
    "n = int (length out)"
    using assms by (auto simp: flash_log_read_def Let_def split: if_splits)
  obtain i s where "read_valid env f i = Some s" "start_seq \<le> slot_seq s"
    "rec = take (unat (fl_payload_size log)) (slot_payload s)"
    using read_loop_safe [of rec env log f start_seq max_n] assms(2) unfolding out by fastforce
  moreover from this have "read_slot env f i = (0, s)" "slot_valid env s"
    by (auto simp: read_valid_def split: prod.splits if_splits)
  ultimately show ?thesis
    using out length_read_loop [of "[]" max_n env log f start_seq] by (auto simp: slot_valid_def)
qed

theorem read_only_valid_records_witness:
  "\<exists>log' f' s i. flash_log_append mock_env mock_log flash_mock_reset (replicate 8 7)
      = (0, Some 1, log', f') \<and>
    read_slot mock_env f' i = (0, s) \<and> slot_magic s = RECORD_MAGIC \<and>
    replicate 8 7 = take 8 (slot_payload s)"
proof -
  obtain log' f' where app: "flash_log_append mock_env mock_log flash_mock_reset (replicate 8 7)
      = (0, Some 1, log', f')" "ring_inv mock_env (\<lambda>mem. mem) mock_medium_ok log' f'"
    "ring_entries mock_env (\<lambda>mem. mem) log' f' = [(1, replicate 8 7)]"
    "fl_payload_size log' = 8"
    using mock.flash_log_append_correct [OF mock_log_ring(1), of "replicate 8 7"]
    by (auto simp: mock_log_ring(2) spec_append_def)
  have "flash_log_read mock_env log' f' 0 5 = (1, [replicate 8 7])"
    by (simp add: mock.flash_log_read_correct [OF app(2)] app(3) spec_read_def)
  from read_only_valid_records [OF this, of "replicate 8 7"] app(1,4) show ?thesis by auto
qed

end
