(* ===== verification/Torn_Write.thy ===== *)
theory Torn_Write
  imports Log_Properties
begin

section \<open>A write that power cuts short\<close>

text \<open>
  Crash consistency of the flash log below the granularity of its operations: power fails while
  the bytes of a record are being stored, after any number of them. The checksum is what makes
  the write atomic; without the test in \<open>slot_valid\<close> the next boot would take a slot whose magic
  was stored for a record.
\<close>

text \<open>The scan and the read look at the medium only through \<open>read_valid\<close>.\<close>

abbreviation same_records :: "'f flash_env \<Rightarrow> flash_log \<Rightarrow> 'f \<Rightarrow> 'f \<Rightarrow> bool" where
  "same_records env log f f' \<equiv> \<forall>i < fl_total_slots log. read_valid env f' i = read_valid env f i"

lemma scan_cong:
  assumes "same_records env log f f'"
  shows "scan env f' log = scan env f log"
proof -
  have "i < fl_total_slots log" if "i \<in> set (slot_indices (unat (fl_total_slots log)))" for i
    using that unsigned_less [of "fl_total_slots log"]
    by (auto simp: slot_indices_def word_less_nat_alt unat_of_nat take_bit_nat_eq_self)
  then have "fold (scan_step env f') (slot_indices (unat (fl_total_slots log)))
      = fold (scan_step env f) (slot_indices (unat (fl_total_slots log)))"
    using assms by (intro ext fold_cong) (simp_all add: scan_step_def)
  then show ?thesis by (simp add: scan_def)
qed

lemma read_loop_cong:
  assumes "same_records env log f f'" and "0 < fl_total_slots log"
  shows "read_loop env log f' start_seq max_n is out = read_loop env log f start_seq max_n is out"
proof (induction "is" arbitrary: out)
  case (Cons i js)
  have "(fl_tail_slot log + i) mod fl_total_slots log < fl_total_slots log"
    using assms(2) by (simp add: word_mod_less_divisor)
  then show ?case using assms(1) Cons.IH by (simp split: option.split)
qed simp

lemma flash_log_read_cong:
  assumes "same_records env log f f'" and "fl_tail_slot log < fl_total_slots log"
  shows "flash_log_read env log f' start_seq max_n = flash_log_read env log f start_seq max_n"
proof -
  have "0 < fl_total_slots log" using assms(2) by (rule le_less_trans [OF word_zero_le])
  then show ?thesis
    using assms by (simp add: flash_log_read_def read_first_def read_loop_cong [OF assms(1)])
qed

lemma flash_log_init_cong:
  assumes "flash_log_init env f0 log0 = (0, log1)" and "same_geometry log1 log" and "same_records env log f f'"
  shows "flash_log_init env f' log0 = flash_log_init env f log0"
proof -
  obtain area ps where init: "fe_open env (fl_partition_id log0) = (0, area)" "fe_dev_ready env area"
    "fe_page_info env (fa_off area) = (0, ps)" "log_guards log0 area ps"
    "log1 = (scan env f0 (log_sized log0 area ps))\<lparr>fl_ready := True\<rparr>"
    using flash_log_init_success [OF assms(1)] by blast
  then have "fl_total_slots (log_sized log0 area ps) = fl_total_slots log"
    using assms(2) by (simp add: same_geometry_def)
  then have "scan env f' (log_sized log0 area ps) = scan env f (log_sized log0 area ps)"
    using assms(3) by (intro scan_cong) simp
  then show ?thesis using flash_log_init_success_iff [OF init(1-4)] by simp
qed

subsection \<open>What a torn write leaves\<close>

text \<open>The first \<open>n\<close> of the bytes are stored, the rest of the place is still erased.\<close>

definition torn :: "u8 list \<Rightarrow> nat \<Rightarrow> u8 list" where
  "torn bs n = take n bs @ replicate (length bs - n) 0xff"

text \<open>
  The checksummed bytes of a slot, and what is asked of the checksum for a tear after \<open>n\<close> bytes
  of the slot \<open>s\<close>. A tear in the stored checksum leaves a body of 28 erased bytes and at least
  the upper byte of the checksum erased, so it is seen when the checksum of such a body has
  another upper byte. A later tear is seen when the bytes not stored change the checksum.
\<close>

definition slot_body :: "slot \<Rightarrow> u8 list" where
  "slot_body s = le32 (slot_seq s) @ slot_payload s"

definition crc_sees_tear :: "'f flash_env \<Rightarrow> slot \<Rightarrow> nat \<Rightarrow> bool" where
  "crc_sees_tear env s n \<longleftrightarrow>
     (if n < 4 then drop_bit 8 (fe_crc16 env 0xffff (replicate 28 0xff)) \<noteq> 0xff
      else torn (slot_body s) (n - 4) \<noteq> slot_body s \<longrightarrow>
        fe_crc16 env 0xffff (torn (slot_body s) (n - 4)) \<noteq> fe_crc16 env 0xffff (slot_body s))"

lemma length_slot_body [simp]: "length (slot_payload s) = 24 \<Longrightarrow> length (slot_body s) = 28"
  by (simp add: slot_body_def)

lemma slot_bytes_body: "slot_bytes s = le16 (slot_magic s) @ le16 (slot_crc_field s) @ slot_body s"
  by (simp add: slot_bytes_def slot_body_def)

lemma body_of_bytes:
  assumes "length bs = 28"
  shows "slot_body (slot_of_bytes (a # b # c # d # bs)) = bs"
proof -
  have "bs = bs ! 0 # bs ! 1 # bs ! 2 # bs ! 3 # drop 4 bs"
    using assms by (simp add: Cons_nth_drop_Suc numeral_eq_Suc)
  then obtain w x y z r where "bs = w # x # y # z # r" by blast
  moreover from this have "length r = 24" using assms by simp
  ultimately show ?thesis
    by (simp add: slot_body_def slot_of_bytes_def rd32_def le32_def)
qed

lemma slot_option_of_bytes:
  assumes "length bs = 28"
  shows "slot_option env (a # b # c # d # bs) = None \<longleftrightarrow>
    \<not> (join16 a b = RECORD_MAGIC \<and> join16 c d = fe_crc16 env 0xffff bs)"
  using body_of_bytes [OF assms, of a b c d]
  by (simp add: slot_option_def slot_valid_def slot_crc_def slot_body_def)
    (simp add: slot_of_bytes_def rd16_def)

lemma drop_join16: "drop_bit 8 (join16 a b) = ucast b"
  by (rule bit_word_eqI)
    (auto simp: join16_def bit_or_iff bit_push_bit_iff bit_ucast_iff bit_drop_bit_eq dest: bit_imp_le_length)

lemma magic_not_erased: "join16 a 0xff \<noteq> RECORD_MAGIC"
proof
  assume "join16 a 0xff = RECORD_MAGIC"
  then have "drop_bit 8 (join16 a 0xff) = drop_bit 8 RECORD_MAGIC" by simp
  then show False by (simp add: drop_join16 RECORD_MAGIC_def)
qed

lemma crc_not_erased: "drop_bit 8 crc \<noteq> 0xff \<Longrightarrow> join16 a 0xff \<noteq> (crc :: u16)"
  by (auto simp: drop_join16)

text \<open>A slot whose write was torn is no record, unless the bytes not stored are erased bytes.\<close>

lemma torn_slot_invalid:
  assumes len: "length (slot_payload s) = 24" and n: "n < 32" and sees: "crc_sees_tear env s n"
    and valid: "slot_valid env s" and tear: "torn (slot_bytes s) n \<noteq> slot_bytes s"
  shows "slot_option env (torn (slot_bytes s) n) = None"
proof -
  have crc: "slot_crc_field s = fe_crc16 env 0xffff (slot_body s)" "slot_magic s = RECORD_MAGIC"
    using valid by (simp_all add: slot_valid_def slot_crc_def slot_body_def)
  consider "n < 2" | "n = 2 \<or> n = 3" | "4 \<le> n" by linarith
  then show ?thesis
  proof cases
    case 1
    then have "\<exists>a bs. torn (slot_bytes s) n = a # 0xff # 0xff # 0xff # bs \<and> length bs = 28"
      using len by (auto simp: torn_def slot_bytes_body le16_def numeral_eq_Suc less_Suc_eq)
    then obtain a bs where bs: "torn (slot_bytes s) n = a # 0xff # 0xff # 0xff # bs" "length bs = 28"
      by blast
    then show ?thesis using slot_option_of_bytes [OF bs(2), of env] magic_not_erased by simp
  next
    case 2
    then have "\<exists>a b c. torn (slot_bytes s) n = a # b # c # 0xff # replicate 28 0xff"
      using len by (auto simp: torn_def slot_bytes_body le16_def numeral_eq_Suc)
    then obtain a b c where bs: "torn (slot_bytes s) n = a # b # c # 0xff # replicate 28 0xff"
      by blast
    have "join16 c 0xff \<noteq> fe_crc16 env 0xffff (replicate 28 0xff)"
      using sees 2 by (intro crc_not_erased) (auto simp: crc_sees_tear_def)
    then show ?thesis
      unfolding bs using slot_option_of_bytes [of "replicate 28 0xff" env a b c "0xff"] by simp
  next
    case 3
    then have "torn (slot_bytes s) n = le16 (slot_magic s) @ le16 (slot_crc_field s) @ torn (slot_body s) (n - 4)"
      using len by (simp add: torn_def slot_bytes_body)
    then have bs: "torn (slot_bytes s) n = ucast (slot_magic s) # ucast (drop_bit 8 (slot_magic s)) #
        ucast (slot_crc_field s) # ucast (drop_bit 8 (slot_crc_field s)) # torn (slot_body s) (n - 4)"
      and differs: "torn (slot_body s) (n - 4) \<noteq> slot_body s"
      using tear by (auto simp: le16_def slot_bytes_body)
    have "length (torn (slot_body s) (n - 4)) = 28" using len n by (simp add: torn_def)
    from slot_option_of_bytes [OF this, of env] sees differs 3 show ?thesis
      unfolding bs by (auto simp: crc_sees_tear_def crc)
  qed
qed

text \<open>The ring and its entries depend on the cells only.\<close>

lemma ring_cells_cong:
  assumes "cells f' = cells f" and "medium_ok f'"
  shows "ring_inv env cells medium_ok log f \<Longrightarrow> ring_inv env cells medium_ok log f'"
    and "ring_entries env cells log f' = ring_entries env cells log f"
  using assms
  by (auto simp: ring_inv_def ring_core_def head_clear_def ring_entries_def ring_slots_def
      valid_at_def slot_cells_def Let_def)

context flash_partition
begin

text \<open>Making room keeps the ring invariant when there is more than one sector.\<close>

lemma make_room_ring:
  assumes inv: "ring_inv env cells medium_ok log f" and room: "make_room env log f = (0, log1, f1)"
    and sectors: "fl_slots_per_sector log < fl_total_slots log"
  shows "ring_inv env cells medium_ok log1 f1" and "head_clear cells log1 f1"
    and "fl_used_slots log1 < fl_total_slots log1"
    and "same_geometry log log1" and "fl_head_slot log1 = fl_head_slot log"
    and "fl_next_seq log1 = fl_next_seq log"
    and "ring_entries env cells log1 f1 =
      (if fl_used_slots log = fl_total_slots log
       then drop (unat (fl_slots_per_sector log)) (ring_entries env cells log f)
       else ring_entries env cells log f)"
proof -
  have core: "ring_core env cells medium_ok log1 f1" and clear: "head_clear cells log1 f1"
    and less: "fl_used_slots log1 < fl_total_slots log1"
    and log1: "log1 = log\<lparr>fl_used_slots := fl_used_slots log1, fl_tail_slot := fl_tail_slot log1\<rparr>"
    and entries: "ring_entries env cells log1 f1 =
      (if fl_used_slots log = fl_total_slots log
       then drop (unat (fl_slots_per_sector log)) (ring_entries env cells log f)
       else ring_entries env cells log f)"
    using make_room_correct [OF inv] unfolding room by auto
  have same: "same_geometry log log1" "fl_head_slot log1 = fl_head_slot log"
    "fl_next_seq log1 = fl_next_seq log"
    unfolding same_geometry_def by (subst log1, simp)+
  have "fl_next_seq log1 = 1 \<and> fl_tail_slot log1 = 0" if "fl_used_slots log1 = 0"
  proof -
    have "unat (fl_used_slots log1) = length (ring_entries env cells log1 f1)"
      by (simp add: length_ring_entries)
    then have "fl_used_slots log \<noteq> fl_total_slots log" "ring_entries env cells log f = []"
      using that entries sectors length_ring_entries [of log f]
      by (auto simp: word_less_nat_alt split: if_splits)
    then have "fl_used_slots log = 0" using length_ring_entries [of log f] by (simp add: unat_eq_zero)
    moreover from this have "fl_next_seq log = 1" "fl_tail_slot log = 0"
      using inv by (simp_all add: ring_inv_def)
    moreover from calculation have "unat (fl_head_slot log1) = 0"
      using ring_core_arith(7) [of log f] inv same(2) by (simp add: ring_inv_def)
    moreover have "unat (fl_head_slot log1) = unat (fl_tail_slot log1)"
      using ring_core_arith(5,7) [OF core] that by simp
    ultimately show ?thesis using same(3) by (simp add: unat_eq_zero)
  qed
  then show "ring_inv env cells medium_ok log1 f1" using core clear by (simp add: ring_inv_def)
  show "head_clear cells log1 f1" "fl_used_slots log1 < fl_total_slots log1" "same_geometry log log1"
    "fl_head_slot log1 = fl_head_slot log" "fl_next_seq log1 = fl_next_seq log"
    "ring_entries env cells log1 f1 =
      (if fl_used_slots log = fl_total_slots log
       then drop (unat (fl_slots_per_sector log)) (ring_entries env cells log f)
       else ring_entries env cells log f)"
    by fact+
qed

text \<open>Where the head slot is, and that it is erased and holds no record.\<close>

lemma head_slot_clear:
  assumes "ring_inv env cells medium_ok log f" and "head_clear cells log f"
    and "fl_used_slots log < fl_total_slots log"
  shows "unat (fl_head_slot log) = ring_pos log (unat (fl_used_slots log))"
    and "32 * unat (fl_head_slot log) + 32 \<le> length (cells f)"
    and "slot_cells cells f (unat (fl_head_slot log)) = erased_slot"
    and "unat (fl_head_slot log * FLASH_LOG_SLOT_SIZE) = 32 * unat (fl_head_slot log)"
proof -
  have "ring_core env cells medium_ok log f" using assms(1) by (simp add: ring_inv_def)
  note S = ring_core_arith [OF this]
  have u: "unat (fl_used_slots log) < unat (fl_total_slots log)"
    using assms(3) by (simp add: word_less_nat_alt)
  show head: "unat (fl_head_slot log) = ring_pos log (unat (fl_used_slots log))"
    using S(7) by (simp add: ring_pos_def)
  then show le: "32 * unat (fl_head_slot log) + 32 \<le> length (cells f)"
    using S(2,8) ring_pos_less [of log "unat (fl_used_slots log)"] by linarith
  show "slot_cells cells f (unat (fl_head_slot log)) = erased_slot"
    using assms(2) u head by (simp add: head_clear_def Let_def)
  show "unat (fl_head_slot log * FLASH_LOG_SLOT_SIZE) = 32 * unat (fl_head_slot log)"
    by (rule unat_slot_offset [OF le S(9)])
qed

text \<open>A head slot overwritten by bytes that are no record changes nothing that is read.\<close>

lemma head_overwritten:
  assumes inv: "ring_inv env cells medium_ok log f" and clear: "head_clear cells log f"
    and room: "fl_used_slots log < fl_total_slots log"
    and f': "medium_ok f'" "length bs = 32" "cells f' = take (32 * unat (fl_head_slot log)) (cells f) @ bs
      @ drop (32 * unat (fl_head_slot log) + 32) (cells f)"
    and bs: "slot_option env bs = None"
  shows "same_records env log f f'" and "ring_entries env cells log f' = ring_entries env cells log f"
proof -
  have core: "ring_core env cells medium_ok log f" using inv by (simp add: ring_inv_def)
  note S = ring_core_arith [OF core] and head = head_slot_clear [OF inv clear room]
  have len: "length (cells f') = length (cells f)" using f'(2,3) head(2) by simp
  have valid: "valid_at env cells f' q = valid_at env cells f q" if "q < unat (fl_total_slots log)" for q
  proof -
    have q: "32 * q + 32 \<le> length (cells f)" using that S(8) by linarith
    have "slot_cells cells f' q = (if q = unat (fl_head_slot log) then bs else slot_cells cells f q)"
      using slot_cells_patch [of bs 1 "unat (fl_head_slot log)" cells f f' q] f'(2,3) head(2) q by auto
    then show ?thesis using bs head(3) by (simp add: valid_at_def)
  qed
  show "same_records env log f f'"
  proof (intro allI impI)
    fix i assume "i < fl_total_slots log"
    then have "unat i < unat (fl_total_slots log)" by (simp add: word_less_nat_alt)
    moreover from this have "32 * unat i + 32 \<le> length (cells f)" using S(8) by linarith
    ultimately show "read_valid env f' i = read_valid env f i"
      using read_valid_eq [of f i] read_valid_eq [of f' i] S(9,11) f'(1) len valid by simp
  qed
  show "ring_entries env cells log f' = ring_entries env cells log f"
    using S(2) by (simp add: ring_entries_def ring_slots_def valid)
qed

text \<open>A slot stored in full is the record appended.\<close>

lemma head_written:
  assumes inv: "ring_inv env cells medium_ok log f" and clear: "head_clear cells log f"
    and room: "fl_used_slots log < fl_total_slots log"
    and seq: "unat (fl_next_seq log) + 1 < 2 ^ 32" and rec: "length rec = unat (fl_payload_size log)"
    and f': "medium_ok f'" "cells f' = take (32 * unat (fl_head_slot log)) (cells f)
      @ slot_bytes (new_slot env log rec) @ drop (32 * unat (fl_head_slot log) + 32) (cells f)"
  shows "\<exists>log'. ring_inv env cells medium_ok log' f' \<and> same_geometry log log' \<and>
    ring_entries env cells log' f' = ring_entries env cells log f @ [(fl_next_seq log, rec)]"
proof -
  have core: "ring_core env cells medium_ok log f" using inv by (simp add: ring_inv_def)
  let ?bs = "slot_bytes (new_slot env log rec)"
  define log' where log': "log' = log\<lparr>fl_tail_slot := (if fl_used_slots log = 0 then fl_head_slot log
                                            else fl_tail_slot log),
                fl_next_seq := fl_next_seq log + 1, fl_used_slots := fl_used_slots log + 1,
                fl_head_slot := (fl_head_slot log + 1) mod fl_total_slots log\<rparr>"
  note head = head_slot_clear [OF inv clear room]
  have len: "length ?bs = 32" using core rec by (simp add: ring_core_def ring_geometry_def Let_def)
  obtain f2 where f2: "fe_write env f (fl_head_slot log * FLASH_LOG_SLOT_SIZE) ?bs = (0, f2)"
    "ring_inv env cells medium_ok log' f2"
    "ring_entries env cells log' f2 = ring_entries env cells log f @ [(fl_next_seq log, rec)]"
    using write_head_correct [OF core clear room seq rec log'] by blast
  obtain f3 where "fe_write env f (fl_head_slot log * FLASH_LOG_SLOT_SIZE) ?bs = (0, f3)"
    "cells f3 = take (32 * unat (fl_head_slot log)) (cells f) @ ?bs
      @ drop (32 * unat (fl_head_slot log) + 32) (cells f)"
    using write_to_erased [of f "fl_head_slot log * FLASH_LOG_SLOT_SIZE" ?bs] head len
      ring_core_arith(11) [OF core]
    by (auto simp: slot_cells_def erased_slot_def)
  then have "cells f' = cells f2" using f2(1) f'(2) by simp
  moreover have "same_geometry log log'" by (simp add: log' same_geometry_def)
  ultimately show ?thesis
    using ring_cells_cong [of cells f' f2 medium_ok] f'(1) f2(2,3) by metis
qed

end

subsection \<open>The write is all or nothing\<close>

text \<open>
  C8: a record write is all or nothing. Let power fail after any number of the 32 bytes of a
  slot, with the room for it made, and let the checksum tell the bytes stored from the whole
  record. Then the next boot succeeds and finds the entries the log had, less the oldest sector
  if the ring was full, and the new record only if its bytes are all there; and that is what it
  reads, from any sequence number.
\<close>

theorem torn_write_all_or_nothing:
  assumes part: "flash_partition env cells medium_ok"
    and init: "flash_log_init env f0 log0 = (0, log2)" "same_geometry log2 log"
    and inv: "ring_inv env cells medium_ok log f"
    and sectors: "fl_slots_per_sector log < fl_total_slots log"
    and seq: "unat (fl_next_seq log) + 1 < 2 ^ 32" and rec: "length rec = unat (fl_payload_size log)"
    and room: "make_room env log f = (0, log1, f1)"
    and f': "medium_ok f'" "n < 32"
      "cells f' = take (32 * unat (fl_head_slot log)) (cells f1)
        @ torn (slot_bytes (new_slot env log1 rec)) n
        @ drop (32 * unat (fl_head_slot log) + 32) (cells f1)"
    and sees: "crc_sees_tear env (new_slot env log1 rec) n"
  shows "\<exists>log'. flash_log_init env f' log0 = (0, log') \<and>
    (let es = (if fl_used_slots log = fl_total_slots log
               then drop (unat (fl_slots_per_sector log)) (ring_entries env cells log f)
               else ring_entries env cells log f);
         es' = (if torn (slot_bytes (new_slot env log1 rec)) n = slot_bytes (new_slot env log1 rec)
                then es @ [(fl_next_seq log, rec)] else es)
     in ring_entries env cells log' f' = es' \<and>
        (\<forall>start_seq max_n. flash_log_read env log' f' start_seq max_n =
           (let out = spec_read es' start_seq max_n in (int (length out), out))))"
proof -
  note room1 = flash_partition.make_room_ring [OF part inv room sectors]
  let ?s = "new_slot env log1 rec"
  have geo: "same_geometry log2 log1" using init(2) room1(4) by (simp add: same_geometry_def)
  have rec1: "length rec = unat (fl_payload_size log1)" using rec room1(4) by (simp add: same_geometry_def)
  have "unat (fl_payload_size log1) \<le> MAX_PAYLOAD"
    using room1(1) by (simp add: ring_inv_def ring_core_def ring_geometry_def Let_def)
  note slot = new_slot_facts [OF rec1 this, of env]
  have len: "length (torn (slot_bytes ?s) n) = 32" using slot(1) f'(2) by (simp add: torn_def)
  show ?thesis
  proof (cases "torn (slot_bytes ?s) n = slot_bytes ?s")
    case True
    obtain log' where log': "ring_inv env cells medium_ok log' f'" "same_geometry log1 log'"
      "ring_entries env cells log' f' = ring_entries env cells log1 f1 @ [(fl_next_seq log1, rec)]"
      using flash_partition.head_written [OF part room1(1-3) _ rec1 f'(1)] seq f'(3) True room1(5,6) by auto
    have "same_geometry log2 log'" using geo log'(2) by (simp add: same_geometry_def)
    then show ?thesis
      using flash_partition.flash_log_init_reboot [OF part init(1) _ log'(1)] log'(3) True
        flash_partition.flash_log_read_correct [OF part log'(1)] room1(6,7) by auto
  next
    case False
    have none: "slot_option env (torn (slot_bytes ?s) n) = None"
      by (rule torn_slot_invalid [OF slot(1) f'(2) sees slot(3) False])
    note same = flash_partition.head_overwritten [OF part room1(1-3) f'(1) len _ none]
    have "fl_tail_slot log1 < fl_total_slots log1"
      using room1(1) by (simp add: ring_inv_def ring_core_def Let_def word_less_nat_alt)
    then show ?thesis
      using flash_partition.flash_log_init_reboot [OF part init(1) geo room1(1)]
        flash_log_init_cong [OF init(1) geo same(1)] flash_log_read_cong [OF same(1)]
        flash_partition.flash_log_read_correct [OF part room1(1)] same(2) room1(5,7) f'(3) False by auto
  qed
qed

text \<open>
  The checksum of \<open>crc16.c\<close> sees every tear in the first four bytes. In the witness the first
  record is stored up to its sixth byte.
\<close>

lemma mock_head_tail [simp]: "fl_head_slot mock_log = 0" "fl_tail_slot mock_log = 0"
  using mock_log_ring(1) by (simp_all add: ring_inv_def ring_core_def word_unat_eq_iff Let_def)

lemma mock_make_room: "make_room mock_env mock_log flash_mock_reset = (0, mock_log, flash_mock_reset)"
proof -
  have inv: "ring_core mock_env (\<lambda>mem. mem) mock_medium_ok mock_log flash_mock_reset"
    using mock_log_ring(1) by (simp add: ring_inv_def)
  have "unat (count_lost mock_env flash_mock_reset mock_log) = 0"
    using mock.count_lost_eq [OF inv] by simp
  moreover have "fl_sector_size mock_log = 64"
    by (simp add: mock_log_def flash_log_init_def mock_log_static_def mock_env_def c_const)
  moreover have "mock_flash_area_erase flash_mock_reset 0 64 = (0, flash_mock_reset)"
    by (simp add: mock_flash_area_erase_def mock_out_of_range_def flash_mock_reset_def c_const
        flip: replicate_add)
  ultimately show ?thesis
    by (simp add: make_room_def unat_eq_zero) (simp add: mock_env_def)
qed

lemma crc16_byte_steps:
  "crc16_byte crc b = crc16_bit (crc16_bit (crc16_bit (crc16_bit (crc16_bit (crc16_bit (crc16_bit
     (crc16_bit (crc XOR push_bit 8 (ucast b)))))))))"
  by (simp add: crc16_byte_def numeral_eq_Suc)

lemma crc16_sees_early_tear: "n < 4 \<Longrightarrow> crc_sees_tear mock_env s n"
proof -
  have "replicate 28 (0xff :: u8) = [0xff, 0xff, 0xff, 0xff, 0xff, 0xff, 0xff, 0xff, 0xff, 0xff, 0xff, 0xff, 0xff, 0xff, 0xff, 0xff, 0xff, 0xff, 0xff, 0xff, 0xff, 0xff, 0xff, 0xff, 0xff, 0xff, 0xff, 0xff]"
    by code_simp
  then have "drop_bit 8 (crc16_ccitt 0xffff (replicate 28 0xff)) \<noteq> 0xff"
    by (simp add: crc16_ccitt_def crc16_byte_steps crc16_bit_def)
  then show "n < 4 \<Longrightarrow> crc_sees_tear mock_env s n"
    by (simp only: crc_sees_tear_def mock_env_def flash_env.simps) simp
qed

theorem torn_write_all_or_nothing_witness:
  "\<exists>log'. flash_log_init mock_env
      (torn (slot_bytes (new_slot mock_env mock_log [1, 2, 3, 4, 5, 6, 7, 8])) 14 @ replicate 224 0xff)
      mock_log_static = (0, log') \<and>
    flash_log_read mock_env log'
      (torn (slot_bytes (new_slot mock_env mock_log [1, 2, 3, 4, 5, 6, 7, 8])) 14 @ replicate 224 0xff) 0 5
      = (0, [])"
proof -
  let ?rec = "[1, 2, 3, 4, 5, 6, 7, 8] :: u8 list"
  let ?s = "new_slot mock_env mock_log ?rec"
  let ?f = "torn (slot_bytes ?s) 14 @ replicate 224 0xff"
  have body: "slot_body ?s = [1, 0, 0, 0, 1, 2, 3, 4, 5, 6, 7, 8] @ replicate 16 0"
    by (simp add: new_slot_def slot_body_def le32_def Let_def MAX_PAYLOAD_def drop_bit_eq_div)
  have lists: "[1, 0, 0, 0, 1, 2, 3, 4, 5, 6, 7, 8] @ replicate 16 0 =
      ([1, 0, 0, 0, 1, 2, 3, 4, 5, 6, 7, 8, 0, 0, 0, 0, 0, 0, 0, 0, 0, 0, 0, 0, 0, 0, 0, 0] :: u8 list)"
    "torn [1, 0, 0, 0, 1, 2, 3, 4, 5, 6, 7, 8, 0, 0, 0, 0, 0, 0, 0, 0, 0, 0, 0, 0, 0, 0, 0, 0] 10 =
      [1, 0, 0, 0, 1, 2, 3, 4, 5, 6, 0xff, 0xff, 0xff, 0xff, 0xff, 0xff, 0xff, 0xff, 0xff, 0xff, 0xff, 0xff, 0xff, 0xff, 0xff, 0xff, 0xff, 0xff]"
    by code_simp+
  have "crc16_ccitt 0xffff (torn [1, 0, 0, 0, 1, 2, 3, 4, 5, 6, 7, 8, 0, 0, 0, 0, 0, 0, 0, 0, 0, 0, 0, 0, 0, 0, 0, 0] 10)
      \<noteq> crc16_ccitt 0xffff [1, 0, 0, 0, 1, 2, 3, 4, 5, 6, 7, 8, 0, 0, 0, 0, 0, 0, 0, 0, 0, 0, 0, 0, 0, 0, 0, 0]"
    unfolding lists by (simp add: crc16_ccitt_def crc16_byte_steps crc16_bit_def)
  then have sees: "crc_sees_tear mock_env ?s 14"
    unfolding crc_sees_tear_def body lists(1) by (simp only: mock_env_def flash_env.simps) simp
  have len: "length (slot_bytes ?s) = 32" by (simp add: new_slot_def Let_def MAX_PAYLOAD_def)
  have "torn (slot_bytes ?s) 14 ! 14 = 0xff" using len by (simp add: torn_def nth_append)
  moreover have "slot_bytes ?s ! 14 = 7" by (simp add: slot_bytes_body body nth_append)
  ultimately have part: "torn (slot_bytes ?s) 14 \<noteq> slot_bytes ?s" by auto
  define f where "f = ?f"
  have f: "mock_medium_ok f" "f = take (32 * unat (fl_head_slot mock_log)) flash_mock_reset
      @ torn (slot_bytes ?s) 14 @ drop (32 * unat (fl_head_slot mock_log) + 32) flash_mock_reset"
    unfolding f_def using len by (simp_all add: mock_medium_ok_def torn_def flash_mock_reset_def c_const)
  have "same_geometry mock_log mock_log" "fl_slots_per_sector mock_log < fl_total_slots mock_log"
    "unat (fl_next_seq mock_log) + 1 < 2 ^ 32" "length ?rec = unat (fl_payload_size mock_log)" "(14 :: nat) < 32"
    by (simp_all add: same_geometry_def)
  from torn_write_all_or_nothing [OF mock.flash_partition_axioms mock_log_init this(1) mock_log_ring(1) this(2-4)
      mock_make_room f(1) this(5) f(2) sees]
  show ?thesis
    unfolding f_def [symmetric] by (auto simp: Let_def mock_log_ring(2) part spec_read_def)
qed

end
