(* ===== verification/Motion_Classifier.thy ===== *)
theory Motion_Classifier
  imports Smart_Tag
begin

section \<open>Motion classifier\<close>

text \<open>
  \<open>src/motion/motion_classifier.c\<close>: pure decisions on one acceleration sample. The C code
  widens every operand to \<open>int32_t\<close> first, where none of these expressions can overflow, so
  they are integers here.
\<close>

definition ORIENTATION_MIN_MG :: int where [c_const]: "ORIENTATION_MIN_MG = SMART_TAG_ONE_G_MG div 2"

definition motion_classifier_deviation :: "sensor_data \<Rightarrow> int" where
  "motion_classifier_deviation d = uint (sd_magnitude_mg d) - SMART_TAG_ONE_G_MG"

definition motion_classifier_is_active :: "sensor_data \<Rightarrow> u16 \<Rightarrow> bool" where
  "motion_classifier_is_active d threshold_mg \<longleftrightarrow>
     \<bar>motion_classifier_deviation d\<bar> > uint threshold_mg"

definition motion_classifier_orientation :: "sensor_data \<Rightarrow> orientation" where
  "motion_classifier_orientation d =
     (let ax = \<bar>sint (sd_accel_x_mg d)\<bar>; ay = \<bar>sint (sd_accel_y_mg d)\<bar>;
          az = \<bar>sint (sd_accel_z_mg d)\<bar> in
      if az \<ge> ax \<and> az \<ge> ay \<and> az > ORIENTATION_MIN_MG
      then (if sint (sd_accel_z_mg d) > 0 then ORIENTATION_Z_UP else ORIENTATION_Z_DOWN)
      else if ay \<ge> ax \<and> ay \<ge> az \<and> ay > ORIENTATION_MIN_MG
      then (if sint (sd_accel_y_mg d) > 0 then ORIENTATION_Y_UP else ORIENTATION_Y_DOWN)
      else if ax > ORIENTATION_MIN_MG
      then (if sint (sd_accel_x_mg d) > 0 then ORIENTATION_X_UP else ORIENTATION_X_DOWN)
      else ORIENTATION_UNKNOWN)"

text \<open>The signed reading along the axis and direction an orientation names.\<close>

fun orientation_reading :: "sensor_data \<Rightarrow> orientation \<Rightarrow> int" where
  "orientation_reading d ORIENTATION_UNKNOWN = 0"
| "orientation_reading d ORIENTATION_X_UP = sint (sd_accel_x_mg d)"
| "orientation_reading d ORIENTATION_X_DOWN = - sint (sd_accel_x_mg d)"
| "orientation_reading d ORIENTATION_Y_UP = sint (sd_accel_y_mg d)"
| "orientation_reading d ORIENTATION_Y_DOWN = - sint (sd_accel_y_mg d)"
| "orientation_reading d ORIENTATION_Z_UP = sint (sd_accel_z_mg d)"
| "orientation_reading d ORIENTATION_Z_DOWN = - sint (sd_accel_z_mg d)"

text \<open>The largest reading of a sample, and the direction the code picks.\<close>

definition dominant_reading :: "sensor_data \<Rightarrow> int" where
  "dominant_reading d =
     max \<bar>sint (sd_accel_x_mg d)\<bar> (max \<bar>sint (sd_accel_y_mg d)\<bar> \<bar>sint (sd_accel_z_mg d)\<bar>)"

lemma orientation_reading_le: "orientation_reading d o2 \<le> dominant_reading d"
  by (cases o2) (auto simp: dominant_reading_def)

lemma orientation_reading_picked:
  assumes "500 < dominant_reading d"
  shows "motion_classifier_orientation d \<noteq> ORIENTATION_UNKNOWN \<and>
    orientation_reading d (motion_classifier_orientation d) = dominant_reading d"
  using assms unfolding motion_classifier_orientation_def dominant_reading_def Let_def
  by (auto simp: c_const split: if_split)

lemma orientation_unknown:
  "dominant_reading d \<le> 500 \<Longrightarrow> motion_classifier_orientation d = ORIENTATION_UNKNOWN"
  by (simp add: motion_classifier_orientation_def dominant_reading_def Let_def c_const)

text \<open>
  The orientation of a sample is unknown exactly when no direction reads more than half a
  g, and otherwise it is a direction whose reading is the largest of all and above half a g.
\<close>

lemma orientation_is_dominant_axis:
  "let o1 = motion_classifier_orientation d in
     (o1 = ORIENTATION_UNKNOWN) = (\<forall>o2. orientation_reading d o2 \<le> 500) \<and>
     (o1 = ORIENTATION_UNKNOWN \<or> 500 < orientation_reading d o1) \<and>
     (\<forall>o2. orientation_reading d o2 \<le> max 500 (orientation_reading d o1))"
proof (cases "500 < dominant_reading d")
  case True
  then show ?thesis
    using orientation_reading_picked [OF True] orientation_reading_le [of d]
    by (auto simp: Let_def max_def not_le intro: exI [of _ "motion_classifier_orientation d"])
next
  case False
  then have "orientation_reading d o2 \<le> 500" for o2
    using orientation_reading_le [of d o2] by linarith
  then show ?thesis using orientation_unknown False by (auto simp: Let_def max_def)
qed

end
