(* ===== verification/Shock_Detector.thy ===== *)
theory Shock_Detector
  imports Motion_Classifier
begin

section \<open>Shock detector\<close>

text \<open>
  \<open>src/motion/shock_detector.c\<close>: its static variables are the record \<open>shock_detector\<close>, and
  \<open>shock_detector_process\<close> returns the result it fills in with the new state.
\<close>

record shock_detector =
  sh_shock_latched :: bool
  sh_free_fall_latched :: bool
  sh_peak_mg :: u16

record shock_result =
  shr_shock :: bool
  shr_free_fall :: bool
  shr_peak_mg :: u16

definition REARM_DEVIATION_MG :: u32 where [c_const]: "REARM_DEVIATION_MG = 300"

definition shock_detector_init :: shock_detector where
  "shock_detector_init =
     \<lparr> sh_shock_latched = False, sh_free_fall_latched = False, sh_peak_mg = 0 \<rparr>"

text \<open>\<open>(uint32_t)abs(deviation)\<close>.\<close>

definition excursion :: "sensor_data \<Rightarrow> u32" where
  "excursion d = word_of_int \<bar>motion_classifier_deviation d\<bar>"

definition detect_free_fall :: "u32 \<Rightarrow> u16 \<Rightarrow> shock_detector \<Rightarrow> bool \<times> shock_detector" where
  "detect_free_fall magnitude free_fall_threshold_mg s =
     (if magnitude < ucast free_fall_threshold_mg then
        (\<not> sh_free_fall_latched s, s\<lparr>sh_free_fall_latched := True\<rparr>)
      else if magnitude > ucast free_fall_threshold_mg + REARM_DEVIATION_MG then
        (False, s\<lparr>sh_free_fall_latched := False\<rparr>)
      else (False, s))"

text \<open>The peak in the result starts at 0 (\<open>memset\<close>), so the second branch compares with 0.\<close>

definition detect_shock :: "u32 \<Rightarrow> u16 \<Rightarrow> shock_detector \<Rightarrow> (bool \<times> u16) \<times> shock_detector" where
  "detect_shock exc shock_threshold_mg s =
     (if exc > ucast shock_threshold_mg then
        let this_peak = ucast (min exc UINT16_MAX);
            s = (if this_peak > sh_peak_mg s then s\<lparr>sh_peak_mg := this_peak\<rparr> else s)
        in if \<not> sh_shock_latched s then ((True, this_peak), s\<lparr>sh_shock_latched := True\<rparr>)
           else if this_peak > 0 then ((False, this_peak), s)
           else ((False, 0), s)
      else if exc < REARM_DEVIATION_MG then ((False, 0), s\<lparr>sh_shock_latched := False\<rparr>)
      else ((False, 0), s))"

definition shock_detector_process ::
  "sensor_data \<Rightarrow> u16 \<Rightarrow> u16 \<Rightarrow> shock_detector \<Rightarrow> shock_result \<times> shock_detector" where
  "shock_detector_process d shock_threshold_mg free_fall_threshold_mg s =
     (case detect_free_fall (ucast (sd_magnitude_mg d)) free_fall_threshold_mg s of (ff, s) \<Rightarrow>
      case detect_shock (excursion d) shock_threshold_mg s of ((shock, peak), s) \<Rightarrow>
        (\<lparr> shr_shock = shock, shr_free_fall = ff, shr_peak_mg = peak \<rparr>, s))"

definition shock_detector_peak :: "shock_detector \<Rightarrow> u16" where
  "shock_detector_peak s = sh_peak_mg s"

definition shock_detector_reset_peak :: "shock_detector \<Rightarrow> shock_detector" where
  "shock_detector_reset_peak s = s\<lparr>sh_peak_mg := 0\<rparr>"

subsection \<open>One report per impact\<close>

lemma uint_excursion: "uint (excursion d) = \<bar>uint (sd_magnitude_mg d) - 1000\<bar>"
proof -
  have "\<bar>uint (sd_magnitude_mg d) - 1000\<bar> < 4294967296"
    using uint16_range [of "sd_magnitude_mg d"] by linarith
  then show ?thesis by (simp add: excursion_def motion_classifier_deviation_def c_const)
qed

text \<open>The results of a run of samples, oldest first.\<close>

fun shock_run :: "u16 \<Rightarrow> u16 \<Rightarrow> sensor_data list \<Rightarrow> shock_detector \<Rightarrow> shock_result list \<times> shock_detector" where
  "shock_run st ft [] s = ([], s)"
| "shock_run st ft (d # ds) s =
     (case shock_detector_process d st ft s of (r, s) \<Rightarrow>
      case shock_run st ft ds s of (rs, s) \<Rightarrow> (r # rs, s))"

lemma process_shock [simp]:
  "shr_shock (fst (shock_detector_process d st ft s))
     \<longleftrightarrow> excursion d > ucast st \<and> \<not> sh_shock_latched s"
  "sh_shock_latched (snd (shock_detector_process d st ft s))
     \<longleftrightarrow> (if excursion d > ucast st then True
         else if excursion d < 300 then False else sh_shock_latched s)"
  "shr_free_fall (fst (shock_detector_process d st ft s))
     \<longleftrightarrow> ucast (sd_magnitude_mg d) < (ucast ft :: u32) \<and> \<not> sh_free_fall_latched s"
  "sh_free_fall_latched (snd (shock_detector_process d st ft s))
     \<longleftrightarrow> (if ucast (sd_magnitude_mg d) < (ucast ft :: u32) then True
         else if ucast (sd_magnitude_mg d) > (ucast ft + 300 :: u32) then False
         else sh_free_fall_latched s)"
  by (auto simp: shock_detector_process_def detect_shock_def detect_free_fall_def Let_def
      REARM_DEVIATION_MG_def split: prod.splits if_splits)

lemma peak_of_shock:
  assumes "shr_shock (fst (shock_detector_process d st ft s))"
  shows "uint (shr_peak_mg (fst (shock_detector_process d st ft s))) = uint (excursion d)"
proof -
  have "uint (excursion d) < 65536"
    using uint16_range [of "sd_magnitude_mg d"] uint_excursion [of d] by linarith
  moreover from this have "min (excursion d) UINT16_MAX = excursion d"
    by (simp add: min_def word_le_def UINT16_MAX_def)
  moreover have "shr_peak_mg (fst (shock_detector_process d st ft s)) = ucast (min (excursion d) UINT16_MAX)"
    using assms
    by (auto simp: shock_detector_process_def detect_shock_def detect_free_fall_def Let_def
        split: prod.splits if_splits)
  ultimately show ?thesis by (simp add: unsigned_ucast_eq take_bit_int_eq_self)
qed

lemma latched_run_silent:
  assumes "sh_shock_latched s" "\<forall>d \<in> set ds. 300 \<le> excursion d"
  shows "filter shr_shock (fst (shock_run st ft ds s)) = []"
  using assms
proof (induction ds arbitrary: s)
  case (Cons d ds)
  let ?p = "shock_detector_process d st ft s"
  have "sh_shock_latched (snd ?p)" "\<not> shr_shock (fst ?p)" using Cons.prems by (auto simp: not_less)
  with Cons show ?case by (simp add: case_prod_beta del: process_shock)
qed simp

lemma quiet_run_one_shock:
  assumes "\<forall>d \<in> set ds. 300 \<le> excursion d"
  shows "length (filter shr_shock (fst (shock_run st ft ds s))) \<le> 1"
  using assms
proof (induction ds arbitrary: s)
  case (Cons d ds)
  let ?p = "shock_detector_process d st ft s"
  show ?case
  proof (cases "shr_shock (fst ?p)")
    case True
    then have "sh_shock_latched (snd ?p)" by simp
    then have "filter shr_shock (fst (shock_run st ft ds (snd ?p))) = []"
      using Cons.prems by (intro latched_run_silent) auto
    with True show ?thesis by (simp add: case_prod_beta del: process_shock)
  next
    case False
    with Cons.IH [of "snd ?p"] Cons.prems show ?thesis
      by (simp add: case_prod_beta del: process_shock)
  qed
qed simp

text \<open>
  C30: an impact that spans several samples is reported once. Over any run of samples none of
  which is calm (excursion below 300 mg), whatever the thresholds and the state before, at
  most one sample reports a shock.
\<close>

theorem one_shock_per_impact:
  assumes "\<forall>d \<in> set ds. 300 \<le> excursion d"
  shows "length (filter shr_shock (fst (shock_run st ft ds s))) \<le> 1"
  using assms by (rule quiet_run_one_shock)

definition sample_of_magnitude :: "u16 \<Rightarrow> sensor_data" where
  "sample_of_magnitude m =
     sensor_data_zero\<lparr>sd_magnitude_mg := m, sd_valid := SENSOR_VALID_ACCEL\<rparr>"

lemma excursion_of_magnitude:
  "uint (excursion (sample_of_magnitude m)) = \<bar>uint m - 1000\<bar>"
  by (simp add: uint_excursion sample_of_magnitude_def)

theorem one_shock_per_impact_witness:
  "length (filter shr_shock (fst (shock_run 4000 300
     (map sample_of_magnitude [6000, 7500, 5200]) shock_detector_init))) \<le> 1"
  by (rule one_shock_per_impact) (simp add: word_le_def excursion_of_magnitude)

end
