(* ===== verification/Motion_Manager.thy ===== *)
theory Motion_Manager
  imports Shock_Detector
begin

section \<open>Motion manager\<close>

text \<open>
  \<open>src/motion/motion_manager.c\<close>: the STATIONARY / MOVING state machine with its quiet-time
  hysteresis, orientation tracking and the tamper heuristic. Its static variables, and those of
  the shock detector it owns, are the record \<open>motion_manager\<close>.
\<close>

definition TAMPER_SETTLED_S :: u32 where [c_const]: "TAMPER_SETTLED_S = 300"

definition MOTION_EVENT_START :: u32 where [flag_defs]: "MOTION_EVENT_START = BIT 0"
definition MOTION_EVENT_STOP :: u32 where [flag_defs]: "MOTION_EVENT_STOP = BIT 1"
definition MOTION_EVENT_SHOCK :: u32 where [flag_defs]: "MOTION_EVENT_SHOCK = BIT 2"
definition MOTION_EVENT_FREE_FALL :: u32 where [flag_defs]: "MOTION_EVENT_FREE_FALL = BIT 3"
definition MOTION_EVENT_ORIENTATION :: u32 where [flag_defs]: "MOTION_EVENT_ORIENTATION = BIT 4"
definition MOTION_EVENT_TAMPER :: u32 where [flag_defs]: "MOTION_EVENT_TAMPER = BIT 5"

record motion_result =
  mr_events :: u32
  mr_shock_mg :: u16
  mr_orientation :: u8
  mr_motion_state :: u8
  mr_movement_duration_s :: u32

record motion_manager =
  mm_config :: tag_config
  mm_state :: motion_state
  mm_orientation :: orientation
  mm_tamper :: bool
  mm_last_active_time :: u32
  mm_motion_started_time :: u32
  mm_stationary_since :: u32
  mm_total_movement_s :: u32
  mm_shock :: shock_detector

definition motion_manager_init :: "tag_config \<Rightarrow> motion_manager" where
  "motion_manager_init cfg = \<lparr> mm_config = cfg, mm_state = MOTION_STATE_STATIONARY,
     mm_orientation = ORIENTATION_UNKNOWN, mm_tamper = False, mm_last_active_time = 0,
     mm_motion_started_time = 0, mm_stationary_since = 0, mm_total_movement_s = 0,
     mm_shock = shock_detector_init \<rparr>"

definition motion_manager_update_config :: "tag_config \<Rightarrow> motion_manager \<Rightarrow> motion_manager" where
  "motion_manager_update_config cfg m = m\<lparr>mm_config := cfg\<rparr>"

text \<open>
  \<open>motion_manager_process\<close> works through three parts of the sample in turn. Each part takes the
  sample, the result and the state, and gives back the ones it changes.
\<close>

definition motion_impulses ::
  "shock_result \<Rightarrow> sensor_data \<Rightarrow> motion_result \<Rightarrow> sensor_data \<times> motion_result" where
  "motion_impulses shock d r =
     (let (d, r) = (if shr_shock shock
                    then (d\<lparr>sd_shock := True\<rparr>,
                          r\<lparr>mr_events := mr_events r OR MOTION_EVENT_SHOCK,
                            mr_shock_mg := shr_peak_mg shock\<rparr>)
                    else (d, r))
      in if shr_free_fall shock
         then (d\<lparr>sd_free_fall := True\<rparr>, r\<lparr>mr_events := mr_events r OR MOTION_EVENT_FREE_FALL\<rparr>)
         else (d, r))"

definition motion_state_step ::
  "sensor_data \<Rightarrow> motion_result \<Rightarrow> motion_manager \<Rightarrow> motion_result \<times> motion_manager" where
  "motion_state_step d r m =
     (let now = sd_timestamp d in
      if motion_classifier_is_active d (cfg_motion_threshold_mg (mm_config m)) then
        let m = m\<lparr>mm_last_active_time := now\<rparr> in
        if mm_state m = MOTION_STATE_STATIONARY
        then (r\<lparr>mr_events := mr_events r OR MOTION_EVENT_START\<rparr>,
              m\<lparr>mm_state := MOTION_STATE_MOVING, mm_motion_started_time := now\<rparr>)
        else (r, m)
      else if mm_state m = MOTION_STATE_MOVING \<and>
              now - mm_last_active_time m \<ge> ucast (cfg_motion_timeout_s (mm_config m)) then
        let duration = mm_last_active_time m - mm_motion_started_time m in
        (r\<lparr>mr_events := mr_events r OR MOTION_EVENT_STOP, mr_movement_duration_s := duration\<rparr>,
         m\<lparr>mm_state := MOTION_STATE_STATIONARY, mm_stationary_since := now,
           mm_total_movement_s := mm_total_movement_s m + duration\<rparr>)
      else (r, m))"

definition motion_orientation_step ::
  "sensor_data \<Rightarrow> bool \<Rightarrow> bool \<Rightarrow> motion_result \<Rightarrow> motion_manager \<Rightarrow> motion_result \<times> motion_manager" where
  "motion_orientation_step d was_settled shock r m =
     (let now_orientation = motion_classifier_orientation d in
      if now_orientation \<noteq> ORIENTATION_UNKNOWN \<and> now_orientation \<noteq> mm_orientation m then
        let first = (mm_orientation m = ORIENTATION_UNKNOWN);
            m = m\<lparr>mm_orientation := now_orientation\<rparr>
        in if \<not> first then
             let r = r\<lparr>mr_events := mr_events r OR MOTION_EVENT_ORIENTATION\<rparr> in
             if was_settled \<and> shock \<and> \<not> mm_tamper m
             then (r\<lparr>mr_events := mr_events r OR MOTION_EVENT_TAMPER\<rparr>, m\<lparr>mm_tamper := True\<rparr>)
             else (r, m)
           else (r, m)
      else (r, m))"

definition motion_manager_process ::
  "sensor_data \<Rightarrow> motion_manager \<Rightarrow> sensor_data \<times> motion_result \<times> motion_manager" where
  "motion_manager_process d m =
     (let r = \<lparr> mr_events = 0, mr_shock_mg = 0, mr_orientation = 0, mr_motion_state = 0,
                mr_movement_duration_s = 0 \<rparr>;
          now = sd_timestamp d in
      if \<not> has_flag (sd_valid d) SENSOR_VALID_ACCEL then
        (d, r\<lparr>mr_motion_state := motion_state_code (mm_state m),
              mr_orientation := orientation_code (mm_orientation m)\<rparr>, m)
      else
        let was_settled = (mm_state m = MOTION_STATE_STATIONARY \<and>
                           now - mm_stationary_since m \<ge> TAMPER_SETTLED_S) in
        case shock_detector_process d (cfg_shock_threshold_mg (mm_config m))
               (cfg_free_fall_threshold_mg (mm_config m)) (mm_shock m) of (shock, det) \<Rightarrow>
        let m = m\<lparr>mm_shock := det\<rparr> in
        case motion_impulses shock d r of (d, r) \<Rightarrow>
        case motion_state_step d r m of (r, m) \<Rightarrow>
        let d = d\<lparr>sd_motion := (mm_state m = MOTION_STATE_MOVING)\<rparr> in
        case motion_orientation_step d was_settled (shr_shock shock) r m of (r, m) \<Rightarrow>
          (d\<lparr>sd_orientation := orientation_code (mm_orientation m)\<rparr>,
           r\<lparr>mr_orientation := orientation_code (mm_orientation m),
             mr_motion_state := motion_state_code (mm_state m)\<rparr>, m))"

definition motion_manager_total_movement_s :: "motion_manager \<Rightarrow> u32" where
  "motion_manager_total_movement_s m = mm_total_movement_s m"

definition motion_manager_state :: "motion_manager \<Rightarrow> motion_state" where
  "motion_manager_state m = mm_state m"

definition motion_manager_orientation :: "motion_manager \<Rightarrow> orientation" where
  "motion_manager_orientation m = mm_orientation m"

definition motion_manager_tamper :: "motion_manager \<Rightarrow> bool" where
  "motion_manager_tamper m = mm_tamper m"

definition motion_manager_clear_tamper :: "motion_manager \<Rightarrow> motion_manager" where
  "motion_manager_clear_tamper m = m\<lparr>mm_tamper := False\<rparr>"

subsection \<open>What one sample does\<close>

abbreviation "mp_data d m \<equiv> fst (motion_manager_process d m)"
abbreviation "mp_result d m \<equiv> fst (snd (motion_manager_process d m))"
abbreviation "mp_state d m \<equiv> snd (snd (motion_manager_process d m))"

abbreviation accel_valid :: "sensor_data \<Rightarrow> bool" where
  "accel_valid d \<equiv> has_flag (sd_valid d) SENSOR_VALID_ACCEL"


lemma process_invalid:
  assumes "\<not> accel_valid d"
  shows "mp_state d m = m" "mp_data d m = d" "mr_events (mp_result d m) = 0"
  using assms by (simp_all add: motion_manager_process_def Let_def)

text \<open>What each part leaves alone, and what it makes of the state.\<close>

lemma impulses_frame [simp]:
  "fst (motion_impulses sh d r) =
     d\<lparr>sd_shock := shr_shock sh \<or> sd_shock d, sd_free_fall := shr_free_fall sh \<or> sd_free_fall d\<rparr>"
  "mr_movement_duration_s (snd (motion_impulses sh d r)) = mr_movement_duration_s r"
  by (simp_all add: motion_impulses_def)

lemma classifier_frame [simp]:
  "motion_classifier_is_active (d\<lparr>sd_shock := b\<rparr>) t = motion_classifier_is_active d t"
  "motion_classifier_is_active (d\<lparr>sd_free_fall := b\<rparr>) t = motion_classifier_is_active d t"
  "motion_classifier_orientation (d\<lparr>sd_shock := b\<rparr>) = motion_classifier_orientation d"
  "motion_classifier_orientation (d\<lparr>sd_free_fall := b\<rparr>) = motion_classifier_orientation d"
  "motion_classifier_orientation (d\<lparr>sd_motion := b\<rparr>) = motion_classifier_orientation d"
  by (simp_all add: motion_classifier_is_active_def motion_classifier_deviation_def
      motion_classifier_orientation_def)

lemma orientation_step_frame [simp]:
  "mm_config (snd (motion_orientation_step d ws sh r m)) = mm_config m"
  "mm_state (snd (motion_orientation_step d ws sh r m)) = mm_state m"
  "mm_last_active_time (snd (motion_orientation_step d ws sh r m)) = mm_last_active_time m"
  "mm_motion_started_time (snd (motion_orientation_step d ws sh r m)) = mm_motion_started_time m"
  "mm_stationary_since (snd (motion_orientation_step d ws sh r m)) = mm_stationary_since m"
  "mm_total_movement_s (snd (motion_orientation_step d ws sh r m)) = mm_total_movement_s m"
  "mm_shock (snd (motion_orientation_step d ws sh r m)) = mm_shock m"
  "mr_movement_duration_s (fst (motion_orientation_step d ws sh r m)) = mr_movement_duration_s r"
  by (simp_all add: motion_orientation_step_def Let_def)

definition motion_active :: "sensor_data \<Rightarrow> motion_manager \<Rightarrow> bool" where
  "motion_active d m \<longleftrightarrow> motion_classifier_is_active d (cfg_motion_threshold_mg (mm_config m))"

definition motion_quiet :: "sensor_data \<Rightarrow> motion_manager \<Rightarrow> bool" where
  "motion_quiet d m \<longleftrightarrow>
     sd_timestamp d - mm_last_active_time m \<ge> ucast (cfg_motion_timeout_s (mm_config m))"

text \<open>The step seen as a transition: start, stop, or neither.\<close>

lemma state_step_start:
  assumes "motion_active d m" "mm_state m = MOTION_STATE_STATIONARY"
  shows "motion_state_step d r m = (r\<lparr>mr_events := mr_events r OR MOTION_EVENT_START\<rparr>,
    m\<lparr>mm_last_active_time := sd_timestamp d, mm_state := MOTION_STATE_MOVING,
      mm_motion_started_time := sd_timestamp d\<rparr>)"
  using assms by (simp add: motion_state_step_def motion_active_def Let_def)

lemma state_step_moving:
  assumes "motion_active d m" "mm_state m = MOTION_STATE_MOVING"
  shows "motion_state_step d r m = (r, m\<lparr>mm_last_active_time := sd_timestamp d\<rparr>)"
  using assms by (simp add: motion_state_step_def motion_active_def Let_def)

lemma state_step_stop:
  assumes "\<not> motion_active d m" "mm_state m = MOTION_STATE_MOVING" "motion_quiet d m"
  shows "motion_state_step d r m = (r\<lparr>mr_events := mr_events r OR MOTION_EVENT_STOP,
      mr_movement_duration_s := mm_last_active_time m - mm_motion_started_time m\<rparr>,
    m\<lparr>mm_state := MOTION_STATE_STATIONARY, mm_stationary_since := sd_timestamp d,
      mm_total_movement_s := mm_total_movement_s m
        + (mm_last_active_time m - mm_motion_started_time m)\<rparr>)"
  using assms by (simp add: motion_state_step_def motion_active_def motion_quiet_def Let_def)

lemma state_step_rest:
  assumes "\<not> motion_active d m" "mm_state m = MOTION_STATE_STATIONARY \<or> \<not> motion_quiet d m"
  shows "motion_state_step d r m = (r, m)"
  using assms by (auto simp: motion_state_step_def motion_active_def motion_quiet_def Let_def)

lemma motion_step_cases:
  obtains (start) "motion_active d m" "mm_state m = MOTION_STATE_STATIONARY"
  | (moving) "motion_active d m" "mm_state m = MOTION_STATE_MOVING"
  | (stop) "\<not> motion_active d m" "mm_state m = MOTION_STATE_MOVING" "motion_quiet d m"
  | (rest) "\<not> motion_active d m" "mm_state m = MOTION_STATE_STATIONARY \<or> \<not> motion_quiet d m"
  by (cases "mm_state m") blast+

text \<open>The whole sample, as the composition of the parts.\<close>

definition mp_shock :: "sensor_data \<Rightarrow> motion_manager \<Rightarrow> shock_result \<times> shock_detector" where
  "mp_shock d m = shock_detector_process d (cfg_shock_threshold_mg (mm_config m))
     (cfg_free_fall_threshold_mg (mm_config m)) (mm_shock m)"

definition mp_after_shock :: "sensor_data \<Rightarrow> motion_manager \<Rightarrow> motion_manager" where
  "mp_after_shock d m = m\<lparr>mm_shock := snd (mp_shock d m)\<rparr>"

lemma mp_after_shock_frame [simp]:
  "mm_state (mp_after_shock d m) = mm_state m" "mm_tamper (mp_after_shock d m) = mm_tamper m"
  "mm_orientation (mp_after_shock d m) = mm_orientation m"
  "mm_config (mp_after_shock d m) = mm_config m"
  "mm_last_active_time (mp_after_shock d m) = mm_last_active_time m"
  "mm_motion_started_time (mp_after_shock d m) = mm_motion_started_time m"
  "mm_stationary_since (mp_after_shock d m) = mm_stationary_since m"
  "mm_total_movement_s (mp_after_shock d m) = mm_total_movement_s m"
  "motion_active d' (mp_after_shock d m) = motion_active d' m"
  "motion_quiet d' (mp_after_shock d m) = motion_quiet d' m"
  by (simp_all add: mp_after_shock_def motion_active_def motion_quiet_def)

definition mp_settled :: "sensor_data \<Rightarrow> motion_manager \<Rightarrow> bool" where
  "mp_settled d m \<longleftrightarrow> mm_state m = MOTION_STATE_STATIONARY \<and>
     sd_timestamp d - mm_stationary_since m \<ge> TAMPER_SETTLED_S"

lemma state_step_frame [simp]:
  "motion_state_step (d\<lparr>sd_shock := b\<rparr>) r m = motion_state_step d r m"
  "motion_state_step (d\<lparr>sd_free_fall := b\<rparr>) r m = motion_state_step d r m"
  "motion_orientation_step (d\<lparr>sd_shock := b\<rparr>) ws sh r m = motion_orientation_step d ws sh r m"
  "motion_orientation_step (d\<lparr>sd_free_fall := b\<rparr>) ws sh r m = motion_orientation_step d ws sh r m"
  "motion_orientation_step (d\<lparr>sd_motion := b\<rparr>) ws sh r m = motion_orientation_step d ws sh r m"
  by (simp_all add: motion_state_step_def motion_orientation_step_def)

definition mp_impulses :: "sensor_data \<Rightarrow> motion_manager \<Rightarrow> motion_result" where
  "mp_impulses d m = snd (motion_impulses (fst (mp_shock d m)) d
     \<lparr> mr_events = 0, mr_shock_mg = 0, mr_orientation = 0, mr_motion_state = 0,
       mr_movement_duration_s = 0 \<rparr>)"

definition mp_moved :: "sensor_data \<Rightarrow> motion_manager \<Rightarrow> motion_result \<times> motion_manager" where
  "mp_moved d m = motion_state_step d (mp_impulses d m) (mp_after_shock d m)"

definition mp_turned :: "sensor_data \<Rightarrow> motion_manager \<Rightarrow> motion_result \<times> motion_manager" where
  "mp_turned d m = motion_orientation_step d (mp_settled d m) (shr_shock (fst (mp_shock d m)))
     (fst (mp_moved d m)) (snd (mp_moved d m))"

lemma process_valid:
  assumes "accel_valid d"
  shows "mp_state d m = snd (mp_turned d m)"
    and "mp_result d m = (fst (mp_turned d m))\<lparr>
      mr_orientation := orientation_code (mm_orientation (mp_state d m)),
      mr_motion_state := motion_state_code (mm_state (mp_state d m))\<rparr>"
    and "mp_data d m = d\<lparr>sd_shock := shr_shock (fst (mp_shock d m)) \<or> sd_shock d,
      sd_free_fall := shr_free_fall (fst (mp_shock d m)) \<or> sd_free_fall d,
      sd_motion := (mm_state (mp_state d m) = MOTION_STATE_MOVING),
      sd_orientation := orientation_code (mm_orientation (mp_state d m))\<rparr>"
  using assms
  by (simp_all add: motion_manager_process_def case_prod_beta Let_def mp_turned_def mp_moved_def
      mp_impulses_def mp_after_shock_def mp_settled_def flip: mp_shock_def)

subsection \<open>Events are transitions\<close>

lemma bit_state_step [simp]:
  "bit (mr_events (fst (motion_state_step d r m))) n \<longleftrightarrow>
     bit (mr_events r) n \<or>
     n = 0 \<and> mm_state m = MOTION_STATE_STATIONARY \<and>
       mm_state (snd (motion_state_step d r m)) = MOTION_STATE_MOVING \<or>
     n = 1 \<and> mm_state m = MOTION_STATE_MOVING \<and>
       mm_state (snd (motion_state_step d r m)) = MOTION_STATE_STATIONARY"
  by (cases d m rule: motion_step_cases)
    (auto simp: state_step_start state_step_moving state_step_stop state_step_rest flag_defs)

lemma state_step_tamper [simp]:
  "mm_tamper (snd (motion_state_step d r m)) = mm_tamper m"
  "mm_orientation (snd (motion_state_step d r m)) = mm_orientation m"
  "mm_config (snd (motion_state_step d r m)) = mm_config m"
  "mm_shock (snd (motion_state_step d r m)) = mm_shock m"
  by (simp_all add: motion_state_step_def Let_def)

lemma bit_orientation_step [simp]:
  "bit (mr_events (fst (motion_orientation_step d ws sh r m))) n \<longleftrightarrow>
     bit (mr_events r) n \<or>
     n = 4 \<and> mm_orientation m \<noteq> ORIENTATION_UNKNOWN \<and>
       mm_orientation (snd (motion_orientation_step d ws sh r m)) \<noteq> mm_orientation m \<or>
     n = 5 \<and> \<not> mm_tamper m \<and> mm_tamper (snd (motion_orientation_step d ws sh r m))"
  by (auto simp: motion_orientation_step_def Let_def flag_defs)

lemma orientation_step_tamper:
  "mm_tamper (snd (motion_orientation_step d ws sh r m)) \<longleftrightarrow> mm_tamper m \<or>
     ws \<and> sh \<and> mm_orientation m \<noteq> ORIENTATION_UNKNOWN \<and>
     mm_orientation (snd (motion_orientation_step d ws sh r m)) \<noteq> mm_orientation m"
  by (auto simp: motion_orientation_step_def Let_def)

lemma bit_impulses [simp]:
  "bit (mr_events (mp_impulses d m)) n \<longleftrightarrow>
     n = 2 \<and> shr_shock (fst (mp_shock d m)) \<or> n = 3 \<and> shr_free_fall (fst (mp_shock d m))"
  by (auto simp: mp_impulses_def motion_impulses_def flag_defs)

lemma mp_tamper:
  assumes "accel_valid d"
  shows "mm_tamper (mp_state d m) \<longleftrightarrow> mm_tamper m \<or>
    mp_settled d m \<and> shr_shock (fst (mp_shock d m)) \<and>
    mm_orientation m \<noteq> ORIENTATION_UNKNOWN \<and> mm_orientation (mp_state d m) \<noteq> mm_orientation m"
  using assms by (auto simp: process_valid mp_turned_def mp_moved_def orientation_step_tamper)

lemma mp_state_state:
  assumes "accel_valid d"
  shows "mm_state (mp_state d m) = mm_state (snd (mp_moved d m))"
  using assms by (simp add: process_valid mp_turned_def)

text \<open>
  C23: the event bits of a sample say exactly what changed. START and STOP are the two
  transitions of the state machine; ORIENTATION is a change from a known orientation; TAMPER is
  the rising edge of the tamper flag, and it comes with a shock and an orientation change after
  at least 300 s at rest; SHOCK and FREE_FALL are the detector's reports, also set in the sample.
\<close>

theorem motion_events_are_transitions:
  assumes "accel_valid d" and "motion_manager_process d m = (d', r, m')"
  shows "(has_flag (mr_events r) MOTION_EVENT_START \<longleftrightarrow>
            mm_state m = MOTION_STATE_STATIONARY \<and> mm_state m' = MOTION_STATE_MOVING) \<and>
    (has_flag (mr_events r) MOTION_EVENT_STOP \<longleftrightarrow>
            mm_state m = MOTION_STATE_MOVING \<and> mm_state m' = MOTION_STATE_STATIONARY) \<and>
    (has_flag (mr_events r) MOTION_EVENT_ORIENTATION \<longleftrightarrow>
            mm_orientation m \<noteq> ORIENTATION_UNKNOWN \<and> mm_orientation m' \<noteq> mm_orientation m) \<and>
    (has_flag (mr_events r) MOTION_EVENT_TAMPER \<longleftrightarrow> \<not> mm_tamper m \<and> mm_tamper m') \<and>
    (has_flag (mr_events r) MOTION_EVENT_TAMPER \<longrightarrow>
            mm_state m = MOTION_STATE_STATIONARY \<and> 300 \<le> sd_timestamp d - mm_stationary_since m \<and>
            has_flag (mr_events r) MOTION_EVENT_SHOCK \<and> has_flag (mr_events r) MOTION_EVENT_ORIENTATION) \<and>
    (has_flag (mr_events r) MOTION_EVENT_SHOCK \<longrightarrow> sd_shock d') \<and>
    (has_flag (mr_events r) MOTION_EVENT_FREE_FALL \<longrightarrow> sd_free_fall d') \<and>
    (sd_motion d' \<longleftrightarrow> mm_state m' = MOTION_STATE_MOVING)"
proof -
  have eqs: "d' = mp_data d m" "r = mp_result d m" "m' = mp_state d m"
    using assms(2) by simp_all
  have bits: "bit (mr_events r) n \<longleftrightarrow>
      n = 0 \<and> mm_state m = MOTION_STATE_STATIONARY \<and> mm_state m' = MOTION_STATE_MOVING \<or>
      n = 1 \<and> mm_state m = MOTION_STATE_MOVING \<and> mm_state m' = MOTION_STATE_STATIONARY \<or>
      n = 2 \<and> shr_shock (fst (mp_shock d m)) \<or> n = 3 \<and> shr_free_fall (fst (mp_shock d m)) \<or>
      n = 4 \<and> mm_orientation m \<noteq> ORIENTATION_UNKNOWN \<and> mm_orientation m' \<noteq> mm_orientation m \<or>
      n = 5 \<and> \<not> mm_tamper m \<and> mm_tamper m'" for n
    unfolding eqs mp_state_state [OF assms(1)] process_valid(2) [OF assms(1)]
    by (auto simp: mp_turned_def mp_moved_def process_valid(1) [OF assms(1)])
  have flags:
    "has_flag (mr_events r) MOTION_EVENT_START \<longleftrightarrow>
       mm_state m = MOTION_STATE_STATIONARY \<and> mm_state m' = MOTION_STATE_MOVING"
    "has_flag (mr_events r) MOTION_EVENT_STOP \<longleftrightarrow>
       mm_state m = MOTION_STATE_MOVING \<and> mm_state m' = MOTION_STATE_STATIONARY"
    "has_flag (mr_events r) MOTION_EVENT_SHOCK \<longleftrightarrow> shr_shock (fst (mp_shock d m))"
    "has_flag (mr_events r) MOTION_EVENT_FREE_FALL \<longleftrightarrow> shr_free_fall (fst (mp_shock d m))"
    "has_flag (mr_events r) MOTION_EVENT_ORIENTATION \<longleftrightarrow>
       mm_orientation m \<noteq> ORIENTATION_UNKNOWN \<and> mm_orientation m' \<noteq> mm_orientation m"
    "has_flag (mr_events r) MOTION_EVENT_TAMPER \<longleftrightarrow> \<not> mm_tamper m \<and> mm_tamper m'"
    by (simp_all add: flag_defs bits)
  have tamper: "mm_tamper m' \<longleftrightarrow> mm_tamper m \<or> mp_settled d m \<and> shr_shock (fst (mp_shock d m)) \<and>
      mm_orientation m \<noteq> ORIENTATION_UNKNOWN \<and> mm_orientation m' \<noteq> mm_orientation m"
    unfolding eqs by (rule mp_tamper [OF assms(1)])
  have data: "sd_shock d' \<longleftrightarrow> shr_shock (fst (mp_shock d m)) \<or> sd_shock d"
    "sd_free_fall d' \<longleftrightarrow> shr_free_fall (fst (mp_shock d m)) \<or> sd_free_fall d"
    "sd_motion d' \<longleftrightarrow> mm_state m' = MOTION_STATE_MOVING"
    unfolding eqs process_valid(3) [OF assms(1)] by simp_all
  show ?thesis
    unfolding flags data using tamper [unfolded mp_settled_def TAMPER_SETTLED_S_def] by blast
qed

theorem motion_events_are_transitions_witness:
  "let p = motion_manager_process (sample_of_magnitude 1600) (motion_manager_init TAG_CONFIG_DEFAULTS) in
     has_flag (mr_events (fst (snd p))) MOTION_EVENT_START \<and> sd_motion (fst p) \<and>
     mm_state (snd (snd p)) = MOTION_STATE_MOVING"
proof -
  let ?d = "sample_of_magnitude 1600" and ?m = "motion_manager_init TAG_CONFIG_DEFAULTS"
  have valid: "accel_valid ?d" by (simp add: sample_of_magnitude_def flag_defs)
  have "motion_active ?d ?m"
    by (simp add: motion_active_def motion_classifier_is_active_def motion_classifier_deviation_def
        sample_of_magnitude_def motion_manager_init_def TAG_CONFIG_DEFAULTS_def c_const)
  then have "mm_state (mp_state ?d ?m) = MOTION_STATE_MOVING"
    unfolding mp_state_state [OF valid] mp_moved_def
    by (simp add: state_step_start motion_manager_init_def)
  then show ?thesis
    using motion_events_are_transitions [OF valid, of ?m "mp_data ?d ?m" "mp_result ?d ?m" "mp_state ?d ?m"]
    by (simp add: Let_def motion_manager_init_def)
qed

subsection \<open>Movement time\<close>

text \<open>
  The states reachable by time \<open>t\<close>: samples arrive with timestamps that do not decrease, and
  the configuration and the tamper flag may be changed between them.
\<close>

inductive motion_reach :: "motion_manager \<Rightarrow> u32 \<Rightarrow> bool" where
  init: "motion_reach (motion_manager_init cfg) 0"
| sample: "motion_reach m t \<Longrightarrow> t \<le> sd_timestamp d \<Longrightarrow> motion_reach (mp_state d m) (sd_timestamp d)"
| config: "motion_reach m t \<Longrightarrow> motion_reach (motion_manager_update_config cfg m) t"
| clear: "motion_reach m t \<Longrightarrow> motion_reach (motion_manager_clear_tamper m) t"

definition motion_times_ok :: "motion_manager \<Rightarrow> u32 \<Rightarrow> bool" where
  "motion_times_ok m t \<longleftrightarrow>
     mm_motion_started_time m \<le> mm_last_active_time m \<and> mm_last_active_time m \<le> t \<and>
     mm_stationary_since m \<le> t \<and> mm_total_movement_s m \<le> mm_stationary_since m \<and>
     (mm_state m = MOTION_STATE_MOVING \<longrightarrow> mm_stationary_since m \<le> mm_motion_started_time m)"

text \<open>Adding a duration that ends by \<open>b\<close> to a total that was reached by its start.\<close>

lemma add_duration:
  fixes a b c :: "'a::len word"
  assumes "c \<le> a" "a \<le> b"
  shows "c + (b - a) \<le> b" and "unat (c + (b - a)) = unat c + (unat b - unat a)"
proof -
  have le: "unat c \<le> unat a" "unat a \<le> unat b" using assms by (simp_all add: word_le_nat_alt)
  have sub: "unat (b - a) = unat b - unat a" using assms by (simp add: unat_sub)
  have "unat c + unat (b - a) \<le> unat b" using le sub by linarith
  then have "unat c + unat (b - a) < 2 ^ LENGTH('a)"
    using unsigned_less [of b, where 'a = nat] by linarith
  then show sum: "unat (c + (b - a)) = unat c + (unat b - unat a)"
    using sub by (simp add: unat_word_ariths)
  then show "c + (b - a) \<le> b" using le by (simp add: word_le_nat_alt)
qed

lemma moved_times_ok:
  assumes "motion_times_ok m t" "t \<le> sd_timestamp d"
  shows "motion_times_ok (snd (motion_state_step d r m)) (sd_timestamp d)"
proof -
  let ?total = "mm_total_movement_s m" and ?start = "mm_motion_started_time m"
    and ?last = "mm_last_active_time m" and ?since = "mm_stationary_since m"
  have "?total + (?last - ?start) \<le> sd_timestamp d" if "?since \<le> ?start"
    using assms that add_duration(1) [of ?total ?start ?last] unfolding motion_times_ok_def
    by (meson order_trans)
  with assms show ?thesis
    by (cases d m rule: motion_step_cases)
      (auto simp: state_step_start state_step_moving state_step_stop state_step_rest
        motion_times_ok_def intro: order_trans)
qed

lemma motion_times_ok_sample:
  assumes "motion_times_ok m t" "t \<le> sd_timestamp d"
  shows "motion_times_ok (mp_state d m) (sd_timestamp d)"
proof (cases "accel_valid d")
  case True
  have "motion_times_ok (mp_after_shock d m) t" using assms by (simp add: motion_times_ok_def)
  then have "motion_times_ok (snd (mp_moved d m)) (sd_timestamp d)"
    unfolding mp_moved_def using assms(2) by (rule moved_times_ok)
  then show ?thesis
    by (simp add: process_valid(1) [OF True] mp_turned_def motion_times_ok_def)
next
  case False
  with assms show ?thesis by (auto simp: process_invalid motion_times_ok_def)
qed

lemma motion_reach_times_ok: "motion_reach m t \<Longrightarrow> motion_times_ok m t"
proof (induction rule: motion_reach.induct)
  case (init cfg)
  then show ?case by (simp add: motion_times_ok_def motion_manager_init_def)
next
  case (sample m t d)
  then show ?case by (intro motion_times_ok_sample)
qed (simp_all add: motion_times_ok_def motion_manager_update_config_def motion_manager_clear_tamper_def)

text \<open>
  C32: the movement counters cannot wrap. In every reachable state the total movement time is
  at most the time of the last sample, and when a sample ends a movement, the duration it
  reports lies inside that movement and is added to the total exactly.
\<close>

theorem movement_time_bounded:
  assumes "motion_reach m t" and "accel_valid d" and "t \<le> sd_timestamp d"
    and "motion_manager_process d m = (d', r, m')"
  shows "mm_total_movement_s m' \<le> sd_timestamp d \<and>
    (has_flag (mr_events r) MOTION_EVENT_STOP \<longrightarrow>
       unat (mr_movement_duration_s r) = unat (mm_last_active_time m) - unat (mm_motion_started_time m) \<and>
       mm_motion_started_time m \<le> mm_last_active_time m \<and>
       unat (mm_total_movement_s m') = unat (mm_total_movement_s m) + unat (mr_movement_duration_s r))"
proof -
  have eqs: "r = mp_result d m" "m' = mp_state d m" using assms(4) by simp_all
  have ok: "motion_times_ok m t" by (rule motion_reach_times_ok [OF assms(1)])
  have "motion_times_ok m' (sd_timestamp d)"
    unfolding eqs using ok assms(3) by (rule motion_times_ok_sample)
  then have total: "mm_total_movement_s m' \<le> sd_timestamp d" by (auto simp: motion_times_ok_def)
  have moved: "mm_total_movement_s m' = mm_total_movement_s (snd (mp_moved d m))"
    "mr_movement_duration_s r = mr_movement_duration_s (fst (mp_moved d m))"
    "has_flag (mr_events r) MOTION_EVENT_STOP \<longleftrightarrow> mm_state m = MOTION_STATE_MOVING \<and>
       mm_state (snd (mp_moved d m)) = MOTION_STATE_STATIONARY"
    by (auto simp: eqs process_valid [OF assms(2)] mp_turned_def mp_moved_def flag_defs)
  have "unat (mm_last_active_time m - mm_motion_started_time m)
      = unat (mm_last_active_time m) - unat (mm_motion_started_time m)"
    using ok by (simp add: motion_times_ok_def unat_sub)
  then show ?thesis
    using total ok add_duration(2) [of "mm_total_movement_s m" "mm_motion_started_time m" "mm_last_active_time m"]
    unfolding moved mp_moved_def
    by (cases d "mp_after_shock d m" rule: motion_step_cases)
      (auto simp: state_step_start state_step_moving state_step_stop state_step_rest motion_times_ok_def)
qed

theorem movement_time_bounded_witness:
  "mm_total_movement_s (mp_state (sample_of_magnitude 1600) (motion_manager_init TAG_CONFIG_DEFAULTS)) \<le> 0"
proof -
  let ?d = "sample_of_magnitude 1600" and ?m = "motion_manager_init TAG_CONFIG_DEFAULTS"
  have "accel_valid ?d" "sd_timestamp ?d = 0"
    by (simp_all add: sample_of_magnitude_def sensor_data_zero_def flag_defs)
  then show ?thesis
    using movement_time_bounded [OF motion_reach.init, of ?d TAG_CONFIG_DEFAULTS "mp_data ?d ?m"
        "mp_result ?d ?m" "mp_state ?d ?m"] by simp
qed

end
