(* ===== verification/App_Alarms.thy ===== *)
theory App_Alarms
  imports Smart_Tag
begin

section \<open>Alarm policy\<close>

text \<open>
  \<open>src/app/app_alarms.c\<close>: thresholds with latching, the battery hysteresis, the gas floor and
  the sensor fault. \<open>app_alarms_eval\<close> is the composition of one definition per block of the
  C function; each takes and gives the flags and the events emitted so far.
\<close>

definition APP_ALARM_MAX_EVENTS :: nat where [c_const]: "APP_ALARM_MAX_EVENTS = 8"

record app_alarm_event =
  ae_type :: u8
  ae_severity :: u8
  ae_value :: s16

type_synonym alarm_acc = "u16 \<times> app_alarm_event list"

definition emit :: "event_type \<Rightarrow> event_severity \<Rightarrow> s16 \<Rightarrow> app_alarm_event list \<Rightarrow> app_alarm_event list" where
  "emit type severity value events =
     (if length events \<ge> APP_ALARM_MAX_EVENTS then events
      else events @ [\<lparr> ae_type = event_code type, ae_severity = severity_code severity,
                       ae_value = value \<rparr>])"

text \<open>The idiom of every block: set a flag that was clear and emit its event.\<close>

definition raise_alarm :: "u16 \<Rightarrow> event_type \<Rightarrow> event_severity \<Rightarrow> s16 \<Rightarrow> alarm_acc \<Rightarrow> alarm_acc" where
  "raise_alarm flag type severity value acc =
     (case acc of (flags, events) \<Rightarrow>
        if has_flag flags flag then (flags, events)
        else (flags OR flag, emit type severity value events))"

definition alarm_temperature :: "sensor_data \<Rightarrow> tag_config \<Rightarrow> alarm_acc \<Rightarrow> alarm_acc" where
  "alarm_temperature d c acc =
     (if cfg_temp_high_c_x100 c <s sd_temperature_c_x100 d
      then raise_alarm ALARM_TEMP_HIGH EVENT_TEMP_HIGH EVENT_SEVERITY_ALARM (sd_temperature_c_x100 d) acc
      else if sd_temperature_c_x100 d <s cfg_temp_low_c_x100 c
      then raise_alarm ALARM_TEMP_LOW EVENT_TEMP_LOW EVENT_SEVERITY_ALARM (sd_temperature_c_x100 d) acc
      else (fst acc AND NOT (ALARM_TEMP_HIGH OR ALARM_TEMP_LOW), snd acc))"

definition alarm_humidity :: "sensor_data \<Rightarrow> tag_config \<Rightarrow> alarm_acc \<Rightarrow> alarm_acc" where
  "alarm_humidity d c acc =
     (if sd_humidity_x100 d > cfg_humidity_high_x100 c
      then raise_alarm ALARM_HUMIDITY_HIGH EVENT_HUMIDITY_HIGH EVENT_SEVERITY_WARNING
             (sd_humidity_x100 d) acc
      else (fst acc AND NOT ALARM_HUMIDITY_HIGH, snd acc))"

definition alarm_gas :: "sensor_data \<Rightarrow> tag_config \<Rightarrow> alarm_acc \<Rightarrow> alarm_acc" where
  "alarm_gas d c acc =
     (if has_flag (sd_valid d) SENSOR_VALID_GAS \<and> cfg_gas_low_threshold_ohm c \<noteq> 0 then
        (if sd_gas_resistance_ohm d < cfg_gas_low_threshold_ohm c
         then raise_alarm ALARM_GAS_LOW EVENT_GAS_LOW EVENT_SEVERITY_WARNING
                (ucast (min (sd_gas_resistance_ohm d div 1000) (word_of_int INT16_MAX))) acc
         else (fst acc AND NOT ALARM_GAS_LOW, snd acc))
      else acc)"

definition alarm_battery :: "sensor_data \<Rightarrow> tag_config \<Rightarrow> alarm_acc \<Rightarrow> alarm_acc" where
  "alarm_battery d c acc =
     (if has_flag (sd_valid d) SENSOR_VALID_BATTERY then
        (if sd_battery_mv d < cfg_battery_low_mv c
         then raise_alarm ALARM_BATTERY_LOW EVENT_BATTERY_LOW EVENT_SEVERITY_WARNING (sd_battery_mv d) acc
         else if sd_battery_mv d \<ge> word_of_int (uint (cfg_battery_low_mv c) + SMART_TAG_BATTERY_HYSTERESIS_MV)
         then (fst acc AND NOT ALARM_BATTERY_LOW, snd acc)
         else acc)
      else acc)"

definition alarm_fault :: "sensor_data \<Rightarrow> u8 \<Rightarrow> alarm_acc \<Rightarrow> alarm_acc" where
  "alarm_fault d expected_valid acc =
     (if sd_valid d AND expected_valid \<noteq> expected_valid
      then raise_alarm ALARM_SENSOR_FAULT EVENT_SENSOR_FAULT EVENT_SEVERITY_WARNING
             (ucast (sd_valid d)) acc
      else (fst acc AND NOT ALARM_SENSOR_FAULT, snd acc))"

definition app_alarms_eval :: "sensor_data \<Rightarrow> tag_config \<Rightarrow> u8 \<Rightarrow> u16 \<Rightarrow> alarm_acc" where
  "app_alarms_eval d c expected_valid flags =
     (let acc = (flags, []);
          acc = (if has_flag (sd_valid d) SENSOR_VALID_TEMP_RH
                 then alarm_humidity d c (alarm_temperature d c acc) else acc)
      in alarm_fault d expected_valid (alarm_battery d c (alarm_gas d c acc)))"

subsection \<open>One block at a time\<close>

text \<open>
  A block changes only its own bits, and appends the event of its flag exactly when it sets it.
  \<open>block\<close> says this of the bits \<open>bs\<close> a block owns, listed with their events in order.
\<close>

definition rising :: "u16 \<Rightarrow> u16 \<Rightarrow> nat \<times> event_type \<Rightarrow> bool" where
  "rising f f' p \<longleftrightarrow> \<not> bit f (fst p) \<and> bit f' (fst p)"

definition block :: "(nat \<times> event_type) list \<Rightarrow> alarm_acc \<Rightarrow> alarm_acc \<Rightarrow> bool" where
  "block bs acc acc' \<longleftrightarrow>
     (\<forall>n. n \<notin> fst ` set bs \<longrightarrow> bit (fst acc') n = bit (fst acc) n) \<and>
     (length (snd acc) + length bs \<le> APP_ALARM_MAX_EVENTS \<longrightarrow>
        map ae_type (snd acc') =
        map ae_type (snd acc) @ map (event_code \<circ> snd) (filter (rising (fst acc) (fst acc')) bs))"

lemma snd_raise_alarm:
  "length (snd acc) < APP_ALARM_MAX_EVENTS \<Longrightarrow>
     map ae_type (snd (raise_alarm fl ty sv v acc)) =
     map ae_type (snd acc) @ (if has_flag (fst acc) fl then [] else [event_code ty])"
  "fst (raise_alarm fl ty sv v acc) = (if has_flag (fst acc) fl then fst acc else fst acc OR fl)"
  by (auto simp: raise_alarm_def emit_def split: prod.split)

lemma block_temperature: "block [(0, EVENT_TEMP_HIGH), (1, EVENT_TEMP_LOW)] acc (alarm_temperature d c acc)"
  by (auto simp: block_def alarm_temperature_def snd_raise_alarm rising_def flag_defs
      bit_and_iff bit_or_iff bit_not_iff c_const dest: bit_imp_le_length)

lemma block_humidity: "block [(2, EVENT_HUMIDITY_HIGH)] acc (alarm_humidity d c acc)"
  by (auto simp: block_def alarm_humidity_def snd_raise_alarm rising_def flag_defs c_const)

lemma block_gas: "block [(8, EVENT_GAS_LOW)] acc (alarm_gas d c acc)"
  by (auto simp: block_def alarm_gas_def snd_raise_alarm rising_def flag_defs c_const)

lemma block_battery: "block [(7, EVENT_BATTERY_LOW)] acc (alarm_battery d c acc)"
  by (auto simp: block_def alarm_battery_def snd_raise_alarm rising_def flag_defs c_const)

lemma block_fault: "block [(6, EVENT_SENSOR_FAULT)] acc (alarm_fault d e acc)"
  by (auto simp: block_def alarm_fault_def snd_raise_alarm rising_def flag_defs c_const)

text \<open>Blocks on disjoint bits compose, and a skipped block is a block.\<close>

lemma block_refl: "block bs acc acc"
  by (simp add: block_def rising_def)

lemma length_filter_rising: "length (filter P bs) \<le> length bs"
  by (rule length_filter_le)

lemma block_trans:
  assumes "block as a b" "block bs b c" "fst ` set as \<inter> fst ` set bs = {}"
  shows "block (as @ bs) a c"
proof -
  have keep: "bit (fst c) n = bit (fst b) n" if "n \<notin> fst ` set bs" for n
    using assms(2) that by (simp add: block_def)
  have keep': "bit (fst b) n = bit (fst a) n" if "n \<notin> fst ` set as" for n
    using assms(1) that by (simp add: block_def)
  have "bit (fst c) (fst p) = bit (fst b) (fst p)" if "p \<in> set as" for p
    using keep [of "fst p"] assms(3) that by blast
  then have "filter (rising (fst a) (fst c)) as = filter (rising (fst a) (fst b)) as"
    by (intro filter_cong refl) (simp add: rising_def)
  moreover have "bit (fst b) (fst p) = bit (fst a) (fst p)" if "p \<in> set bs" for p
    using keep' [of "fst p"] assms(3) that by blast
  then have "filter (rising (fst a) (fst c)) bs = filter (rising (fst b) (fst c)) bs"
    by (intro filter_cong refl) (simp add: rising_def)
  moreover have "length (snd b) \<le> length (snd a) + length as"
    if "length (snd a) + length as \<le> APP_ALARM_MAX_EVENTS"
  proof -
    have "map ae_type (snd b) = map ae_type (snd a)
        @ map (event_code \<circ> snd) (filter (rising (fst a) (fst b)) as)"
      using assms(1) that by (simp add: block_def)
    then have "length (map ae_type (snd b)) = length (snd a) + length (filter (rising (fst a) (fst b)) as)"
      by (metis length_append length_map)
    then show ?thesis by (simp add: length_filter_rising)
  qed
  ultimately show ?thesis
    using assms keep keep' by (auto simp: block_def image_Un)
qed

text \<open>The alarms in the order the code evaluates them, with the bit of their flag.\<close>

definition alarm_table :: "(nat \<times> event_type) list" where
  "alarm_table = [(0, EVENT_TEMP_HIGH), (1, EVENT_TEMP_LOW), (2, EVENT_HUMIDITY_HIGH),
     (8, EVENT_GAS_LOW), (7, EVENT_BATTERY_LOW), (6, EVENT_SENSOR_FAULT)]"

lemma block_eval: "block alarm_table (flags, []) (app_alarms_eval d c e flags)"
proof -
  let ?rh = "has_flag (sd_valid d) SENSOR_VALID_TEMP_RH" and ?a = "(flags, [])"
  let ?acc = "if ?rh then alarm_humidity d c (alarm_temperature d c ?a) else ?a"
  have "block ([(0, EVENT_TEMP_HIGH), (1, EVENT_TEMP_LOW)] @ [(2, EVENT_HUMIDITY_HIGH)]) ?a ?acc"
    using block_trans [OF block_temperature block_humidity, of ?a d c d c]
    by (simp add: block_refl)
  then have "block (([(0, EVENT_TEMP_HIGH), (1, EVENT_TEMP_LOW)] @ [(2, EVENT_HUMIDITY_HIGH)])
      @ [(8, EVENT_GAS_LOW)]) ?a (alarm_gas d c ?acc)"
    by (rule block_trans [OF _ block_gas]) auto
  then have "block ((([(0, EVENT_TEMP_HIGH), (1, EVENT_TEMP_LOW)] @ [(2, EVENT_HUMIDITY_HIGH)])
      @ [(8, EVENT_GAS_LOW)]) @ [(7, EVENT_BATTERY_LOW)]) ?a (alarm_battery d c (alarm_gas d c ?acc))"
    by (rule block_trans [OF _ block_battery]) auto
  then have "block (((([(0, EVENT_TEMP_HIGH), (1, EVENT_TEMP_LOW)] @ [(2, EVENT_HUMIDITY_HIGH)])
      @ [(8, EVENT_GAS_LOW)]) @ [(7, EVENT_BATTERY_LOW)]) @ [(6, EVENT_SENSOR_FAULT)]) ?a
      (alarm_fault d e (alarm_battery d c (alarm_gas d c ?acc)))"
    by (rule block_trans [OF _ block_fault]) auto
  then show ?thesis by (simp add: alarm_table_def app_alarms_eval_def Let_def)
qed

text \<open>
  C22: alarms are edge-triggered and latched. Whatever the sample and the flags before, the
  events emitted are exactly those of the flags that were clear and are now set, in the fixed
  order of the alarms; the shock, free-fall and tamper flags are left alone.
\<close>

theorem alarm_events_are_rising_edges:
  "map ae_type (snd (app_alarms_eval d c e flags)) =
     map (event_code \<circ> snd) (filter (rising flags (fst (app_alarms_eval d c e flags))) alarm_table) \<and>
   has_flag (fst (app_alarms_eval d c e flags)) ALARM_SHOCK = has_flag flags ALARM_SHOCK \<and>
   has_flag (fst (app_alarms_eval d c e flags)) ALARM_FREE_FALL = has_flag flags ALARM_FREE_FALL \<and>
   has_flag (fst (app_alarms_eval d c e flags)) ALARM_TAMPER = has_flag flags ALARM_TAMPER"
  using block_eval [of flags d c e]
  by (auto simp: block_def alarm_table_def c_const flag_defs)

subsection \<open>Hysteresis\<close>

lemma length_alarm_events: "length (snd (app_alarms_eval d c e flags)) \<le> 6"
proof -
  have "length (map ae_type (snd (app_alarms_eval d c e flags)))
      = length (filter (rising flags (fst (app_alarms_eval d c e flags))) alarm_table)"
    using block_eval [of flags d c e] by (simp add: block_def alarm_table_def c_const)
  also have "\<dots> \<le> length alarm_table" by (rule length_filter_rising)
  finally show ?thesis by (simp add: alarm_table_def)
qed

text \<open>The bits of a block after the whole evaluation are those after the block.\<close>

lemma bit_outside_block:
  "block bs acc acc' \<Longrightarrow> n \<notin> fst ` set bs \<Longrightarrow> bit (fst acc') n = bit (fst acc) n"
  by (simp add: block_def)

lemma bit_battery_eval:
  "bit (fst (app_alarms_eval d c e flags)) 7 \<longleftrightarrow>
     (if has_flag (sd_valid d) SENSOR_VALID_BATTERY then
        (if sd_battery_mv d < cfg_battery_low_mv c then True
         else if sd_battery_mv d \<ge> word_of_int (uint (cfg_battery_low_mv c) + 100) then False
         else bit flags 7)
      else bit flags 7)"
proof -
  let ?rh = "has_flag (sd_valid d) SENSOR_VALID_TEMP_RH" and ?a = "(flags, [])"
  let ?acc = "if ?rh then alarm_humidity d c (alarm_temperature d c ?a) else ?a"
  have "bit (fst (alarm_gas d c ?acc)) 7 = bit flags 7"
    using bit_outside_block [OF block_gas, of 7] bit_outside_block [OF block_humidity, of 7]
      bit_outside_block [OF block_temperature, of 7] by simp
  then have "bit (fst (alarm_battery d c (alarm_gas d c ?acc))) 7 \<longleftrightarrow>
     (if has_flag (sd_valid d) SENSOR_VALID_BATTERY then
        (if sd_battery_mv d < cfg_battery_low_mv c then True
         else if sd_battery_mv d \<ge> word_of_int (uint (cfg_battery_low_mv c) + 100) then False
         else bit flags 7)
      else bit flags 7)"
    by (simp add: alarm_battery_def snd_raise_alarm flag_defs c_const)
  then show ?thesis
    using bit_outside_block [OF block_fault, of 7] by (simp add: app_alarms_eval_def Let_def)
qed

text \<open>
  The battery alarm does not chatter. With a threshold the configuration allows, once it
  is set it stays set through every valid or invalid sample until one reads at least 100 mV
  above the threshold.
\<close>

lemma battery_alarm_hysteresis:
  assumes "has_flag flags ALARM_BATTERY_LOW" and "cfg_battery_low_mv c \<le> 3300"
    and "\<not> has_flag (fst (app_alarms_eval d c e flags)) ALARM_BATTERY_LOW"
  shows "has_flag (sd_valid d) SENSOR_VALID_BATTERY \<and>
    uint (sd_battery_mv d) \<ge> uint (cfg_battery_low_mv c) + 100"
proof -
  have range: "0 \<le> uint (cfg_battery_low_mv c)" "uint (cfg_battery_low_mv c) \<le> 3300"
    using assms(2) by (simp_all add: word_le_def)
  have off: "has_flag (sd_valid d) SENSOR_VALID_BATTERY"
    "word_of_int (uint (cfg_battery_low_mv c) + 100) \<le> sd_battery_mv d"
    using assms(1,3) bit_battery_eval [of d c e flags]
    by (auto simp: ALARM_BATTERY_LOW_def split: if_splits)
  have "uint (word_of_int (uint (cfg_battery_low_mv c) + 100) :: u16) = uint (cfg_battery_low_mv c) + 100"
    using range by (intro uint_of_int_u16) linarith+
  then show ?thesis using off unfolding word_le_def by metis
qed

text \<open>A sample with only a battery reading.\<close>

definition battery_sample :: "u16 \<Rightarrow> sensor_data" where
  "battery_sample mv = sensor_data_zero\<lparr>sd_battery_mv := mv, sd_valid := SENSOR_VALID_BATTERY\<rparr>"

lemma battery_alarm_hysteresis_witness:
  "has_flag ALARM_BATTERY_LOW ALARM_BATTERY_LOW \<and>
   \<not> has_flag (fst (app_alarms_eval (battery_sample 2500) TAG_CONFIG_DEFAULTS 0 ALARM_BATTERY_LOW))
       ALARM_BATTERY_LOW \<and>
   uint (sd_battery_mv (battery_sample 2500)) \<ge> uint (cfg_battery_low_mv TAG_CONFIG_DEFAULTS) + 100"
proof -
  have set: "has_flag ALARM_BATTERY_LOW ALARM_BATTERY_LOW" by (simp add: flag_defs)
  have cleared: "\<not> has_flag (fst (app_alarms_eval (battery_sample 2500) TAG_CONFIG_DEFAULTS 0
      ALARM_BATTERY_LOW)) ALARM_BATTERY_LOW"
    using bit_battery_eval [of "battery_sample 2500" TAG_CONFIG_DEFAULTS 0 ALARM_BATTERY_LOW]
    by (simp add: ALARM_BATTERY_LOW_def SENSOR_VALID_BATTERY_def battery_sample_def TAG_CONFIG_DEFAULTS_def)
  have "cfg_battery_low_mv TAG_CONFIG_DEFAULTS \<le> 3300" by (simp add: TAG_CONFIG_DEFAULTS_def)
  from battery_alarm_hysteresis [OF set this cleared] set cleared show ?thesis by blast
qed

end
