(* ===== verification/Zigbee_Reporting.thy ===== *)
theory Zigbee_Reporting
  imports Smart_Tag
begin

section \<open>Zigbee reporting policy\<close>

text \<open>
  \<open>src/zigbee/zigbee_reporting.c\<close>: which attribute groups of a sample are worth a report, and
  the baseline of what was last sent. Differences are taken over integers, where the C code
  takes them in \<open>int\<close> and \<open>long\<close>: for the 16-bit and 8-bit operands nothing is lost, and for the
  pressure the C difference is defined only when it fits, where it is the integer one.
\<close>

definition REPORT_TEMPERATURE :: u32 where [flag_defs]: "REPORT_TEMPERATURE = BIT 0"
definition REPORT_HUMIDITY :: u32 where [flag_defs]: "REPORT_HUMIDITY = BIT 1"
definition REPORT_PRESSURE :: u32 where [flag_defs]: "REPORT_PRESSURE = BIT 2"
definition REPORT_BATTERY :: u32 where [flag_defs]: "REPORT_BATTERY = BIT 3"
definition REPORT_TAG_MONITOR :: u32 where [flag_defs]: "REPORT_TAG_MONITOR = BIT 4"

definition BATTERY_DELTA_PERCENT :: int where [c_const]: "BATTERY_DELTA_PERCENT = 1"

record baseline =
  bl_valid :: bool
  bl_last_report_time :: u32
  bl_temperature :: s16
  bl_humidity :: u16
  bl_pressure :: s32
  bl_battery_percent :: u8
  bl_motion_state :: u8
  bl_orientation :: u8
  bl_tamper :: u8
  bl_alarm_flags :: u16
  bl_shock_count :: u32
  bl_free_fall_count :: u32
  bl_gas_resistance :: u32

definition zigbee_reporting_init :: baseline where
  "zigbee_reporting_init = \<lparr> bl_valid = False, bl_last_report_time = 0, bl_temperature = 0,
     bl_humidity = 0, bl_pressure = 0, bl_battery_percent = 0, bl_motion_state = 0,
     bl_orientation = 0, bl_tamper = 0, bl_alarm_flags = 0, bl_shock_count = 0,
     bl_free_fall_count = 0, bl_gas_resistance = 0 \<rparr>"

definition zigbee_reporting_force :: "baseline \<Rightarrow> baseline" where
  "zigbee_reporting_force b = b\<lparr>bl_valid := False\<rparr>"

definition REPORT_ALL :: u32 where
  "REPORT_ALL = REPORT_TEMPERATURE OR REPORT_HUMIDITY OR REPORT_PRESSURE OR REPORT_BATTERY
                OR REPORT_TAG_MONITOR"

definition when_flag :: "bool \<Rightarrow> u32 \<Rightarrow> u32 \<Rightarrow> u32" where
  "when_flag c f report = (if c then report OR f else report)"

text \<open>The tests of \<open>zigbee_reporting_evaluate\<close>, in its order.\<close>

definition moved_temperature :: "sensor_data \<Rightarrow> tag_config \<Rightarrow> baseline \<Rightarrow> bool" where
  "moved_temperature d c b \<longleftrightarrow> has_flag (sd_valid d) SENSOR_VALID_TEMP_RH \<and>
     \<bar>sint (sd_temperature_c_x100 d) - sint (bl_temperature b)\<bar> \<ge> uint (cfg_report_temp_delta_c_x100 c)"

definition moved_humidity :: "sensor_data \<Rightarrow> tag_config \<Rightarrow> baseline \<Rightarrow> bool" where
  "moved_humidity d c b \<longleftrightarrow> has_flag (sd_valid d) SENSOR_VALID_TEMP_RH \<and>
     \<bar>uint (sd_humidity_x100 d) - uint (bl_humidity b)\<bar> \<ge> uint (cfg_report_humidity_delta_x100 c)"

definition moved_pressure :: "sensor_data \<Rightarrow> tag_config \<Rightarrow> baseline \<Rightarrow> bool" where
  "moved_pressure d c b \<longleftrightarrow> has_flag (sd_valid d) SENSOR_VALID_PRESSURE \<and>
     \<bar>sint (sd_pressure_pa d) - sint (bl_pressure b)\<bar> \<ge> uint (cfg_report_pressure_delta_pa c)"

definition moved_battery :: "sensor_data \<Rightarrow> baseline \<Rightarrow> bool" where
  "moved_battery d b \<longleftrightarrow> has_flag (sd_valid d) SENSOR_VALID_BATTERY \<and>
     \<bar>uint (sd_battery_percent d) - uint (bl_battery_percent b)\<bar> \<ge> BATTERY_DELTA_PERCENT"

definition moved_gas :: "sensor_data \<Rightarrow> tag_config \<Rightarrow> baseline \<Rightarrow> bool" where
  "moved_gas d c b \<longleftrightarrow> has_flag (sd_valid d) SENSOR_VALID_GAS \<and> cfg_report_gas_delta_ohm c \<noteq> 0 \<and>
     (let x = sd_gas_resistance_ohm d; y = bl_gas_resistance b in
      (if x > y then x - y else y - x) \<ge> cfg_report_gas_delta_ohm c)"

definition changed_status :: "tag_status \<Rightarrow> baseline \<Rightarrow> bool" where
  "changed_status s b \<longleftrightarrow>
     st_motion_state s \<noteq> bl_motion_state b \<or> st_orientation s \<noteq> bl_orientation b \<or>
     st_tamper s \<noteq> bl_tamper b \<or> st_alarm_flags s \<noteq> bl_alarm_flags b \<or>
     st_shock_count s \<noteq> bl_shock_count b \<or> st_free_fall_count s \<noteq> bl_free_fall_count b"

definition interval_elapsed :: "sensor_data \<Rightarrow> tag_config \<Rightarrow> baseline \<Rightarrow> bool" where
  "interval_elapsed d c b \<longleftrightarrow>
     sd_timestamp d - bl_last_report_time b \<ge> ucast (cfg_report_max_interval_s c)"

definition zigbee_reporting_evaluate ::
  "sensor_data \<Rightarrow> tag_status \<Rightarrow> tag_config \<Rightarrow> baseline \<Rightarrow> u32" where
  "zigbee_reporting_evaluate d s c b =
     (if \<not> bl_valid b then REPORT_ALL
      else
        let report = 0;
            report = when_flag (moved_temperature d c b) REPORT_TEMPERATURE report;
            report = when_flag (moved_humidity d c b) REPORT_HUMIDITY report;
            report = when_flag (moved_pressure d c b) REPORT_PRESSURE report;
            report = when_flag (moved_battery d b) REPORT_BATTERY report;
            report = when_flag (moved_gas d c b) REPORT_TAG_MONITOR report;
            report = when_flag (changed_status s b) REPORT_TAG_MONITOR report
        in when_flag (interval_elapsed d c b) REPORT_ALL report)"

definition zigbee_reporting_commit ::
  "sensor_data \<Rightarrow> tag_status \<Rightarrow> u32 \<Rightarrow> baseline \<Rightarrow> baseline" where
  "zigbee_reporting_commit d s reported b =
     (if reported = 0 then b
      else
        let b = (if has_flag reported REPORT_TEMPERATURE
                 then b\<lparr>bl_temperature := sd_temperature_c_x100 d\<rparr> else b);
            b = (if has_flag reported REPORT_HUMIDITY
                 then b\<lparr>bl_humidity := sd_humidity_x100 d\<rparr> else b);
            b = (if has_flag reported REPORT_PRESSURE
                 then b\<lparr>bl_pressure := sd_pressure_pa d\<rparr> else b);
            b = (if has_flag reported REPORT_BATTERY
                 then b\<lparr>bl_battery_percent := sd_battery_percent d\<rparr> else b);
            b = (if has_flag reported REPORT_TAG_MONITOR then
                   let b = b\<lparr>bl_motion_state := st_motion_state s,
                             bl_orientation := st_orientation s, bl_tamper := st_tamper s,
                             bl_alarm_flags := st_alarm_flags s,
                             bl_shock_count := st_shock_count s,
                             bl_free_fall_count := st_free_fall_count s\<rparr>
                   in if has_flag (sd_valid d) SENSOR_VALID_GAS
                      then b\<lparr>bl_gas_resistance := sd_gas_resistance_ohm d\<rparr> else b
                 else b)
        in b\<lparr>bl_last_report_time := sd_timestamp d, bl_valid := True\<rparr>)"

subsection \<open>What is reported\<close>

lemma bit_when_flag [simp]: "bit (when_flag c f r) n \<longleftrightarrow> bit r n \<or> c \<and> bit f n"
  by (simp add: when_flag_def bit_or_iff)

lemma bit_REPORT_ALL [simp]: "bit REPORT_ALL n \<longleftrightarrow> n < 5"
  by (auto simp: REPORT_ALL_def flag_defs bit_or_iff)

lemma bit_evaluate:
  "bit (zigbee_reporting_evaluate d s c b) n \<longleftrightarrow>
     (\<not> bl_valid b \<or> interval_elapsed d c b) \<and> n < 5 \<or>
     bl_valid b \<and>
      (n = 0 \<and> moved_temperature d c b \<or> n = 1 \<and> moved_humidity d c b \<or>
       n = 2 \<and> moved_pressure d c b \<or> n = 3 \<and> moved_battery d b \<or>
       n = 4 \<and> (moved_gas d c b \<or> changed_status s b))"
  by (auto simp: zigbee_reporting_evaluate_def Let_def flag_defs)

lemma word_0_bits: "(w :: 'a::len word) = 0 \<longleftrightarrow> (\<forall>n. \<not> bit w n)"
  by (metis bit_word_eqI bit_0_eq bot_apply bot_bool_def)

subsection \<open>The policy by its history\<close>

text \<open>
  What \<open>zigbee_manager.c\<close> does with the two functions: a sample is evaluated, and when there is
  something to report that is committed; a rejoin forgets. The history lists, newest first, the
  reports sent, with the sample and the status they were sent for, and the times it was forgotten.
\<close>

datatype reporting_call = Evaluate sensor_data tag_status tag_config | Force

datatype report = Sent sensor_data tag_status u32 | Forgotten

fun reporting_step :: "reporting_call \<Rightarrow> baseline \<times> report list \<Rightarrow> baseline \<times> report list" where
  "reporting_step (Evaluate d s c) (b, history) =
     (let r = zigbee_reporting_evaluate d s c b in
      (zigbee_reporting_commit d s r b, if r = 0 then history else Sent d s r # history))"
| "reporting_step Force (b, history) = (zigbee_reporting_force b, Forgotten # history)"

definition reporting_run :: "reporting_call list \<Rightarrow> baseline \<times> report list" where
  "reporting_run calls = fold reporting_step calls (zigbee_reporting_init, [])"

text \<open>
  The reference: the sample and status last sent with a group, the gas resistance last sent, and
  how long ago the last report was, or that there has been none since the policy was forgotten.
\<close>

fun last_sent :: "u32 \<Rightarrow> report list \<Rightarrow> sensor_data \<times> tag_status" where
  "last_sent f [] = (sensor_data_zero, tag_status_zero)"
| "last_sent f (Sent d s r # history) = (if has_flag r f then (d, s) else last_sent f history)"
| "last_sent f (Forgotten # history) = last_sent f history"

fun last_gas_sent :: "report list \<Rightarrow> u32" where
  "last_gas_sent [] = 0"
| "last_gas_sent (Sent d s r # history) =
     (if has_flag r REPORT_TAG_MONITOR \<and> has_flag (sd_valid d) SENSOR_VALID_GAS
      then sd_gas_resistance_ohm d else last_gas_sent history)"
| "last_gas_sent (Forgotten # history) = last_gas_sent history"

fun heartbeat_due :: "sensor_data \<Rightarrow> tag_config \<Rightarrow> report list \<Rightarrow> bool" where
  "heartbeat_due d c (Sent d0 s0 r0 # _) \<longleftrightarrow>
     uint (cfg_report_max_interval_s c) \<le> (uint (sd_timestamp d) - uint (sd_timestamp d0)) mod 2 ^ 32"
| "heartbeat_due d c _ \<longleftrightarrow> True"

definition reported_status :: "tag_status \<Rightarrow> u8 \<times> u8 \<times> u8 \<times> u16 \<times> u32 \<times> u32" where
  "reported_status s = (st_motion_state s, st_orientation s, st_tamper s, st_alarm_flags s,
     st_shock_count s, st_free_fall_count s)"

definition status_differs :: "tag_status \<Rightarrow> tag_status \<Rightarrow> bool" where
  "status_differs s s0 \<longleftrightarrow> reported_status s \<noteq> reported_status s0"

text \<open>The baseline is the history's summary.\<close>

definition summarises :: "baseline \<Rightarrow> report list \<Rightarrow> bool" where
  "summarises b history \<longleftrightarrow>
     (bl_valid b \<longleftrightarrow> (\<exists>d s r rest. history = Sent d s r # rest)) \<and>
     (\<forall>d s r rest. history = Sent d s r # rest \<longrightarrow> bl_last_report_time b = sd_timestamp d) \<and>
     bl_temperature b = sd_temperature_c_x100 (fst (last_sent REPORT_TEMPERATURE history)) \<and>
     bl_humidity b = sd_humidity_x100 (fst (last_sent REPORT_HUMIDITY history)) \<and>
     bl_pressure b = sd_pressure_pa (fst (last_sent REPORT_PRESSURE history)) \<and>
     bl_battery_percent b = sd_battery_percent (fst (last_sent REPORT_BATTERY history)) \<and>
     bl_gas_resistance b = last_gas_sent history \<and>
     (bl_motion_state b, bl_orientation b, bl_tamper b, bl_alarm_flags b, bl_shock_count b, bl_free_fall_count b)
       = reported_status (snd (last_sent REPORT_TAG_MONITOR history))"

lemma summarises_init: "summarises zigbee_reporting_init []"
  by (simp add: summarises_def zigbee_reporting_init_def sensor_data_zero_def tag_status_zero_def
      reported_status_def)

lemma summarises_step:
  "summarises (fst st) (snd st) \<Longrightarrow> summarises (fst (reporting_step call st)) (snd (reporting_step call st))"
proof (cases call)
  case (Evaluate d s c)
  assume "summarises (fst st) (snd st)"
  then show ?thesis
    by (cases st) (simp add: Evaluate Let_def,
      simp add: summarises_def zigbee_reporting_commit_def reported_status_def Let_def)
next
  case Force
  assume "summarises (fst st) (snd st)"
  then show ?thesis by (cases st) (simp add: Force summarises_def zigbee_reporting_force_def)
qed

lemma summarises_run: "summarises (fst (reporting_run calls)) (snd (reporting_run calls))"
proof -
  have "summarises (fst (fold reporting_step calls st)) (snd (fold reporting_step calls st))"
    if "summarises (fst st) (snd st)" for st
    using that by (induction calls arbitrary: st) (simp_all add: summarises_step)
  then show ?thesis using summarises_init by (simp add: reporting_run_def)
qed

lemma heartbeat_baseline:
  assumes "summarises b history"
  shows "heartbeat_due d c history \<longleftrightarrow> \<not> bl_valid b \<or> interval_elapsed d c b"
proof (cases "(d, c, history)" rule: heartbeat_due.cases)
  case (1 d1 c1 d0 s0 r0 rest)
  then have b: "bl_valid b" "bl_last_report_time b = sd_timestamp d0"
    using assms by (auto simp: summarises_def)
  have "interval_elapsed d c b \<longleftrightarrow> uint (cfg_report_max_interval_s c) \<le> uint (sd_timestamp d - sd_timestamp d0)"
    by (simp add: interval_elapsed_def b word_le_def)
  then show ?thesis using 1 b by (simp add: uint_word_ariths)
qed (use assms in \<open>auto simp: summarises_def\<close>)

lemma gas_distance:
  "(if x > y then x - y else y - x) \<ge> (delta :: u32) \<longleftrightarrow> \<bar>uint x - uint y\<bar> \<ge> uint delta"
  by (auto simp: word_le_def word_less_def uint_sub_if')

text \<open>
  C26: what a sample reports, after any sequence of samples, reports and rejoins. All groups are
  due when nothing was reported since the start or the last rejoin, or when the last report is
  at least the maximum interval old (modulo the 32-bit clock). Otherwise temperature, humidity,
  pressure and battery are each due exactly when the reading is valid and differs by at least
  its delta from the one sent in the last report of that group; and the Tag Monitor group when
  the valid gas resistance differs by the delta, if that is not zero, from the last one sent, or
  the motion state, the orientation, the tamper state, the alarm flags, the shock count or the
  free fall count differ from the last ones sent. No other bit is set.
\<close>

theorem evaluate_reports_exactly:
  "case reporting_run calls of (b, history) \<Rightarrow>
     let r = zigbee_reporting_evaluate d s c b; all = heartbeat_due d c history;
         sent = (\<lambda>f. fst (last_sent f history)) in
     has_flag r REPORT_TEMPERATURE = (all \<or> has_flag (sd_valid d) SENSOR_VALID_TEMP_RH \<and>
       uint (cfg_report_temp_delta_c_x100 c) \<le>
         \<bar>sint (sd_temperature_c_x100 d) - sint (sd_temperature_c_x100 (sent REPORT_TEMPERATURE))\<bar>) \<and>
     has_flag r REPORT_HUMIDITY = (all \<or> has_flag (sd_valid d) SENSOR_VALID_TEMP_RH \<and>
       uint (cfg_report_humidity_delta_x100 c) \<le>
         \<bar>uint (sd_humidity_x100 d) - uint (sd_humidity_x100 (sent REPORT_HUMIDITY))\<bar>) \<and>
     has_flag r REPORT_PRESSURE = (all \<or> has_flag (sd_valid d) SENSOR_VALID_PRESSURE \<and>
       uint (cfg_report_pressure_delta_pa c) \<le>
         \<bar>sint (sd_pressure_pa d) - sint (sd_pressure_pa (sent REPORT_PRESSURE))\<bar>) \<and>
     has_flag r REPORT_BATTERY = (all \<or> has_flag (sd_valid d) SENSOR_VALID_BATTERY \<and>
       sd_battery_percent d \<noteq> sd_battery_percent (sent REPORT_BATTERY)) \<and>
     has_flag r REPORT_TAG_MONITOR = (all \<or>
       has_flag (sd_valid d) SENSOR_VALID_GAS \<and> cfg_report_gas_delta_ohm c \<noteq> 0 \<and>
         uint (cfg_report_gas_delta_ohm c) \<le>
           \<bar>uint (sd_gas_resistance_ohm d) - uint (last_gas_sent history)\<bar> \<or>
       status_differs s (snd (last_sent REPORT_TAG_MONITOR history))) \<and>
     r AND NOT REPORT_ALL = 0"
proof -
  obtain b history where run: "reporting_run calls = (b, history)" by fastforce
  have sum: "summarises b history" using summarises_run [of calls] by (simp add: run)
  note base = sum [unfolded summarises_def]
  have all: "heartbeat_due d c history \<longleftrightarrow> \<not> bl_valid b \<or> interval_elapsed d c b"
    by (rule heartbeat_baseline [OF sum])
  have battery: "moved_battery d b \<longleftrightarrow> has_flag (sd_valid d) SENSOR_VALID_BATTERY \<and>
      sd_battery_percent d \<noteq> sd_battery_percent (fst (last_sent REPORT_BATTERY history))"
    using base by (auto simp: moved_battery_def BATTERY_DELTA_PERCENT_def word_uint_eq_iff)
  have gas: "moved_gas d c b \<longleftrightarrow> has_flag (sd_valid d) SENSOR_VALID_GAS \<and> cfg_report_gas_delta_ohm c \<noteq> 0 \<and>
      uint (cfg_report_gas_delta_ohm c) \<le> \<bar>uint (sd_gas_resistance_ohm d) - uint (last_gas_sent history)\<bar>"
    using base unfolding moved_gas_def Let_def gas_distance by simp
  have status: "changed_status s b \<longleftrightarrow>
      status_differs s (snd (last_sent REPORT_TAG_MONITOR history))"
    using base by (auto simp: changed_status_def status_differs_def reported_status_def)
  have rest: "zigbee_reporting_evaluate d s c b AND NOT REPORT_ALL = 0"
    by (rule bit_word_eqI) (auto simp: bit_and_iff bit_not_iff bit_evaluate)
  show ?thesis
    using base by (simp add: run Let_def rest all battery [symmetric] gas [symmetric] status [symmetric])
      (auto simp: flag_defs bit_evaluate moved_temperature_def moved_humidity_def moved_pressure_def)
qed

text \<open>Configurations whose deltas and interval are not zero, as the defaults are.\<close>

definition deltas_positive :: "tag_config \<Rightarrow> bool" where
  "deltas_positive c \<longleftrightarrow> 0 < cfg_report_temp_delta_c_x100 c \<and> 0 < cfg_report_humidity_delta_x100 c \<and>
     0 < cfg_report_pressure_delta_pa c \<and> 0 < cfg_report_max_interval_s c"

lemma commit_fields:
  assumes "r \<noteq> 0"
  shows "bl_valid (zigbee_reporting_commit d s r b)"
    "bl_last_report_time (zigbee_reporting_commit d s r b) = sd_timestamp d"
    "bl_temperature (zigbee_reporting_commit d s r b)
       = (if bit r 0 then sd_temperature_c_x100 d else bl_temperature b)"
    "bl_humidity (zigbee_reporting_commit d s r b)
       = (if bit r 1 then sd_humidity_x100 d else bl_humidity b)"
    "bl_pressure (zigbee_reporting_commit d s r b)
       = (if bit r 2 then sd_pressure_pa d else bl_pressure b)"
    "bl_battery_percent (zigbee_reporting_commit d s r b)
       = (if bit r 3 then sd_battery_percent d else bl_battery_percent b)"
    "bl_gas_resistance (zigbee_reporting_commit d s r b)
       = (if bit r 4 \<and> has_flag (sd_valid d) SENSOR_VALID_GAS then sd_gas_resistance_ohm d
          else bl_gas_resistance b)"
    "changed_status s (zigbee_reporting_commit d s r b) \<longleftrightarrow> \<not> bit r 4 \<and> changed_status s b"
  using assms by (simp_all add: zigbee_reporting_commit_def Let_def flag_defs changed_status_def)

lemma delta_pos_int: "0 < (w :: u16) \<longleftrightarrow> 0 < uint w"
  by (simp add: word_less_def)

text \<open>
  A report is not repeated. After the report of a sample is committed, evaluating the same
  sample and status again reports nothing, when the deltas and the interval are not zero.
\<close>

lemma report_then_quiet:
  assumes "deltas_positive c"
  shows "zigbee_reporting_evaluate d s c
    (zigbee_reporting_commit d s (zigbee_reporting_evaluate d s c b) b) = 0"
proof (cases "zigbee_reporting_evaluate d s c b = 0")
  case True
  then show ?thesis by (simp add: zigbee_reporting_commit_def)
next
  case False
  let ?r = "zigbee_reporting_evaluate d s c b"
  let ?b = "zigbee_reporting_commit d s ?r b"
  note f = commit_fields [OF False, where d = d and s = s and b = b]
  have delta: "0 < uint (cfg_report_temp_delta_c_x100 c)" "0 < uint (cfg_report_humidity_delta_x100 c)"
    "0 < uint (cfg_report_pressure_delta_pa c)" "0 < cfg_report_max_interval_s c"
    using assms by (simp_all add: deltas_positive_def delta_pos_int)
  have "\<not> moved_temperature d c ?b" "\<not> moved_humidity d c ?b" "\<not> moved_pressure d c ?b"
    "\<not> moved_battery d ?b"
    using delta bit_evaluate [of d s c b]
    by (auto simp: moved_temperature_def moved_humidity_def moved_pressure_def moved_battery_def f
        c_const)
  moreover have "\<not> moved_gas d c ?b"
    using bit_evaluate [of d s c b] by (auto simp: moved_gas_def Let_def f)
  moreover have "\<not> changed_status s ?b"
    using bit_evaluate [of d s c b 4] by (auto simp: f)
  moreover have "\<not> interval_elapsed d c ?b"
    using delta by (simp add: interval_elapsed_def f word_gt_0)
  ultimately show ?thesis
    using f(1) by (simp add: word_0_bits bit_evaluate)
qed

lemma report_then_quiet_witness:
  "deltas_positive TAG_CONFIG_DEFAULTS \<and>
   zigbee_reporting_evaluate sensor_data_zero tag_status_zero TAG_CONFIG_DEFAULTS
     zigbee_reporting_init = REPORT_ALL \<and>
   zigbee_reporting_evaluate sensor_data_zero tag_status_zero TAG_CONFIG_DEFAULTS
     (zigbee_reporting_commit sensor_data_zero tag_status_zero REPORT_ALL zigbee_reporting_init) = 0"
proof -
  have pos: "deltas_positive TAG_CONFIG_DEFAULTS"
    by (simp add: deltas_positive_def TAG_CONFIG_DEFAULTS_def)
  have "zigbee_reporting_evaluate sensor_data_zero tag_status_zero TAG_CONFIG_DEFAULTS
     zigbee_reporting_init = REPORT_ALL"
    by (simp add: zigbee_reporting_evaluate_def zigbee_reporting_init_def)
  then show ?thesis
    using pos report_then_quiet [OF pos, of sensor_data_zero tag_status_zero zigbee_reporting_init]
    by simp
qed

end
