(* ===== verification/Config_Migrate.thy ===== *)
theory Config_Migrate
  imports Smart_Tag
begin

section \<open>Settings blobs and their migration\<close>

text \<open>
  \<open>src/storage/config_migrate.c\<close>. A blob is its list of bytes. The result of a decode is a
  sum: \<open>Inl\<close> a negated error number, \<open>Inr\<close> the struct written through \<open>out\<close>. The null tests
  of the C functions have no counterpart: no caller passes a null pointer, and a blob of length
  0 takes the same branch.
\<close>

definition TAG_CONFIG_SCHEMA :: u16 where [c_const]: "TAG_CONFIG_SCHEMA = 1"
definition TAG_STATS_SCHEMA :: u16 where [c_const]: "TAG_STATS_SCHEMA = 1"
definition TAG_CONFIG_V0_SIZE :: nat where [c_const]: "TAG_CONFIG_V0_SIZE = 40"
definition TAG_STATS_V0_SIZE :: nat where [c_const]: "TAG_STATS_V0_SIZE = 40"

record tag_settings_header =
  th_schema :: u16
  th_body_size :: u16

definition tag_settings_header_bytes :: "tag_settings_header \<Rightarrow> u8 list" where
  "tag_settings_header_bytes h = le16 (th_schema h) @ le16 (th_body_size h)"

definition tag_settings_header_of_bytes :: "u8 list \<Rightarrow> tag_settings_header" where
  "tag_settings_header_of_bytes bs = \<lparr> th_schema = rd16 bs 0, th_body_size = rd16 bs 2 \<rparr>"

text \<open>The bytes written to the blob; the empty list is the result 0, for a blob too small.\<close>

definition encode :: "u16 \<Rightarrow> u8 list \<Rightarrow> u16 \<Rightarrow> nat \<Rightarrow> u8 list" where
  "encode schema body body_size max_n =
     (if max_n < 4 + unat body_size then []
      else tag_settings_header_bytes \<lparr> th_schema = schema, th_body_size = body_size \<rparr>
           @ take (unat body_size) body)"

text \<open>\<open>memcpy(out, defaults, out_size); memcpy(out, body, MIN(body_size, out_size))\<close>.\<close>

definition copy_onto_defaults :: "nat \<Rightarrow> u8 list \<Rightarrow> nat \<Rightarrow> u8 list \<Rightarrow> u8 list" where
  "copy_onto_defaults out_size body body_size defaults =
     (let n = min body_size out_size in take n body @ drop n defaults)"

definition tag_config_decode :: "u8 list \<Rightarrow> int + tag_config" where
  "tag_config_decode blob =
     (let defaults = tag_config_bytes TAG_CONFIG_DEFAULTS; len = length blob in
      if len = 0 then Inl (- EINVAL)
      else if len = TAG_CONFIG_V0_SIZE
      then Inr (tag_config_of_bytes (copy_onto_defaults 40 blob len defaults))
      else if len < 4 then Inl (- EINVAL)
      else
        let header = tag_settings_header_of_bytes blob in
        if th_schema header = 0 \<or> th_schema header > TAG_CONFIG_SCHEMA then Inl (- EINVAL)
        else if 4 + unat (th_body_size header) > len then Inl (- EINVAL)
        else Inr (tag_config_of_bytes
               (copy_onto_defaults 40 (drop 4 blob) (unat (th_body_size header)) defaults)))"

definition tag_config_encode :: "tag_config \<Rightarrow> nat \<Rightarrow> u8 list" where
  "tag_config_encode c max_n = encode TAG_CONFIG_SCHEMA (tag_config_bytes c) 40 max_n"

text \<open>
  The protocol v3 statistics: the fields of \<open>struct tag_stats_v0\<close> sit at the same offsets as
  those of \<open>tag_statistics_t\<close> up to \<open>sensor_faults\<close>; its \<open>reserved\<close> field is not copied.
\<close>

definition tag_stats_of_v0 :: "u8 list \<Rightarrow> tag_statistics" where
  "tag_stats_of_v0 bs = \<lparr>
     stat_boot_count = rd32 bs 0,
     stat_total_uptime_s = rd32 bs 4,
     stat_motion_count = rd32 bs 8,
     stat_shock_count = rd32 bs 12,
     stat_free_fall_count = rd32 bs 16,
     stat_event_count = rd32 bs 20,
     stat_movement_duration_s = rd32 bs 24,
     stat_max_shock_mg = rd16 bs 28,
     stat_min_battery_mv = rd16 bs 30,
     stat_zigbee_reports = rd16 bs 32,
     stat_ble_connections = rd16 bs 34,
     stat_sensor_faults = rd16 bs 36,
     stat_boot_epoch_utc = 0 \<rparr>"

definition tag_stats_decode :: "u8 list \<Rightarrow> int + tag_statistics" where
  "tag_stats_decode blob =
     (let defaults = replicate 42 0; len = length blob in
      if len = 0 then Inl (- EINVAL)
      else if len = TAG_STATS_V0_SIZE then Inr (tag_stats_of_v0 blob)
      else if len < 4 then Inl (- EINVAL)
      else
        let header = tag_settings_header_of_bytes blob in
        if th_schema header = 0 \<or> th_schema header > TAG_STATS_SCHEMA then Inl (- EINVAL)
        else if 4 + unat (th_body_size header) > len then Inl (- EINVAL)
        else Inr (tag_statistics_of_bytes
               (copy_onto_defaults 42 (drop 4 blob) (unat (th_body_size header)) defaults)))"

definition tag_stats_encode :: "tag_statistics \<Rightarrow> nat \<Rightarrow> u8 list" where
  "tag_stats_encode s max_n = encode TAG_STATS_SCHEMA (tag_statistics_bytes s) 42 max_n"

subsection \<open>Framing\<close>

definition framed :: "u16 \<Rightarrow> u8 list \<Rightarrow> u8 list" where
  "framed schema body =
     tag_settings_header_bytes \<lparr> th_schema = schema, th_body_size = of_nat (length body) \<rparr> @ body"

lemma length_header [simp]: "length (tag_settings_header_bytes h) = 4"
  by (simp add: tag_settings_header_bytes_def)

lemma header_of_framed [simp]:
  "tag_settings_header_of_bytes (tag_settings_header_bytes h @ bs) = h"
  by (cases h) (simp add: tag_settings_header_of_bytes_def tag_settings_header_bytes_def rd16_def le16_def)

lemma length_framed [simp]: "length (framed schema body) = 4 + length body"
  by (simp add: framed_def)

lemma framed_parts [simp]:
  "length body < 2 ^ 16 \<Longrightarrow> unat (th_body_size (tag_settings_header_of_bytes (framed schema body))) = length body"
  "th_schema (tag_settings_header_of_bytes (framed schema body)) = schema"
  "drop 4 (framed schema body) = body"
  by (simp_all add: framed_def unat_of_nat)

lemma framed_neq_Nil [simp]: "framed schema body \<noteq> []"
  by (metis length_framed list.size(3) add_is_0 zero_neq_numeral)

lemma encode_framed:
  "4 + length body \<le> max_n \<Longrightarrow> length body < 2 ^ 16 \<Longrightarrow>
     encode schema body (of_nat (length body)) max_n = framed schema body"
  by (simp add: encode_def framed_def unat_of_nat)

lemma tag_config_encode_framed:
  "44 \<le> max_n \<Longrightarrow> tag_config_encode c max_n = framed TAG_CONFIG_SCHEMA (tag_config_bytes c)"
  using encode_framed [of "tag_config_bytes c" max_n] by (simp add: tag_config_encode_def)

lemma tag_stats_encode_framed:
  "46 \<le> max_n \<Longrightarrow> tag_stats_encode s max_n = framed TAG_STATS_SCHEMA (tag_statistics_bytes s)"
  using encode_framed [of "tag_statistics_bytes s" max_n] by (simp add: tag_stats_encode_def)

lemma tag_config_decode_framed:
  assumes "length body < 2 ^ 16" "length body \<noteq> 36"
  shows "tag_config_decode (framed TAG_CONFIG_SCHEMA body) =
    Inr (tag_config_of_bytes (take 40 body @ drop (length body) (tag_config_bytes TAG_CONFIG_DEFAULTS)))"
  using assms
  by (cases "length body \<le> 40")
    (simp_all add: tag_config_decode_def Let_def c_const copy_onto_defaults_def min_def)

lemma tag_stats_decode_framed:
  assumes "length body < 2 ^ 16" "length body \<noteq> 36"
  shows "tag_stats_decode (framed TAG_STATS_SCHEMA body) =
    Inr (tag_statistics_of_bytes (take 42 body @ drop (length body) (replicate 42 0)))"
  using assms
  by (cases "length body \<le> 42")
    (simp_all add: tag_stats_decode_def Let_def c_const copy_onto_defaults_def min_def)

text \<open>
  Encoding and decoding are inverse. Every configuration and every statistics struct that
  is encoded into a blob of at least its framed size decodes to itself.
\<close>

lemma settings_roundtrip:
  assumes "46 \<le> max_n"
  shows "tag_config_decode (tag_config_encode c max_n) = Inr c \<and>
    tag_stats_decode (tag_stats_encode s max_n) = Inr s"
  using assms tag_config_decode_framed [of "tag_config_bytes c"]
    tag_stats_decode_framed [of "tag_statistics_bytes s"]
  by (simp add: tag_config_encode_framed tag_stats_encode_framed)

lemma settings_roundtrip_witness:
  "tag_config_decode (tag_config_encode TAG_CONFIG_DEFAULTS 64) = Inr TAG_CONFIG_DEFAULTS \<and>
   tag_stats_decode (tag_stats_encode tag_statistics_zero 64) = Inr tag_statistics_zero"
  by (rule settings_roundtrip) simp



text \<open>
  The one length the framing does not survive. A framed body of 36 bytes makes a blob of
  40, the length of a headerless v3 configuration, so the decoder takes the header for data:
  the schema becomes the sampling interval and the body size the motion timeout.
\<close>

lemma framed_36_misread:
  assumes "length body = 36"
  shows "\<exists>c. tag_config_decode (framed TAG_CONFIG_SCHEMA body) = Inr c \<and>
    cfg_sampling_interval_s c = 1 \<and> cfg_motion_timeout_s c = 36"
proof -
  have "tag_config_decode (framed TAG_CONFIG_SCHEMA body)
      = Inr (tag_config_of_bytes (framed TAG_CONFIG_SCHEMA body))"
    using assms by (simp add: tag_config_decode_def copy_onto_defaults_def Let_def c_const)
  moreover have "rd16 (framed TAG_CONFIG_SCHEMA body) 0 = 1" "rd16 (framed TAG_CONFIG_SCHEMA body) 2 = 36"
    using assms
    by (simp_all add: framed_def tag_settings_header_bytes_def rd16_def le16_def nth_append c_const
        join16_def)
  ultimately show ?thesis by (simp add: tag_config_of_bytes_def)
qed

lemma framed_36_misread_witness:
  "\<exists>c. tag_config_decode (framed TAG_CONFIG_SCHEMA (replicate 36 0)) = Inr c \<and>
    cfg_sampling_interval_s c = 1 \<and> cfg_motion_timeout_s c = 36"
  by (rule framed_36_misread) simp

end
