(* ===== verification/Config_Storage.thy ===== *)
theory Config_Storage
  imports Config_Migrate
begin

section \<open>Configuration storage\<close>

text \<open>
  \<open>src/storage/config_storage.c\<close>: the restored configuration and statistics, the handler that
  restores them at boot, and the operations that persist them. Zephyr's settings subsystem is
  not part of the repository: \<open>settings_env\<close> holds the functions the code calls over an
  unspecified store \<open>'n\<close>, and \<open>se_load\<close> is the value the subsystem hands to the handler for a
  key at boot.
\<close>

record 'n settings_env =
  se_save_one :: "'n \<Rightarrow> string \<Rightarrow> u8 list \<Rightarrow> int \<times> 'n"
  se_delete :: "'n \<Rightarrow> string \<Rightarrow> int \<times> 'n"
  se_load :: "'n \<Rightarrow> string \<Rightarrow> u8 list option"

definition SETTINGS_KEY_CONFIG :: string where "SETTINGS_KEY_CONFIG = ''smart_tag/config''"
definition SETTINGS_KEY_STATS :: string where "SETTINGS_KEY_STATS = ''smart_tag/stats''"
definition SETTINGS_BLOB_MAX :: nat where [c_const]: "SETTINGS_BLOB_MAX = 64"

record config_storage =
  cs_stored_config :: tag_config
  cs_stored_stats :: tag_statistics

definition config_storage_boot :: config_storage where
  "config_storage_boot =
     \<lparr> cs_stored_config = TAG_CONFIG_DEFAULTS, cs_stored_stats = tag_statistics_zero \<rparr>"

text \<open>
  \<open>settings_set(name, len, read_cb, cb_arg)\<close>: \<open>name\<close> is what follows the root, and \<open>read_back\<close>
  is the result of \<open>read_cb\<close>, the count it returns and the bytes it stores.
\<close>

definition settings_set ::
  "string \<Rightarrow> nat \<Rightarrow> int \<times> u8 list \<Rightarrow> config_storage \<Rightarrow> int \<times> config_storage" where
  "settings_set name len read_back cs =
     (if len = 0 \<or> len > SETTINGS_BLOB_MAX then (0, cs)
      else case read_back of (n, blob) \<Rightarrow>
      if n \<noteq> int len then (- EIO, cs)
      else if name = ''config'' then
        (case tag_config_decode (take len blob) of
           Inl _ \<Rightarrow> (0, cs\<lparr>cs_stored_config := TAG_CONFIG_DEFAULTS\<rparr>)
         | Inr c \<Rightarrow> (0, cs\<lparr>cs_stored_config := c\<rparr>))
      else if name = ''stats'' then
        (case tag_stats_decode (take len blob) of
           Inl _ \<Rightarrow> (0, cs\<lparr>cs_stored_stats := tag_statistics_zero\<rparr>)
         | Inr s \<Rightarrow> (0, cs\<lparr>cs_stored_stats := s\<rparr>))
      else (- ENOENT, cs))"

definition config_storage_load :: "config_storage \<Rightarrow> tag_config" where
  "config_storage_load cs = cs_stored_config cs"

definition config_storage_save ::
  "'n settings_env \<Rightarrow> tag_config \<Rightarrow> config_storage \<times> 'n \<Rightarrow> int \<times> config_storage \<times> 'n" where
  "config_storage_save env c st =
     (case st of (cs, nvs) \<Rightarrow>
      let cs = cs\<lparr>cs_stored_config := c\<rparr>; blob = tag_config_encode c SETTINGS_BLOB_MAX in
      if blob = [] then (- ENOMEM, cs, nvs)
      else case se_save_one env nvs SETTINGS_KEY_CONFIG blob of (err, nvs) \<Rightarrow> (err, cs, nvs))"

definition config_storage_load_statistics :: "config_storage \<Rightarrow> tag_statistics" where
  "config_storage_load_statistics cs = cs_stored_stats cs"

definition config_storage_save_statistics ::
  "'n settings_env \<Rightarrow> tag_statistics \<Rightarrow> config_storage \<times> 'n \<Rightarrow> int \<times> config_storage \<times> 'n" where
  "config_storage_save_statistics env s st =
     (case st of (cs, nvs) \<Rightarrow>
      let cs = cs\<lparr>cs_stored_stats := s\<rparr>; blob = tag_stats_encode s SETTINGS_BLOB_MAX in
      if blob = [] then (- ENOMEM, cs, nvs)
      else case se_save_one env nvs SETTINGS_KEY_STATS blob of (err, nvs) \<Rightarrow> (err, cs, nvs))"

definition config_storage_factory_reset ::
  "'n settings_env \<Rightarrow> config_storage \<times> 'n \<Rightarrow> int \<times> config_storage \<times> 'n" where
  "config_storage_factory_reset env st =
     (case st of (cs, nvs) \<Rightarrow>
      let cs = cs\<lparr>cs_stored_stats := tag_statistics_zero, cs_stored_config := TAG_CONFIG_DEFAULTS\<rparr> in
      case se_delete env nvs SETTINGS_KEY_CONFIG of (_, nvs) \<Rightarrow>
      case se_delete env nvs SETTINGS_KEY_STATS of (_, nvs) \<Rightarrow> (0, cs, nvs))"

text \<open>
  \<open>settings_load_subtree("smart_tag")\<close> of \<open>main\<close>: the subsystem calls the handler once for each
  key that has a value, with that value.
\<close>

definition settings_restore :: "string \<Rightarrow> u8 list option \<Rightarrow> config_storage \<Rightarrow> config_storage" where
  "settings_restore name stored cs =
     (case stored of None \<Rightarrow> cs
      | Some blob \<Rightarrow> snd (settings_set name (length blob) (int (length blob), blob) cs))"

definition settings_load_smart_tag :: "'n settings_env \<Rightarrow> 'n \<Rightarrow> config_storage \<Rightarrow> config_storage" where
  "settings_load_smart_tag env nvs cs =
     settings_restore ''stats'' (se_load env nvs SETTINGS_KEY_STATS)
       (settings_restore ''config'' (se_load env nvs SETTINGS_KEY_CONFIG) cs)"

subsection \<open>The store the settings subsystem provides\<close>

text \<open>
  The documented behaviour of \<open>settings_save_one\<close> and \<open>settings_delete\<close> when they succeed:
  the key has the saved value, or none, and other keys keep theirs.
\<close>

definition settings_store_ok :: "'n settings_env \<Rightarrow> bool" where
  "settings_store_ok env \<longleftrightarrow>
     (\<forall>nvs key blob nvs'. se_save_one env nvs key blob = (0, nvs') \<longrightarrow>
        se_load env nvs' key = Some blob \<and>
        (\<forall>k. k \<noteq> key \<longrightarrow> se_load env nvs' k = se_load env nvs k)) \<and>
     (\<forall>nvs key nvs'. se_delete env nvs key = (0, nvs') \<longrightarrow>
        se_load env nvs' key = None \<and>
        (\<forall>k. k \<noteq> key \<longrightarrow> se_load env nvs' k = se_load env nvs k))"

lemma settings_keys_differ [simp]:
  "SETTINGS_KEY_CONFIG \<noteq> SETTINGS_KEY_STATS" "SETTINGS_KEY_STATS \<noteq> SETTINGS_KEY_CONFIG"
  by (simp_all add: SETTINGS_KEY_CONFIG_def SETTINGS_KEY_STATS_def)

lemma restore_config_blob [simp]:
  "settings_restore ''config'' (Some (tag_config_encode c SETTINGS_BLOB_MAX)) cs
     = cs\<lparr>cs_stored_config := c\<rparr>"
proof -
  have "tag_config_decode (tag_config_encode c 64) = Inr c"
    using tag_config_decode_framed [of "tag_config_bytes c"] by (simp add: tag_config_encode_framed)
  then show ?thesis
    by (simp add: settings_restore_def settings_set_def SETTINGS_BLOB_MAX_def tag_config_encode_framed)
qed

lemma restore_stats_blob [simp]:
  "settings_restore ''stats'' (Some (tag_stats_encode s SETTINGS_BLOB_MAX)) cs
     = cs\<lparr>cs_stored_stats := s\<rparr>"
proof -
  have "tag_stats_decode (tag_stats_encode s 64) = Inr s"
    using tag_stats_decode_framed [of "tag_statistics_bytes s"] by (simp add: tag_stats_encode_framed)
  then show ?thesis
    by (simp add: settings_restore_def settings_set_def SETTINGS_BLOB_MAX_def tag_stats_encode_framed)
qed

lemma encode_nonempty [simp]:
  "tag_config_encode c SETTINGS_BLOB_MAX \<noteq> []" "tag_stats_encode s SETTINGS_BLOB_MAX \<noteq> []"
  by (simp_all add: SETTINGS_BLOB_MAX_def tag_config_encode_framed tag_stats_encode_framed)

text \<open>
  Settings survive a reboot. When the configuration and the statistics were saved without
  an error, a boot that starts from the compiled-in defaults restores exactly them.
\<close>

lemma settings_survive_reboot:
  assumes "settings_store_ok env"
    and "config_storage_save env c (cs, nvs) = (0, cs1, nvs1)"
    and "config_storage_save_statistics env s (cs1, nvs1) = (0, cs2, nvs2)"
  shows "config_storage_load (settings_load_smart_tag env nvs2 config_storage_boot) = c \<and>
    config_storage_load_statistics (settings_load_smart_tag env nvs2 config_storage_boot) = s \<and>
    config_storage_load cs2 = c \<and> config_storage_load_statistics cs2 = s"
proof -
  note ok = assms(1) [unfolded settings_store_ok_def]
  have save: "se_save_one env nvs SETTINGS_KEY_CONFIG (tag_config_encode c SETTINGS_BLOB_MAX) = (0, nvs1)"
    "se_save_one env nvs1 SETTINGS_KEY_STATS (tag_stats_encode s SETTINGS_BLOB_MAX) = (0, nvs2)"
    and cs: "cs1 = cs\<lparr>cs_stored_config := c\<rparr>" "cs2 = cs1\<lparr>cs_stored_stats := s\<rparr>"
    using assms(2,3)
    by (simp_all add: config_storage_save_def config_storage_save_statistics_def Let_def
        split: prod.splits)
  have "se_load env nvs2 SETTINGS_KEY_CONFIG = Some (tag_config_encode c SETTINGS_BLOB_MAX)"
    "se_load env nvs2 SETTINGS_KEY_STATS = Some (tag_stats_encode s SETTINGS_BLOB_MAX)"
    using ok save by (metis settings_keys_differ(1))+
  then show ?thesis
    by (simp add: settings_load_smart_tag_def config_storage_load_def
        config_storage_load_statistics_def cs)
qed

text \<open>A store that is a finite map, for the witness.\<close>

definition map_settings :: "(string \<Rightarrow> u8 list option) settings_env" where
  "map_settings = \<lparr> se_save_one = \<lambda>m k b. (0, m(k \<mapsto> b)), se_delete = \<lambda>m k. (0, m(k := None)),
     se_load = \<lambda>m k. m k \<rparr>"

lemma map_settings_ok: "settings_store_ok map_settings"
  by (auto simp: settings_store_ok_def map_settings_def)

lemma settings_survive_reboot_witness:
  "\<exists>cs1 nvs1 cs2 nvs2. config_storage_save map_settings (TAG_CONFIG_DEFAULTS\<lparr>cfg_led_enabled := 0\<rparr>)
      (config_storage_boot, Map.empty) = (0, cs1, nvs1) \<and>
    config_storage_save_statistics map_settings tag_statistics_zero (cs1, nvs1) = (0, cs2, nvs2) \<and>
    cfg_led_enabled (config_storage_load
      (settings_load_smart_tag map_settings nvs2 config_storage_boot)) = 0"
proof -
  let ?c = "TAG_CONFIG_DEFAULTS\<lparr>cfg_led_enabled := 0\<rparr>"
  obtain cs1 nvs1 cs2 nvs2 where saves:
    "config_storage_save map_settings ?c (config_storage_boot, Map.empty) = (0, cs1, nvs1)"
    "config_storage_save_statistics map_settings tag_statistics_zero (cs1, nvs1) = (0, cs2, nvs2)"
    by (simp add: config_storage_save_def config_storage_save_statistics_def map_settings_def Let_def)
  then show ?thesis
    using settings_survive_reboot [OF map_settings_ok saves] by auto
qed

lemma factory_reset_stored:
  assumes "config_storage_factory_reset env st = (err, cs', nvs')"
  shows "err = 0 \<and> config_storage_load cs' = TAG_CONFIG_DEFAULTS \<and>
    config_storage_load_statistics cs' = tag_statistics_zero"
  using assms
  by (auto simp: config_storage_factory_reset_def config_storage_load_def
      config_storage_load_statistics_def Let_def split: prod.splits)

end
