(* ===== verification/Led_Manager.thy ===== *)
theory Led_Manager
  imports Smart_Tag
begin

section \<open>LED manager\<close>

text \<open>
  \<open>src/ui/led_manager.c\<close>: the set of active indications, the blink pattern of the highest
  priority one, and acknowledgement flashes. A delayable work item is the delay it was last
  scheduled with, in milliseconds, or \<open>None\<close> when it is not pending; \<open>led_output\<close> is what the
  three GPIOs were last set to.
\<close>

datatype led_state =
  LED_STATE_IDLE | LED_STATE_BLE_ADVERTISING | LED_STATE_ZIGBEE_JOINING
| LED_STATE_ZIGBEE_CONNECTED | LED_STATE_OTA | LED_STATE_ALARM | LED_STATE_IDENTIFY

fun led_code :: "led_state \<Rightarrow> nat" where
  "led_code LED_STATE_IDLE = 0"
| "led_code LED_STATE_BLE_ADVERTISING = 1"
| "led_code LED_STATE_ZIGBEE_JOINING = 2"
| "led_code LED_STATE_ZIGBEE_CONNECTED = 3"
| "led_code LED_STATE_OTA = 4"
| "led_code LED_STATE_ALARM = 5"
| "led_code LED_STATE_IDENTIFY = 6"

text \<open>The enumeration is ordered by priority.\<close>

instantiation led_state :: linorder
begin

definition less_eq_led_state :: "led_state \<Rightarrow> led_state \<Rightarrow> bool" where
  "less_eq_led_state a b \<longleftrightarrow> led_code a \<le> led_code b"

definition less_led_state :: "led_state \<Rightarrow> led_state \<Rightarrow> bool" where
  "less_led_state a b \<longleftrightarrow> led_code a < led_code b"

instance
proof
  fix a b :: led_state
  show "a \<le> b \<Longrightarrow> b \<le> a \<Longrightarrow> a = b"
    by (cases a; cases b; simp add: less_eq_led_state_def)
qed (auto simp: less_eq_led_state_def less_led_state_def)

end

definition COLOUR_OFF :: u8 where [c_const]: "COLOUR_OFF = 0x0"
definition COLOUR_RED :: u8 where [c_const]: "COLOUR_RED = 0x1"
definition COLOUR_GREEN :: u8 where [c_const]: "COLOUR_GREEN = 0x2"
definition COLOUR_BLUE :: u8 where [c_const]: "COLOUR_BLUE = 0x4"
definition COLOUR_YELLOW :: u8 where [c_const]: "COLOUR_YELLOW = COLOUR_RED OR COLOUR_GREEN"
definition COLOUR_PURPLE :: u8 where [c_const]: "COLOUR_PURPLE = COLOUR_RED OR COLOUR_BLUE"
definition COLOUR_WHITE :: u8 where
  [c_const]: "COLOUR_WHITE = COLOUR_RED OR COLOUR_GREEN OR COLOUR_BLUE"

record led_pattern =
  pat_colour :: u8
  pat_on_ms :: nat
  pat_period_ms :: nat

fun patterns :: "led_state \<Rightarrow> led_pattern" where
  "patterns LED_STATE_IDLE = \<lparr> pat_colour = COLOUR_OFF, pat_on_ms = 0, pat_period_ms = 0 \<rparr>"
| "patterns LED_STATE_BLE_ADVERTISING = \<lparr> pat_colour = COLOUR_BLUE, pat_on_ms = 30, pat_period_ms = 2000 \<rparr>"
| "patterns LED_STATE_ZIGBEE_JOINING = \<lparr> pat_colour = COLOUR_YELLOW, pat_on_ms = 100, pat_period_ms = 500 \<rparr>"
| "patterns LED_STATE_ZIGBEE_CONNECTED = \<lparr> pat_colour = COLOUR_GREEN, pat_on_ms = 20, pat_period_ms = 5000 \<rparr>"
| "patterns LED_STATE_OTA = \<lparr> pat_colour = COLOUR_PURPLE, pat_on_ms = 100, pat_period_ms = 300 \<rparr>"
| "patterns LED_STATE_ALARM = \<lparr> pat_colour = COLOUR_RED, pat_on_ms = 100, pat_period_ms = 1000 \<rparr>"
| "patterns LED_STATE_IDENTIFY = \<lparr> pat_colour = COLOUR_WHITE, pat_on_ms = 250, pat_period_ms = 500 \<rparr>"

record led_manager =
  led_ready :: bool
  led_enabled :: bool
  led_active_mask :: u32
  led_works_initialised :: bool
  led_blink_work :: "nat option"
  led_identify_work :: "nat option"
  led_flash_remaining :: u8
  led_flash_colour :: u8
  led_light_on :: bool
  led_output :: u8

definition led_manager_boot :: led_manager where
  "led_manager_boot = \<lparr> led_ready = False, led_enabled = True, led_active_mask = 0,
     led_works_initialised = False, led_blink_work = None, led_identify_work = None,
     led_flash_remaining = 0, led_flash_colour = 0, led_light_on = False, led_output = 0 \<rparr>"

definition drive :: "u8 \<Rightarrow> led_manager \<Rightarrow> led_manager" where
  "drive colour l = (if \<not> led_ready l then l
     else l\<lparr>led_output := colour AND (COLOUR_RED OR COLOUR_GREEN OR COLOUR_BLUE)\<rparr>)"

text \<open>The loop of \<open>top_state\<close> runs down from the highest priority and stops at the first hit.\<close>

definition led_priorities :: "led_state list" where
  "led_priorities = [LED_STATE_IDENTIFY, LED_STATE_ALARM, LED_STATE_OTA, LED_STATE_ZIGBEE_CONNECTED,
     LED_STATE_ZIGBEE_JOINING, LED_STATE_BLE_ADVERTISING]"

definition top_state :: "led_manager \<Rightarrow> led_state" where
  "top_state l =
     (case find (\<lambda>s. has_flag (led_active_mask l) (BIT (led_code s))) led_priorities of
        None \<Rightarrow> LED_STATE_IDLE | Some s \<Rightarrow> s)"

definition blink_work_fn :: "led_manager \<Rightarrow> led_manager" where
  "blink_work_fn l =
     (if \<not> led_enabled l then drive COLOUR_OFF l
      else if led_flash_remaining l > 0 then
        let l = l\<lparr>led_light_on := \<not> led_light_on l\<rparr>;
            l = drive (if led_light_on l then led_flash_colour l else COLOUR_OFF) l
        in l\<lparr>led_flash_remaining := led_flash_remaining l - 1, led_blink_work := Some 80\<rparr>
      else
        let state = top_state l; pattern = patterns state in
        if state = LED_STATE_IDLE \<or> pat_period_ms pattern = 0 then
          drive COLOUR_OFF (l\<lparr>led_light_on := False\<rparr>)
        else if led_light_on l then
          (drive COLOUR_OFF (l\<lparr>led_light_on := False\<rparr>))
            \<lparr>led_blink_work := Some (pat_period_ms pattern - pat_on_ms pattern)\<rparr>
        else
          (drive (pat_colour pattern) (l\<lparr>led_light_on := True\<rparr>))
            \<lparr>led_blink_work := Some (pat_on_ms pattern)\<rparr>)"

definition led_manager_set :: "led_state \<Rightarrow> bool \<Rightarrow> led_manager \<Rightarrow> led_manager" where
  "led_manager_set state active l =
     (if \<not> led_ready l then l
      else
        let l = (if active
                 then l\<lparr>led_active_mask := led_active_mask l OR BIT (led_code state)\<rparr>
                 else l\<lparr>led_active_mask := led_active_mask l AND NOT (BIT (led_code state))\<rparr>)
        in l\<lparr>led_light_on := False, led_blink_work := Some 0\<rparr>)"

definition identify_timeout_fn :: "led_manager \<Rightarrow> led_manager" where
  "identify_timeout_fn l = led_manager_set LED_STATE_IDENTIFY False l"

text \<open>\<open>gpios_ready\<close>: all three GPIO ports are ready.\<close>

definition led_manager_init :: "bool \<Rightarrow> led_manager \<Rightarrow> int \<times> led_manager" where
  "led_manager_init gpios_ready l =
     (if \<not> gpios_ready then (- ENODEV, l)
      else (0, l\<lparr>led_output := 0, led_works_initialised := True, led_blink_work := None,
                 led_identify_work := None, led_ready := True\<rparr>))"

definition led_manager_identify :: "u16 \<Rightarrow> led_manager \<Rightarrow> led_manager" where
  "led_manager_identify duration_s l =
     (if \<not> led_ready l then l
      else (led_manager_set LED_STATE_IDENTIFY True l)
             \<lparr>led_identify_work := Some (1000 * unat duration_s)\<rparr>)"

definition led_manager_flash :: "led_state \<Rightarrow> u8 \<Rightarrow> led_manager \<Rightarrow> led_manager" where
  "led_manager_flash state count l =
     (if \<not> led_ready l \<or> \<not> led_enabled l \<or> count = 0 then l
      else l\<lparr>led_flash_colour := pat_colour (patterns state),
             led_flash_remaining := of_nat (min (unat count * 2) 255),
             led_light_on := False, led_blink_work := Some 0\<rparr>)"

definition led_manager_set_enabled :: "bool \<Rightarrow> led_manager \<Rightarrow> led_manager" where
  "led_manager_set_enabled value l =
     (let l = l\<lparr>led_enabled := value\<rparr> in
      if \<not> led_enabled l then drive COLOUR_OFF (l\<lparr>led_flash_remaining := 0, led_light_on := False\<rparr>)
      else l\<lparr>led_blink_work := Some 0\<rparr>)"

subsection \<open>Priorities\<close>

definition led_active :: "led_manager \<Rightarrow> led_state \<Rightarrow> bool" where
  "led_active l s \<longleftrightarrow> bit (led_active_mask l) (led_code s)"

lemma led_code_inject [simp]: "led_code a = led_code b \<longleftrightarrow> a = b"
  by (cases a; cases b; simp)

lemma led_code_less: "led_code s < 32"
  by (cases s) simp_all

lemma led_active_set:
  "led_ready l \<Longrightarrow> led_active (led_manager_set state on l) s \<longleftrightarrow> (if s = state then on else led_active l s)"
  using led_code_less [of state] by (auto simp: led_active_def led_manager_set_def Let_def)

lemma top_state_cases:
  "top_state l = LED_STATE_IDLE \<and> (\<forall>s. s \<noteq> LED_STATE_IDLE \<longrightarrow> \<not> led_active l s) \<or>
   top_state l \<noteq> LED_STATE_IDLE \<and> led_active l (top_state l) \<and> (\<forall>s. led_active l s \<longrightarrow> s \<le> top_state l)"
proof -
  have all: "(\<forall>s. P s) = (P LED_STATE_IDLE \<and> P LED_STATE_BLE_ADVERTISING \<and> P LED_STATE_ZIGBEE_JOINING \<and>
      P LED_STATE_ZIGBEE_CONNECTED \<and> P LED_STATE_OTA \<and> P LED_STATE_ALARM \<and> P LED_STATE_IDENTIFY)" for P
    by (metis led_state.exhaust)
  show ?thesis
    unfolding all
    by (simp add: top_state_def led_priorities_def led_active_def less_eq_led_state_def)
qed

subsection \<open>Steps\<close>

text \<open>
  What can happen to the LED once it is initialised: a caller's operation, or a pending work
  item that runs (it is no longer pending while it does).
\<close>

inductive led_step :: "led_manager \<Rightarrow> led_manager \<Rightarrow> bool" where
  set: "led_step l (led_manager_set s on l)"
| identify: "led_step l (led_manager_identify secs l)"
| flash: "led_step l (led_manager_flash s n l)"
| enable: "led_step l (led_manager_set_enabled on l)"
| blink: "led_blink_work l = Some t \<Longrightarrow> led_step l (blink_work_fn (l\<lparr>led_blink_work := None\<rparr>))"
| timeout: "led_identify_work l = Some t \<Longrightarrow>
    led_step l (identify_timeout_fn (l\<lparr>led_identify_work := None\<rparr>))"

inductive_cases led_stepE: "led_step l l'"

definition led_inv :: "led_manager \<Rightarrow> bool" where
  "led_inv l \<longleftrightarrow> led_ready l \<and>
     (\<not> led_enabled l \<longrightarrow> led_output l = 0 \<and> led_flash_remaining l = 0) \<and>
     (led_enabled l \<and> (top_state l \<noteq> LED_STATE_IDLE \<or> led_flash_remaining l > 0) \<longrightarrow>
        led_blink_work l \<noteq> None)"

lemma top_state_frame [simp]:
  "top_state (l\<lparr>led_blink_work := w\<rparr>) = top_state l"
  "top_state (l\<lparr>led_light_on := b\<rparr>) = top_state l"
  "top_state (l\<lparr>led_output := c\<rparr>) = top_state l"
  "top_state (l\<lparr>led_flash_remaining := n\<rparr>) = top_state l"
  "top_state (l\<lparr>led_identify_work := w\<rparr>) = top_state l"
  "top_state (l\<lparr>led_enabled := e\<rparr>) = top_state l"
  by (simp_all add: top_state_def)

lemma led_step_set_inv:
  "led_inv l \<Longrightarrow> led_inv (led_manager_set s on l)"
  by (simp add: led_inv_def led_manager_set_def Let_def)

lemma led_step_inv:
  assumes "led_step l l'" "led_inv l"
  shows "led_inv l'"
  using assms
proof (cases rule: led_step.cases)
  case (enable on)
  with assms(2) show ?thesis
    by (auto simp: led_inv_def led_manager_set_enabled_def drive_def COLOUR_OFF_def Let_def)
next
  case (blink t)
  have "patterns (top_state l) = p \<Longrightarrow> pat_period_ms p = 0 \<Longrightarrow> top_state l = LED_STATE_IDLE" for p
    by (cases "top_state l") auto
  with blink assms(2) show ?thesis
    by (auto simp: led_inv_def blink_work_fn_def drive_def COLOUR_OFF_def Let_def)
next
  case (timeout t)
  with assms(2) show ?thesis
    by (auto simp: identify_timeout_fn_def led_inv_def led_manager_set_def Let_def)
qed (auto simp: led_step_set_inv led_manager_identify_def led_manager_flash_def led_inv_def
    led_manager_set_def Let_def)

lemma led_init_inv: "led_manager_init True led_manager_boot = (0, l) \<Longrightarrow> led_inv l"
  by (auto simp: led_manager_init_def led_manager_boot_def led_inv_def top_state_def
      led_priorities_def)

lemma led_steps_inv:
  assumes "led_step\<^sup>*\<^sup>* l l'" "led_inv l"
  shows "led_inv l'"
  using assms by (induction rule: rtranclp_induct) (auto intro: led_step_inv)

text \<open>
  C34: after any sequence of calls and timer expiries following a successful initialisation, a
  disabled LED is dark, and an enabled one with an indication to show has its blink work
  pending, so the pattern never stops; the indication shown is the active one of the highest
  priority.
\<close>

theorem led_never_stuck:
  assumes "led_manager_init True led_manager_boot = (0, l0)" and "led_step\<^sup>*\<^sup>* l0 l"
  shows "(\<not> led_enabled l \<longrightarrow> led_output l = 0) \<and>
    (led_enabled l \<and> led_active l s \<and> s \<noteq> LED_STATE_IDLE \<longrightarrow>
       led_blink_work l \<noteq> None \<and> led_active l (top_state l) \<and> s \<le> top_state l)"
proof -
  have inv: "led_inv l" using assms led_init_inv led_steps_inv by blast
  show ?thesis
    using inv top_state_cases [of l] unfolding led_inv_def by blast
qed

theorem led_never_stuck_witness:
  "led_blink_work (led_manager_set LED_STATE_ALARM True (snd (led_manager_init True led_manager_boot))) \<noteq> None \<and>
   LED_STATE_ALARM \<le> top_state (led_manager_set LED_STATE_ALARM True
     (snd (led_manager_init True led_manager_boot)))"
proof -
  let ?init = "snd (led_manager_init True led_manager_boot)"
  let ?l = "led_manager_set LED_STATE_ALARM True ?init"
  have init: "led_manager_init True led_manager_boot = (0, ?init)" by (simp add: led_manager_init_def)
  have steps: "led_step\<^sup>*\<^sup>* ?init ?l" by (rule r_into_rtranclp, rule led_step.set)
  have "led_ready ?init" "led_enabled ?l" by (simp_all add: led_manager_init_def led_manager_boot_def
        led_manager_set_def)
  moreover from this have "led_active ?l LED_STATE_ALARM" by (simp add: led_active_set)
  ultimately show ?thesis
    using led_never_stuck [OF init steps, of LED_STATE_ALARM] by simp
qed

text \<open>
  Without a ready LED the master switch still schedules the blink work, whose work item
  was never initialised: \<open>led_manager_set_enabled\<close> has no \<open>ready\<close> guard.
\<close>

lemma enable_without_ready_schedules:
  "let l = led_manager_set_enabled True (snd (led_manager_init False led_manager_boot)) in
     \<not> led_ready l \<and> \<not> led_works_initialised l \<and> led_blink_work l = Some 0"
  by (simp add: led_manager_set_enabled_def led_manager_init_def led_manager_boot_def)

end
