(* ===== verification/Lps22hb.thy ===== *)
theory Lps22hb
  imports Smart_Tag
begin

section \<open>LPS22HB pressure sensor driver\<close>

text \<open>
  \<open>drivers/sensor/lps22hb_spi/lps22hb_spi.c\<close>: identification, the 24-bit burst read and the
  conversion to kilopascal. The SPI bus is a parameter: the result of a transfer and, for a
  read, the bytes it delivers.
\<close>

definition LPS22HB_REG_WHO_AM_I :: u8 where [c_const]: "LPS22HB_REG_WHO_AM_I = 0x0f"
definition LPS22HB_REG_CTRL_REG1 :: u8 where [c_const]: "LPS22HB_REG_CTRL_REG1 = 0x10"
definition LPS22HB_REG_PRESS_OUT :: u8 where [c_const]: "LPS22HB_REG_PRESS_OUT = 0x28"
definition LPS22HB_ODR_10HZ_BDU :: u8 where [c_const]: "LPS22HB_ODR_10HZ_BDU = 0x22"
definition LPS22HB_CHIP_ID :: u8 where [c_const]: "LPS22HB_CHIP_ID = 0xb1"
definition LPS22HH_CHIP_ID :: u8 where [c_const]: "LPS22HH_CHIP_ID = 0xb3"

text \<open>\<open>spi_transceive_dt\<close> of a command byte and a number of bytes back, \<open>spi_write_dt\<close> of a frame.\<close>

record spi_env =
  spi_ready :: bool
  spi_transceive :: "u8 \<Rightarrow> nat \<Rightarrow> int \<times> u8 list"
  spi_write :: "u8 list \<Rightarrow> int"

datatype lps_channel = LPS_CHAN_ALL | LPS_CHAN_PRESS | LPS_CHAN_OTHER

definition lps22hb_read_regs :: "spi_env \<Rightarrow> u8 \<Rightarrow> nat \<Rightarrow> int \<times> u8 list" where
  "lps22hb_read_regs spi reg count = spi_transceive spi (reg OR 0x80) count"

definition lps22hb_write_reg :: "spi_env \<Rightarrow> u8 \<Rightarrow> u8 \<Rightarrow> int" where
  "lps22hb_write_reg spi reg v = spi_write spi [reg AND 0x7f, v]"

text \<open>The sample fetched is the driver's state \<open>pressure_raw\<close>.\<close>

definition lps22hb_sample_fetch :: "spi_env \<Rightarrow> lps_channel \<Rightarrow> s32 \<Rightarrow> int \<times> s32" where
  "lps22hb_sample_fetch spi chan pressure_raw =
     (if chan \<noteq> LPS_CHAN_ALL \<and> chan \<noteq> LPS_CHAN_PRESS then (- ENOTSUP, pressure_raw)
      else case lps22hb_read_regs spi LPS22HB_REG_PRESS_OUT 3 of (err, raw) \<Rightarrow>
      if err \<noteq> 0 then (- EIO, pressure_raw)
      else (0, push_bit 16 (ucast (raw ! 2)) OR push_bit 8 (ucast (raw ! 1)) OR ucast (raw ! 0)))"

text \<open>The conversion is in \<open>int64_t\<close>, which the product always fits.\<close>

definition lps22hb_channel_get :: "lps_channel \<Rightarrow> s32 \<Rightarrow> int \<times> s32 \<times> s32" where
  "lps22hb_channel_get chan pressure_raw =
     (if chan \<noteq> LPS_CHAN_PRESS then (- ENOTSUP, 0, 0)
      else
        let press_kpa_x1e6 = (sint pressure_raw * 100000) sdiv 4096 in
        (0, word_of_int (press_kpa_x1e6 sdiv 1000000), word_of_int (press_kpa_x1e6 smod 1000000)))"

definition lps22hb_init :: "spi_env \<Rightarrow> int" where
  "lps22hb_init spi =
     (if \<not> spi_ready spi then - ENODEV
      else case lps22hb_read_regs spi LPS22HB_REG_WHO_AM_I 1 of (err, bs) \<Rightarrow>
      if err \<noteq> 0 then - EIO
      else
        let who_am_i = bs ! 0 in
        if who_am_i \<noteq> LPS22HB_CHIP_ID \<and> who_am_i \<noteq> LPS22HH_CHIP_ID then - EIO
        else if lps22hb_write_reg spi LPS22HB_REG_CTRL_REG1 LPS22HB_ODR_10HZ_BDU \<noteq> 0 then - EIO
        else 0)"

subsection \<open>Units\<close>

lemma sint_raw24:
  "sint (push_bit 16 (ucast c) OR push_bit 8 (ucast b) OR ucast (a :: u8) :: s32)
     = uint a + 256 * uint (b :: u8) + 65536 * uint (c :: u8)"
proof -
  let ?w = "push_bit 16 (ucast c) OR push_bit 8 (ucast b) OR ucast a :: s32"
  have small: "bit (x :: u8) n \<Longrightarrow> n < 8" for x n using bit_imp_le_length [of x n] by simp
  have "uint ?w = uint a + 256 * uint b + 65536 * uint c"
  proof -
    have disj: "push_bit 16 (ucast c :: s32) AND push_bit 8 (ucast b) = 0"
      "(push_bit 16 (ucast c) OR push_bit 8 (ucast b) :: s32) AND ucast a = 0"
      by (auto intro!: bit_word_eqI simp: bit_and_iff bit_or_iff bit_push_bit_iff bit_ucast_iff
          dest!: small)
    have "?w = push_bit 16 (ucast c) + push_bit 8 (ucast b) + ucast a"
      by (simp add: disjunctive_add_eq_or disj or.assoc)
    moreover have "uint (push_bit 16 (ucast c) + push_bit 8 (ucast b) + ucast a :: s32)
        = uint a + 256 * uint b + 65536 * uint c"
      using uint8_range [of a] uint8_range [of b] uint8_range [of c]
      by (simp add: uint_word_ariths push_bit_eq_mult unsigned_ucast_eq take_bit_eq_mod)
    ultimately show ?thesis by simp
  qed
  moreover have "uint a + 256 * uint b + 65536 * uint c < 2 ^ 31"
    using uint8_range [of a] uint8_range [of b] uint8_range [of c] by simp
  ultimately have "?w = word_of_int (uint a + 256 * uint b + 65536 * uint c)"
    by (metis word_of_int_uint)
  moreover have "sint (word_of_int (uint a + 256 * uint b + 65536 * uint c) :: s32)
      = uint a + 256 * uint b + 65536 * uint c"
    by (rule sint_of_int_s32)
      (use uint8_range [of a] uint8_range [of b] uint8_range [of c] in linarith)+
  ultimately show ?thesis by simp
qed

text \<open>
  The pressure is exact to the micro-kilopascal. For the three bytes of a successful burst
  read, \<open>channel_get\<close> gives kilopascal and millionths with
  \<open>val1 * 1000000 + val2 = floor (raw * 100000 / 4096)\<close> and a fraction below one million, where
  \<open>raw\<close> is the 24-bit little-endian count: 4096 counts to the hectopascal.
\<close>

lemma pressure_conversion_exact:
  assumes "spi_transceive spi (LPS22HB_REG_PRESS_OUT OR 0x80) 3 = (0, [a, b, c])"
  shows "\<exists>raw v1 v2. lps22hb_sample_fetch spi LPS_CHAN_PRESS old = (0, raw) \<and>
    lps22hb_channel_get LPS_CHAN_PRESS raw = (0, v1, v2) \<and>
    sint v1 * 1000000 + sint v2 = (uint a + 256 * uint b + 65536 * uint c) * 100000 div 4096 \<and>
    0 \<le> sint v2 \<and> sint v2 < 1000000"
proof -
  let ?raw = "push_bit 16 (ucast c) OR push_bit 8 (ucast b) OR ucast a :: s32"
  define n where "n = uint a + 256 * uint b + 65536 * uint c"
  define p where "p = n * 100000 div 4096"
  have n: "0 \<le> n" "n < 16777216"
    using uint8_range [of a] uint8_range [of b] uint8_range [of c] by (simp_all add: n_def)
  then have p: "0 \<le> p" "p < 409600000" by (simp_all add: p_def)
  have fetch: "lps22hb_sample_fetch spi LPS_CHAN_PRESS old = (0, ?raw)"
    using assms by (simp add: lps22hb_sample_fetch_def lps22hb_read_regs_def)
  have raw: "sint ?raw = n" by (simp add: sint_raw24 n_def)
  have get: "lps22hb_channel_get LPS_CHAN_PRESS ?raw
      = (0, word_of_int (p div 1000000), word_of_int (p mod 1000000))"
    unfolding lps22hb_channel_get_def raw
    using n p by (simp add: p_def Let_def signed_divide_int_def signed_modulo_int_def
        minus_mult_div_eq_mod sgn_if)
  have "sint (word_of_int (p div 1000000) :: s32) = p div 1000000"
    "sint (word_of_int (p mod 1000000) :: s32) = p mod 1000000"
    by (rule sint_of_int_s32; use p in auto)+
  then show ?thesis
    using fetch get p by (auto simp: p_def n_def)
qed

lemma pressure_conversion_exact_witness:
  "let spi = \<lparr> spi_ready = True, spi_transceive = \<lambda>r n. (0, [0x00, 0x50, 0x3f]), spi_write = \<lambda>f. 0 \<rparr> in
   \<exists>raw v1 v2. lps22hb_sample_fetch spi LPS_CHAN_PRESS 0 = (0, raw) \<and>
    lps22hb_channel_get LPS_CHAN_PRESS raw = (0, v1, v2) \<and> sint v1 * 1000000 + sint v2 = 101300000"
proof -
  let ?spi = "\<lparr> spi_ready = True, spi_transceive = \<lambda>r n. (0, [0x00, 0x50, 0x3f]), spi_write = \<lambda>f. 0 \<rparr>"
  have "spi_transceive ?spi (LPS22HB_REG_PRESS_OUT OR 0x80) 3 = (0, [0x00, 0x50, 0x3f])" by simp
  from pressure_conversion_exact [OF this, of 0] show ?thesis by auto
qed

end
