(* ===== verification/Sensor_Manager.thy ===== *)
theory Sensor_Manager
  imports Smart_Tag
begin

section \<open>Sensor manager and the two board backends\<close>

text \<open>
  \<open>src/sensors/sensor_manager.c\<close>, \<open>sensor_holyiot.c\<close> and \<open>sensor_nrf54l15tag.c\<close>. The device
  drivers and the ADC are Zephyr's: \<open>sensor_hw\<close> is what they answer while one sample is taken.
  The conversions from \<open>struct sensor_value\<close> go through \<open>double\<close> in the C code; those floating
  point expressions are parameters too (\<open>hw_milli_g\<close> and so on), each with the type it is cast
  to.
\<close>

datatype sensor_device =
  DEV_SHT40 | DEV_LPS22HB | DEV_LIS2DH12 | DEV_EXT_FLASH | DEV_BME688 | DEV_ADXL367 | DEV_BMI270

datatype sensor_channel = CHAN_AMBIENT_TEMP | CHAN_HUMIDITY | CHAN_PRESS | CHAN_GAS_RES

datatype board = BOARD_HOLYIOT | BOARD_NRF54L15TAG

record sensor_value =
  sv_val1 :: s32
  sv_val2 :: s32

record sensor_hw =
  hw_device_is_ready :: "sensor_device \<Rightarrow> bool"
  hw_sample_fetch :: "sensor_device \<Rightarrow> int"
  hw_channel_get :: "sensor_device \<Rightarrow> sensor_channel \<Rightarrow> int \<times> sensor_value"
  hw_channel_get_xyz :: "sensor_device \<Rightarrow> int \<times> sensor_value \<times> sensor_value \<times> sensor_value"
  hw_has_ext_flash :: bool
  hw_flash_jedec_id :: "int \<times> u8 list"
  hw_adc_is_ready :: bool
  hw_adc_channel_setup :: int
  hw_adc_sequence_init :: int
  hw_adc_read :: "int \<times> s16"
  hw_adc_raw_to_millivolts :: "s32 \<Rightarrow> int \<times> s32"
  hw_milli_g :: "sensor_value \<Rightarrow> s16"
  hw_x100_signed :: "sensor_value \<Rightarrow> s16"
  hw_x100_unsigned :: "sensor_value \<Rightarrow> u16"
  hw_pascal :: "sensor_value \<Rightarrow> s32"
  hw_dps_x10 :: "sensor_value \<Rightarrow> s16"

record sensor_state =
  ss_init_faults :: u8
  ss_expected_valid :: u8

subsection \<open>Integer square root\<close>

fun isqrt_loop :: "nat \<Rightarrow> u32 \<Rightarrow> u32 \<Rightarrow> u32 \<Rightarrow> u32" where
  "isqrt_loop 0 v rest root = root"
| "isqrt_loop (Suc n) v rest root =
     (let root = push_bit 1 root;
          rest = push_bit 2 rest OR drop_bit 30 v;
          v = push_bit 2 v
      in if root < rest then isqrt_loop n v (rest - (root OR 1)) (root + 2)
         else isqrt_loop n v rest root)"

definition isqrt32 :: "u32 \<Rightarrow> u32" where
  "isqrt32 v = drop_bit 1 (isqrt_loop 16 v 0 0)"

subsection \<open>Readiness and acceleration\<close>

definition sensor_board_device_ready ::
  "sensor_hw \<Rightarrow> sensor_device \<Rightarrow> u8 \<Rightarrow> sensor_state \<Rightarrow> bool \<times> sensor_state" where
  "sensor_board_device_ready hw dev valid_bit s =
     (if \<not> hw_device_is_ready hw dev
      then (False, s\<lparr>ss_init_faults := ss_init_faults s OR valid_bit\<rparr>)
      else (True, if valid_bit \<noteq> 0
                  then s\<lparr>ss_expected_valid := ss_expected_valid s OR valid_bit\<rparr> else s))"

text \<open>The sum is in \<open>int32_t\<close>; its conversion to \<open>uint32_t\<close> is the argument of the root.\<close>

definition sensor_board_apply_accel ::
  "sensor_hw \<Rightarrow> sensor_value \<times> sensor_value \<times> sensor_value \<Rightarrow> sensor_data \<Rightarrow> sensor_data" where
  "sensor_board_apply_accel hw axes d =
     (case axes of (ax, ay, az) \<Rightarrow>
      let d = d\<lparr>sd_accel_x_mg := hw_milli_g hw ax, sd_accel_y_mg := hw_milli_g hw ay,
                sd_accel_z_mg := hw_milli_g hw az\<rparr>;
          sum = sint (sd_accel_x_mg d) * sint (sd_accel_x_mg d)
              + sint (sd_accel_y_mg d) * sint (sd_accel_y_mg d)
              + sint (sd_accel_z_mg d) * sint (sd_accel_z_mg d)
      in d\<lparr>sd_magnitude_mg := ucast (min (isqrt32 (word_of_int sum)) UINT16_MAX),
           sd_valid := sd_valid d OR SENSOR_VALID_ACCEL\<rparr>)"

subsection \<open>HOLyiot 25025\<close>

definition holyiot_init :: "sensor_hw \<Rightarrow> sensor_state \<Rightarrow> int \<times> sensor_state" where
  "holyiot_init hw s =
     (case sensor_board_device_ready hw DEV_SHT40 SENSOR_VALID_TEMP_RH s of (ok1, s) \<Rightarrow>
      case sensor_board_device_ready hw DEV_LPS22HB SENSOR_VALID_PRESSURE s of (ok2, s) \<Rightarrow>
      case sensor_board_device_ready hw DEV_LIS2DH12 SENSOR_VALID_ACCEL s of (ok3, s) \<Rightarrow>
      case (if hw_has_ext_flash hw then sensor_board_device_ready hw DEV_EXT_FLASH 0 s
            else (True, s)) of (ok4, s) \<Rightarrow>
        (if ok1 \<and> ok2 \<and> ok3 \<and> ok4 then 0 else - ENODEV, s))"

definition holyiot_read_environment :: "sensor_hw \<Rightarrow> sensor_data \<Rightarrow> sensor_data" where
  "holyiot_read_environment hw d =
     (let d = (if hw_device_is_ready hw DEV_SHT40 \<and> hw_sample_fetch hw DEV_SHT40 = 0 then
                 let d = (case hw_channel_get hw DEV_SHT40 CHAN_AMBIENT_TEMP of (err, v) \<Rightarrow>
                            if err = 0 then d\<lparr>sd_temperature_c_x100 := hw_x100_signed hw v\<rparr> else d);
                     d = (case hw_channel_get hw DEV_SHT40 CHAN_HUMIDITY of (err, v) \<Rightarrow>
                            if err = 0 then d\<lparr>sd_humidity_x100 := hw_x100_unsigned hw v\<rparr> else d)
                 in d\<lparr>sd_valid := sd_valid d OR SENSOR_VALID_TEMP_RH\<rparr>
               else d)
      in if hw_device_is_ready hw DEV_LPS22HB \<and> hw_sample_fetch hw DEV_LPS22HB = 0 then
           (case hw_channel_get hw DEV_LPS22HB CHAN_PRESS of (err, v) \<Rightarrow>
              if err = 0 then d\<lparr>sd_pressure_pa := hw_pascal hw v,
                                sd_valid := sd_valid d OR SENSOR_VALID_PRESSURE\<rparr> else d)
         else d)"

definition holyiot_read_motion :: "sensor_hw \<Rightarrow> sensor_data \<Rightarrow> int \<times> sensor_data" where
  "holyiot_read_motion hw d =
     (if \<not> hw_device_is_ready hw DEV_LIS2DH12 \<or> hw_sample_fetch hw DEV_LIS2DH12 \<noteq> 0 then (- EIO, d)
      else case hw_channel_get_xyz hw DEV_LIS2DH12 of (err, axes) \<Rightarrow>
        if err \<noteq> 0 then (- EIO, d) else (0, sensor_board_apply_accel hw axes d))"

definition holyiot_flash_jedec_id :: "sensor_hw \<Rightarrow> int \<times> u8 list" where
  "holyiot_flash_jedec_id hw =
     (if hw_has_ext_flash hw then
        (if \<not> hw_device_is_ready hw DEV_EXT_FLASH then (- ENODEV, []) else hw_flash_jedec_id hw)
      else (- ENOTSUP, []))"

subsection \<open>nRF54L15 Tag\<close>

definition IMU_ACTIVE_DEVIATION_MG :: int where [c_const]: "IMU_ACTIVE_DEVIATION_MG = 150"

definition tag_init :: "sensor_hw \<Rightarrow> sensor_state \<Rightarrow> int \<times> sensor_state" where
  "tag_init hw s =
     (case sensor_board_device_ready hw DEV_BME688 SENSOR_VALID_TEMP_RH s of (ok1, s) \<Rightarrow>
      let s = (if ok1 then s\<lparr>ss_expected_valid := ss_expected_valid s OR SENSOR_VALID_PRESSURE
                                                   OR SENSOR_VALID_GAS\<rparr> else s) in
      case sensor_board_device_ready hw DEV_ADXL367 SENSOR_VALID_ACCEL s of (ok2, s) \<Rightarrow>
      case sensor_board_device_ready hw DEV_BMI270 0 s of (ok3, s) \<Rightarrow>
        (if ok1 \<and> ok2 \<and> ok3 then 0 else - ENODEV, s))"

definition tag_read_environment :: "sensor_hw \<Rightarrow> sensor_data \<Rightarrow> sensor_data" where
  "tag_read_environment hw d =
     (if \<not> hw_device_is_ready hw DEV_BME688 \<or> hw_sample_fetch hw DEV_BME688 \<noteq> 0 then d
      else
        let d = (case hw_channel_get hw DEV_BME688 CHAN_AMBIENT_TEMP of (err, v) \<Rightarrow>
                   if err = 0 then d\<lparr>sd_temperature_c_x100 := hw_x100_signed hw v\<rparr> else d);
            d = (case hw_channel_get hw DEV_BME688 CHAN_HUMIDITY of (err, v) \<Rightarrow>
                   if err = 0 then d\<lparr>sd_humidity_x100 := hw_x100_unsigned hw v\<rparr> else d);
            d = d\<lparr>sd_valid := sd_valid d OR SENSOR_VALID_TEMP_RH\<rparr>;
            d = (case hw_channel_get hw DEV_BME688 CHAN_PRESS of (err, v) \<Rightarrow>
                   if err = 0 then d\<lparr>sd_pressure_pa := hw_pascal hw v,
                                     sd_valid := sd_valid d OR SENSOR_VALID_PRESSURE\<rparr> else d)
        in case hw_channel_get hw DEV_BME688 CHAN_GAS_RES of (err, v) \<Rightarrow>
             if err = 0 then d\<lparr>sd_gas_resistance_ohm := sv_val1 v,
                               sd_valid := sd_valid d OR SENSOR_VALID_GAS\<rparr> else d)"

definition tag_read_motion :: "sensor_hw \<Rightarrow> sensor_data \<Rightarrow> int \<times> sensor_data" where
  "tag_read_motion hw d =
     (if \<not> hw_device_is_ready hw DEV_ADXL367 \<or> hw_sample_fetch hw DEV_ADXL367 \<noteq> 0 then (- EIO, d)
      else case hw_channel_get_xyz hw DEV_ADXL367 of (err, axes) \<Rightarrow>
        if err \<noteq> 0 then (- EIO, d)
        else
          let d = sensor_board_apply_accel hw axes d in
          if \<bar>uint (sd_magnitude_mg d) - SMART_TAG_ONE_G_MG\<bar> < IMU_ACTIVE_DEVIATION_MG then (0, d)
          else if hw_device_is_ready hw DEV_BMI270 \<and> hw_sample_fetch hw DEV_BMI270 = 0 then
            (case hw_channel_get_xyz hw DEV_BMI270 of (err, gx, gy, gz) \<Rightarrow>
               if err = 0 then
                 (0, d\<lparr>sd_gyro_x_dps_x10 := hw_dps_x10 hw gx, sd_gyro_y_dps_x10 := hw_dps_x10 hw gy,
                       sd_gyro_z_dps_x10 := hw_dps_x10 hw gz,
                       sd_valid := sd_valid d OR SENSOR_VALID_GYRO\<rparr>)
               else (0, d))
          else (0, d))"

subsection \<open>The manager\<close>

fun sensor_board_init :: "board \<Rightarrow> sensor_hw \<Rightarrow> sensor_state \<Rightarrow> int \<times> sensor_state" where
  "sensor_board_init BOARD_HOLYIOT = holyiot_init"
| "sensor_board_init BOARD_NRF54L15TAG = tag_init"

fun sensor_board_read_environment :: "board \<Rightarrow> sensor_hw \<Rightarrow> sensor_data \<Rightarrow> sensor_data" where
  "sensor_board_read_environment BOARD_HOLYIOT = holyiot_read_environment"
| "sensor_board_read_environment BOARD_NRF54L15TAG = tag_read_environment"

fun sensor_board_read_motion :: "board \<Rightarrow> sensor_hw \<Rightarrow> sensor_data \<Rightarrow> int \<times> sensor_data" where
  "sensor_board_read_motion BOARD_HOLYIOT = holyiot_read_motion"
| "sensor_board_read_motion BOARD_NRF54L15TAG = tag_read_motion"

fun sensor_board_wake_source :: "board \<Rightarrow> sensor_device option" where
  "sensor_board_wake_source BOARD_HOLYIOT = None"
| "sensor_board_wake_source BOARD_NRF54L15TAG = Some DEV_ADXL367"

fun sensor_manager_flash_jedec_id :: "board \<Rightarrow> sensor_hw \<Rightarrow> int \<times> u8 list" where
  "sensor_manager_flash_jedec_id BOARD_HOLYIOT hw = holyiot_flash_jedec_id hw"
| "sensor_manager_flash_jedec_id BOARD_NRF54L15TAG hw = (- ENOTSUP, [])"

definition sensor_manager_init :: "board \<Rightarrow> sensor_hw \<Rightarrow> int \<times> sensor_state" where
  "sensor_manager_init b hw =
     (case sensor_board_init b hw \<lparr> ss_init_faults = 0, ss_expected_valid = 0 \<rparr> of (err, s) \<Rightarrow>
      if \<not> hw_adc_is_ready hw \<or> hw_adc_channel_setup hw \<noteq> 0
      then (- ENODEV, s\<lparr>ss_init_faults := ss_init_faults s OR SENSOR_VALID_BATTERY\<rparr>)
      else (if err \<noteq> 0 then - ENODEV else 0,
            s\<lparr>ss_expected_valid := ss_expected_valid s OR SENSOR_VALID_BATTERY\<rparr>))"

text \<open>The millivolts and the percentage, when the reading succeeds.\<close>

definition sensor_manager_read_battery :: "sensor_hw \<Rightarrow> int + (u16 \<times> u8)" where
  "sensor_manager_read_battery hw =
     (if \<not> hw_adc_is_ready hw then Inl (- ENODEV)
      else if hw_adc_sequence_init hw \<noteq> 0 then Inl (hw_adc_sequence_init hw)
      else case hw_adc_read hw of (err, raw) \<Rightarrow>
      if err \<noteq> 0 then Inl err
      else case hw_adc_raw_to_millivolts hw (scast raw) of (err, mv) \<Rightarrow>
      if err \<noteq> 0 then Inl err
      else
        let mv = (if sint mv < 0 then 0 else mv) in
        Inr (ucast mv, smart_tag_battery_percent mv))"

definition sensor_manager_read_environment :: "board \<Rightarrow> sensor_hw \<Rightarrow> sensor_data \<Rightarrow> sensor_data" where
  "sensor_manager_read_environment b hw d =
     (let d = sensor_board_read_environment b hw d in
      case sensor_manager_read_battery hw of
        Inl err \<Rightarrow> d
      | Inr (millivolts, percent) \<Rightarrow>
          d\<lparr>sd_battery_mv := millivolts, sd_battery_percent := percent,
            sd_valid := sd_valid d OR SENSOR_VALID_BATTERY\<rparr>)"

definition sensor_manager_read_motion :: "board \<Rightarrow> sensor_hw \<Rightarrow> sensor_data \<Rightarrow> int \<times> sensor_data" where
  "sensor_manager_read_motion b hw d = sensor_board_read_motion b hw d"

definition sensor_manager_faults :: "sensor_state \<Rightarrow> u8" where
  "sensor_manager_faults s = ss_init_faults s"

definition sensor_manager_expected_valid :: "sensor_state \<Rightarrow> u8" where
  "sensor_manager_expected_valid s = ss_expected_valid s"

definition sensor_manager_wake_source :: "board \<Rightarrow> sensor_device option" where
  "sensor_manager_wake_source b = sensor_board_wake_source b"

text \<open>\<open>uptime_s\<close> is \<open>k_uptime_get() / 1000\<close> as 32 bits.\<close>

definition sensor_manager_read :: "board \<Rightarrow> sensor_hw \<Rightarrow> u32 \<Rightarrow> sensor_data" where
  "sensor_manager_read b hw uptime_s =
     (let d = sensor_data_zero\<lparr>sd_timestamp := uptime_s\<rparr>;
          d = sensor_manager_read_environment b hw d
      in snd (sensor_board_read_motion b hw d))"

subsection \<open>The root is the integer square root\<close>

lemma unat_shift_in:
  fixes rest v :: u32
  assumes "unat rest < 2 ^ 29"
  shows "unat (push_bit 2 rest OR drop_bit 30 v) = 4 * unat rest + unat v div 2 ^ 30"
proof -
  have small: "bit v n \<Longrightarrow> n < 32" for n using bit_imp_le_length [of v n] by simp
  have "push_bit 2 rest AND drop_bit 30 v = 0"
    by (auto intro!: bit_word_eqI simp: bit_and_iff bit_push_bit_iff bit_drop_bit_eq dest!: small)
  then have "push_bit 2 rest OR drop_bit 30 v = push_bit 2 rest + drop_bit 30 v"
    by (simp add: disjunctive_add_eq_or)
  moreover have "unat v div 2 ^ 30 < 4"
    using unsigned_less [of v, where 'a = nat] by (simp add: less_mult_imp_div_less)
  ultimately show ?thesis
    using assms by (simp add: unat_word_ariths push_bit_eq_mult drop_bit_eq_div unat_div)
qed

text \<open>One bit of the root, over natural numbers: \<open>s\<close> is the root of \<open>V\<close> and \<open>b\<close> the next two bits.\<close>

lemma isqrt_digit:
  fixes s V b :: nat
  assumes "s * s \<le> V" "V \<le> s * s + 2 * s" "b < 4"
  shows "if 4 * s < 4 * (V - s * s) + b
    then (2 * s + 1) * (2 * s + 1) \<le> 4 * V + b \<and> 4 * V + b \<le> (2 * s + 1) * (2 * s + 1) + 2 * (2 * s + 1) \<and>
         4 * (V - s * s) + b - (4 * s + 1) = 4 * V + b - (2 * s + 1) * (2 * s + 1)
    else (2 * s) * (2 * s) \<le> 4 * V + b \<and> 4 * V + b \<le> (2 * s) * (2 * s) + 2 * (2 * s) \<and>
         4 * (V - s * s) + b = 4 * V + b - (2 * s) * (2 * s)"
proof -
  obtain r where V: "V = s * s + r" using assms(1) le_Suc_ex by blast
  with assms show ?thesis by (auto simp: algebra_simps)
qed

text \<open>What one round shifts out of \<open>v\<close> and leaves in it, and the sizes that keep it from wrapping.\<close>

lemma isqrt_shift_out:
  assumes "unat (v :: u32) = w * 4 ^ (15 - n)" "n \<le> 15"
  shows "unat v div 2 ^ 30 = w div 4 ^ n" and "unat (push_bit 2 v) = (w mod 4 ^ n) * 4 ^ (16 - n)"
proof -
  have k: "16 - n = Suc (15 - n)" using assms(2) by simp
  have pow: "(4 :: nat) ^ n * 4 ^ (15 - n) = 4 ^ 15" "(2 :: nat) ^ 30 = 4 ^ 15"
    using assms(2) by (simp_all flip: power_add)
  show "unat v div 2 ^ 30 = w div 4 ^ n"
    unfolding assms(1) pow(2) pow(1) [symmetric] by simp
  have total: "(2 :: nat) ^ 32 = 4 ^ n * 4 ^ Suc (15 - n)" using pow(1) by simp
  have "unat (push_bit 2 v) = (4 * unat v) mod 2 ^ 32"
    by (simp add: push_bit_eq_mult unat_word_ariths mult.commute)
  also have "\<dots> = (w * 4 ^ Suc (15 - n)) mod (4 ^ n * 4 ^ Suc (15 - n))"
    unfolding total assms(1) by (simp add: algebra_simps)
  finally show "unat (push_bit 2 v) = (w mod 4 ^ n) * 4 ^ (16 - n)"
    unfolding k by (simp only: mult_mod_left)
qed

lemma isqrt_root_small:
  assumes "s * s \<le> (V :: nat)" "V < 4 ^ (15 - n)"
  shows "s < 2 ^ 15"
proof (rule ccontr)
  assume "\<not> s < 2 ^ 15"
  then have "2 ^ 15 * 2 ^ 15 \<le> s * s" by (intro mult_le_mono) auto
  moreover have "(4 :: nat) ^ (15 - n) \<le> 4 ^ 15" by (rule power_increasing) auto
  ultimately show False using assms by simp
qed

lemma isqrt_root_shift:
  assumes "unat (root :: u32) = 2 * s" "s < 2 ^ 15"
  shows "unat (push_bit 1 root) = 4 * s" "unat (push_bit 1 root OR 1) = 4 * s + 1"
    "unat (push_bit 1 root + 2) = 2 * (2 * s + 1)"
proof -
  show root: "unat (push_bit 1 root) = 4 * s"
    using assms by (simp add: push_bit_eq_mult unat_word_ariths)
  have "push_bit 1 root OR 1 = push_bit 1 root + 1"
    unfolding or_one_eq by (simp add: push_bit_eq_mult)
  with root assms(2) show "unat (push_bit 1 root OR 1) = 4 * s + 1" by (simp add: unat_word_ariths)
  show "unat (push_bit 1 root + 2) = 2 * (2 * s + 1)" using root assms(2) by (simp add: unat_word_ariths)
qed

lemma isqrt_loop_correct:
  assumes "unat root = 2 * s" "unat rest = V - s * s" "s * s \<le> V" "V \<le> s * s + 2 * s"
    and "n \<le> 16" "V < 4 ^ (16 - n)" "unat v = w * 4 ^ (16 - n)" "w < 4 ^ n"
  shows "\<exists>r. unat (isqrt_loop n v rest root) = 2 * r \<and> r * r \<le> V * 4 ^ n + w \<and>
    V * 4 ^ n + w < (r + 1) * (r + 1)"
  using assms
proof (induction n arbitrary: s V w v rest root)
  case 0
  then show ?case by (intro exI [of _ s]) (auto simp: algebra_simps)
next
  case (Suc n)
  let ?b = "w div 4 ^ n" and ?rest = "push_bit 2 rest OR drop_bit 30 v"
  have n: "n \<le> 15" "16 - Suc n = 15 - n" "16 - n = Suc (15 - n)" using Suc.prems(5) by auto
  have b: "?b < 4" using Suc.prems(8) by (simp add: less_mult_imp_div_less)
  note s = isqrt_root_small [OF Suc.prems(3,6) [unfolded n(2)]]
  note shift = isqrt_shift_out [OF Suc.prems(7) [unfolded n(2)] n(1)]
  note root = isqrt_root_shift [OF Suc.prems(1) s]
  have rest: "unat ?rest = 4 * (V - s * s) + ?b"
    using unat_shift_in [of rest v] Suc.prems(2,4) s shift(1) by simp
  have next_V: "4 * V + ?b < 4 ^ (16 - n)" using Suc.prems(6) b n by simp
  have whole: "(4 * V + ?b) * 4 ^ n + w mod 4 ^ n = V * 4 ^ Suc n + w"
    by (simp add: algebra_simps)
  have step: "\<exists>r. unat (isqrt_loop n (push_bit 2 v) rest' root') = 2 * r \<and>
      r * r \<le> V * 4 ^ Suc n + w \<and> V * 4 ^ Suc n + w < (r + 1) * (r + 1)"
    if "unat root' = 2 * s'" "unat rest' = 4 * V + ?b - s' * s'" "s' * s' \<le> 4 * V + ?b"
      "4 * V + ?b \<le> s' * s' + 2 * s'" for s' rest' root'
    using Suc.IH [OF that _ next_V shift(2)] n(1) unfolding whole by simp
  note digit = isqrt_digit [OF Suc.prems(3,4) b]
  show ?case
  proof (cases "4 * s < 4 * (V - s * s) + ?b")
    case True
    note d = digit [unfolded if_P [OF True]]
    have "push_bit 1 root OR 1 \<le> ?rest"
      unfolding word_le_nat_alt root rest using True by simp
    then have "unat (?rest - (push_bit 1 root OR 1)) = 4 * V + ?b - (2 * s + 1) * (2 * s + 1)"
      using d by (simp only: unat_sub root rest)
    moreover have "push_bit 1 root < ?rest" unfolding word_less_nat_alt root rest by (rule True)
    ultimately show ?thesis
      using step [OF root(3)] d unfolding isqrt_loop.simps Let_def by simp
  next
    case False
    note d = digit [unfolded if_not_P [OF False]]
    have "unat ?rest = 4 * V + ?b - (2 * s) * (2 * s)" using d rest by (simp only:)
    moreover have "\<not> push_bit 1 root < ?rest" unfolding word_less_nat_alt root rest by (rule False)
    ultimately show ?thesis
      using step [of "push_bit 1 root" "2 * s" ?rest] root(1) d
      unfolding isqrt_loop.simps Let_def by simp
  qed
qed

text \<open>
  C35: \<open>isqrt32\<close> is the integer square root for every 32-bit argument, so the magnitude of an
  acceleration is the floor of the length of the vector.
\<close>

theorem isqrt32_is_floor_sqrt:
  "unat (isqrt32 v) * unat (isqrt32 v) \<le> unat v \<and>
   unat v < (unat (isqrt32 v) + 1) * (unat (isqrt32 v) + 1)"
proof -
  have "unat v < 4 ^ 16" using unsigned_less [of v, where 'a = nat] by simp
  then obtain r where "unat (isqrt_loop 16 v 0 0) = 2 * r" "r * r \<le> unat v"
    "unat v < (r + 1) * (r + 1)"
    using isqrt_loop_correct [of 0 0 0 0 16 v "unat v"] by auto
  then show ?thesis by (simp add: isqrt32_def drop_bit_eq_div unat_div)
qed

subsection \<open>A working board has no sensor fault\<close>

text \<open>Hardware on which every device is ready and every access succeeds.\<close>

definition hw_healthy :: "sensor_hw \<Rightarrow> bool" where
  "hw_healthy hw \<longleftrightarrow>
     (\<forall>d. hw_device_is_ready hw d \<and> hw_sample_fetch hw d = 0 \<and>
          fst (hw_channel_get_xyz hw d) = 0 \<and> (\<forall>c. fst (hw_channel_get hw d c) = 0)) \<and>
     hw_adc_is_ready hw \<and> hw_adc_channel_setup hw = 0 \<and> hw_adc_sequence_init hw = 0 \<and>
     fst (hw_adc_read hw) = 0 \<and> (\<forall>r. fst (hw_adc_raw_to_millivolts hw r) = 0)"

definition board_capabilities :: "board \<Rightarrow> u8" where
  "board_capabilities b =
     (case b of BOARD_HOLYIOT \<Rightarrow> SENSOR_VALID_TEMP_RH OR SENSOR_VALID_PRESSURE OR SENSOR_VALID_ACCEL
                                 OR SENSOR_VALID_BATTERY
      | BOARD_NRF54L15TAG \<Rightarrow> SENSOR_VALID_TEMP_RH OR SENSOR_VALID_PRESSURE OR SENSOR_VALID_GAS
                                 OR SENSOR_VALID_ACCEL OR SENSOR_VALID_BATTERY)"

lemma valid_masks_neq_0 [simp]:
  "SENSOR_VALID_TEMP_RH \<noteq> 0" "SENSOR_VALID_PRESSURE \<noteq> 0" "SENSOR_VALID_ACCEL \<noteq> 0"
  by (simp_all add: flag_defs)

lemma healthy_init:
  assumes "hw_healthy hw"
  shows "\<exists>s. sensor_manager_init b hw = (0, s) \<and> ss_init_faults s = 0 \<and>
    ss_expected_valid s = board_capabilities b"
  using assms
  by (cases b)
    (simp_all add: hw_healthy_def sensor_manager_init_def holyiot_init_def tag_init_def Let_def
      sensor_board_device_ready_def board_capabilities_def or.assoc)

lemma apply_accel_valid [simp]:
  "sd_valid (sensor_board_apply_accel hw axes d) = sd_valid d OR SENSOR_VALID_ACCEL"
  by (simp add: sensor_board_apply_accel_def case_prod_beta Let_def)

lemma healthy_battery:
  assumes "hw_healthy hw"
  shows "\<exists>mv p. sensor_manager_read_battery hw = Inr (mv, p)"
  using assms
  by (simp add: hw_healthy_def sensor_manager_read_battery_def case_prod_beta Let_def)

lemma healthy_environment:
  assumes "hw_healthy hw"
  shows "sd_valid (sensor_manager_read_environment b hw d) =
    sd_valid d OR (board_capabilities b AND NOT SENSOR_VALID_ACCEL)"
proof -
  have caps: "board_capabilities b AND NOT SENSOR_VALID_ACCEL =
      (case b of BOARD_HOLYIOT \<Rightarrow> SENSOR_VALID_TEMP_RH OR SENSOR_VALID_PRESSURE OR SENSOR_VALID_BATTERY
       | BOARD_NRF54L15TAG \<Rightarrow> SENSOR_VALID_TEMP_RH OR SENSOR_VALID_PRESSURE OR SENSOR_VALID_GAS
                               OR SENSOR_VALID_BATTERY)"
    by (cases b) (auto intro!: bit_word_eqI simp: board_capabilities_def flag_defs bit_or_iff
        bit_and_iff bit_not_iff)
  obtain mv p where "sensor_manager_read_battery hw = Inr (mv, p)"
    using healthy_battery [OF assms] by blast
  then show ?thesis
    using assms unfolding caps
    by (cases b) (simp_all add: hw_healthy_def sensor_manager_read_environment_def Let_def
        case_prod_beta holyiot_read_environment_def tag_read_environment_def or.assoc)
qed

lemma healthy_motion:
  assumes "hw_healthy hw"
  shows "\<exists>g. g AND board_capabilities b = 0 \<and>
    sd_valid (snd (sensor_board_read_motion b hw d)) = sd_valid d OR SENSOR_VALID_ACCEL OR g"
proof -
  have gyro: "SENSOR_VALID_GYRO AND board_capabilities b = 0"
    by (cases b) (auto intro!: bit_word_eqI simp: board_capabilities_def flag_defs bit_or_iff bit_and_iff)
  show ?thesis
  proof (cases b)
    case BOARD_HOLYIOT
    with assms show ?thesis
      by (intro exI [of _ 0])
        (simp add: hw_healthy_def holyiot_read_motion_def case_prod_beta)
  next
    case BOARD_NRF54L15TAG
    let ?d = "sensor_board_apply_accel hw (snd (hw_channel_get_xyz hw DEV_ADXL367)) d"
    let ?calm = "\<bar>uint (sd_magnitude_mg ?d) - SMART_TAG_ONE_G_MG\<bar> < IMU_ACTIVE_DEVIATION_MG"
    show ?thesis
    proof (cases ?calm)
      case True
      with BOARD_NRF54L15TAG assms show ?thesis
        by (intro exI [of _ 0])
          (simp add: hw_healthy_def tag_read_motion_def case_prod_beta Let_def)
    next
      case False
      with BOARD_NRF54L15TAG assms gyro show ?thesis
        by (intro exI [of _ SENSOR_VALID_GYRO])
          (simp add: hw_healthy_def tag_read_motion_def case_prod_beta Let_def or.assoc)
    qed
  qed
qed

text \<open>
  C36: on either board, working hardware never looks faulty. The initialisation succeeds with no
  faults, and every sample has all the validity bits it announced, so the sensor-fault
  condition of the alarm policy is false; the gyroscope bit is never among the expected ones.
\<close>

theorem healthy_board_no_fault:
  assumes "hw_healthy hw"
  shows "\<exists>s. sensor_manager_init b hw = (0, s) \<and> ss_init_faults s = 0 \<and>
    sd_valid (sensor_manager_read b hw t) AND ss_expected_valid s = ss_expected_valid s \<and>
    \<not> has_flag (ss_expected_valid s) SENSOR_VALID_GYRO \<and>
    sd_timestamp (sensor_manager_read b hw t) = t"
proof -
  obtain s where s: "sensor_manager_init b hw = (0, s)" "ss_init_faults s = 0"
    "ss_expected_valid s = board_capabilities b"
    using healthy_init [OF assms] by blast
  obtain g where g: "sd_valid (sensor_manager_read b hw t) =
      (0 OR (board_capabilities b AND NOT SENSOR_VALID_ACCEL)) OR SENSOR_VALID_ACCEL OR g"
    using healthy_motion [OF assms, of b "sensor_manager_read_environment b hw
        (sensor_data_zero\<lparr>sd_timestamp := t\<rparr>)"]
    by (auto simp: sensor_manager_read_def Let_def healthy_environment [OF assms] sensor_data_zero_def)
  have "sd_valid (sensor_manager_read b hw t) AND board_capabilities b = board_capabilities b"
    unfolding g and_mask_eq_iff by (auto simp: bit_or_iff bit_and_iff bit_not_iff dest: bit_imp_le_length)
  moreover have "\<not> has_flag (board_capabilities b) SENSOR_VALID_GYRO"
    by (cases b) (simp_all add: board_capabilities_def flag_defs bit_or_iff)
  moreover have "sd_timestamp (sensor_manager_read b hw t) = t"
    by (cases b)
      (simp_all add: sensor_manager_read_def sensor_manager_read_environment_def Let_def
        holyiot_read_environment_def tag_read_environment_def holyiot_read_motion_def
        tag_read_motion_def sensor_board_apply_accel_def case_prod_beta split: sum.split)
  ultimately show ?thesis using s by auto
qed

definition hw_example :: sensor_hw where
  "hw_example = \<lparr> hw_device_is_ready = \<lambda>d. True, hw_sample_fetch = \<lambda>d. 0,
     hw_channel_get = \<lambda>d c. (0, \<lparr> sv_val1 = 20, sv_val2 = 0 \<rparr>),
     hw_channel_get_xyz = \<lambda>d. (0, \<lparr> sv_val1 = 0, sv_val2 = 0 \<rparr>, \<lparr> sv_val1 = 0, sv_val2 = 0 \<rparr>,
                                \<lparr> sv_val1 = 9, sv_val2 = 806650 \<rparr>),
     hw_has_ext_flash = True, hw_flash_jedec_id = (0, [0x68, 0x40, 0x15]),
     hw_adc_is_ready = True, hw_adc_channel_setup = 0, hw_adc_sequence_init = 0,
     hw_adc_read = (0, 2900), hw_adc_raw_to_millivolts = \<lambda>r. (0, r),
     hw_milli_g = \<lambda>v. ucast (sv_val1 v * 102), hw_x100_signed = \<lambda>v. ucast (sv_val1 v * 100),
     hw_x100_unsigned = \<lambda>v. ucast (sv_val1 v * 100), hw_pascal = \<lambda>v. sv_val1 v * 1000,
     hw_dps_x10 = \<lambda>v. 0 \<rparr>"

theorem healthy_board_no_fault_witness:
  "\<exists>s. sensor_manager_init BOARD_NRF54L15TAG hw_example = (0, s) \<and> ss_init_faults s = 0 \<and>
    sd_valid (sensor_manager_read BOARD_NRF54L15TAG hw_example 60) AND ss_expected_valid s
      = ss_expected_valid s"
proof -
  have "hw_healthy hw_example" by (simp add: hw_healthy_def hw_example_def)
  then show ?thesis using healthy_board_no_fault [of hw_example BOARD_NRF54L15TAG 60] by blast
qed

end
