(* ===== verification/Storage_Logs.thy ===== *)
theory Storage_Logs
  imports Flash_Recovery
begin

section \<open>Event log and sensor log\<close>

text \<open>
  \<open>src/storage/event_log.c\<close> and \<open>src/storage/sensor_log.c\<close>: the two logs the firmware keeps,
  each a \<open>flash_log\<close> on a partition of its own. A log and the medium of its partition are the
  record \<open>log_file\<close>; the records read are the bytes the code stores in its caller's array. The
  locale \<open>record_log\<close> is what the download over Bluetooth relies on, and every working flash
  partition provides it.
\<close>

record 'f log_file =
  lf_log :: flash_log
  lf_mem :: 'f

definition log_instance :: "u8 \<Rightarrow> u16 \<Rightarrow> flash_log" where
  "log_instance partition_id payload_size =
     \<lparr> fl_partition_id = partition_id, fl_payload_size = payload_size, fl_sector_size = 0,
       fl_total_slots = 0, fl_slots_per_sector = 0, fl_head_slot = 0, fl_tail_slot = 0,
       fl_used_slots = 0, fl_next_seq = 0, fl_ready = False \<rparr>"

definition EVENT_RECORD_SIZE :: nat where [c_const]: "EVENT_RECORD_SIZE = 8"
definition SENSOR_RECORD_SIZE :: nat where [c_const]: "SENSOR_RECORD_SIZE = 17"

text \<open>The partition numbers come from the device tree.\<close>

definition event_log_instance :: "u8 \<Rightarrow> flash_log" where
  "event_log_instance partition_id = log_instance partition_id (of_nat EVENT_RECORD_SIZE)"

definition sensor_log_instance :: "u8 \<Rightarrow> flash_log" where
  "sensor_log_instance partition_id = log_instance partition_id (of_nat SENSOR_RECORD_SIZE)"

definition log_file_init :: "'f flash_env \<Rightarrow> 'f log_file \<Rightarrow> int \<times> 'f log_file" where
  "log_file_init env lf =
     (case flash_log_init env (lf_mem lf) (lf_log lf) of (err, log) \<Rightarrow> (err, lf\<lparr>lf_log := log\<rparr>))"

definition log_file_append ::
  "'f flash_env \<Rightarrow> u8 list \<Rightarrow> 'f log_file \<Rightarrow> int \<times> u32 option \<times> 'f log_file" where
  "log_file_append env rec lf =
     (case flash_log_append env (lf_log lf) (lf_mem lf) rec of (err, seq, log, mem) \<Rightarrow>
        (err, seq, \<lparr> lf_log = log, lf_mem = mem \<rparr>))"

definition log_file_read :: "'f flash_env \<Rightarrow> 'f log_file \<Rightarrow> u32 \<Rightarrow> nat \<Rightarrow> int \<times> u8 list list" where
  "log_file_read env lf start_seq max_n = flash_log_read env (lf_log lf) (lf_mem lf) start_seq max_n"

definition log_file_info :: "'f flash_env \<Rightarrow> 'f log_file \<Rightarrow> flash_log_info" where
  "log_file_info env lf = flash_log_get_info env (lf_log lf) (lf_mem lf)"

text \<open>The error, the number of watchdog feeds, and the log; \<open>None\<close> if the erase does not end.\<close>

definition log_file_clear :: "'f flash_env \<Rightarrow> 'f log_file \<Rightarrow> (int \<times> nat \<times> 'f log_file) option" where
  "log_file_clear env lf =
     (case flash_log_erase env (lf_log lf) (lf_mem lf) of
        None \<Rightarrow> None
      | Some (err, log, mem, feeds) \<Rightarrow> Some (err, feeds, \<lparr> lf_log = log, lf_mem = mem \<rparr>))"

definition event_log_init :: "'f flash_env \<Rightarrow> 'f log_file \<Rightarrow> int \<times> 'f log_file" where
  "event_log_init env lf = log_file_init env lf"

definition event_log_add ::
  "'f flash_env \<Rightarrow> u32 \<Rightarrow> u8 \<Rightarrow> u8 \<Rightarrow> s16 \<Rightarrow> 'f log_file \<Rightarrow>
   int \<times> u32 option \<times> 'f log_file" where
  "event_log_add env uptime_s type severity value lf =
     log_file_append env (event_record_bytes
       \<lparr> ev_timestamp = uptime_s, ev_type = type, ev_severity = severity, ev_value = value \<rparr>) lf"

definition event_log_read :: "'f flash_env \<Rightarrow> 'f log_file \<Rightarrow> u32 \<Rightarrow> nat \<Rightarrow> int \<times> u8 list list" where
  "event_log_read env lf start_seq max_n = log_file_read env lf start_seq max_n"

definition event_log_get_info :: "'f flash_env \<Rightarrow> 'f log_file \<Rightarrow> flash_log_info" where
  "event_log_get_info env lf = log_file_info env lf"

definition event_log_clear :: "'f flash_env \<Rightarrow> 'f log_file \<Rightarrow> (int \<times> nat \<times> 'f log_file) option" where
  "event_log_clear env lf = log_file_clear env lf"

definition sensor_log_init :: "'f flash_env \<Rightarrow> 'f log_file \<Rightarrow> int \<times> 'f log_file" where
  "sensor_log_init env lf = log_file_init env lf"

definition sensor_log_add ::
  "'f flash_env \<Rightarrow> sensor_data \<Rightarrow> bool \<Rightarrow> 'f log_file \<Rightarrow> int \<times> u32 option \<times> 'f log_file" where
  "sensor_log_add env d alarm lf =
     log_file_append env (sensor_log_record_bytes (smart_tag_fill_log_record d alarm)) lf"

definition sensor_log_read :: "'f flash_env \<Rightarrow> 'f log_file \<Rightarrow> u32 \<Rightarrow> nat \<Rightarrow> int \<times> u8 list list" where
  "sensor_log_read env lf start_seq max_n = log_file_read env lf start_seq max_n"

definition sensor_log_get_info :: "'f flash_env \<Rightarrow> 'f log_file \<Rightarrow> flash_log_info" where
  "sensor_log_get_info env lf = log_file_info env lf"

definition sensor_log_clear :: "'f flash_env \<Rightarrow> 'f log_file \<Rightarrow> (int \<times> nat \<times> 'f log_file) option" where
  "sensor_log_clear env lf = log_file_clear env lf"

lemmas storage_log_defs = event_log_init_def event_log_add_def event_log_read_def
  event_log_get_info_def event_log_clear_def sensor_log_init_def sensor_log_add_def
  sensor_log_read_def sensor_log_get_info_def sensor_log_clear_def

subsection \<open>The interface the download relies on\<close>

text \<open>
  A log whose entries are numbered without gaps, whose records have one size, and whose read
  returns the entries from a sequence number on.
\<close>

definition contiguous :: "log_entry list \<Rightarrow> bool" where
  "contiguous es \<longleftrightarrow> (\<forall>i < length es. unat (fst (es ! i)) = unat (fst (es ! 0)) + i)"

text \<open>The entries from \<open>start_seq\<close> on of a gapless log are a suffix of it.\<close>

lemma contiguous_suffix:
  assumes "contiguous es" and "es \<noteq> []" and "fst (es ! 0) \<le> start_seq"
  shows "filter (\<lambda>e. start_seq \<le> fst e) es = drop (unat start_seq - unat (fst (es ! 0))) es"
proof -
  let ?k = "unat start_seq - unat (fst (es ! 0))"
  have seq: "unat (fst (es ! i)) = unat (fst (es ! 0)) + i" if "i < length es" for i
    using assms(1) that by (simp add: contiguous_def)
  have oldest: "unat (fst (es ! 0)) \<le> unat start_seq" using assms(3) by (simp add: word_le_nat_alt)
  have "\<not> start_seq \<le> fst e" if e: "e \<in> set (take ?k es)" for e
  proof -
    obtain i where "i < length es" "i < ?k" "e = es ! i" using e by (auto simp: in_set_conv_nth)
    then show ?thesis using seq [of i] by (simp add: word_le_nat_alt)
  qed
  then have "filter (\<lambda>e. start_seq \<le> fst e) (take ?k es) = []" by (simp add: filter_empty_conv)
  moreover have "start_seq \<le> fst e" if e: "e \<in> set (drop ?k es)" for e
  proof -
    obtain i where "i < length es - ?k" "e = es ! (?k + i)" using e by (auto simp: in_set_conv_nth)
    moreover from this(1) have "?k + i < length es" by simp
    ultimately show ?thesis using seq [of "?k + i"] by (simp add: word_le_nat_alt)
  qed
  then have "filter (\<lambda>e. start_seq \<le> fst e) (drop ?k es) = drop ?k es" by (simp add: filter_id_conv)
  ultimately show ?thesis by (metis append_Nil append_take_drop_id filter_append)
qed

locale record_log =
  fixes log_read :: "'s \<Rightarrow> u32 \<Rightarrow> nat \<Rightarrow> int \<times> u8 list list"
    and log_info :: "'s \<Rightarrow> flash_log_info"
    and log_entries :: "'s \<Rightarrow> log_entry list"
    and log_ok :: "'s \<Rightarrow> bool"
    and rec_size :: "'s \<Rightarrow> nat"
  assumes read_entries: "log_ok s \<Longrightarrow> log_read s start_seq max_n =
      (let out = spec_read (log_entries s) start_seq max_n in (int (length out), out))"
    and entries_contiguous: "log_ok s \<Longrightarrow> contiguous (log_entries s)"
    and entry_size: "log_ok s \<Longrightarrow> e \<in> set (log_entries s) \<Longrightarrow> length (snd e) = rec_size s"
    and info_count: "log_ok s \<Longrightarrow> unat (li_record_count (log_info s)) = length (log_entries s)"
begin

lemma filter_suffix:
  assumes "log_ok s" and "log_entries s \<noteq> []" and "fst (log_entries s ! 0) \<le> start_seq"
  shows "filter (\<lambda>e. start_seq \<le> fst e) (log_entries s)
    = drop (unat start_seq - unat (fst (log_entries s ! 0))) (log_entries s)"
  using entries_contiguous [OF assms(1)] assms(2,3) by (rule contiguous_suffix)

lemma read_suffix:
  assumes "log_ok s" and "log_entries s \<noteq> []" and "fst (log_entries s ! 0) \<le> start_seq"
  shows "log_read s start_seq max_n =
    (let out = take max_n (map snd (drop (unat start_seq - unat (fst (log_entries s ! 0))) (log_entries s)))
     in (int (length out), out))"
  using read_entries [OF assms(1)] filter_suffix [OF assms] by (simp add: spec_read_def)

end

definition file_entries :: "'f flash_env \<Rightarrow> ('f \<Rightarrow> u8 list) \<Rightarrow> 'f log_file \<Rightarrow> log_entry list" where
  "file_entries env cells lf = ring_entries env cells (lf_log lf) (lf_mem lf)"

definition file_ok :: "'f flash_env \<Rightarrow> ('f \<Rightarrow> u8 list) \<Rightarrow> ('f \<Rightarrow> bool) \<Rightarrow> 'f log_file \<Rightarrow> bool" where
  "file_ok env cells medium_ok lf \<longleftrightarrow> ring_inv env cells medium_ok (lf_log lf) (lf_mem lf)"

context flash_partition
begin

lemma file_read:
  "file_ok env cells medium_ok lf \<Longrightarrow> log_file_read env lf start_seq max_n =
     (let out = spec_read (file_entries env cells lf) start_seq max_n in (int (length out), out))"
  by (simp add: log_file_read_def file_ok_def file_entries_def flash_log_read_correct)

lemma file_contiguous: "file_ok env cells medium_ok lf \<Longrightarrow> contiguous (file_entries env cells lf)"
proof -
  assume "file_ok env cells medium_ok lf"
  then have inv: "ring_inv env cells medium_ok (lf_log lf) (lf_mem lf)" by (simp add: file_ok_def)
  let ?u = "unat (fl_used_slots (lf_log lf))"
  have nth: "unat (fst (file_entries env cells lf ! i)) + ?u = unat (fl_next_seq (lf_log lf)) + i" if "i < ?u" for i
    using ring_slot_read(2) [OF inv that] that
    by (simp add: file_entries_def ring_entries_def ring_slots_def slot_entry_def)
  show ?thesis
    unfolding contiguous_def
  proof (intro allI impI)
    fix i assume "i < length (file_entries env cells lf)"
    then have "i < ?u" by (simp add: file_entries_def length_ring_entries)
    with nth [of i] nth [of 0] show "unat (fst (file_entries env cells lf ! i)) = unat (fst (file_entries env cells lf ! 0)) + i"
      by linarith
  qed
qed

lemma file_entry_size:
  assumes "file_ok env cells medium_ok lf" "e \<in> set (file_entries env cells lf)"
  shows "length (snd e) = unat (fl_payload_size (lf_log lf))"
proof -
  let ?log = "lf_log lf" and ?f = "lf_mem lf"
  have inv: "ring_inv env cells medium_ok ?log ?f" using assms(1) by (simp add: file_ok_def)
  note core = inv [unfolded ring_inv_def ring_core_def ring_geometry_def Let_def MAX_PAYLOAD_def]
  obtain i where i: "i < unat (fl_used_slots ?log)" "e = slot_entry ?log (ring_slots env cells ?log ?f ! i)"
    using assms(2) by (auto simp: file_entries_def ring_entries_def in_set_conv_nth ring_slots_def)
  have pos: "32 * ring_pos ?log i + 32 \<le> length (cells ?f)"
    using core ring_pos_less [of ?log i] by linarith
  obtain s where s: "valid_at env cells ?f (ring_pos ?log i) = Some s"
    using core i(1) by blast
  have "length (slot_payload s) = 24"
    using s pos by (auto simp: valid_at_def slot_option_def Let_def slot_of_bytes_def slot_cells_def
        split: if_splits)
  moreover have "ring_slots env cells ?log ?f ! i = s"
    using s i(1) by (simp add: ring_slots_def)
  ultimately show ?thesis
    using i(2) core by (simp add: slot_entry_def)
qed

lemma file_count:
  "file_ok env cells medium_ok lf \<Longrightarrow> unat (li_record_count (log_file_info env lf)) = length (file_entries env cells lf)"
  by (simp add: file_ok_def log_file_info_def flash_log_get_info_correct Let_def file_entries_def
      length_ring_entries)

end

sublocale flash_partition \<subseteq> stored: record_log "log_file_read env" "log_file_info env"
  "file_entries env cells" "file_ok env cells medium_ok"
  "\<lambda>lf. unat (fl_payload_size (lf_log lf))"
proof unfold_locales
  fix s start_seq max_n e
  assume "file_ok env cells medium_ok s"
  note ok = this
  show "log_file_read env s start_seq max_n =
      (let out = spec_read (file_entries env cells s) start_seq max_n in (int (length out), out))"
    using file_read [OF ok] .
  show "contiguous (file_entries env cells s)" by (rule file_contiguous [OF ok])
  show "unat (li_record_count (log_file_info env s)) = length (file_entries env cells s)"
    by (rule file_count [OF ok])
  show "length (snd e) = unat (fl_payload_size (lf_log s))"
    if "e \<in> set (file_entries env cells s)"
    by (rule file_entry_size [OF ok that])
qed

end
