(* ===== verification/Ble_Gatt.thy ===== *)
theory Ble_Gatt
  imports Smart_Tag
begin

section \<open>GATT notifications\<close>

text \<open>
  \<open>src/ble/ble_gatt.c\<close>: the subscriptions, the pending sensor sample, the queue of events and
  the work item that notifies them. \<open>bt_gatt_notify\<close> is Zephyr's: a parameter that takes the
  state \<open>'b\<close> of the Bluetooth stack, the attribute index and the bytes. A work item is the flag
  that it has been submitted; the message queue is the list of its entries, at most 8.
\<close>

datatype ble_char =
  BLE_CHAR_SENSOR_DATA | BLE_CHAR_STATUS | BLE_CHAR_EVENT | BLE_CHAR_LOG_DATA | BLE_CHAR_COMMAND

fun attr_index :: "ble_char \<Rightarrow> u8" where
  "attr_index BLE_CHAR_SENSOR_DATA = 2"
| "attr_index BLE_CHAR_STATUS = 5"
| "attr_index BLE_CHAR_EVENT = 10"
| "attr_index BLE_CHAR_LOG_DATA = 17"
| "attr_index BLE_CHAR_COMMAND = 20"

definition BT_GATT_CCC_NOTIFY :: u16 where [c_const]: "BT_GATT_CCC_NOTIFY = 1"
definition EVENT_QUEUE_LEN :: nat where [c_const]: "EVENT_QUEUE_LEN = 8"

record ble_gatt =
  bg_subscribed :: "ble_char \<Rightarrow> bool"
  bg_latest_event :: event_record
  bg_pending_sensor :: sensor_data
  bg_pending_sensor_valid :: bool
  bg_event_queue :: "event_record list"
  bg_notify_work :: bool

definition ble_gatt_boot :: ble_gatt where
  "ble_gatt_boot = \<lparr> bg_subscribed = \<lambda>c. False,
     bg_latest_event = \<lparr> ev_timestamp = 0, ev_type = 0, ev_severity = 0, ev_value = 0 \<rparr>,
     bg_pending_sensor = sensor_data_zero, bg_pending_sensor_valid = False, bg_event_queue = [],
     bg_notify_work = False \<rparr>"

type_synonym 'b bt_notify = "'b \<Rightarrow> u8 \<Rightarrow> u8 list \<Rightarrow> int \<times> 'b"

text \<open>The client characteristic configuration handlers, one per notifiable characteristic.\<close>

definition ccc_changed :: "ble_char \<Rightarrow> u16 \<Rightarrow> ble_gatt \<Rightarrow> ble_gatt" where
  "ccc_changed which v g = g\<lparr>bg_subscribed := (bg_subscribed g)(which := (v = BT_GATT_CCC_NOTIFY))\<rparr>"

definition ble_gatt_is_subscribed :: "ble_gatt \<Rightarrow> ble_char \<Rightarrow> bool" where
  "ble_gatt_is_subscribed g which = bg_subscribed g which"

definition ble_gatt_notify ::
  "'b bt_notify \<Rightarrow> ble_gatt \<Rightarrow> ble_char \<Rightarrow> u8 list \<Rightarrow> 'b \<Rightarrow> int \<times> 'b" where
  "ble_gatt_notify nt g which data bt =
     (if \<not> bg_subscribed g which then (- EACCES, bt)
      else nt bt (attr_index which) data)"

definition ble_gatt_reset_subscriptions :: "ble_gatt \<Rightarrow> ble_gatt" where
  "ble_gatt_reset_subscriptions g = g\<lparr>bg_subscribed := (\<lambda>c. False)\<rparr>"

definition msgq_put :: "event_record \<Rightarrow> event_record list \<Rightarrow> bool \<times> event_record list" where
  "msgq_put e q = (if length q < EVENT_QUEUE_LEN then (True, q @ [e]) else (False, q))"

text \<open>
  The loop of \<open>notify_work_fn\<close>: it takes events until the queue is empty, or until the stack is
  out of buffers, when it puts the event back and submits the work again.
\<close>

fun notify_events ::
  "'b bt_notify \<Rightarrow> ble_gatt \<Rightarrow> event_record list \<Rightarrow> 'b \<Rightarrow> event_record list \<times> bool \<times> 'b" where
  "notify_events nt g [] bt = ([], False, bt)"
| "notify_events nt g (e # q) bt =
     (case ble_gatt_notify nt g BLE_CHAR_EVENT (event_record_bytes e) bt of (err, bt) \<Rightarrow>
        if err = - ENOMEM then (snd (msgq_put e q), True, bt)
        else notify_events nt g q bt)"

text \<open>The work function; \<open>status\<close> is what \<open>app_state_get_status\<close> returns.\<close>

definition notify_work_fn ::
  "'b bt_notify \<Rightarrow> tag_status \<Rightarrow> ble_gatt \<Rightarrow> 'b \<Rightarrow> ble_gatt \<times> 'b" where
  "notify_work_fn nt status g bt =
     (let have_sensor = bg_pending_sensor_valid g;
          sensor = bg_pending_sensor g;
          g = g\<lparr>bg_pending_sensor_valid := False\<rparr>;
          bt = (if have_sensor then
                  let bt = snd (ble_gatt_notify nt g BLE_CHAR_SENSOR_DATA (sensor_data_bytes sensor) bt)
                  in snd (ble_gatt_notify nt g BLE_CHAR_STATUS (tag_status_bytes status) bt)
                else bt)
      in case notify_events nt g (bg_event_queue g) bt of (q, again, bt) \<Rightarrow>
           (g\<lparr>bg_event_queue := q, bg_notify_work := bg_notify_work g \<or> again\<rparr>, bt))"

definition gatt_on_sensor_data :: "sensor_data \<Rightarrow> ble_gatt \<Rightarrow> ble_gatt" where
  "gatt_on_sensor_data d g =
     g\<lparr>bg_pending_sensor := d, bg_pending_sensor_valid := True, bg_notify_work := True\<rparr>"

definition gatt_on_event :: "event_record \<Rightarrow> ble_gatt \<Rightarrow> ble_gatt" where
  "gatt_on_event e g =
     (let g = g\<lparr>bg_latest_event := e\<rparr>;
          g = (case msgq_put e (bg_event_queue g) of
                 (True, q) \<Rightarrow> g\<lparr>bg_event_queue := q\<rparr>
               | (False, q) \<Rightarrow> g\<lparr>bg_event_queue := snd (msgq_put e (tl q))\<rparr>)
      in g\<lparr>bg_notify_work := True\<rparr>)"

subsection \<open>The queue keeps the newest events\<close>

definition newest :: "nat \<Rightarrow> 'a list \<Rightarrow> 'a list" where
  "newest n xs = drop (length xs - n) xs"

lemma newest_snoc: "0 < n \<Longrightarrow> newest n (newest n xs @ [x]) = newest n (xs @ [x])"
  by (cases "length xs < n") (simp_all add: newest_def Suc_diff_le)

lemma queue_on_event:
  assumes "length (bg_event_queue g) \<le> EVENT_QUEUE_LEN"
  shows "bg_event_queue (gatt_on_event e g) = newest EVENT_QUEUE_LEN (bg_event_queue g @ [e])"
  using assms
  by (cases "length (bg_event_queue g) = EVENT_QUEUE_LEN")
    (auto simp: gatt_on_event_def msgq_put_def newest_def EVENT_QUEUE_LEN_def drop_Suc)

lemma queue_on_events:
  assumes "bg_event_queue g = newest EVENT_QUEUE_LEN es0"
  shows "bg_event_queue (fold gatt_on_event es g) = newest EVENT_QUEUE_LEN (es0 @ es)"
  using assms
proof (induction es arbitrary: g es0)
  case (Cons e es)
  have "length (newest EVENT_QUEUE_LEN es0) \<le> EVENT_QUEUE_LEN" by (simp add: newest_def)
  then have "bg_event_queue (gatt_on_event e g) = newest EVENT_QUEUE_LEN (es0 @ [e])"
    using Cons.prems queue_on_event [of g e] newest_snoc [of EVENT_QUEUE_LEN es0 e]
    by (simp add: EVENT_QUEUE_LEN_def)
  from Cons.IH [OF this] show ?case by simp
qed simp

text \<open>
  Whatever events are raised between two runs of the notification work, the queue holds the
  last eight of them in order, the newest can always be read, and the work is submitted.
\<close>

lemma event_queue_keeps_newest:
  assumes "bg_event_queue g = []" and "es \<noteq> []"
  shows "bg_event_queue (fold gatt_on_event es g) = drop (length es - 8) es \<and>
    bg_latest_event (fold gatt_on_event es g) = last es \<and>
    bg_notify_work (fold gatt_on_event es g)"
proof -
  have "bg_event_queue (fold gatt_on_event es g) = newest EVENT_QUEUE_LEN ([] @ es)"
    using assms(1) by (intro queue_on_events) (simp add: newest_def)
  moreover obtain es' e where es: "es = es' @ [e]" using assms(2) by (metis rev_exhaust)
  moreover have "bg_latest_event (gatt_on_event e g') = e" "bg_notify_work (gatt_on_event e g')" for g'
    by (simp_all add: gatt_on_event_def Let_def split: prod.split bool.split)
  ultimately show ?thesis by (simp add: newest_def EVENT_QUEUE_LEN_def)
qed

definition event_number :: "nat \<Rightarrow> event_record" where
  "event_number n = \<lparr> ev_timestamp = of_nat n, ev_type = 0, ev_severity = 0, ev_value = 0 \<rparr>"

lemma event_queue_keeps_newest_witness:
  "bg_event_queue (fold gatt_on_event (map event_number [0..<10]) ble_gatt_boot)
     = drop 2 (map event_number [0..<10])"
proof -
  have "bg_event_queue ble_gatt_boot = []" "map event_number [0..<10] \<noteq> []"
    by (simp_all add: ble_gatt_boot_def)
  from event_queue_keeps_newest [OF this] show ?thesis by simp
qed

subsection \<open>Draining it\<close>

text \<open>What the notifications of a list of events do to the Bluetooth stack, all accepted.\<close>

fun notify_all :: "'b bt_notify \<Rightarrow> ble_gatt \<Rightarrow> event_record list \<Rightarrow> 'b \<Rightarrow> 'b" where
  "notify_all nt g [] bt = bt"
| "notify_all nt g (e # q) bt =
     notify_all nt g q (snd (ble_gatt_notify nt g BLE_CHAR_EVENT (event_record_bytes e) bt))"

lemma notify_events_drains:
  assumes "\<And>bt e. fst (ble_gatt_notify nt g BLE_CHAR_EVENT (event_record_bytes e) bt) \<noteq> - ENOMEM"
  shows "notify_events nt g q bt = ([], False, notify_all nt g q bt)"
  using assms by (induction q arbitrary: bt) (auto simp: case_prod_beta)

text \<open>
  While the stack has buffers, one run of the notification work sends the pending sample
  and status and then every queued event in order, and leaves nothing queued.
\<close>

lemma notify_work_drains:
  assumes "\<And>bt a data. fst (nt bt a data) \<noteq> - ENOMEM" and "bg_pending_sensor_valid g"
    and "bg_subscribed g BLE_CHAR_SENSOR_DATA" and "bg_subscribed g BLE_CHAR_STATUS"
  shows "notify_work_fn nt status g bt =
    (g\<lparr>bg_pending_sensor_valid := False, bg_event_queue := []\<rparr>,
     notify_all nt g (bg_event_queue g)
       (snd (nt (snd (nt bt 2 (sensor_data_bytes (bg_pending_sensor g)))) 5 (tag_status_bytes status))))"
proof -
  have frame: "ble_gatt_notify nt (g\<lparr>bg_pending_sensor_valid := b\<rparr>) = ble_gatt_notify nt g" for b
    by (intro ext) (simp add: ble_gatt_notify_def)
  have frame': "notify_events nt (g\<lparr>bg_pending_sensor_valid := b\<rparr>) q bt = notify_events nt g q bt" for b q bt
    by (induction q arbitrary: bt) (simp_all add: frame case_prod_beta)
  have "fst (ble_gatt_notify nt g which data bt) \<noteq> - ENOMEM" for which data bt
    using assms(1) by (simp add: ble_gatt_notify_def c_const)
  then show ?thesis
    using assms(2-4)
    by (simp add: notify_work_fn_def Let_def frame frame' notify_events_drains)
      (simp add: ble_gatt_notify_def)
qed

lemma notify_work_drains_witness:
  "let nt = (\<lambda>sent a data. (0, sent @ [(a, data)]));
       g = gatt_on_event (event_number 7) (gatt_on_sensor_data sensor_data_zero
             (ble_gatt_boot\<lparr>bg_subscribed := (\<lambda>c. True)\<rparr>)) in
   notify_work_fn nt tag_status_zero g [] =
    (g\<lparr>bg_pending_sensor_valid := False, bg_event_queue := []\<rparr>,
     [(2, sensor_data_bytes sensor_data_zero), (5, tag_status_bytes tag_status_zero),
      (10, event_record_bytes (event_number 7))])"
proof -
  let ?nt = "\<lambda>sent a data. (0, sent @ [(a, data)])"
  let ?g = "gatt_on_event (event_number 7) (gatt_on_sensor_data sensor_data_zero
             (ble_gatt_boot\<lparr>bg_subscribed := (\<lambda>c. True)\<rparr>))"
  have q: "bg_event_queue ?g = [event_number 7]" "bg_pending_sensor_valid ?g"
    "bg_subscribed ?g BLE_CHAR_SENSOR_DATA" "bg_subscribed ?g BLE_CHAR_STATUS"
    "bg_subscribed ?g BLE_CHAR_EVENT" "bg_pending_sensor ?g = sensor_data_zero"
    by (simp_all add: gatt_on_event_def gatt_on_sensor_data_def ble_gatt_boot_def msgq_put_def c_const)
  show ?thesis
    unfolding Let_def
    by (subst notify_work_drains) (simp_all add: q ble_gatt_notify_def c_const)
qed

text \<open>
  When the stack runs out of buffers the event that did not go out is put back behind the
  others, so two queued events leave in the opposite order.
\<close>

lemma retry_reorders_events:
  assumes "bg_subscribed g BLE_CHAR_EVENT" and "fst (nt bt 10 (event_record_bytes e1)) = - ENOMEM"
  shows "fst (notify_events nt g [e1, e2] bt) = [e2, e1]"
  using assms by (simp add: ble_gatt_notify_def msgq_put_def c_const case_prod_beta)

lemma retry_reorders_events_witness:
  "fst (notify_events (\<lambda>bt a data. (- ENOMEM, bt)) (ble_gatt_boot\<lparr>bg_subscribed := (\<lambda>c. True)\<rparr>)
     [event_number 1, event_number 2] ()) = [event_number 2, event_number 1]"
  by (rule retry_reorders_events) simp_all

end
