(* ===== verification/Ble_Log.thy ===== *)
theory Ble_Log
  imports Storage_Logs Ble_Gatt
begin

section \<open>Chunked log download\<close>

text \<open>
  \<open>src/ble/ble_log.c\<close>: the transfer state, the request handler and the work item that sends one
  chunk. The definitions take what they call from other modules as arguments: whether the Log
  Data characteristic is subscribed, the two logs' read and information functions, and
  \<open>ble_gatt_notify\<close> on the Log Data characteristic, a function of the state \<open>'b\<close> of the
  Bluetooth stack.
\<close>

definition CHUNK_PAYLOAD_MAX :: nat where [c_const]: "CHUNK_PAYLOAD_MAX = 180"
definition CHUNK_GAP_MS :: nat where [c_const]: "CHUNK_GAP_MS = 10"
definition BLE_LOG_ID_EVENT :: u8 where [c_const]: "BLE_LOG_ID_EVENT = 0"
definition BLE_LOG_ID_SENSOR :: u8 where [c_const]: "BLE_LOG_ID_SENSOR = 1"
definition BLE_LOG_OP_START :: u8 where [c_const]: "BLE_LOG_OP_START = 1"
definition BLE_LOG_OP_ABORT :: u8 where [c_const]: "BLE_LOG_OP_ABORT = 2"

text \<open>The transfer and its delayable work item, \<open>None\<close> when it is not scheduled.\<close>

record stream_state =
  sm_active :: bool
  sm_log_id :: u8
  sm_chunk_index :: u16
  sm_next_seq :: u32
  sm_remaining :: u32
  sm_work :: "nat option"

record ble_log_request =
  lr_opcode :: u8
  lr_log_id :: u8
  lr_start_seq :: u32
  lr_max_records :: u16

definition ble_log_request_of_bytes :: "u8 list \<Rightarrow> ble_log_request" where
  "ble_log_request_of_bytes bs = \<lparr> lr_opcode = bs ! 0, lr_log_id = bs ! 1,
     lr_start_seq = rd32 bs 2, lr_max_records = rd16 bs 6 \<rparr>"

record ble_log_info =
  bl_event_count :: u32
  bl_event_oldest_seq :: u32
  bl_event_newest_seq :: u32
  bl_sensor_count :: u32
  bl_sensor_oldest_seq :: u32
  bl_sensor_newest_seq :: u32
  bl_event_record_size :: u16
  bl_sensor_record_size :: u16
  bl_streaming :: u8

definition ble_log_init :: stream_state where
  "ble_log_init = \<lparr> sm_active = False, sm_log_id = 0, sm_chunk_index = 0, sm_next_seq = 0,
     sm_remaining = 0, sm_work = None \<rparr>"

definition record_size :: "u8 \<Rightarrow> nat" where
  "record_size log_id = (if log_id = BLE_LOG_ID_SENSOR then SENSOR_RECORD_SIZE else EVENT_RECORD_SIZE)"

text \<open>The readers of the two logs, as \<open>read_records\<close> picks one.\<close>

type_synonym log_reader = "u32 \<Rightarrow> nat \<Rightarrow> int \<times> u8 list list"

definition read_records :: "log_reader \<Rightarrow> log_reader \<Rightarrow> u8 \<Rightarrow> log_reader" where
  "read_records sensor_read event_read log_id start_seq max_n =
     (if log_id = BLE_LOG_ID_SENSOR then sensor_read start_seq max_n else event_read start_seq max_n)"

definition chunk_header :: "stream_state \<Rightarrow> int \<Rightarrow> ble_log_chunk_header" where
  "chunk_header sm got = \<lparr> ch_chunk_index = sm_chunk_index sm, ch_log_id = sm_log_id sm,
     ch_record_count = word_of_int (max got 0), ch_flags = 0,
     ch_record_size = of_nat (record_size (sm_log_id sm)), ch_first_seq = sm_next_seq sm \<rparr>"

text \<open>
  \<open>stream_work_fn\<close>: the new transfer state and Bluetooth state, and the bytes handed to
  \<open>ble_gatt_notify\<close> with its result, if it is called. The watchdog feed at its start is in the
  device model.
\<close>

definition stream_work_fn ::
  "bool \<Rightarrow> (u8 \<Rightarrow> log_reader) \<Rightarrow> (u8 list \<Rightarrow> 'b \<Rightarrow> int \<times> 'b) \<Rightarrow> stream_state \<Rightarrow> 'b \<Rightarrow>
   (int \<times> u8 list) option \<times> stream_state \<times> 'b" where
  "stream_work_fn subscribed read notify sm bt =
     (if \<not> sm_active sm then (None, sm, bt)
      else if \<not> subscribed then (None, sm\<lparr>sm_active := False\<rparr>, bt)
      else
        let size = record_size (sm_log_id sm);
            want = min (sm_remaining sm) (of_nat (CHUNK_PAYLOAD_MAX div size)) in
        case read (sm_log_id sm) (sm_next_seq sm) (unat want) of (got, records) \<Rightarrow>
        let header = chunk_header sm got in
        if got \<le> 0 \<or> want = 0 then
          let header = header\<lparr>ch_record_count := 0, ch_flags := BLE_LOG_CHUNK_FLAG_LAST\<rparr>;
              sm = sm\<lparr>sm_active := False\<rparr>;
              data = chunk_header_bytes header
          in case notify data bt of (err, bt) \<Rightarrow> (Some (err, data), sm, bt)
        else
          let sm = sm\<lparr>sm_remaining := sm_remaining sm - min (sm_remaining sm) (word_of_int got)\<rparr>;
              header = (if sm_remaining sm = 0
                        then header\<lparr>ch_flags := BLE_LOG_CHUNK_FLAG_LAST\<rparr> else header);
              data = chunk_header_bytes header @ concat records
          in case notify data bt of (err, bt) \<Rightarrow>
             (Some (err, data),
              (if err = - ENOMEM then sm\<lparr>sm_work := Some (CHUNK_GAP_MS * 2)\<rparr>
               else if err \<noteq> 0 then sm\<lparr>sm_active := False\<rparr>
               else
                 let sm = sm\<lparr>sm_chunk_index := sm_chunk_index sm + 1,
                             sm_next_seq := sm_next_seq sm + word_of_int got\<rparr>
                 in if sm_remaining sm = 0 then sm\<lparr>sm_active := False\<rparr>
                    else sm\<lparr>sm_work := Some CHUNK_GAP_MS\<rparr>), bt))"

definition ble_log_abort :: "stream_state \<Rightarrow> stream_state" where
  "ble_log_abort sm = sm\<lparr>sm_active := False, sm_work := None\<rparr>"

definition ble_log_handle_request ::
  "bool \<Rightarrow> flash_log_info \<Rightarrow> flash_log_info \<Rightarrow> ble_log_request \<Rightarrow> stream_state \<Rightarrow> int \<times> stream_state" where
  "ble_log_handle_request subscribed sensor_info event_info req sm =
     (if lr_opcode req = BLE_LOG_OP_ABORT then (0, ble_log_abort sm)
      else if lr_opcode req \<noteq> BLE_LOG_OP_START then (- ENOTSUP, sm)
      else if lr_log_id req > BLE_LOG_ID_SENSOR then (- EINVAL, sm)
      else if \<not> subscribed then (- EACCES, sm)
      else
        let info = (if lr_log_id req = BLE_LOG_ID_SENSOR then sensor_info else event_info) in
        (0, sm\<lparr>sm_active := True, sm_log_id := lr_log_id req, sm_chunk_index := 0,
               sm_next_seq := lr_start_seq req,
               sm_remaining := (if lr_max_records req = 0 then li_record_count info
                                else ucast (lr_max_records req)),
               sm_work := Some 0\<rparr>))"

definition ble_log_get_info ::
  "flash_log_info \<Rightarrow> flash_log_info \<Rightarrow> stream_state \<Rightarrow> ble_log_info" where
  "ble_log_get_info events sensors sm = \<lparr>
     bl_event_count = li_record_count events, bl_event_oldest_seq = li_oldest_seq events,
     bl_event_newest_seq = li_newest_seq events, bl_sensor_count = li_record_count sensors,
     bl_sensor_oldest_seq = li_oldest_seq sensors, bl_sensor_newest_seq = li_newest_seq sensors,
     bl_event_record_size = li_record_size events, bl_sensor_record_size = li_record_size sensors,
     bl_streaming = (if sm_active sm then 1 else 0) \<rparr>"

text \<open>The packed structure the client reads; its last byte is reserved.\<close>

definition ble_log_info_bytes :: "ble_log_info \<Rightarrow> u8 list" where
  "ble_log_info_bytes i =
     le32 (bl_event_count i) @ le32 (bl_event_oldest_seq i) @ le32 (bl_event_newest_seq i) @
     le32 (bl_sensor_count i) @ le32 (bl_sensor_oldest_seq i) @ le32 (bl_sensor_newest_seq i) @
     le16 (bl_event_record_size i) @ le16 (bl_sensor_record_size i) @ [bl_streaming i, 0]"

text \<open>The ATT error codes of the write handlers; \<open>BT_GATT_ERR\<close> negates them.\<close>

definition BT_ATT_ERR_INVALID_OFFSET :: int where [c_const]: "BT_ATT_ERR_INVALID_OFFSET = 0x07"
definition BT_ATT_ERR_INVALID_ATTRIBUTE_LEN :: int where [c_const]: "BT_ATT_ERR_INVALID_ATTRIBUTE_LEN = 0x0d"
definition BT_ATT_ERR_UNLIKELY :: int where [c_const]: "BT_ATT_ERR_UNLIKELY = 0x0e"
definition BT_ATT_ERR_VALUE_NOT_ALLOWED :: int where [c_const]: "BT_ATT_ERR_VALUE_NOT_ALLOWED = 0x13"

definition ble_log_write_control ::
  "bool \<Rightarrow> flash_log_info \<Rightarrow> flash_log_info \<Rightarrow> u8 list \<Rightarrow> u16 \<Rightarrow> stream_state \<Rightarrow> int \<times> stream_state" where
  "ble_log_write_control subscribed sensor_info event_info buf offset sm =
     (if offset \<noteq> 0 then (- BT_ATT_ERR_INVALID_OFFSET, sm)
      else if length buf \<noteq> 8 then (- BT_ATT_ERR_INVALID_ATTRIBUTE_LEN, sm)
      else case ble_log_handle_request subscribed sensor_info event_info
                  (ble_log_request_of_bytes buf) sm of (err, sm) \<Rightarrow>
      if err = - EINVAL \<or> err = - ENOTSUP then (- BT_ATT_ERR_VALUE_NOT_ALLOWED, sm)
      else if err \<noteq> 0 then (- BT_ATT_ERR_UNLIKELY, sm)
      else (int (length buf), sm))"

end
