(* ===== verification/Ble_Transfer.thy ===== *)
theory Ble_Transfer
  imports Ble_Log Flash_Mock
begin

section \<open>A whole download\<close>

text \<open>
  The work item of \<open>ble_log.c\<close> run until it is no longer scheduled, and what a client receives.
  The lemmas are proved for any \<open>record_log\<close>; the flash log provides that interface
  (\<open>Storage_Logs\<close>), here on the flash area of the unit tests.
\<close>

text \<open>
  The system work queue: while the transfer's work item is scheduled it is taken off and run.
  The results and bytes of the calls of \<open>ble_gatt_notify\<close> are collected.
\<close>

fun stream_run ::
  "nat \<Rightarrow> bool \<Rightarrow> (u8 \<Rightarrow> log_reader) \<Rightarrow> (u8 list \<Rightarrow> 'b \<Rightarrow> int \<times> 'b) \<Rightarrow> stream_state \<Rightarrow> 'b \<Rightarrow>
   (int \<times> u8 list) list \<times> stream_state \<times> 'b" where
  "stream_run 0 subscribed read notify sm bt = ([], sm, bt)"
| "stream_run (Suc n) subscribed read notify sm bt =
     (case sm_work sm of
        None \<Rightarrow> ([], sm, bt)
      | Some _ \<Rightarrow>
          (case stream_work_fn subscribed read notify (sm\<lparr>sm_work := None\<rparr>) bt of (sent, sm, bt) \<Rightarrow>
           case stream_run n subscribed read notify sm bt of (rest, sm, bt) \<Rightarrow>
             (case sent of None \<Rightarrow> rest | Some out \<Rightarrow> out # rest, sm, bt)))"

text \<open>
  The chunks of a download: of the records \<open>recs\<close> from \<open>start_seq\<close> on, \<open>r\<close> are asked for. The
  chunk number \<open>i\<close> has the records from \<open>i * c\<close> on, \<open>c\<close> the records that fit.
\<close>

definition records_per_chunk :: "u8 \<Rightarrow> nat" where
  "records_per_chunk log_id = CHUNK_PAYLOAD_MAX div record_size log_id"

definition chunk :: "u8 \<Rightarrow> nat \<Rightarrow> nat \<Rightarrow> bool \<Rightarrow> u8 list list \<Rightarrow> u8 list" where
  "chunk log_id i seq last_chunk recs = chunk_header_bytes
     \<lparr> ch_chunk_index = of_nat i, ch_log_id = log_id, ch_record_count = of_nat (length recs),
       ch_flags = (if last_chunk then BLE_LOG_CHUNK_FLAG_LAST else 0),
       ch_record_size = of_nat (record_size log_id), ch_first_seq = of_nat seq \<rparr> @ concat recs"

text \<open>The chunks from number \<open>i\<close> on, \<open>p\<close> records having been sent.\<close>

function download_from :: "u8 \<Rightarrow> nat \<Rightarrow> nat \<Rightarrow> u8 list list \<Rightarrow> nat \<Rightarrow> u8 list list" where
  "download_from log_id seq r recs i =
     (if r = 0 \<or> recs = [] then [chunk log_id i seq True []]
      else let c = min r (records_per_chunk log_id); out = take c recs; n = length out in
           chunk log_id i seq (r = n) out #
           (if r = n then [] else download_from log_id (seq + n) (r - n) (drop n recs) (i + 1)))"
  by pat_completeness auto
termination
  by (relation "measure (\<lambda>(log_id, seq, r, recs, i). length recs)")
    (auto simp: records_per_chunk_def record_size_def c_const)

declare download_from.simps [simp del]

lemma download_from_end:
  "r = 0 \<or> recs = [] \<Longrightarrow> download_from log_id seq r recs i = [chunk log_id i seq True []]"
  by (subst download_from.simps) simp

lemma download_from_more:
  assumes "\<not> (r = 0 \<or> recs = [])" "n = length (take (min r (records_per_chunk log_id)) recs)"
  shows "download_from log_id seq r recs i =
    chunk log_id i seq (r = n) (take (min r (records_per_chunk log_id)) recs) #
      (if r = n then [] else download_from log_id (seq + n) (r - n) (drop n recs) (i + 1))"
  by (subst download_from.simps) (simp only: Let_def assms if_False)

text \<open>Chunks without the last flag that carry the records of \<open>parts\<close>, from chunk \<open>i\<close> and \<open>seq\<close> on.\<close>

fun open_chunks :: "u8 \<Rightarrow> nat \<Rightarrow> nat \<Rightarrow> u8 list list list \<Rightarrow> u8 list list" where
  "open_chunks log_id i seq [] = []"
| "open_chunks log_id i seq (p # ps) =
     chunk log_id i seq False p # open_chunks log_id (i + 1) (seq + length p) ps"

lemma open_chunks_snoc:
  "open_chunks log_id i seq (ps @ [p]) =
     open_chunks log_id i seq ps @ [chunk log_id (i + length ps) (seq + length (concat ps)) False p]"
  by (induction ps arbitrary: i seq) (simp_all add: add.assoc)

lemma length_open_chunks [simp]: "length (open_chunks log_id i seq ps) = length ps"
  by (induction ps arbitrary: i seq) simp_all

text \<open>A finished transfer: the last chunk alone has the flag, and may carry no records.\<close>

definition closed_chunks :: "u8 \<Rightarrow> nat \<Rightarrow> u8 list list list \<Rightarrow> u8 list list \<Rightarrow> u8 list list" where
  "closed_chunks log_id seq parts final = open_chunks log_id 0 seq parts
     @ [chunk log_id (length parts) (seq + length (concat parts)) True final]"

text \<open>A running transfer that has sent \<open>i\<close> chunks and next sends \<open>r\<close> records from \<open>seq\<close> on.\<close>

definition transfer_at :: "stream_state \<Rightarrow> u8 \<Rightarrow> nat \<Rightarrow> nat \<Rightarrow> nat \<Rightarrow> bool" where
  "transfer_at sm log_id i seq r \<longleftrightarrow> sm_active sm \<and> sm_log_id sm = log_id \<and>
     sm_chunk_index sm = of_nat i \<and> sm_next_seq sm = of_nat seq \<and> unat (sm_remaining sm) = r"

lemma records_per_chunk_pos: "0 < records_per_chunk log_id"
  by (simp add: records_per_chunk_def record_size_def c_const)

lemma records_per_chunk_le: "records_per_chunk log_id \<le> 22"
  by (simp add: records_per_chunk_def record_size_def c_const)

lemma want_records:
  "unat (min r (of_nat (records_per_chunk log_id)) :: u32) = min (unat r) (records_per_chunk log_id)"
proof -
  have "unat (of_nat (records_per_chunk log_id) :: u32) = records_per_chunk log_id"
    using records_per_chunk_le [of log_id] by (simp add: take_bit_nat_eq_self unsigned_of_nat)
  then show ?thesis by (simp add: min_def word_le_nat_alt)
qed

lemma stream_run_idle: "sm_work sm = None \<Longrightarrow> stream_run n subscribed read notify sm bt = ([], sm, bt)"
  by (cases n) simp_all

lemma work_step:
  assumes "transfer_at sm log_id i seq r"
    and "read log_id (of_nat seq) (min r (records_per_chunk log_id)) = (int (length out), out)"
    and "out \<noteq> []" and "length out \<le> min r (records_per_chunk log_id)"
    and "fst (notify (chunk log_id i seq (r = length out) out) bt) = 0"
  shows "\<exists>sm' bt'. stream_work_fn True read notify sm bt =
      (Some (0, chunk log_id i seq (r = length out) out), sm', bt') \<and>
    (if r = length out then \<not> sm_active sm' \<and> sm_work sm' = sm_work sm
     else transfer_at sm' log_id (i + 1) (seq + length out) (r - length out) \<and>
       sm_work sm' = Some CHUNK_GAP_MS)"
proof -
  note at = assms(1) [unfolded transfer_at_def]
  let ?want = "min (sm_remaining sm) (of_nat (records_per_chunk log_id))"
  let ?data = "chunk log_id i seq (r = length out) out"
  have rd: "read log_id (sm_next_seq sm) (unat ?want) = (int (length out), out)"
    using assms(2) at by (simp add: want_records)
  have len: "0 < length out" "length out \<le> 22" "length out \<le> r"
    using assms(3,4) records_per_chunk_le [of log_id] by auto
  have "0 < unat ?want"
    using len(1,3) at records_per_chunk_pos [of log_id] unfolding want_records by linarith
  then have nz: "?want \<noteq> 0" by auto
  have n: "unat (of_nat (length out) :: u32) = length out"
    using len(2) by (simp add: take_bit_nat_eq_self unsigned_of_nat)
  have rem: "unat (sm_remaining sm - min (sm_remaining sm) (of_nat (length out))) = r - length out"
    using n len(3) at by (simp add: min_def word_le_nat_alt unat_sub)
  obtain bt' where notified: "notify ?data bt = (0, bt')"
    using assms(5) by (metis prod.collapse)
  have zero: "sm_remaining sm - min (sm_remaining sm) (of_nat (length out)) = 0 \<longleftrightarrow> r = length out"
    using rem len(3) by (metis diff_is_0_eq diff_self_eq_0 le_antisym unat_eq_zero)
  have pos: "\<not> int (length out) \<le> 0" using len(1) by simp
  have steps: "stream_work_fn True read notify sm bt =
    (Some (0, ?data),
     (let sm = sm\<lparr>sm_remaining := sm_remaining sm - min (sm_remaining sm) (of_nat (length out)),
                 sm_chunk_index := sm_chunk_index sm + 1,
                 sm_next_seq := sm_next_seq sm + of_nat (length out)\<rparr>
      in if r = length out then sm\<lparr>sm_active := False\<rparr> else sm\<lparr>sm_work := Some CHUNK_GAP_MS\<rparr>), bt')"
    using at notified nz pos rd zero
    unfolding stream_work_fn_def Let_def records_per_chunk_def [symmetric]
    by (cases "r = length out")
      (simp_all add: chunk_header_def chunk_def ENOMEM_def del: of_nat_le_0_iff right_minus_eq)
  show ?thesis using at rem by (simp add: steps transfer_at_def)
qed

context record_log
begin

text \<open>The records from \<open>seq\<close> on, and when the transfer can ask for them.\<close>

definition stored_from :: "'s \<Rightarrow> nat \<Rightarrow> u8 list list" where
  "stored_from s seq = map snd (drop (seq - unat (fst (log_entries s ! 0))) (log_entries s))"

definition download_ok :: "'s \<Rightarrow> nat \<Rightarrow> bool" where
  "download_ok s seq \<longleftrightarrow> log_ok s \<and> log_entries s \<noteq> [] \<and>
     unat (fst (log_entries s ! 0)) \<le> seq \<and> seq + length (stored_from s seq) < 2 ^ 32"

lemma read_stored:
  assumes "download_ok s seq"
  shows "log_read s (of_nat seq) max_n =
    (int (length (take max_n (stored_from s seq))), take max_n (stored_from s seq))"
proof -
  have "unat (of_nat seq :: u32) = seq"
    using assms by (simp add: download_ok_def take_bit_nat_eq_self unsigned_of_nat)
  then show ?thesis
    using read_suffix [of s "of_nat seq"] assms
    by (simp add: download_ok_def stored_from_def word_le_nat_alt)
qed

lemma download_ok_advance:
  assumes "download_ok s seq" "n \<le> length (stored_from s seq)"
  shows "download_ok s (seq + n)" "stored_from s (seq + n) = drop n (stored_from s seq)"
proof -
  show *: "stored_from s (seq + n) = drop n (stored_from s seq)"
    using assms(1) by (simp add: stored_from_def drop_map add.commute download_ok_def)
  show "download_ok s (seq + n)"
    using assms unfolding download_ok_def * by auto
qed

text \<open>The work item sends the chunks of \<open>download_from\<close>, in as many runs.\<close>

text \<open>One run of the work item: a chunk of records, or the terminating chunk.\<close>

lemma work_ends:
  assumes "download_ok s seq" and "fst (notify (chunk log_id i seq True []) bt) = 0"
    and "transfer_at sm log_id i seq r" and "r = 0 \<or> stored_from s seq = []"
    and read: "read log_id = log_read s"
  shows "\<exists>bt'. stream_work_fn True read notify sm bt =
    (Some (0, chunk log_id i seq True []), sm\<lparr>sm_active := False\<rparr>, bt')"
proof -
  note at = assms(3) [unfolded transfer_at_def]
  let ?m = "min r (records_per_chunk log_id)"
  have out: "take ?m (stored_from s seq) = []" using assms(4) by auto
  have "log_read s (sm_next_seq sm)
      (unat (min (sm_remaining sm) (of_nat (records_per_chunk log_id)))) = (0, [])"
    using read_stored [OF assms(1), of ?m] at unfolding want_records out by simp
  moreover obtain bt' where "notify (chunk log_id i seq True []) bt = (0, bt')"
    using assms(2) by (metis prod.collapse)
  ultimately show ?thesis
    using at read by (simp add: stream_work_fn_def chunk_header_def chunk_def Let_def
        records_per_chunk_def [symmetric])
qed

lemma work_sends:
  assumes "download_ok s seq" and "r \<noteq> 0" and "stored_from s seq \<noteq> []"
    and "transfer_at sm log_id i seq r"
    and "out = take (min r (records_per_chunk log_id)) (stored_from s seq)"
    and "fst (notify (chunk log_id i seq (r = length out) out) bt) = 0"
    and read: "read log_id = log_read s"
  shows "\<exists>sm' bt'. stream_work_fn True read notify sm bt =
      (Some (0, chunk log_id i seq (r = length out) out), sm', bt') \<and>
    (if r = length out then \<not> sm_active sm' \<and> sm_work sm' = sm_work sm
     else transfer_at sm' log_id (i + 1) (seq + length out) (r - length out) \<and>
       sm_work sm' = Some CHUNK_GAP_MS)"
proof -
  have "read log_id (of_nat seq) (min r (records_per_chunk log_id)) = (int (length out), out)"
    unfolding read assms(5) by (rule read_stored [OF assms(1)])
  moreover have "out \<noteq> []" "length out \<le> min r (records_per_chunk log_id)"
    using assms(2,3,5) records_per_chunk_pos [of log_id] by auto
  ultimately show ?thesis using assms(4,6) work_step [of sm log_id i seq r read out notify bt] by blast
qed

text \<open>The work item, run until it is not scheduled, sends the chunks of \<open>download_from\<close>.\<close>

lemma stream_run_downloads:
  assumes "download_ok s seq" and "\<And>data bt. fst (notify data bt) = 0"
    and "transfer_at sm log_id i seq r" and "sm_work sm = Some d"
    and "length (stored_from s seq) < fuel" and read: "read log_id = log_read s"
  shows "\<exists>sm' bt'. stream_run fuel True read notify sm bt =
      (map (Pair 0) (download_from log_id seq r (stored_from s seq) i), sm', bt') \<and>
    \<not> sm_active sm' \<and> sm_work sm' = None"
  using assms(1-5)
proof (induction fuel arbitrary: i seq r sm d bt)
  case (Suc n)
  let ?recs = "stored_from s seq" and ?sm = "sm\<lparr>sm_work := None\<rparr>"
  have at: "transfer_at ?sm log_id i seq r" using Suc.prems(3) by (simp add: transfer_at_def)
  show ?case
  proof (cases "r = 0 \<or> ?recs = []")
    case True
    from work_ends [of s seq notify log_id i bt ?sm r read, OF Suc.prems(1) Suc.prems(2) at this read] True
    show ?thesis using Suc.prems(4)
      by (auto simp: stream_run_idle download_from_end)
  next
    case False
    let ?out = "take (min r (records_per_chunk log_id)) ?recs"
    have len: "length ?out \<le> length ?recs" "0 < length ?out"
      using False records_per_chunk_pos [of log_id] by auto
    have nz: "r \<noteq> 0" "?recs \<noteq> []" using False by simp_all
    from work_sends [where read = read, OF Suc.prems(1) nz at refl _ read, of notify bt] Suc.prems(2)
    obtain sm' bt' where run: "stream_work_fn True read notify ?sm bt =
        (Some (0, chunk log_id i seq (r = length ?out) ?out), sm', bt')"
      and sm': "if r = length ?out then \<not> sm_active sm' \<and> sm_work sm' = sm_work ?sm
        else transfer_at sm' log_id (i + 1) (seq + length ?out) (r - length ?out) \<and>
          sm_work sm' = Some CHUNK_GAP_MS"
      by blast
    note next_ok = download_ok_advance [OF Suc.prems(1) len(1)]
    show ?thesis
    proof (cases "r = length ?out")
      case True
      then show ?thesis
        using False run sm' Suc.prems(4) by (auto simp: stream_run_idle download_from_more [OF False refl])
    next
      case more: False
      have "length (stored_from s (seq + length ?out)) < n"
        unfolding next_ok(2) length_drop using len Suc.prems(5) by linarith
      with sm' more Suc.IH [OF next_ok(1) Suc.prems(2), of sm' "i + 1" "r - length ?out" CHUNK_GAP_MS bt']
      obtain sm2 bt2 where "stream_run n True read notify sm' bt' =
          (map (Pair 0) (download_from log_id (seq + length ?out) (r - length ?out)
             (drop (length ?out) ?recs) (i + 1)), sm2, bt2)"
        "\<not> sm_active sm2 \<and> sm_work sm2 = None"
        by (auto simp: next_ok(2) simp del: length_take)
      then show ?thesis
        using more run Suc.prems(4)
        by (auto simp: download_from_more [OF False refl] simp del: length_take)
    qed
  qed
qed simp

end


subsection \<open>What the client receives\<close>

lemma drop_chunk_header: "drop 10 (chunk log_id i seq l recs) = concat recs"
  by (simp add: chunk_def)

lemma chunk_flag: "chunk log_id i seq l recs ! 4 = (if l then BLE_LOG_CHUNK_FLAG_LAST else 0)"
  by (simp add: chunk_def chunk_header_bytes_def le16_def)

lemma length_concat_same: "(\<And>x. x \<in> set xs \<Longrightarrow> length x = n) \<Longrightarrow> length (concat xs) = n * length xs"
  by (induction xs) auto

lemma length_chunk:
  assumes "\<forall>x \<in> set recs. length x = record_size log_id" "length recs \<le> records_per_chunk log_id"
  shows "length (chunk log_id i seq l recs) \<le> 10 + CHUNK_PAYLOAD_MAX"
proof -
  have "length (concat recs) = record_size log_id * length recs"
    using assms(1) by (intro length_concat_same) auto
  also have "\<dots> \<le> record_size log_id * (CHUNK_PAYLOAD_MAX div record_size log_id)"
    using assms(2) by (simp add: records_per_chunk_def)
  also have "\<dots> \<le> CHUNK_PAYLOAD_MAX" by simp
  finally show ?thesis by (simp add: chunk_def)
qed

lemma take_first_chunk:
  fixes recs :: "'a list" and r c :: nat
  defines "n \<equiv> length (take (min r c) recs)"
  shows "take r recs = take (min r c) recs @ take (r - n) (drop n recs)"
proof (cases "min r c \<le> length recs")
  case True
  then have n: "n = min r c" by (simp add: n_def)
  have "take (min r c + (r - min r c)) recs = take (min r c) recs @ take (r - min r c) (drop (min r c) recs)"
    by (rule take_add)
  then show ?thesis unfolding n by simp
qed (simp add: n_def min_def split: if_splits)

text \<open>The chunks are numbered without gaps and carry the records asked for, and the last closes them.\<close>

lemma download_from_closed:
  "\<exists>parts final. download_from log_id seq r recs i = open_chunks log_id i seq parts
      @ [chunk log_id (i + length parts) (seq + length (concat parts)) True final] \<and>
    (\<forall>p \<in> set parts. p \<noteq> []) \<and> concat parts @ final = take r recs"
proof (induction log_id seq r recs i rule: download_from.induct)
  case (1 log_id seq r recs i)
  let ?out = "take (min r (records_per_chunk log_id)) recs"
  let ?n = "length ?out"
  note split = take_first_chunk [of r recs "records_per_chunk log_id"]
  show ?case
  proof (cases "r = 0 \<or> recs = []")
    case True
    then show ?thesis by (intro exI [of _ "[]"]) (auto simp: download_from_end)
  next
    case False
    then have ne: "?out \<noteq> []" using records_per_chunk_pos [of log_id] by auto
    show ?thesis
    proof (cases "r = ?n")
      case True
      then show ?thesis
        using split by (intro exI [of _ "[]"] exI [of _ ?out])
          (simp add: download_from_more [OF False refl] del: length_take)
    next
      case more: False
      obtain parts final where rest: "download_from log_id (seq + ?n) (r - ?n) (drop ?n recs) (i + 1) =
          open_chunks log_id (i + 1) (seq + ?n) parts
          @ [chunk log_id (i + 1 + length parts) (seq + ?n + length (concat parts)) True final]"
        "\<forall>p \<in> set parts. p \<noteq> []" "concat parts @ final = take (r - ?n) (drop ?n recs)"
        using 1 [OF False refl refl refl more] by blast
      show ?thesis
        using more ne rest split by (intro exI [of _ "?out # parts"] exI [of _ final])
          (simp add: download_from_more [OF False refl] add.assoc del: length_take)
    qed
  qed
qed

lemma download_from_payload:
  "concat (map (drop 10) (download_from log_id seq r recs i)) = concat (take r recs)"
proof (induction log_id seq r recs i rule: download_from.induct)
  case (1 log_id seq r recs i)
  let ?c = "min r (records_per_chunk log_id)"
  show ?case
  proof (cases "r = 0 \<or> recs = []")
    case True
    then show ?thesis by (auto simp: drop_chunk_header download_from_end)
  next
    case False
    let ?n = "length (take ?c recs)"
    note take_first_chunk [of r recs "records_per_chunk log_id"]
    then show ?thesis
      using 1 [OF False refl refl refl]
      by (cases "r = ?n") (simp_all add: drop_chunk_header download_from_more [OF False refl] del: length_take)
  qed
qed

lemma download_from_flags:
  "map (\<lambda>d. d ! 4) (download_from log_id seq r recs i) =
     replicate (length (download_from log_id seq r recs i) - 1) 0 @ [BLE_LOG_CHUNK_FLAG_LAST]"
proof (induction log_id seq r recs i rule: download_from.induct)
  case (1 log_id seq r recs i)
  have ne: "download_from log_id' seq' r' recs' i' \<noteq> []" for log_id' seq' r' recs' i'
    by (subst download_from.simps) (simp add: Let_def)
  show ?case
  proof (cases "r = 0 \<or> recs = []")
    case True
    then show ?thesis by (auto simp: chunk_flag download_from_end)
  next
    case False
    let ?n = "length (take (min r (records_per_chunk log_id)) recs)"
    let ?rest = "download_from log_id (seq + ?n) (r - ?n) (drop ?n recs) (i + 1)"
    show ?thesis
    proof (cases "r = ?n")
      case True
      then show ?thesis by (simp add: download_from_more [OF False refl] chunk_flag del: length_take)
    next
      case more: False
      obtain m where "length ?rest = Suc m" using ne by (metis length_0_conv not0_implies_Suc)
      then show ?thesis
        using more 1 [OF False refl refl refl]
        by (simp add: download_from_more [OF False refl] chunk_flag del: length_take)
    qed
  qed
qed

lemma chunk_then_download_flags:
  "map (\<lambda>d. d ! 4) (chunk log_id' i' seq' False out # download_from log_id seq r recs i) =
     replicate (length (download_from log_id seq r recs i)) 0 @ [BLE_LOG_CHUNK_FLAG_LAST]"
proof -
  note flags = download_from_flags [of log_id seq r recs i]
  have "download_from log_id seq r recs i \<noteq> []" using flags by (cases "download_from log_id seq r recs i") simp_all
  then obtain m where "length (download_from log_id seq r recs i) = Suc m"
    by (cases "download_from log_id seq r recs i") simp_all
  then show ?thesis using flags by (simp add: chunk_flag)
qed

lemma download_from_fits:
  assumes "\<forall>x \<in> set recs. length x = record_size log_id"
    and "d \<in> set (download_from log_id seq r recs i)"
  shows "length d \<le> 10 + CHUNK_PAYLOAD_MAX"
  using assms
proof (induction log_id seq r recs i rule: download_from.induct)
  case (1 log_id seq r recs i)
  let ?out = "take (min r (records_per_chunk log_id)) recs"
  have first: "length (chunk log_id i seq l ?out) \<le> 10 + CHUNK_PAYLOAD_MAX" for l
    using 1(2) by (intro length_chunk) (auto dest: in_set_takeD)
  show ?case
  proof (cases "r = 0 \<or> recs = []")
    case True
    then show ?thesis using 1(3) length_chunk [of "[]" log_id i seq True] by (auto simp: download_from_end)
  next
    case False
    with 1(3) consider "d = chunk log_id i seq (r = length ?out) ?out"
      | "r \<noteq> length ?out" "d \<in> set (download_from log_id (seq + length ?out) (r - length ?out)
           (drop (length ?out) recs) (i + 1))"
      by (auto simp: download_from_more [OF False refl] simp del: length_take split: if_splits)
    then show ?thesis
    proof cases
      case 2
      then show ?thesis using 1(1) [OF False refl refl refl, OF 2(1) _ 2(2)] 1(2)
        by (meson in_set_dropD)
    qed (simp add: first)
  qed
qed

context flash_partition
begin

lemma file_download:
  assumes ok: "file_ok env cells medium_ok lf" and es: "file_entries env cells lf \<noteq> []"
    and start: "fst (hd (file_entries env cells lf)) \<le> start_seq"
    and no_wrap: "unat start_seq + length (file_entries env cells lf) < 2 ^ 32"
    and size: "unat (fl_payload_size (lf_log lf)) = record_size log_id"
    and notify: "\<And>data bt. fst (notify data bt) = 0"
    and at: "transfer_at sm log_id 0 (unat start_seq) n" "sm_work sm = Some d"
    and read: "read log_id = log_file_read env lf"
    and fuel: "length (file_entries env cells lf) < fuel"
  shows "\<exists>cs sm' bt'. stream_run fuel True read notify sm bt = (map (Pair 0) cs, sm', bt') \<and>
    concat (map (drop 10) cs) = concat (spec_read (file_entries env cells lf) start_seq n) \<and>
    map (\<lambda>d. d ! 4) cs = replicate (length cs - 1) 0 @ [BLE_LOG_CHUNK_FLAG_LAST] \<and>
    (\<exists>parts final. cs = closed_chunks log_id (unat start_seq) parts final \<and> (\<forall>p \<in> set parts. p \<noteq> []) \<and>
      concat parts @ final = spec_read (file_entries env cells lf) start_seq n) \<and>
    (\<forall>d \<in> set cs. length d \<le> 190) \<and> \<not> sm_active sm' \<and> sm_work sm' = None"
proof -
  let ?es = "file_entries env cells lf" and ?seq = "unat start_seq"
  have oldest: "fst (?es ! 0) \<le> start_seq" using start es by (simp add: hd_conv_nth)
  have suffix: "map snd (filter (\<lambda>e. start_seq \<le> fst e) ?es) = stored.stored_from lf ?seq"
    using stored.filter_suffix [OF ok es oldest] by (simp add: stored.stored_from_def)
  have len: "length (stored.stored_from lf ?seq) \<le> length ?es" by (simp add: stored.stored_from_def)
  have dl: "stored.download_ok lf ?seq"
    using ok es oldest len no_wrap by (simp add: stored.download_ok_def word_le_nat_alt)
  have sizes: "\<forall>x \<in> set (stored.stored_from lf ?seq). length x = record_size log_id"
    using stored.entry_size [OF ok] size by (auto simp: suffix [symmetric])
  let ?cs = "download_from log_id ?seq n (stored.stored_from lf ?seq) 0"
  obtain sm' bt' where "stream_run fuel True read notify sm bt = (map (Pair 0) ?cs, sm', bt')"
    "\<not> sm_active sm'" "sm_work sm' = None"
    using stored.stream_run_downloads [where read = read and bt = bt and notify = notify,
        OF dl notify at _ read, of fuel] fuel len by auto
  moreover have "\<forall>d \<in> set ?cs. length d \<le> 190"
    using download_from_fits [OF sizes, of _ ?seq n 0] by (auto simp: CHUNK_PAYLOAD_MAX_def)
  moreover have "concat (map (drop 10) ?cs) = concat (spec_read ?es start_seq n)"
    by (simp add: spec_read_def suffix download_from_payload)
  moreover obtain parts final where "?cs = closed_chunks log_id ?seq parts final"
    "\<forall>p \<in> set parts. p \<noteq> []" "concat parts @ final = take n (stored.stored_from lf ?seq)"
    using download_from_closed [of log_id ?seq n "stored.stored_from lf ?seq" 0]
    by (auto simp: closed_chunks_def)
  moreover from this(3) have "concat parts @ final = spec_read ?es start_seq n"
    by (simp add: spec_read_def suffix)
  ultimately show ?thesis using download_from_flags [of log_id ?seq n "stored.stored_from lf ?seq" 0] by blast
qed

lemma file_entries_fit:
  assumes "file_ok env cells medium_ok lf" and "file_entries env cells lf \<noteq> []"
  shows "unat (fst (file_entries env cells lf ! 0)) + length (file_entries env cells lf)
    = unat (fl_next_seq (lf_log lf))"
proof -
  have inv: "ring_inv env cells medium_ok (lf_log lf) (lf_mem lf)" using assms(1) by (simp add: file_ok_def)
  have len: "length (file_entries env cells lf) = unat (fl_used_slots (lf_log lf))"
    by (simp add: file_entries_def length_ring_entries)
  then have "0 < unat (fl_used_slots (lf_log lf))" using assms(2) by (metis length_greater_0_conv)
  then show ?thesis
    using ring_slot_read(2) [OF inv, of 0] unfolding len
    by (simp add: file_entries_def ring_entries_def ring_slots_def slot_entry_def)
qed

end

text \<open>What the request handler sets up.\<close>

lemma handle_request_starts:
  assumes "ble_log_handle_request True sensor_info event_info req sm0 = (0, sm)"
    and "lr_opcode req = BLE_LOG_OP_START"
    and "info = (if lr_log_id req = BLE_LOG_ID_SENSOR then sensor_info else event_info)"
  shows "transfer_at sm (lr_log_id req) 0 (unat (lr_start_seq req))
      (if lr_max_records req = 0 then unat (li_record_count info) else unat (lr_max_records req)) \<and>
    sm_work sm = Some 0"
proof -
  have wide: "unat (ucast (lr_max_records req) :: u32) = unat (lr_max_records req)"
    by (metis nat_uint_eq uint_ucast_16_32)
  show ?thesis
    using assms by (auto simp: ble_log_handle_request_def transfer_at_def c_const Let_def wide
        split: if_splits)
qed

text \<open>
  C6: a download delivers the log. After a START request whose first sequence number is not
  before the oldest record, and as long as the Bluetooth stack takes every chunk, the work item
  runs to its end. Its chunks carry the records that the log's read returns for the request,
  each once and in order; they are numbered from 0 without gaps, each states the log, the number
  and size of its records and the sequence number of its first one, only the last is flagged,
  and none is larger than the buffer it is built in.
\<close>

theorem download_delivers:
  assumes "flash_partition env cells medium_ok"
    and "lf = (if lr_log_id req = BLE_LOG_ID_SENSOR then sensors else events)"
    and "file_ok env cells medium_ok lf" and "file_entries env cells lf \<noteq> []"
    and "unat (fl_payload_size (lf_log lf)) = record_size (lr_log_id req)"
    and "lr_opcode req = BLE_LOG_OP_START"
    and "fst (hd (file_entries env cells lf)) \<le> lr_start_seq req"
    and "unat (lr_start_seq req) + length (file_entries env cells lf) < 2 ^ 32"
    and "ble_log_handle_request True (sensor_log_get_info env sensors) (event_log_get_info env events)
           req sm0 = (0, sm)"
    and "\<And>data bt. fst (notify data bt) = 0" and "length (file_entries env cells lf) < fuel"
    and wanted: "wanted = spec_read (file_entries env cells lf) (lr_start_seq req)
      (if lr_max_records req = 0 then length (file_entries env cells lf)
       else unat (lr_max_records req))"
  shows "\<exists>cs sm' bt'. stream_run fuel True
      (read_records (sensor_log_read env sensors) (event_log_read env events)) notify sm bt
      = (map (Pair 0) cs, sm', bt') \<and>
    concat (map (drop 10) cs) = concat wanted \<and>
    map (\<lambda>d. d ! 4) cs = replicate (length cs - 1) 0 @ [BLE_LOG_CHUNK_FLAG_LAST] \<and>
    (\<exists>parts final. cs = closed_chunks (lr_log_id req) (unat (lr_start_seq req)) parts final \<and>
      (\<forall>p \<in> set parts. p \<noteq> []) \<and> concat parts @ final = wanted) \<and>
    (\<forall>d \<in> set cs. length d \<le> 190) \<and> \<not> sm_active sm' \<and> sm_work sm' = None"
proof -
  have read: "read_records (sensor_log_read env sensors) (event_log_read env events) (lr_log_id req)
      = log_file_read env lf"
    using assms(2) by (intro ext) (simp add: read_records_def storage_log_defs)
  have "(if lr_log_id req = BLE_LOG_ID_SENSOR then sensor_log_get_info env sensors
      else event_log_get_info env events) = log_file_info env lf"
    using assms(2) by (simp add: storage_log_defs)
  with handle_request_starts [OF assms(9,6) refl]
  have at: "transfer_at sm (lr_log_id req) 0 (unat (lr_start_seq req))
      (if lr_max_records req = 0 then length (file_entries env cells lf)
       else unat (lr_max_records req))" "sm_work sm = Some 0"
    using flash_partition.file_count [OF assms(1,3)] by (simp_all split: if_splits)
  show ?thesis
    unfolding wanted by (rule flash_partition.file_download [where notify = notify and
          read = "read_records (sensor_log_read env sensors) (event_log_read env events)",
          OF assms(1,3,4,7,8,5,10) at read assms(11)])
qed

definition request_events :: "u32 \<Rightarrow> u16 \<Rightarrow> ble_log_request" where
  "request_events start_seq max_n = \<lparr> lr_opcode = BLE_LOG_OP_START, lr_log_id = BLE_LOG_ID_EVENT,
     lr_start_seq = start_seq, lr_max_records = max_n \<rparr>"

theorem download_delivers_witness:
  "\<exists>lf cs sm' sent.
    ble_log_handle_request True (sensor_log_get_info mock_env lf) (event_log_get_info mock_env lf)
      (request_events 1 0) ble_log_init = (0, snd (ble_log_handle_request True
        (sensor_log_get_info mock_env lf) (event_log_get_info mock_env lf) (request_events 1 0) ble_log_init)) \<and>
    stream_run 3 True (read_records (sensor_log_read mock_env lf) (event_log_read mock_env lf))
      (\<lambda>data sent. (0, sent @ [data]))
      (snd (ble_log_handle_request True (sensor_log_get_info mock_env lf)
        (event_log_get_info mock_env lf) (request_events 1 0) ble_log_init)) []
      = (map (Pair 0) cs, sm', sent) \<and>
    concat (map (drop 10) cs) = replicate 8 7"
proof -
  obtain log' f' where app: "ring_inv mock_env (\<lambda>mem. mem) mock_medium_ok log' f'"
    "ring_entries mock_env (\<lambda>mem. mem) log' f' = [(1, replicate 8 7)]" "fl_payload_size log' = 8"
    using mock.flash_log_append_correct [OF mock_log_ring(1), of "replicate 8 7"]
    by (auto simp: mock_log_ring(2) spec_append_def)
  let ?lf = "\<lparr> lf_log = log', lf_mem = f' \<rparr>"
  have ok: "file_ok mock_env (\<lambda>mem. mem) mock_medium_ok ?lf"
    "file_entries mock_env (\<lambda>mem. mem) ?lf = [(1, replicate 8 7)]"
    using app by (simp_all add: file_ok_def file_entries_def)
  let ?req = "request_events 1 0" and ?init = "ble_log_init"
  let ?sm = "ble_log_handle_request True (sensor_log_get_info mock_env ?lf)
    (event_log_get_info mock_env ?lf) ?req ?init"
  have start: "?sm = (0, snd ?sm)"
    by (simp add: ble_log_handle_request_def request_events_def c_const Let_def)
  have req: "lr_log_id ?req = 0" "lr_opcode ?req = BLE_LOG_OP_START" "lr_start_seq ?req = 1"
    "lr_max_records ?req = 0"
    by (simp_all add: request_events_def c_const)
  have "\<exists>cs sm' bt'. stream_run 3 True
      (read_records (sensor_log_read mock_env ?lf) (event_log_read mock_env ?lf))
      (\<lambda>data sent. (0, sent @ [data])) (snd ?sm) [] = (map (Pair 0) cs, sm', bt') \<and>
    concat (map (drop 10) cs) = replicate 8 7"
  proof -
    have "spec_read (file_entries mock_env (\<lambda>mem. mem) ?lf) 1 1 = [replicate 8 7]"
      by (simp add: ok(2) spec_read_def)
    moreover have "record_size 0 = 8" by (simp add: record_size_def c_const)
    ultimately show ?thesis
      using download_delivers [OF mock.flash_partition_axioms, of ?lf ?req ?lf ?lf ?init "snd ?sm"
          "\<lambda>data sent. (0, sent @ [data])" 3 "[replicate 8 7]" "[]"] ok app(3) req start
      by fastforce
  qed
  then show ?thesis using start by blast
qed

text \<open>
  C40: a chunk that the Bluetooth stack has no buffers for is lost when it is the last: the number
  of records still to send is reduced before the notification, so the retry finds nothing left
  and ends the transfer with an empty chunk that is flagged as the last one.
\<close>

theorem refused_last_chunk_is_lost:
  assumes "sm_active sm" and "sm_work sm = Some d" and "0 < length recs"
    and "unat (sm_remaining sm) = length recs" and "length recs \<le> records_per_chunk (sm_log_id sm)"
    and "read (sm_log_id sm) (sm_next_seq sm) (length recs) = (int (length recs), recs)"
    and "read (sm_log_id sm) (sm_next_seq sm) 0 = (0, [])"
    and data: "data = chunk_header_bytes ((chunk_header sm (int (length recs)))
          \<lparr>ch_flags := BLE_LOG_CHUNK_FLAG_LAST\<rparr>) @ concat recs"
    and final: "final = chunk_header_bytes ((chunk_header sm 0)\<lparr>ch_flags := BLE_LOG_CHUNK_FLAG_LAST\<rparr>)"
    and refused: "notify data bt = (- ENOMEM, bt1)" and accepted: "notify final bt1 = (0, bt2)"
  shows "\<exists>sm'. stream_run (Suc (Suc n)) True read notify sm bt = ([(- ENOMEM, data), (0, final)], sm', bt2) \<and>
    \<not> sm_active sm'"
proof -
  have rem: "sm_remaining sm = of_nat (length recs)" using assms(4) [symmetric] by simp
  have want: "unat (min (sm_remaining sm) (of_nat (records_per_chunk (sm_log_id sm)))) = length recs"
    using assms(4,5) by (simp add: want_records)
  then have nz: "min (sm_remaining sm) (of_nat (records_per_chunk (sm_log_id sm))) \<noteq> 0"
    using assms(3) by auto
  let ?sm = "sm\<lparr>sm_work := None\<rparr>"
  let ?sm1 = "sm\<lparr>sm_work := Some (CHUNK_GAP_MS * 2), sm_remaining := 0\<rparr>"
  have one: "stream_work_fn True read notify ?sm bt = (Some (- ENOMEM, data), ?sm1, bt1)"
    using assms(1,3,6) want nz refused [unfolded data]
    unfolding stream_work_fn_def Let_def records_per_chunk_def [symmetric] data
    by (simp add: rem chunk_header_def ENOMEM_def)
  have two: "stream_work_fn True read notify (?sm1\<lparr>sm_work := None\<rparr>) bt1 =
      (Some (0, final), ?sm1\<lparr>sm_work := None, sm_active := False\<rparr>, bt2)"
    using assms(1,7) accepted [unfolded final] unfolding stream_work_fn_def Let_def final
    by (simp add: chunk_header_def)
  show ?thesis using one two assms(2) by (simp add: stream_run_idle)
qed

theorem refused_last_chunk_is_lost_witness:
  "let sm = ble_log_init\<lparr>sm_active := True, sm_next_seq := 5, sm_remaining := 1, sm_work := Some 0\<rparr>;
       read = (\<lambda>_ _ n. if n = 0 then (0, []) else (1, [replicate 8 7]));
       notify = (\<lambda>_ sent. if sent = 0 then (- ENOMEM, 1) else (0, sent + 1));
       last_header = chunk_header sm 0\<lparr>ch_flags := BLE_LOG_CHUNK_FLAG_LAST\<rparr> in
   fst (stream_run 2 True read notify sm (0 :: nat)) =
     [(- ENOMEM, chunk_header_bytes (last_header\<lparr>ch_record_count := 1\<rparr>) @ replicate 8 7),
      (0, chunk_header_bytes last_header)]"
proof -
  let ?sm = "ble_log_init\<lparr>sm_active := True, sm_next_seq := 5, sm_remaining := 1, sm_work := Some 0\<rparr>"
  let ?read = "\<lambda>_ _ n. if n = 0 then (0, []) else (1, [replicate 8 7])"
  let ?notify = "\<lambda>_ sent. if sent = 0 then (- ENOMEM, 1) else (0, sent + 1)"
  have sm: "sm_active ?sm" "sm_work ?sm = Some 0" "sm_log_id ?sm = 0" "unat (sm_remaining ?sm) = 1"
    by (simp_all add: ble_log_init_def)
  have "1 \<le> records_per_chunk 0" using records_per_chunk_pos [of 0] by simp
  then show ?thesis
    using refused_last_chunk_is_lost [of ?sm 0 "[replicate 8 7]" ?read _ _ ?notify "0 :: nat" 1 2 0,
        OF _ _ _ _ _ _ _ refl refl] sm
    by (auto simp: Let_def chunk_header_def numeral_2_eq_2)
qed

text \<open>
  Asking for everything from sequence number 0 of a log whose numbers start at 1: the first chunk
  moves the position by its count, to the number of its own last record.
\<close>

context flash_partition
begin

lemma file_read_prefix:
  assumes "file_ok env cells medium_ok lf"
  shows "log_file_read env lf 0 n = (int (length (take n (map snd (file_entries env cells lf)))),
    take n (map snd (file_entries env cells lf)))"
  by (simp add: file_read [OF assms] spec_read_def)

lemma first_chunk_from_zero:
  assumes ok: "file_ok env cells medium_ok lf" and long: "records_per_chunk log_id < length es"
    and notify: "\<And>data bt. fst (notify data bt) = 0" and at: "transfer_at sm log_id 0 0 (length es)"
    and read: "read log_id = log_file_read env lf"
    and defs: "es = file_entries env cells lf" "c = records_per_chunk log_id"
  shows "\<exists>sm1 bt1. stream_work_fn True read notify sm bt =
      (Some (0, chunk log_id 0 0 False (take c (map snd es))), sm1, bt1) \<and>
    transfer_at sm1 log_id 1 c (length es - c) \<and> sm_work sm1 = Some CHUNK_GAP_MS"
proof -
  have c: "0 < c" "c < length es" using long records_per_chunk_pos by (simp_all add: defs(2))
  let ?out = "take c (map snd es)"
  have out: "length ?out = c" using c by simp
  have "read log_id (of_nat 0) (min (length es) (records_per_chunk log_id)) = (int (length ?out), ?out)"
    using c file_read_prefix [OF ok, of c] by (simp add: read min_def flip: defs)
  moreover have "?out \<noteq> []" using c by auto
  moreover have "length ?out \<le> min (length es) (records_per_chunk log_id)" using c by (simp flip: defs)
  ultimately show ?thesis
    using work_step [of sm log_id 0 0 "length es" read ?out notify bt] at notify c unfolding out by auto
qed

lemma file_download_from_zero:
  assumes ok: "file_ok env cells medium_ok lf"
    and first: "unat (fst (hd es)) = 1" and long: "records_per_chunk log_id < length es"
    and notify: "\<And>data bt. fst (notify data bt) = 0"
    and at: "transfer_at sm log_id 0 0 (length es)" "sm_work sm = Some d"
    and read: "read log_id = log_file_read env lf" and fuel: "length es + 1 < fuel"
    and defs: "es = file_entries env cells lf" "c = records_per_chunk log_id"
  shows "\<exists>cs sm' bt'. stream_run fuel True read notify sm bt = (map (Pair 0) cs, sm', bt') \<and>
    concat (map (drop 10) cs) =
      concat (map (\<lambda>i. snd (es ! i)) ([0..<c] @ [c - 1..<length es - 1])) \<and>
    map (\<lambda>d. d ! 4) cs = replicate (length cs - 1) 0 @ [BLE_LOG_CHUNK_FLAG_LAST] \<and>
    \<not> sm_active sm' \<and> sm_work sm' = None"
proof -
  let ?recs = "map snd es" and ?L = "length es" and ?sm = "sm\<lparr>sm_work := None\<rparr>"
  have c: "0 < c" "c < ?L" using long records_per_chunk_pos by (simp_all add: defs(2))
  have ne: "es \<noteq> []" using c by auto
  have first': "unat (fst (es ! 0)) = 1" using first ne by (simp add: hd_conv_nth)
  have L: "1 + ?L < 2 ^ 32"
    using file_entries_fit [OF ok] ne first' unsigned_less [of "fl_next_seq (lf_log lf)", where 'a = nat]
    by (simp add: defs(1))
  let ?out = "take c ?recs"
  have "transfer_at ?sm log_id 0 0 ?L" using at(1) by (simp add: transfer_at_def)
  from first_chunk_from_zero [where notify = notify and read = read, OF ok long notify this read defs]
  obtain sm1 bt1 where work: "stream_work_fn True read notify ?sm bt =
      (Some (0, chunk log_id 0 0 False ?out), sm1, bt1)"
    and sm1: "transfer_at sm1 log_id 1 c (?L - c)" "sm_work sm1 = Some CHUNK_GAP_MS"
    by blast
  let ?rest = "download_from log_id c (?L - c) (stored.stored_from lf c) 1"
  have stored: "stored.stored_from lf c = drop (c - 1) ?recs"
    using first' by (simp add: stored.stored_from_def drop_map flip: defs)
  have "stored.download_ok lf c"
    using ok ne first' c L unfolding stored.download_ok_def stored by (simp flip: defs(1))
  moreover have "length (stored.stored_from lf c) < fuel - 1" using fuel c by (simp add: stored)
  ultimately obtain sm2 bt2 where run: "stream_run (fuel - 1) True read notify sm1 bt1 =
      (map (Pair 0) ?rest, sm2, bt2)" "\<not> sm_active sm2" "sm_work sm2 = None"
    using stored.stream_run_downloads [where notify = notify and read = read, OF _ notify sm1 _ read] by blast
  let ?cs = "chunk log_id 0 0 False ?out # ?rest"
  have "stream_run fuel True read notify sm bt = (map (Pair 0) ?cs, sm2, bt2)"
    using work run(1) at(2) fuel by (cases fuel) simp_all
  moreover have "concat (map (drop 10) ?cs) =
      concat (map (\<lambda>i. snd (es ! i)) ([0..<c] @ [c - 1..<?L - 1]))"
  proof -
    have "take (?L - c) (drop (c - 1) ?recs) = map (\<lambda>i. snd (es ! i)) [c - 1..<?L - 1]"
      using c by (intro nth_equalityI) auto
    moreover have "take c ?recs = map (\<lambda>i. snd (es ! i)) [0..<c]"
      using c by (intro nth_equalityI) auto
    ultimately show ?thesis by (simp add: drop_chunk_header download_from_payload stored)
  qed
  moreover have "map (\<lambda>d. d ! 4) ?cs = replicate (length ?cs - 1) 0 @ [BLE_LOG_CHUNK_FLAG_LAST]"
    using chunk_then_download_flags [of log_id 0 0 ?out log_id c "?L - c" "stored.stored_from lf c" 1] by simp
  ultimately show ?thesis using run(2,3) by blast
qed

end

text \<open>
  C39: asking for everything from sequence number 0 does not give it. When the oldest entry has
  number 1 and the log is longer than one chunk of \<open>c\<close> records, a START request for all records
  from 0 on runs to its end and its last chunk is flagged as every complete download's, but what
  the client has are the first \<open>c\<close> records, then the records from the last of those on up to the
  one before the newest: record number \<open>c\<close> twice and the newest not at all.
\<close>

theorem download_from_zero_repeats:
  assumes "flash_partition env cells medium_ok"
    and "lf = (if lr_log_id req = BLE_LOG_ID_SENSOR then sensors else events)"
    and "file_ok env cells medium_ok lf" and "es = file_entries env cells lf"
    and "unat (fst (hd es)) = 1" and "c = records_per_chunk (lr_log_id req)" and "c < length es"
    and "lr_opcode req = BLE_LOG_OP_START" and "lr_start_seq req = 0" and "lr_max_records req = 0"
    and "ble_log_handle_request True (sensor_log_get_info env sensors) (event_log_get_info env events)
           req sm0 = (0, sm)"
    and "\<And>data bt. fst (notify data bt) = 0" and "length es + 1 < fuel"
  shows "\<exists>cs sm' bt'. stream_run fuel True
      (read_records (sensor_log_read env sensors) (event_log_read env events)) notify sm bt
      = (map (Pair 0) cs, sm', bt') \<and>
    concat (map (drop 10) cs) =
      concat (map (\<lambda>i. snd (es ! i)) ([0..<c] @ [c - 1..<length es - 1])) \<and>
    map (\<lambda>d. d ! 4) cs = replicate (length cs - 1) 0 @ [BLE_LOG_CHUNK_FLAG_LAST] \<and>
    \<not> sm_active sm' \<and> sm_work sm' = None"
proof -
  have read: "read_records (sensor_log_read env sensors) (event_log_read env events) (lr_log_id req)
      = log_file_read env lf"
    using assms(2) by (intro ext) (simp add: read_records_def storage_log_defs)
  have "(if lr_log_id req = BLE_LOG_ID_SENSOR then sensor_log_get_info env sensors
      else event_log_get_info env events) = log_file_info env lf"
    using assms(2) by (simp add: storage_log_defs)
  with handle_request_starts [OF assms(11,8) refl]
  have at: "transfer_at sm (lr_log_id req) 0 0 (length es)" "sm_work sm = Some 0"
    using flash_partition.file_count [OF assms(1,3)] assms(4,9,10) by (simp_all split: if_splits)
  show ?thesis
    by (rule flash_partition.file_download_from_zero [where notify = notify and
          read = "read_records (sensor_log_read env sensors) (event_log_read env events)",
          OF assms(1,3,5) _ assms(12) at read assms(13,4,6)]) (use assms(6,7) in simp)
qed

text \<open>
  The witness needs a log of more records than fit into one chunk: an area of 1024 bytes that
  works like the one of the unit tests.
\<close>

definition kilobyte_env :: "u8 list flash_env" where
  "kilobyte_env = mock_env\<lparr>
     fe_open := \<lambda>id. (0, \<lparr> fa_off = 0, fa_size = 1024 \<rparr>),
     fe_read := \<lambda>mem off len. (0, take (unat len) (drop (unat off) mem)),
     fe_write := \<lambda>mem off bytes. (0, take (unat off) mem @ bytes @ drop (unat off + length bytes) mem),
     fe_erase := \<lambda>mem off len. (0, take (unat off) mem @ replicate (unat len) 0xff @ drop (unat off + unat len) mem)\<rparr>"

interpretation kilobyte: flash_partition kilobyte_env "\<lambda>mem. mem" "\<lambda>mem. True"
  by unfold_locales (simp_all add: kilobyte_env_def)

definition kilobyte_log :: flash_log where
  "kilobyte_log = snd (flash_log_init kilobyte_env (replicate 1024 0xff) (mock_log_static\<lparr>fl_payload_size := 17\<rparr>))"

lemma kilobyte_log_init:
  "flash_log_init kilobyte_env (replicate 1024 0xff) (mock_log_static\<lparr>fl_payload_size := 17\<rparr>) = (0, kilobyte_log)"
  by (simp add: kilobyte_log_def flash_log_init_def mock_log_static_def kilobyte_env_def mock_env_def c_const)

lemma kilobyte_log_holds:
  assumes "n \<le> 32"
  shows "\<exists>log f. ring_inv kilobyte_env (\<lambda>mem. mem) (\<lambda>mem. True) log f \<and> fl_total_slots log = 32 \<and>
    fl_payload_size log = 17 \<and> unat (fl_next_seq log) = n + 1 \<and>
    ring_entries kilobyte_env (\<lambda>mem. mem) log f = map (\<lambda>i. (of_nat (i + 1), replicate 17 (of_nat (i + 1)))) [0..<n]"
  using assms
proof (induction n)
  case 0
  have "fe_open kilobyte_env (fl_partition_id (mock_log_static\<lparr>fl_payload_size := 17\<rparr>)) = (0, \<lparr> fa_off = 0, fa_size = 1024 \<rparr>)"
    "fe_page_info kilobyte_env (fa_off \<lparr> fa_off = 0, fa_size = 1024 \<rparr>) = (0, 64)"
    by (simp_all add: kilobyte_env_def mock_env_def c_const)
  note blank = kilobyte.flash_log_init_blank [OF kilobyte_log_init TrueI refl _ this(1) _ this(2)]
  have ring: "ring_inv kilobyte_env (\<lambda>mem. mem) (\<lambda>mem. True) kilobyte_log (replicate 1024 0xff)"
    "ring_entries kilobyte_env (\<lambda>mem. mem) kilobyte_log (replicate 1024 0xff) = []"
    using blank by simp_all
  then have "fl_used_slots kilobyte_log = 0"
    using kilobyte.length_ring_entries [of kilobyte_log "replicate 1024 0xff"] by (simp add: unat_eq_zero)
  then have "fl_next_seq kilobyte_log = 1" using ring(1) by (simp add: ring_inv_def)
  moreover have "fl_total_slots kilobyte_log = 32" "fl_payload_size kilobyte_log = 17"
    by (simp_all add: kilobyte_log_def flash_log_init_def mock_log_static_def kilobyte_env_def mock_env_def c_const Let_def)
  ultimately show ?case using ring by (intro exI [of _ kilobyte_log]) auto
next
  case (Suc n)
  then obtain log f where log: "ring_inv kilobyte_env (\<lambda>mem. mem) (\<lambda>mem. True) log f" "fl_total_slots log = 32"
    "fl_payload_size log = 17" "unat (fl_next_seq log) = n + 1"
    "ring_entries kilobyte_env (\<lambda>mem. mem) log f = map (\<lambda>i. (of_nat (i + 1), replicate 17 (of_nat (i + 1)))) [0..<n]"
    by auto
  have seq: "fl_next_seq log = of_nat (n + 1)" unfolding log(4) [symmetric] by simp
  have "unat (fl_next_seq log) + 1 < 2 ^ 32" "length (replicate 17 (of_nat (n + 1) :: u8)) = unat (fl_payload_size log)"
    using log(3,4) Suc.prems by simp_all
  then obtain log' f' where next_log: "ring_inv kilobyte_env (\<lambda>mem. mem) (\<lambda>mem. True) log' f'"
    "fl_next_seq log' = fl_next_seq log + 1" "fl_total_slots log' = 32" "fl_payload_size log' = 17"
    "ring_entries kilobyte_env (\<lambda>mem. mem) log' f' = spec_append (unat (fl_total_slots log))
       (unat (fl_slots_per_sector log)) (ring_entries kilobyte_env (\<lambda>mem. mem) log f)
       (fl_next_seq log, replicate 17 (of_nat (n + 1)))"
    using kilobyte.flash_log_append_correct [OF log(1)] log(2,3) by metis
  have "length (ring_entries kilobyte_env (\<lambda>mem. mem) log f) \<noteq> unat (fl_total_slots log)"
    using Suc.prems by (simp add: log(2,5))
  then have "ring_entries kilobyte_env (\<lambda>mem. mem) log' f' =
      map (\<lambda>i. (of_nat (i + 1), replicate 17 (of_nat (i + 1)))) [0..<Suc n]"
    using next_log(5) by (simp add: spec_append_def log(5) seq)
  moreover have "unat (fl_next_seq log') = Suc n + 1"
    using Suc.prems log(4) by (simp add: next_log(2) unat_word_ariths)
  ultimately show ?case using next_log(1,3,4) by blast
qed

theorem download_from_zero_repeats_witness:
  "\<exists>lf sm cs sm' bt'. ble_log_handle_request True (sensor_log_get_info kilobyte_env lf)
      (event_log_get_info kilobyte_env lf) (ble_log_request_of_bytes [1, 1, 0, 0, 0, 0, 0, 0]) ble_log_init = (0, sm) \<and>
    stream_run 17 True (read_records (sensor_log_read kilobyte_env lf) (event_log_read kilobyte_env lf))
      (\<lambda>data bt. (0, bt)) sm () = (map (Pair 0) cs, sm', bt') \<and> sm_work sm' = None \<and>
    map snd (file_entries kilobyte_env (\<lambda>mem. mem) lf) =
      map (replicate 17) [1, 2, 3, 4, 5, 6, 7, 8, 9, 10, 11, 12, 13, 14, 15] \<and>
    concat (map (drop 10) cs) =
      concat (map (replicate 17) [1, 2, 3, 4, 5, 6, 7, 8, 9, 10, 10, 11, 12, 13, 14])"
proof -
  obtain log f where ring: "ring_inv kilobyte_env (\<lambda>mem. mem) (\<lambda>mem. True) log f"
    "ring_entries kilobyte_env (\<lambda>mem. mem) log f = map (\<lambda>i. (of_nat (i + 1), replicate 17 (of_nat (i + 1)))) [0..<15]"
    using kilobyte_log_holds [of 15] by auto
  define es where "es = map (\<lambda>i. (of_nat (i + 1) :: u32, replicate 17 (of_nat (i + 1) :: u8))) [0..<15]"
  let ?lf = "\<lparr> lf_log = log, lf_mem = f \<rparr>" and ?req = "ble_log_request_of_bytes [1, 1, 0, 0, 0, 0, 0, 0]"
  have ok: "file_ok kilobyte_env (\<lambda>mem. mem) (\<lambda>mem. True) ?lf"
    "es = file_entries kilobyte_env (\<lambda>mem. mem) ?lf"
    using ring by (simp_all add: file_ok_def file_entries_def es_def)
  have req: "lr_opcode ?req = BLE_LOG_OP_START" "lr_log_id ?req = BLE_LOG_ID_SENSOR"
    "lr_start_seq ?req = 0" "lr_max_records ?req = 0"
    by (simp_all add: ble_log_request_of_bytes_def rd32_def rd16_def join32_def join16_def c_const)
  obtain sm where start: "ble_log_handle_request True (sensor_log_get_info kilobyte_env ?lf)
      (event_log_get_info kilobyte_env ?lf) ?req ble_log_init = (0, sm)"
    by (simp add: ble_log_handle_request_def req c_const Let_def)
  have c: "10 = records_per_chunk (lr_log_id ?req)"
    by (simp add: req records_per_chunk_def record_size_def c_const)
  have es: "unat (fst (hd es)) = 1" "10 < length es" "length es + 1 < 17"
    by (simp_all add: es_def upt_rec)
  have lf: "?lf = (if lr_log_id ?req = BLE_LOG_ID_SENSOR then ?lf else ?lf)" by simp
  obtain cs sm' bt' where run: "stream_run 17 True
      (read_records (sensor_log_read kilobyte_env ?lf) (event_log_read kilobyte_env ?lf)) (\<lambda>data bt. (0, bt)) sm ()
      = (map (Pair 0) cs, sm', bt')" "sm_work sm' = None"
    "concat (map (drop 10) cs) = concat (map (\<lambda>i. snd (es ! i)) ([0..<10] @ [10 - 1..<length es - 1]))"
    using download_from_zero_repeats [OF kilobyte.flash_partition_axioms lf ok es(1) c es(2) req(1,3,4) start _ es(3),
        where notify = "\<lambda>data bt. (0, bt)" and bt = "()"] by auto
  have "map (\<lambda>i. snd (es ! i)) ([0..<10] @ [10 - 1..<length es - 1]) =
      map (replicate 17) [1, 2, 3, 4, 5, 6, 7, 8, 9, 10, 10, 11, 12, 13, 14]"
    "map snd es = map (replicate 17) [1, 2, 3, 4, 5, 6, 7, 8, 9, 10, 11, 12, 13, 14, 15]"
    by (simp_all add: es_def upt_rec)
  then show ?thesis using start run ok(2) by metis
qed

end
