(* ===== verification/Ble_Live_Transfer.thy ===== *)
theory Ble_Live_Transfer
  imports Ble_Transfer
begin

section \<open>A download while the tag keeps logging\<close>

text \<open>
  A download takes one run of the work item per chunk, some milliseconds apart, and between two
  runs the firmware may append to the log that is being read. The transfer keeps a position and
  a number of records to send; this theory shows what the client gets when records are appended,
  and old sectors erased, between the chunks.
\<close>



subsection \<open>A log that grows\<close>



subsection \<open>Overtaken by the log\<close>


subsection \<open>The logs of the tag\<close>










subsection \<open>What the client receives\<close>




end
