(* ===== verification/Watchdog.thy ===== *)
theory Watchdog
  imports Smart_Tag
begin

section \<open>Watchdog\<close>

text \<open>
  \<open>src/power/watchdog.c\<close>. The driver is Zephyr's: \<open>watchdog_hw\<close> says whether the device tree
  has a watchdog, whether it is ready, and what installing the timeout and the two forms of
  \<open>wdt_setup\<close> return (\<open>True\<close> for the one that pauses in sleep). \<open>wd_feeds\<close> counts the calls of
  \<open>wdt_feed\<close>.
\<close>

definition WDT_WINDOW_MS :: nat where [c_const]: "WDT_WINDOW_MS = 8000"

record watchdog_hw =
  wh_present :: bool
  wh_ready :: bool
  wh_install_timeout :: "nat \<Rightarrow> int"
  wh_setup :: "bool \<Rightarrow> int"

record watchdog =
  wdt_dev :: bool
  wdt_chan :: int
  wd_feeds :: nat

definition watchdog_boot :: watchdog where
  "watchdog_boot = \<lparr> wdt_dev = False, wdt_chan = - 1, wd_feeds = 0 \<rparr>"

definition smart_tag_watchdog_init :: "watchdog_hw \<Rightarrow> watchdog \<Rightarrow> int \<times> watchdog" where
  "smart_tag_watchdog_init hw w =
     (let w = w\<lparr>wdt_dev := False, wdt_chan := - 1\<rparr> in
      if \<not> wh_present hw then (0, w)
      else if \<not> wh_ready hw then (0, w\<lparr>wdt_dev := False\<rparr>)
      else
        let w = w\<lparr>wdt_dev := True, wdt_chan := wh_install_timeout hw WDT_WINDOW_MS\<rparr> in
        if wdt_chan w < 0 then (wdt_chan w, w)
        else
          let err = wh_setup hw True;
              err = (if err \<noteq> 0 then wh_setup hw False else err)
          in if err \<noteq> 0 then (err, w\<lparr>wdt_chan := - 1\<rparr>) else (0, w))"

definition smart_tag_watchdog_feed :: "watchdog \<Rightarrow> watchdog" where
  "smart_tag_watchdog_feed w =
     (if \<not> wdt_dev w \<or> wdt_chan w < 0 then w else w\<lparr>wd_feeds := wd_feeds w + 1\<rparr>)"

text \<open>The watchdog is fed from then on exactly when the initialisation armed it.\<close>

lemma watchdog_armed:
  assumes "smart_tag_watchdog_init hw w0 = (err, w)"
  shows "wd_feeds (smart_tag_watchdog_feed w) = wd_feeds w0 +
    (if wh_present hw \<and> wh_ready hw \<and> wh_install_timeout hw WDT_WINDOW_MS \<ge> 0 \<and>
        (wh_setup hw True = 0 \<or> wh_setup hw False = 0) then 1 else 0)"
  using assms
  by (auto simp: smart_tag_watchdog_init_def smart_tag_watchdog_feed_def Let_def split: if_splits)

end
