(* ===== verification/Zigbee_Clusters.thy ===== *)
theory Zigbee_Clusters
  imports Zigbee_Reporting Sensor_Manager
begin

section \<open>ZCL attributes\<close>

text \<open>
  \<open>src/zigbee/zigbee_clusters.c\<close>: the attribute storage \<open>dev_ctx\<close> and the writes that push
  application state into it. The calls of \<open>zb_zcl_set_attr_val\<close> and its manufacturer-specific
  form are the list of writes \<open>zigbee_clusters_update\<close> returns, in order; what ZBOSS does with
  them is not part of the repository. The constants that ZBOSS defines are parameters
  (\<open>zcl_constants\<close>). A ZCL string is length-prefixed and not terminated: it is modelled by its
  characters, so that the zeroed array is the empty string.
\<close>

datatype zcl_value = U8 u8 | U16 u16 | U32 u32 | S16 s16 | ZCL_String string

datatype zcl_attr =
  TEMP_MEASUREMENT_VALUE | REL_HUMIDITY_MEASUREMENT_VALUE | PRESSURE_MEASUREMENT_VALUE
| BATTERY_VOLTAGE | BATTERY_PERCENTAGE_REMAINING | Tag_Attr u16

type_synonym zcl_write = "zcl_attr \<times> zcl_value"

definition TAG_ATTR_MOTION_STATE :: u16 where "TAG_ATTR_MOTION_STATE = 0x0000"
definition TAG_ATTR_ORIENTATION :: u16 where "TAG_ATTR_ORIENTATION = 0x0001"
definition TAG_ATTR_SHOCK_COUNT :: u16 where "TAG_ATTR_SHOCK_COUNT = 0x0002"
definition TAG_ATTR_MAXIMUM_SHOCK :: u16 where "TAG_ATTR_MAXIMUM_SHOCK = 0x0003"
definition TAG_ATTR_FREE_FALL_COUNT :: u16 where "TAG_ATTR_FREE_FALL_COUNT = 0x0004"
definition TAG_ATTR_TAMPER_STATE :: u16 where "TAG_ATTR_TAMPER_STATE = 0x0005"
definition TAG_ATTR_MOVEMENT_DURATION :: u16 where "TAG_ATTR_MOVEMENT_DURATION = 0x0006"
definition TAG_ATTR_LAST_MOVEMENT_TIME :: u16 where "TAG_ATTR_LAST_MOVEMENT_TIME = 0x0007"
definition TAG_ATTR_EVENT_COUNT :: u16 where "TAG_ATTR_EVENT_COUNT = 0x0008"
definition TAG_ATTR_LOG_RECORD_COUNT :: u16 where "TAG_ATTR_LOG_RECORD_COUNT = 0x0009"
definition TAG_ATTR_ALARM_FLAGS :: u16 where "TAG_ATTR_ALARM_FLAGS = 0x000a"
definition TAG_ATTR_OPERATING_MODE :: u16 where "TAG_ATTR_OPERATING_MODE = 0x000b"
definition TAG_ATTR_SAMPLING_INTERVAL :: u16 where "TAG_ATTR_SAMPLING_INTERVAL = 0x000c"
definition TAG_ATTR_GAS_RESISTANCE :: u16 where "TAG_ATTR_GAS_RESISTANCE = 0x000d"
definition TAG_ATTR_BOOT_EPOCH :: u16 where "TAG_ATTR_BOOT_EPOCH = 0x000e"

lemmas tag_attr_defs = TAG_ATTR_MOTION_STATE_def TAG_ATTR_ORIENTATION_def TAG_ATTR_SHOCK_COUNT_def
  TAG_ATTR_MAXIMUM_SHOCK_def TAG_ATTR_FREE_FALL_COUNT_def TAG_ATTR_TAMPER_STATE_def
  TAG_ATTR_MOVEMENT_DURATION_def TAG_ATTR_LAST_MOVEMENT_TIME_def TAG_ATTR_EVENT_COUNT_def
  TAG_ATTR_LOG_RECORD_COUNT_def TAG_ATTR_ALARM_FLAGS_def TAG_ATTR_OPERATING_MODE_def
  TAG_ATTR_SAMPLING_INTERVAL_def TAG_ATTR_GAS_RESISTANCE_def TAG_ATTR_BOOT_EPOCH_def

record power_config_attrs =
  pc_voltage :: u8
  pc_size :: u8
  pc_quantity :: u8
  pc_rated_voltage :: u8
  pc_alarm_mask :: u8
  pc_voltage_min_threshold :: u8
  pc_remaining :: u8
  pc_threshold1 :: u8
  pc_threshold2 :: u8
  pc_threshold3 :: u8
  pc_min_threshold :: u8
  pc_percent_threshold1 :: u8
  pc_percent_threshold2 :: u8
  pc_percent_threshold3 :: u8
  pc_alarm_state :: u32

record measure_attrs =
  ma_temp_value :: s16
  ma_temp_min :: s16
  ma_temp_max :: s16
  ma_temp_tolerance :: u16
  ma_humidity_value :: u16
  ma_humidity_min :: u16
  ma_humidity_max :: u16
  ma_pressure_value :: s16
  ma_pressure_min :: s16
  ma_pressure_max :: s16
  ma_pressure_tolerance :: u16

record tag_monitor_attrs =
  tm_motion_state :: u8
  tm_orientation :: u8
  tm_shock_count :: u32
  tm_maximum_shock :: u16
  tm_free_fall_count :: u32
  tm_tamper_state :: u8
  tm_movement_duration :: u32
  tm_last_movement_time :: u32
  tm_event_count :: u32
  tm_log_record_count :: u32
  tm_alarm_flags :: u16
  tm_operating_mode :: u8
  tm_sampling_interval :: u16
  tm_gas_resistance :: u32
  tm_boot_epoch :: u32

record device_ctx =
  dc_zcl_version :: u8
  dc_app_version :: u8
  dc_stack_version :: u8
  dc_hw_version :: u8
  dc_power_source :: u8
  dc_ph_env :: u8
  dc_mf_name :: string
  dc_model_id :: string
  dc_date_code :: string
  dc_location_id :: string
  dc_sw_ver :: string
  dc_identify_time :: u16
  dc_power :: power_config_attrs
  dc_measure :: measure_attrs
  dc_tag :: tag_monitor_attrs

text \<open>
  \<open>SMART_TAG_MODEL_NAME\<close> is the board's name in a file that includes \<open>board_id.h\<close> first, and the
  default of \<open>smart_tag.h\<close> in every other (\<open>None\<close>). \<open>zigbee_clusters.c\<close> does not include it.
\<close>

definition SMART_TAG_HW_VERSION :: u8 where "SMART_TAG_HW_VERSION = 1"

definition board_model_name :: "board \<Rightarrow> string" where
  "board_model_name b = (case b of BOARD_NRF54L15TAG \<Rightarrow> ''nRF54L15 Tag''
                                 | BOARD_HOLYIOT \<Rightarrow> ''HOLyiot 25025'')"

definition SMART_TAG_MODEL_NAME :: "board option \<Rightarrow> string" where
  "SMART_TAG_MODEL_NAME board_id =
     (case board_id of Some b \<Rightarrow> board_model_name b | None \<Rightarrow> ''Smart Tag'')"

record zcl_constants =
  zk_zcl_version :: u8
  zk_power_source_battery :: u8
  zk_env_unspecified :: u8
  zk_identify_time_default :: u16

definition BASIC_APP_VERSION :: u8 where "BASIC_APP_VERSION = 1"
definition BASIC_STACK_VERSION :: u8 where "BASIC_STACK_VERSION = 23"
definition BASIC_HW_VERSION :: u8 where "BASIC_HW_VERSION = SMART_TAG_HW_VERSION"
definition BASIC_MANUF_NAME :: string where "BASIC_MANUF_NAME = ''HOLyiot''"
definition BASIC_MODEL_ID :: string where "BASIC_MODEL_ID = SMART_TAG_MODEL_NAME None"
definition BASIC_DATE_CODE :: string where "BASIC_DATE_CODE = ''20260101''"
definition BASIC_LOCATION :: string where "BASIC_LOCATION = ''''"
definition BATTERY_RATED_DECIVOLTS :: u8 where "BATTERY_RATED_DECIVOLTS = 30"
definition BATTERY_SIZE_COIN :: u8 where "BATTERY_SIZE_COIN = 0x0a"

text \<open>\<open>dev_ctx\<close> is static: all zero.\<close>

definition device_ctx_zero :: device_ctx where
  "device_ctx_zero = \<lparr> dc_zcl_version = 0, dc_app_version = 0, dc_stack_version = 0,
     dc_hw_version = 0, dc_power_source = 0, dc_ph_env = 0, dc_mf_name = [],
     dc_model_id = [], dc_date_code = [], dc_location_id = [], dc_sw_ver = [], dc_identify_time = 0,
     dc_power = \<lparr> pc_voltage = 0, pc_size = 0, pc_quantity = 0, pc_rated_voltage = 0,
       pc_alarm_mask = 0, pc_voltage_min_threshold = 0, pc_remaining = 0, pc_threshold1 = 0,
       pc_threshold2 = 0, pc_threshold3 = 0, pc_min_threshold = 0, pc_percent_threshold1 = 0,
       pc_percent_threshold2 = 0, pc_percent_threshold3 = 0, pc_alarm_state = 0 \<rparr>,
     dc_measure = \<lparr> ma_temp_value = 0, ma_temp_min = 0, ma_temp_max = 0, ma_temp_tolerance = 0,
       ma_humidity_value = 0, ma_humidity_min = 0, ma_humidity_max = 0, ma_pressure_value = 0,
       ma_pressure_min = 0, ma_pressure_max = 0, ma_pressure_tolerance = 0 \<rparr>,
     dc_tag = \<lparr> tm_motion_state = 0, tm_orientation = 0, tm_shock_count = 0, tm_maximum_shock = 0,
       tm_free_fall_count = 0, tm_tamper_state = 0, tm_movement_duration = 0,
       tm_last_movement_time = 0, tm_event_count = 0, tm_log_record_count = 0, tm_alarm_flags = 0,
       tm_operating_mode = 0, tm_sampling_interval = 0, tm_gas_resistance = 0,
       tm_boot_epoch = 0 \<rparr> \<rparr>"

text \<open>Decivolts of a 16-bit millivolt value, as a byte.\<close>

definition decivolts :: "u16 \<Rightarrow> u8" where
  "decivolts mv = ucast (mv div 100)"

definition zigbee_clusters_init ::
  "board \<Rightarrow> zcl_constants \<Rightarrow> tag_config \<Rightarrow> device_ctx \<Rightarrow> device_ctx" where
  "zigbee_clusters_init b zk config ctx = ctx\<lparr>
     dc_zcl_version := zk_zcl_version zk, dc_app_version := BASIC_APP_VERSION,
     dc_stack_version := BASIC_STACK_VERSION, dc_hw_version := BASIC_HW_VERSION,
     dc_power_source := zk_power_source_battery zk, dc_ph_env := zk_env_unspecified zk,
     dc_mf_name := BASIC_MANUF_NAME, dc_model_id := BASIC_MODEL_ID,
     dc_date_code := BASIC_DATE_CODE, dc_location_id := BASIC_LOCATION,
     dc_identify_time := zk_identify_time_default zk,
     dc_power := (dc_power ctx)\<lparr>pc_size := BATTERY_SIZE_COIN, pc_quantity := 1,
       pc_rated_voltage := BATTERY_RATED_DECIVOLTS,
       pc_voltage_min_threshold := decivolts (cfg_battery_low_mv config), pc_voltage := 0xff,
       pc_remaining := 0xff\<rparr>,
     dc_measure := (dc_measure ctx)\<lparr>ma_temp_min := - 4000,
       ma_temp_max := (if b = BOARD_NRF54L15TAG then 8500 else 12500),
       ma_humidity_min := 0, ma_humidity_max := 10000, ma_pressure_min := 26,
       ma_pressure_max := 126\<rparr>,
     dc_tag := (dc_tag ctx)\<lparr>tm_orientation := orientation_code ORIENTATION_UNKNOWN,
       tm_operating_mode := cfg_operating_mode config,
       tm_sampling_interval := cfg_sampling_interval_s config\<rparr>\<rparr>"

text \<open>The measurement clusters: one block per group of the report.\<close>

definition update_temperature :: "sensor_data \<Rightarrow> u32 \<Rightarrow> zcl_write list" where
  "update_temperature d report =
     (if has_flag report REPORT_TEMPERATURE \<and> has_flag (sd_valid d) SENSOR_VALID_TEMP_RH
      then [(TEMP_MEASUREMENT_VALUE, S16 (sd_temperature_c_x100 d))] else [])"

definition update_humidity :: "sensor_data \<Rightarrow> u32 \<Rightarrow> zcl_write list" where
  "update_humidity d report =
     (if has_flag report REPORT_HUMIDITY \<and> has_flag (sd_valid d) SENSOR_VALID_TEMP_RH
      then [(REL_HUMIDITY_MEASUREMENT_VALUE, U16 (sd_humidity_x100 d))] else [])"

definition update_pressure :: "sensor_data \<Rightarrow> u32 \<Rightarrow> zcl_write list" where
  "update_pressure d report =
     (if has_flag report REPORT_PRESSURE \<and> has_flag (sd_valid d) SENSOR_VALID_PRESSURE
      then [(PRESSURE_MEASUREMENT_VALUE, S16 (word_of_int (sint (sd_pressure_pa d) sdiv 1000)))] else [])"

definition update_battery :: "sensor_data \<Rightarrow> u32 \<Rightarrow> device_ctx \<Rightarrow> zcl_write list \<times> device_ctx" where
  "update_battery d report ctx =
     (if has_flag report REPORT_BATTERY \<and> has_flag (sd_valid d) SENSOR_VALID_BATTERY then
        let voltage = decivolts (sd_battery_mv d);
            remaining = ucast (min (ucast (sd_battery_percent d) * 2) 200 :: u16)
        in ([(BATTERY_VOLTAGE, U8 voltage), (BATTERY_PERCENTAGE_REMAINING, U8 remaining)],
            ctx\<lparr>dc_power := (dc_power ctx)\<lparr>pc_voltage := voltage, pc_remaining := remaining\<rparr>\<rparr>)
      else ([], ctx))"

text \<open>The Tag Monitor attributes, in the order they are assigned and written.\<close>

definition tag_monitor_update ::
  "sensor_data \<Rightarrow> tag_status \<Rightarrow> u32 \<Rightarrow> tag_config \<Rightarrow> tag_statistics \<Rightarrow> tag_monitor_attrs \<Rightarrow>
   tag_monitor_attrs" where
  "tag_monitor_update d s log_record_count config stats tm = tm\<lparr>
     tm_motion_state := st_motion_state s, tm_orientation := st_orientation s,
     tm_shock_count := st_shock_count s, tm_maximum_shock := st_max_shock_mg s,
     tm_free_fall_count := st_free_fall_count s, tm_tamper_state := st_tamper s,
     tm_movement_duration := st_movement_duration_s s,
     tm_last_movement_time := st_last_movement_time s, tm_event_count := st_event_count s,
     tm_log_record_count := log_record_count, tm_alarm_flags := st_alarm_flags s,
     tm_operating_mode := cfg_operating_mode config,
     tm_sampling_interval := cfg_sampling_interval_s config,
     tm_gas_resistance := (if has_flag (sd_valid d) SENSOR_VALID_GAS then sd_gas_resistance_ohm d
                           else tm_gas_resistance tm),
     tm_boot_epoch := stat_boot_epoch_utc stats\<rparr>"

definition tag_monitor_writes :: "sensor_data \<Rightarrow> tag_monitor_attrs \<Rightarrow> zcl_write list" where
  "tag_monitor_writes d tm =
     [(Tag_Attr TAG_ATTR_MOTION_STATE, U8 (tm_motion_state tm)),
      (Tag_Attr TAG_ATTR_ORIENTATION, U8 (tm_orientation tm)),
      (Tag_Attr TAG_ATTR_SHOCK_COUNT, U32 (tm_shock_count tm)),
      (Tag_Attr TAG_ATTR_MAXIMUM_SHOCK, U16 (tm_maximum_shock tm)),
      (Tag_Attr TAG_ATTR_FREE_FALL_COUNT, U32 (tm_free_fall_count tm)),
      (Tag_Attr TAG_ATTR_TAMPER_STATE, U8 (tm_tamper_state tm)),
      (Tag_Attr TAG_ATTR_MOVEMENT_DURATION, U32 (tm_movement_duration tm)),
      (Tag_Attr TAG_ATTR_LAST_MOVEMENT_TIME, U32 (tm_last_movement_time tm)),
      (Tag_Attr TAG_ATTR_EVENT_COUNT, U32 (tm_event_count tm)),
      (Tag_Attr TAG_ATTR_LOG_RECORD_COUNT, U32 (tm_log_record_count tm)),
      (Tag_Attr TAG_ATTR_ALARM_FLAGS, U16 (tm_alarm_flags tm)),
      (Tag_Attr TAG_ATTR_OPERATING_MODE, U8 (tm_operating_mode tm)),
      (Tag_Attr TAG_ATTR_SAMPLING_INTERVAL, U16 (tm_sampling_interval tm))] @
     (if has_flag (sd_valid d) SENSOR_VALID_GAS
      then [(Tag_Attr TAG_ATTR_GAS_RESISTANCE, U32 (tm_gas_resistance tm))] else []) @
     [(Tag_Attr TAG_ATTR_BOOT_EPOCH, U32 (tm_boot_epoch tm))]"

definition zigbee_clusters_update ::
  "sensor_data \<Rightarrow> tag_status \<Rightarrow> u32 \<Rightarrow> tag_config \<Rightarrow> u32 \<Rightarrow> tag_statistics \<Rightarrow> device_ctx \<Rightarrow>
   zcl_write list \<times> device_ctx" where
  "zigbee_clusters_update d s log_record_count config report stats ctx =
     (case update_battery d report ctx of (battery, ctx) \<Rightarrow>
      let measured = update_temperature d report @ update_humidity d report
                     @ update_pressure d report @ battery in
      if \<not> has_flag report REPORT_TAG_MONITOR then (measured, ctx)
      else
        let ctx = ctx\<lparr>dc_tag := tag_monitor_update d s log_record_count config stats (dc_tag ctx)\<rparr>
        in (measured @ tag_monitor_writes d (dc_tag ctx), ctx))"

subsection \<open>A reading that is not valid\<close>

text \<open>
  A first sample without a valid temperature silences the temperature. Everything is
  reported, the temperature is skipped because it is not valid, and yet its value is taken as
  what was last sent: a following valid temperature within the delta of that value, which is
  zero for a failed reading, is not reported before the maximum interval has passed.
\<close>

lemma invalid_reading_becomes_baseline:
  assumes "\<not> has_flag (sd_valid d) SENSOR_VALID_TEMP_RH" and "\<not> bl_valid b"
    and "report = zigbee_reporting_evaluate d s c b"
    and "\<bar>sint (sd_temperature_c_x100 d') - sint (sd_temperature_c_x100 d)\<bar>
           < uint (cfg_report_temp_delta_c_x100 c)"
    and "\<not> interval_elapsed d' c (zigbee_reporting_commit d s report b)"
  shows "has_flag report REPORT_TEMPERATURE \<and>
    (\<forall>v. (TEMP_MEASUREMENT_VALUE, v) \<notin> set (fst (zigbee_clusters_update d s n c report stats ctx))) \<and>
    \<not> has_flag (zigbee_reporting_evaluate d' s' c (zigbee_reporting_commit d s report b))
        REPORT_TEMPERATURE"
proof -
  have all: "report = REPORT_ALL" using assms(2,3) by (simp add: zigbee_reporting_evaluate_def)
  then have nz: "report \<noteq> 0" by (metis bit_REPORT_ALL bit_0_eq bot_apply bot_bool_def zero_less_numeral)
  note f = commit_fields [OF nz, where d = d and s = s and b = b]
  have "\<not> moved_temperature d' c (zigbee_reporting_commit d s report b)"
    using assms(4) by (simp add: moved_temperature_def f [unfolded all] all)
  then have "\<not> has_flag (zigbee_reporting_evaluate d' s' c (zigbee_reporting_commit d s report b))
        REPORT_TEMPERATURE"
    using assms(5) f(1) by (simp add: flag_defs bit_evaluate)
  moreover have "has_flag report REPORT_TEMPERATURE" by (simp add: all flag_defs)
  moreover have "(TEMP_MEASUREMENT_VALUE, v) \<notin> set (fst (zigbee_clusters_update d s n c report stats ctx))" for v
    using assms(1)
    by (auto simp: zigbee_clusters_update_def update_temperature_def update_humidity_def
        update_pressure_def update_battery_def tag_monitor_writes_def Let_def)
  ultimately show ?thesis by blast
qed

lemma invalid_reading_becomes_baseline_witness:
  "let c = TAG_CONFIG_DEFAULTS; d = sensor_data_zero;
       d' = sensor_data_zero\<lparr>sd_temperature_c_x100 := 40, sd_valid := SENSOR_VALID_TEMP_RH,
                             sd_timestamp := 60\<rparr> in
   \<not> has_flag (zigbee_reporting_evaluate d' tag_status_zero c
       (zigbee_reporting_commit d tag_status_zero REPORT_ALL zigbee_reporting_init)) REPORT_TEMPERATURE"
proof -
  let ?c = TAG_CONFIG_DEFAULTS and ?d = sensor_data_zero and ?b = zigbee_reporting_init
  let ?d' = "sensor_data_zero\<lparr>sd_temperature_c_x100 := 40, sd_valid := SENSOR_VALID_TEMP_RH, sd_timestamp := 60\<rparr>"
  have first: "\<not> has_flag (sd_valid ?d) SENSOR_VALID_TEMP_RH" "\<not> bl_valid ?b"
    by (simp_all add: sensor_data_zero_def zigbee_reporting_init_def)
  have all: "REPORT_ALL = zigbee_reporting_evaluate ?d tag_status_zero ?c ?b"
    using first(2) by (simp add: zigbee_reporting_evaluate_def)
  have nz: "REPORT_ALL \<noteq> 0" by (metis bit_REPORT_ALL bit_0_eq bot_apply bot_bool_def zero_less_numeral)
  have small: "\<bar>sint (sd_temperature_c_x100 ?d') - sint (sd_temperature_c_x100 ?d)\<bar>
      < uint (cfg_report_temp_delta_c_x100 ?c)"
    by (simp add: sensor_data_zero_def TAG_CONFIG_DEFAULTS_def)
  have early: "\<not> interval_elapsed ?d' ?c (zigbee_reporting_commit ?d tag_status_zero REPORT_ALL ?b)"
    by (simp add: interval_elapsed_def commit_fields [OF nz] sensor_data_zero_def
        TAG_CONFIG_DEFAULTS_def)
  show ?thesis
    using invalid_reading_becomes_baseline [OF first all small early] by (simp add: Let_def)
qed

end
