(* ===== verification/Device.thy ===== *)
theory Device
  imports Storage_Logs Motion_Manager App_Alarms Config_Storage Led_Manager Ble_Log Watchdog
    Zigbee_Clusters
begin

section \<open>The state of the tag\<close>

text \<open>
  The static variables of the firmware's modules in one record, \<open>device\<close>, one field per module,
  and what the code calls outside the repository in another, \<open>tag_env\<close>. The operations of
  \<open>src/app\<close>, \<open>src/ble\<close>, \<open>src/power\<close> and \<open>src/zigbee\<close> that reach several modules are functions on
  this record, in theories of their own. A mutex-protected section is one step; a work item or
  timer is a field that says whether it is pending.
\<close>

subsection \<open>The application core\<close>

datatype app_state =
  APP_STATE_BOOT | APP_STATE_INIT | APP_STATE_ZIGBEE_START | APP_STATE_RUNNING
| APP_STATE_SERVICE | APP_STATE_SLEEP

fun app_state_code :: "app_state \<Rightarrow> nat" where
  "app_state_code APP_STATE_BOOT = 0"
| "app_state_code APP_STATE_INIT = 1"
| "app_state_code APP_STATE_ZIGBEE_START = 2"
| "app_state_code APP_STATE_RUNNING = 3"
| "app_state_code APP_STATE_SERVICE = 4"
| "app_state_code APP_STATE_SLEEP = 5"

text \<open>The two subscribers of the firmware: \<open>ble_subscriber\<close> and \<open>zb_subscriber\<close>.\<close>

datatype app_subscriber = BLE_SUBSCRIBER | ZB_SUBSCRIBER

record pending_event =
  pe_type :: u8
  pe_severity :: u8
  pe_value :: s16

record app_core =
  ac_state :: app_state
  ac_subscribers :: "app_subscriber list"
  ac_status :: tag_status
  ac_statistics :: tag_statistics
  ac_last_sample :: sensor_data
  ac_last_stats_flush :: u32
  ac_pending :: "pending_event list"

definition app_core_boot :: app_core where
  "app_core_boot = \<lparr> ac_state = APP_STATE_BOOT, ac_subscribers = [], ac_status = tag_status_zero,
     ac_statistics = tag_statistics_zero, ac_last_sample = sensor_data_zero,
     ac_last_stats_flush = 0, ac_pending = [] \<rparr>"

subsection \<open>Power, Bluetooth and Zigbee managers\<close>

text \<open>\<open>pw_sample_now\<close> is the semaphore, whose limit is 1; the timeout is in seconds.\<close>

record power_manager =
  pw_sample_now :: bool
  pw_motion_pending :: bool
  pw_service_timeout :: "nat option"
  pw_service_mode :: bool
  pw_started :: bool

definition power_manager_boot :: power_manager where
  "power_manager_boot = \<lparr> pw_sample_now = False, pw_motion_pending = False,
     pw_service_timeout = None, pw_service_mode = False, pw_started = False \<rparr>"

definition MANUF_DATA_INIT :: "u8 list" where
  "MANUF_DATA_INIT = [0xff, 0xff, 4, 0, 0, 0, 0, 0, 0, 0, 0, 0]"

record ble_manager =
  bm_connected :: bool
  bm_advertising :: bool
  bm_stack_ready :: bool
  bm_manuf_data :: "u8 list"
  bm_scan_name :: string

definition ble_manager_boot :: "string \<Rightarrow> ble_manager" where
  "ble_manager_boot device_name = \<lparr> bm_connected = False, bm_advertising = False,
     bm_stack_ready = False, bm_manuf_data = MANUF_DATA_INIT, bm_scan_name = device_name \<rparr>"

record ble_cmd_request =
  cr_opcode :: u8
  cr_reserved :: u8
  cr_argument :: u32

record ble_command =
  bc_work :: bool
  bc_pending :: ble_cmd_request

definition ble_command_boot :: ble_command where
  "ble_command_boot = \<lparr> bc_work = False,
     bc_pending = \<lparr> cr_opcode = 0, cr_reserved = 0, cr_argument = 0 \<rparr> \<rparr>"

text \<open>\<open>zb_publish\<close> counts the scheduled calls of \<open>publish_attributes\<close>; \<open>zb_writes\<close> is the list of
  attribute writes so far.\<close>

record zigbee_manager =
  zb_joined :: bool
  zb_joining :: bool
  zb_publish :: nat
  zb_baseline :: baseline
  zb_ctx :: device_ctx
  zb_writes :: "zcl_write list"
  zb_ota_in_progress :: bool

definition zigbee_manager_boot :: zigbee_manager where
  "zigbee_manager_boot = \<lparr> zb_joined = False, zb_joining = False, zb_publish = 0,
     zb_baseline = zigbee_reporting_init, zb_ctx = device_ctx_zero, zb_writes = [],
     zb_ota_in_progress = False \<rparr>"

subsection \<open>The device and its environment\<close>

record ('f, 'n, 'b) device =
  dev_uptime_s :: u32
  dev_events :: "'f log_file"
  dev_sensors :: "'f log_file"
  dev_store :: config_storage
  dev_nvs :: 'n
  dev_sensing :: sensor_state
  dev_motion :: motion_manager
  dev_led :: led_manager
  dev_config :: tag_config
  dev_core :: app_core
  dev_power :: power_manager
  dev_gatt :: ble_gatt
  dev_stream :: stream_state
  dev_command :: ble_command
  dev_ble :: ble_manager
  dev_bt :: 'b
  dev_zigbee :: zigbee_manager
  dev_watchdog :: watchdog
  dev_rebooting :: bool

text \<open>
  The Bluetooth host of Zephyr over its state \<open>'b\<close>. \<open>bt_id_get\<close> gives the bytes of the
  identity addresses; the advertising functions take the manufacturer data and the name of the
  scan response.
\<close>

record 'b bluetooth =
  bt_gatt_notify :: "'b bt_notify"
  bt_enable :: "'b \<Rightarrow> int \<times> 'b"
  bt_settings_load :: "'b \<Rightarrow> 'b"
  bt_id_get :: "'b \<Rightarrow> u8 list list"
  bt_set_name :: "string \<Rightarrow> 'b \<Rightarrow> int \<times> 'b"
  bt_get_name :: "'b \<Rightarrow> string"
  bt_le_adv_start :: "u8 list \<Rightarrow> string \<Rightarrow> 'b \<Rightarrow> int \<times> 'b"
  bt_le_adv_update_data :: "u8 list \<Rightarrow> string \<Rightarrow> 'b \<Rightarrow> int \<times> 'b"
  bt_le_adv_stop :: "'b \<Rightarrow> int \<times> 'b"
  bt_conn_disconnect :: "'b \<Rightarrow> int \<times> 'b"

text \<open>
  The LED, the sensors and the watchdog driver, the flash partitions, the settings subsystem, the
  Bluetooth host, and the build's options.
\<close>

record ('f, 'n, 'b) tag_env =
  te_board :: board
  te_flash :: "'f flash_env"
  te_settings :: "'n settings_env"
  te_bt :: "'b bluetooth"
  te_wdt :: watchdog_hw
  te_zcl :: zcl_constants
  te_device_name :: string
  te_device_name_max :: nat
  te_bt_settings :: bool
  te_advertise_at_boot :: bool
  te_zigbee_add_on :: bool
  te_zigbee_fota :: bool

text \<open>Feeding the watchdog, and going through \<open>n\<close> sectors feeds it \<open>n\<close> times.\<close>

definition dev_feed :: "nat \<Rightarrow> ('f, 'n, 'b) device \<Rightarrow> ('f, 'n, 'b) device" where
  "dev_feed n d = d\<lparr>dev_watchdog := (smart_tag_watchdog_feed ^^ n) (dev_watchdog d)\<rparr>"

definition led_set :: "led_state \<Rightarrow> bool \<Rightarrow> ('f, 'n, 'b) device \<Rightarrow> ('f, 'n, 'b) device" where
  "led_set state active d = d\<lparr>dev_led := led_manager_set state active (dev_led d)\<rparr>"

end
