(* ===== verification/App_Config.thy ===== *)
theory App_Config
  imports Device
begin

section \<open>Runtime configuration\<close>

text \<open>\<open>src/app/app_config.c\<close>: validation, the authoritative copy, and pushing changes out.\<close>

definition mode_interval_divider :: "u8 \<Rightarrow> u16" where
  "mode_interval_divider mode =
     (if mode = tag_mode_code TAG_MODE_SHIPPING then 4
      else if mode = tag_mode_code TAG_MODE_ASSET then 2
      else 1)"

definition app_config_validate :: "tag_config \<Rightarrow> bool" where
  "app_config_validate cfg \<longleftrightarrow>
     \<not> (cfg_sampling_interval_s cfg < 1 \<or> cfg_sampling_interval_s cfg > 3600) \<and>
     \<not> (cfg_motion_timeout_s cfg < 1 \<or> cfg_motion_timeout_s cfg > 3600) \<and>
     \<not> (cfg_motion_threshold_mg cfg < 20 \<or> cfg_motion_threshold_mg cfg > 4000) \<and>
     \<not> (cfg_shock_threshold_mg cfg < 500 \<or> cfg_shock_threshold_mg cfg > 16000) \<and>
     \<not> cfg_free_fall_threshold_mg cfg > 900 \<and>
     \<not> sint (cfg_temp_high_c_x100 cfg) \<le> sint (cfg_temp_low_c_x100 cfg) \<and>
     \<not> cfg_humidity_high_x100 cfg > 10000 \<and>
     \<not> (cfg_battery_low_mv cfg < 1800 \<or> cfg_battery_low_mv cfg > 3300) \<and>
     \<not> (cfg_report_max_interval_s cfg < 60 \<or> cfg_report_max_interval_s cfg > 43200) \<and>
     \<not> (cfg_ble_service_window_s cfg < 10 \<or> cfg_ble_service_window_s cfg > 3600) \<and>
     \<not> cfg_operating_mode cfg > tag_mode_code TAG_MODE_SHIPPING \<and>
     \<not> (cfg_led_enabled cfg > 1 \<or> cfg_sensor_history_enabled cfg > 1)"

definition app_config_init :: "('f, 'n, 'b) device \<Rightarrow> ('f, 'n, 'b) device" where
  "app_config_init d =
     (let stored = config_storage_load (dev_store d);
          stored = (if \<not> app_config_validate stored then TAG_CONFIG_DEFAULTS else stored)
      in d\<lparr>dev_config := stored\<rparr>)"

definition app_config_get :: "('f, 'n, 'b) device \<Rightarrow> tag_config" where
  "app_config_get d = dev_config d"

text \<open>
  \<open>power_manager_config_changed\<close> and \<open>power_manager_sample_now\<close> give the semaphore the sampling
  thread sleeps on.
\<close>

definition power_manager_config_changed :: "('f, 'n, 'b) device \<Rightarrow> ('f, 'n, 'b) device" where
  "power_manager_config_changed d = d\<lparr>dev_power := (dev_power d)\<lparr>pw_sample_now := True\<rparr>\<rparr>"

text \<open>
  One step here, and in every theory that does not say otherwise. The code releases its mutex
  after the first of the updates below, so another thread can run between them: \<open>Config_Race\<close>
  cuts the function into its sections and shows what two overlapping writes can do. What is
  proved with this definition is about writes that do not overlap.
\<close>

definition app_config_set ::
  "('f, 'n, 'b) tag_env \<Rightarrow> tag_config \<Rightarrow> ('f, 'n, 'b) device \<Rightarrow> int \<times> ('f, 'n, 'b) device" where
  "app_config_set env cfg d =
     (if \<not> app_config_validate cfg then (- EINVAL, d)
      else
        let d = d\<lparr>dev_config := cfg\<rparr>;
            d = d\<lparr>dev_motion := motion_manager_update_config cfg (dev_motion d)\<rparr>;
            d = d\<lparr>dev_led := led_manager_set_enabled (cfg_led_enabled cfg \<noteq> 0) (dev_led d)\<rparr>;
            d = power_manager_config_changed d
        in case config_storage_save (te_settings env) cfg (dev_store d, dev_nvs d) of
             (err, store, nvs) \<Rightarrow> (err, d\<lparr>dev_store := store, dev_nvs := nvs\<rparr>))"

text \<open>The mode is cast to the field's byte.\<close>

definition app_config_set_mode ::
  "('f, 'n, 'b) tag_env \<Rightarrow> u32 \<Rightarrow> ('f, 'n, 'b) device \<Rightarrow> int \<times> ('f, 'n, 'b) device" where
  "app_config_set_mode env mode d =
     app_config_set env ((app_config_get d)\<lparr>cfg_operating_mode := ucast mode\<rparr>) d"

definition app_config_set_sampling_interval ::
  "('f, 'n, 'b) tag_env \<Rightarrow> u16 \<Rightarrow> ('f, 'n, 'b) device \<Rightarrow> int \<times> ('f, 'n, 'b) device" where
  "app_config_set_sampling_interval env seconds d =
     app_config_set env ((app_config_get d)\<lparr>cfg_sampling_interval_s := seconds\<rparr>) d"

definition app_config_reset ::
  "('f, 'n, 'b) tag_env \<Rightarrow> ('f, 'n, 'b) device \<Rightarrow> int \<times> ('f, 'n, 'b) device" where
  "app_config_reset env d = app_config_set env TAG_CONFIG_DEFAULTS d"

definition app_config_effective_interval_s :: "('f, 'n, 'b) device \<Rightarrow> u16" where
  "app_config_effective_interval_s d =
     (let interval = cfg_sampling_interval_s (dev_config d);
          divider = mode_interval_divider (cfg_operating_mode (dev_config d));
          interval = interval div divider
      in max interval 1)"

subsection \<open>The configuration in use\<close>

lemma defaults_valid [simp]: "app_config_validate TAG_CONFIG_DEFAULTS"
  by (simp add: app_config_validate_def TAG_CONFIG_DEFAULTS_def)

text \<open>
  The configuration is in range, and the modules that cache it agree with it. Every operation of
  the device keeps this.
\<close>

definition config_in_force :: "('f, 'n, 'b) device \<Rightarrow> bool" where
  "config_in_force d \<longleftrightarrow> app_config_validate (dev_config d) \<and>
     mm_config (dev_motion d) = dev_config d \<and>
     led_enabled (dev_led d) = (cfg_led_enabled (dev_config d) \<noteq> 0)"

lemma led_enabled_drive [simp]: "led_enabled (drive c l) = led_enabled l"
  by (simp add: drive_def)

lemma led_enabled_set_enabled [simp]: "led_enabled (led_manager_set_enabled v l) = v"
  by (simp add: led_manager_set_enabled_def Let_def)

lemma app_config_set_state:
  assumes "app_config_set env cfg d = (err, d')"
  shows "if app_config_validate cfg
    then dev_config d' = cfg \<and> config_in_force d' \<and> pw_sample_now (dev_power d') \<and>
         cs_stored_config (dev_store d') = cfg \<and> dev_core d' = dev_core d \<and>
         dev_events d' = dev_events d \<and> dev_gatt d' = dev_gatt d \<and> dev_zigbee d' = dev_zigbee d \<and>
         dev_ble d' = dev_ble d \<and> dev_stream d' = dev_stream d \<and>
         dev_power d' = (dev_power d)\<lparr>pw_sample_now := True\<rparr>
    else err = - EINVAL \<and> d' = d"
  using assms
  by (auto simp: app_config_set_def config_storage_save_def config_in_force_def Let_def
      power_manager_config_changed_def motion_manager_update_config_def split: prod.splits if_splits)

end
