(* ===== verification/App_State.thy ===== *)
theory App_State
  imports App_Config
begin

section \<open>Application state\<close>

text \<open>
  \<open>src/app/app_state.c\<close>: the centre of the firmware. The parts that only touch the live status,
  the statistics and the pending events are functions on \<open>app_core\<close>; what reaches the logs, the
  LED, the settings and the subscribers is a function on the device.
\<close>

definition STATS_FLUSH_INTERVAL_S :: u32 where [c_const]: "STATS_FLUSH_INTERVAL_S = 3600"
definition MAX_PENDING_EVENTS :: nat where [c_const]: "MAX_PENDING_EVENTS = 8"

subsection \<open>Under the lock\<close>

definition queue_event :: "u8 \<Rightarrow> u8 \<Rightarrow> s16 \<Rightarrow> app_core \<Rightarrow> app_core" where
  "queue_event type severity value c =
     (if length (ac_pending c) \<ge> MAX_PENDING_EVENTS then c
      else c\<lparr>ac_pending := ac_pending c @
               [\<lparr> pe_type = type, pe_severity = severity, pe_value = value \<rparr>]\<rparr>)"

definition with_status :: "(tag_status \<Rightarrow> tag_status) \<Rightarrow> app_core \<Rightarrow> app_core" where
  "with_status f c = c\<lparr>ac_status := f (ac_status c)\<rparr>"

definition with_statistics :: "(tag_statistics \<Rightarrow> tag_statistics) \<Rightarrow> app_core \<Rightarrow> app_core" where
  "with_statistics f c = c\<lparr>ac_statistics := f (ac_statistics c)\<rparr>"

definition queue_alarm :: "app_alarm_event \<Rightarrow> app_core \<Rightarrow> app_core" where
  "queue_alarm e c = queue_event (ae_type e) (ae_severity e) (ae_value e) c"

definition check_thresholds :: "sensor_data \<Rightarrow> tag_config \<Rightarrow> u8 \<Rightarrow> app_core \<Rightarrow> app_core" where
  "check_thresholds data config expected c =
     (let before = st_alarm_flags (ac_status c) in
      case app_alarms_eval data config expected before of (flags, events) \<Rightarrow>
      let c = with_status (st_alarm_flags_update (\<lambda>_. flags)) c;
          c = (if has_flag flags ALARM_SENSOR_FAULT \<and> \<not> has_flag before ALARM_SENSOR_FAULT
               then with_statistics (stat_sensor_faults_update (\<lambda>n. n + 1)) c else c);
          c = (if has_flag (sd_valid data) SENSOR_VALID_BATTERY \<and>
                  (stat_min_battery_mv (ac_statistics c) = 0 \<or>
                   sd_battery_mv data < stat_min_battery_mv (ac_statistics c))
               then with_statistics (stat_min_battery_mv_update (\<lambda>_. sd_battery_mv data)) c else c)
      in fold queue_alarm events c)"

text \<open>\<open>apply_motion_result\<close>, one block per event bit.\<close>

definition apply_motion_start :: "motion_result \<Rightarrow> app_core \<Rightarrow> app_core" where
  "apply_motion_start motion c =
     (if has_flag (mr_events motion) MOTION_EVENT_START then
        let c = with_statistics (stat_motion_count_update (\<lambda>n. n + 1)) c;
            c = with_status (st_last_movement_time_update (\<lambda>_. sd_timestamp (ac_last_sample c))) c
        in queue_event (event_code EVENT_MOTION_START) (severity_code EVENT_SEVERITY_INFO) 0 c
      else c)"

definition apply_motion_stop :: "motion_result \<Rightarrow> app_core \<Rightarrow> app_core" where
  "apply_motion_stop motion c =
     (if has_flag (mr_events motion) MOTION_EVENT_STOP then
        let c = with_status (st_movement_duration_s_update (\<lambda>n. n + mr_movement_duration_s motion)) c;
            c = with_statistics
                  (stat_movement_duration_s_update (\<lambda>_. st_movement_duration_s (ac_status c))) c
        in queue_event (event_code EVENT_MOTION_STOP) (severity_code EVENT_SEVERITY_INFO)
             (ucast (min (mr_movement_duration_s motion) (word_of_int INT16_MAX))) c
      else c)"

definition apply_shock :: "motion_result \<Rightarrow> app_core \<Rightarrow> app_core" where
  "apply_shock motion c =
     (if has_flag (mr_events motion) MOTION_EVENT_SHOCK then
        let c = with_status (st_shock_count_update (\<lambda>n. n + 1)) c;
            c = with_statistics (stat_shock_count_update (\<lambda>_. st_shock_count (ac_status c))) c;
            c = with_status (st_alarm_flags_update (\<lambda>f. f OR ALARM_SHOCK)) c;
            c = (if mr_shock_mg motion > st_max_shock_mg (ac_status c)
                 then with_statistics (stat_max_shock_mg_update (\<lambda>_. mr_shock_mg motion))
                        (with_status (st_max_shock_mg_update (\<lambda>_. mr_shock_mg motion)) c)
                 else c)
        in queue_event (event_code EVENT_SHOCK) (severity_code EVENT_SEVERITY_ALARM)
             (mr_shock_mg motion) c
      else c)"

definition apply_free_fall :: "motion_result \<Rightarrow> app_core \<Rightarrow> app_core" where
  "apply_free_fall motion c =
     (if has_flag (mr_events motion) MOTION_EVENT_FREE_FALL then
        let c = with_status (st_free_fall_count_update (\<lambda>n. n + 1)) c;
            c = with_statistics (stat_free_fall_count_update (\<lambda>_. st_free_fall_count (ac_status c))) c;
            c = with_status (st_alarm_flags_update (\<lambda>f. f OR ALARM_FREE_FALL)) c
        in queue_event (event_code EVENT_FREE_FALL) (severity_code EVENT_SEVERITY_ALARM) 0 c
      else c)"

definition apply_orientation :: "motion_result \<Rightarrow> app_core \<Rightarrow> app_core" where
  "apply_orientation motion c =
     (if has_flag (mr_events motion) MOTION_EVENT_ORIENTATION then
        queue_event (event_code EVENT_ORIENTATION_CHANGE) (severity_code EVENT_SEVERITY_INFO)
          (ucast (mr_orientation motion)) c
      else c)"

definition apply_tamper :: "motion_result \<Rightarrow> app_core \<Rightarrow> app_core" where
  "apply_tamper motion c =
     (if has_flag (mr_events motion) MOTION_EVENT_TAMPER then
        let c = with_status (st_tamper_update (\<lambda>_. 1)) c;
            c = with_status (st_alarm_flags_update (\<lambda>f. f OR ALARM_TAMPER)) c
        in queue_event (event_code EVENT_TAMPER) (severity_code EVENT_SEVERITY_ALARM) 0 c
      else c)"

definition apply_motion_result :: "motion_result \<Rightarrow> app_core \<Rightarrow> app_core" where
  "apply_motion_result motion c =
     (let c = apply_motion_start motion c;
          c = apply_motion_stop motion c;
          c = apply_shock motion c;
          c = apply_free_fall motion c;
          c = apply_orientation motion c;
          c = apply_tamper motion c;
          c = with_status (st_motion_state_update (\<lambda>_. mr_motion_state motion)) c
      in with_status (st_orientation_update (\<lambda>_. mr_orientation motion)) c)"

text \<open>The section \<open>app_process_sensor_data\<close> runs with the lock held.\<close>

definition process_locked ::
  "sensor_data \<Rightarrow> motion_result \<Rightarrow> tag_config \<Rightarrow> u8 \<Rightarrow> app_core \<Rightarrow> app_core" where
  "process_locked data motion config expected c =
     (let c = c\<lparr>ac_last_sample := data\<rparr>;
          c = apply_motion_result motion c;
          c = check_thresholds data config expected c;
          c = with_status (st_operating_mode_update (\<lambda>_. cfg_operating_mode config)) c
      in with_statistics (stat_total_uptime_s_update (\<lambda>_. sd_timestamp data)) c)"

definition core_init :: "tag_statistics \<Rightarrow> app_core \<Rightarrow> app_core" where
  "core_init stored c =
     (let s = stored\<lparr>stat_boot_count := stat_boot_count stored + 1\<rparr> in
      c\<lparr>ac_subscribers := [], ac_statistics := s,
        ac_status := (ac_status c)\<lparr>st_motion_state := motion_state_code MOTION_STATE_STATIONARY,
          st_orientation := orientation_code ORIENTATION_UNKNOWN,
          st_shock_count := stat_shock_count s, st_free_fall_count := stat_free_fall_count s,
          st_event_count := stat_event_count s, st_max_shock_mg := stat_max_shock_mg s,
          st_movement_duration_s := stat_movement_duration_s s\<rparr>\<rparr>)"

definition core_reset_counters :: "app_core \<Rightarrow> app_core" where
  "core_reset_counters c = c\<lparr>
     ac_status := (ac_status c)\<lparr>st_shock_count := 0, st_free_fall_count := 0, st_event_count := 0,
       st_max_shock_mg := 0, st_movement_duration_s := 0, st_tamper := 0,
       st_alarm_flags := st_alarm_flags (ac_status c) AND
         NOT (ALARM_SHOCK OR ALARM_FREE_FALL OR ALARM_TAMPER)\<rparr>,
     ac_statistics := (ac_statistics c)\<lparr>stat_shock_count := 0, stat_free_fall_count := 0,
       stat_event_count := 0, stat_max_shock_mg := 0, stat_movement_duration_s := 0\<rparr>\<rparr>"

subsection \<open>Subscribers\<close>

definition app_state_set :: "app_state \<Rightarrow> ('f, 'n, 'b) device \<Rightarrow> ('f, 'n, 'b) device" where
  "app_state_set new_state d =
     (if ac_state (dev_core d) \<noteq> new_state
      then d\<lparr>dev_core := (dev_core d)\<lparr>ac_state := new_state\<rparr>\<rparr> else d)"

definition app_state_get :: "('f, 'n, 'b) device \<Rightarrow> app_state" where
  "app_state_get d = ac_state (dev_core d)"

definition app_state_subscribe ::
  "app_subscriber option \<Rightarrow> ('f, 'n, 'b) device \<Rightarrow> ('f, 'n, 'b) device" where
  "app_state_subscribe subscriber d =
     (case subscriber of
        None \<Rightarrow> d
      | Some sub \<Rightarrow>
          if app_state_code (ac_state (dev_core d)) \<ge> app_state_code APP_STATE_RUNNING then d
          else d\<lparr>dev_core := (dev_core d)\<lparr>ac_subscribers := ac_subscribers (dev_core d) @ [sub]\<rparr>\<rparr>)"

text \<open>
  The callbacks the two stacks register: \<open>on_event\<close> and \<open>on_sensor_data\<close> of \<open>ble_gatt.c\<close> and of
  \<open>zigbee_manager.c\<close>.
\<close>

definition zb_schedule_publish :: "('f, 'n, 'b) device \<Rightarrow> ('f, 'n, 'b) device" where
  "zb_schedule_publish d =
     (if \<not> zb_joined (dev_zigbee d) then d
      else d\<lparr>dev_zigbee := (dev_zigbee d)\<lparr>zb_publish := zb_publish (dev_zigbee d) + 1\<rparr>\<rparr>)"

fun on_event :: "event_record \<Rightarrow> app_subscriber \<Rightarrow> ('f, 'n, 'b) device \<Rightarrow> ('f, 'n, 'b) device" where
  "on_event record BLE_SUBSCRIBER d = d\<lparr>dev_gatt := gatt_on_event record (dev_gatt d)\<rparr>"
| "on_event record ZB_SUBSCRIBER d = zb_schedule_publish d"

fun on_sensor_data :: "sensor_data \<Rightarrow> app_subscriber \<Rightarrow> ('f, 'n, 'b) device \<Rightarrow> ('f, 'n, 'b) device" where
  "on_sensor_data data BLE_SUBSCRIBER d = d\<lparr>dev_gatt := gatt_on_sensor_data data (dev_gatt d)\<rparr>"
| "on_sensor_data data ZB_SUBSCRIBER d = zb_schedule_publish d"

subsection \<open>Events\<close>

definition app_raise_event ::
  "('f, 'n, 'b) tag_env \<Rightarrow> u8 \<Rightarrow> u8 \<Rightarrow> s16 \<Rightarrow> ('f, 'n, 'b) device \<Rightarrow> int \<times> ('f, 'n, 'b) device" where
  "app_raise_event env type severity value d =
     (case event_log_add (te_flash env) (dev_uptime_s d) type severity value (dev_events d) of
        (err, seq, events) \<Rightarrow>
      let d = d\<lparr>dev_events := events\<rparr>;
          record = \<lparr> ev_timestamp = dev_uptime_s d, ev_type = type, ev_severity = severity,
                     ev_value = value \<rparr>;
          core = with_status (st_event_count_update (\<lambda>n. n + 1)) (dev_core d);
          core = with_statistics (stat_event_count_update (\<lambda>_. st_event_count (ac_status core))) core;
          d = d\<lparr>dev_core := core\<rparr>;
          d = (if severity = severity_code EVENT_SEVERITY_ALARM
               then led_set LED_STATE_ALARM True d else d)
      in (err, fold (on_event record) (ac_subscribers (dev_core d)) d))"

text \<open>A raise whose result the caller does not use.\<close>

definition raise_event ::
  "('f, 'n, 'b) tag_env \<Rightarrow> event_type \<Rightarrow> event_severity \<Rightarrow> s16 \<Rightarrow> ('f, 'n, 'b) device \<Rightarrow>
   ('f, 'n, 'b) device" where
  "raise_event env type severity value d =
     snd (app_raise_event env (event_code type) (severity_code severity) value d)"

definition raise_pending ::
  "('f, 'n, 'b) tag_env \<Rightarrow> pending_event \<Rightarrow> ('f, 'n, 'b) device \<Rightarrow> ('f, 'n, 'b) device" where
  "raise_pending env p d = snd (app_raise_event env (pe_type p) (pe_severity p) (pe_value p) d)"

definition drain_pending_events ::
  "('f, 'n, 'b) tag_env \<Rightarrow> ('f, 'n, 'b) device \<Rightarrow> ('f, 'n, 'b) device" where
  "drain_pending_events env d =
     (let batch = ac_pending (dev_core d);
          d = d\<lparr>dev_core := (dev_core d)\<lparr>ac_pending := []\<rparr>\<rparr>
      in fold (raise_pending env) batch d)"

definition app_state_flush_statistics ::
  "('f, 'n, 'b) tag_env \<Rightarrow> ('f, 'n, 'b) device \<Rightarrow> ('f, 'n, 'b) device" where
  "app_state_flush_statistics env d =
     (case config_storage_save_statistics (te_settings env) (ac_statistics (dev_core d))
             (dev_store d, dev_nvs d) of
        (_, store, nvs) \<Rightarrow> d\<lparr>dev_store := store, dev_nvs := nvs\<rparr>)"

subsection \<open>A sample\<close>

definition app_process_sensor_data ::
  "('f, 'n, 'b) tag_env \<Rightarrow> sensor_data \<Rightarrow> ('f, 'n, 'b) device \<Rightarrow> ('f, 'n, 'b) device" where
  "app_process_sensor_data env data d =
     (let config = app_config_get d in
      case motion_manager_process data (dev_motion d) of (data, motion, mm) \<Rightarrow>
      let d = d\<lparr>dev_motion := mm\<rparr>;
          d = d\<lparr>dev_core := process_locked data motion config
                             (ss_expected_valid (dev_sensing d)) (dev_core d)\<rparr>;
          data = data\<lparr>sd_orientation := st_orientation (ac_status (dev_core d))\<rparr>;
          alarm = (st_alarm_flags (ac_status (dev_core d)) \<noteq> 0);
          d = (if cfg_sensor_history_enabled config \<noteq> 0
               then (case sensor_log_add (te_flash env) data alarm (dev_sensors d) of
                       (_, _, sensors) \<Rightarrow> d\<lparr>dev_sensors := sensors\<rparr>)
               else d);
          d = drain_pending_events env d;
          d = (if \<not> alarm then led_set LED_STATE_ALARM False d else d);
          d = fold (on_sensor_data data) (ac_subscribers (dev_core d)) d
      in if sd_timestamp data - ac_last_stats_flush (dev_core d) \<ge> STATS_FLUSH_INTERVAL_S
         then app_state_flush_statistics env
                (d\<lparr>dev_core := (dev_core d)\<lparr>ac_last_stats_flush := sd_timestamp data\<rparr>\<rparr>)
         else d)"

subsection \<open>The other operations\<close>

definition app_state_init :: "('f, 'n, 'b) device \<Rightarrow> ('f, 'n, 'b) device" where
  "app_state_init d =
     d\<lparr>dev_core := core_init (config_storage_load_statistics (dev_store d)) (dev_core d)\<rparr>"

definition app_state_get_status :: "('f, 'n, 'b) device \<Rightarrow> tag_status" where
  "app_state_get_status d = ac_status (dev_core d)"

definition app_state_get_last_sample :: "('f, 'n, 'b) device \<Rightarrow> sensor_data" where
  "app_state_get_last_sample d = ac_last_sample (dev_core d)"

definition app_state_get_statistics :: "('f, 'n, 'b) device \<Rightarrow> tag_statistics" where
  "app_state_get_statistics d = ac_statistics (dev_core d)"

definition app_state_set_time_utc ::
  "('f, 'n, 'b) tag_env \<Rightarrow> u32 \<Rightarrow> ('f, 'n, 'b) device \<Rightarrow> int \<times> ('f, 'n, 'b) device" where
  "app_state_set_time_utc env utc_now d =
     (let epoch = smart_tag_boot_epoch_utc utc_now (dev_uptime_s d) in
      if epoch = 0 then (- EINVAL, d)
      else
        let d = d\<lparr>dev_core := with_statistics (stat_boot_epoch_utc_update (\<lambda>_. epoch)) (dev_core d)\<rparr>;
            d = app_state_flush_statistics env d
        in (0, raise_event env EVENT_TIME_SET EVENT_SEVERITY_INFO 0 d))"

text \<open>The result, and the floor that is written through the pointer.\<close>

definition app_state_snapshot_gas_baseline ::
  "('f, 'n, 'b) tag_env \<Rightarrow> ('f, 'n, 'b) device \<Rightarrow> int \<times> u32 option \<times> ('f, 'n, 'b) device" where
  "app_state_snapshot_gas_baseline env d =
     (let sample = app_state_get_last_sample d in
      if \<not> has_flag (sd_valid sample) SENSOR_VALID_GAS \<or> sd_gas_resistance_ohm sample = 0
      then (- ENOTSUP, None, d)
      else
        let threshold = smart_tag_gas_alarm_floor (sd_gas_resistance_ohm sample);
            threshold = (if threshold = 0 then 1 else threshold);
            config = (app_config_get d)\<lparr>cfg_gas_low_threshold_ohm := threshold\<rparr>
        in case app_config_set env config d of (err, d) \<Rightarrow>
           if err \<noteq> 0 then (err, None, d)
           else (0, Some threshold,
                 raise_event env EVENT_CONFIG_CHANGED EVENT_SEVERITY_INFO
                   (ucast (cfg_operating_mode config)) d))"

definition app_state_reset_counters ::
  "('f, 'n, 'b) tag_env \<Rightarrow> ('f, 'n, 'b) device \<Rightarrow> ('f, 'n, 'b) device" where
  "app_state_reset_counters env d =
     (let d = d\<lparr>dev_core := core_reset_counters (dev_core d)\<rparr>;
          d = d\<lparr>dev_motion := motion_manager_clear_tamper (dev_motion d)\<rparr>;
          d = led_set LED_STATE_ALARM False d
      in app_state_flush_statistics env d)"

text \<open>The erase functions on the device, with the watchdog fed once per sector.\<close>

definition clear_event_log ::
  "('f, 'n, 'b) tag_env \<Rightarrow> ('f, 'n, 'b) device \<Rightarrow> (int \<times> ('f, 'n, 'b) device) option" where
  "clear_event_log env d =
     (case event_log_clear (te_flash env) (dev_events d) of
        None \<Rightarrow> None
      | Some (err, feeds, events) \<Rightarrow> Some (err, dev_feed feeds (d\<lparr>dev_events := events\<rparr>)))"

definition clear_sensor_log ::
  "('f, 'n, 'b) tag_env \<Rightarrow> ('f, 'n, 'b) device \<Rightarrow> (int \<times> ('f, 'n, 'b) device) option" where
  "clear_sensor_log env d =
     (case sensor_log_clear (te_flash env) (dev_sensors d) of
        None \<Rightarrow> None
      | Some (err, feeds, sensors) \<Rightarrow> Some (err, dev_feed feeds (d\<lparr>dev_sensors := sensors\<rparr>)))"

text \<open>
  What the factory reset does before it sleeps; \<open>None\<close> when an erase does not end.
\<close>

definition factory_reset_wipe ::
  "('f, 'n, 'b) tag_env \<Rightarrow> ('f, 'n, 'b) device \<Rightarrow> ('f, 'n, 'b) device option" where
  "factory_reset_wipe env d =
     (let d = led_set LED_STATE_ALARM True d;
          d = raise_event env EVENT_FACTORY_RESET EVENT_SEVERITY_WARNING 0 d
      in case clear_event_log env d of None \<Rightarrow> None | Some (_, d) \<Rightarrow>
         case clear_sensor_log env d of None \<Rightarrow> None | Some (_, d) \<Rightarrow>
         case config_storage_factory_reset (te_settings env) (dev_store d, dev_nvs d) of
           (_, store, nvs) \<Rightarrow>
         case app_config_reset env (d\<lparr>dev_store := store, dev_nvs := nvs\<rparr>) of (_, d) \<Rightarrow> Some d)"

text \<open>
  \<open>k_sleep(K_MSEC(500))\<close> and \<open>sys_reboot\<close>: \<open>dev_rebooting\<close> says that the handler has come to them and
  does nothing else any more. Where a handler is one step, as in \<open>App_Main\<close>, nothing runs during
  the sleep. \<open>preempt_step\<close> of \<open>Sampling_Thread\<close> lets everything else run during it: there
  the handler's step only leaves a reboot pending, and the reboot is a step of its own.
\<close>

definition app_state_factory_reset ::
  "('f, 'n, 'b) tag_env \<Rightarrow> ('f, 'n, 'b) device \<Rightarrow> ('f, 'n, 'b) device option" where
  "app_state_factory_reset env d =
     (case factory_reset_wipe env d of None \<Rightarrow> None | Some d \<Rightarrow> Some (d\<lparr>dev_rebooting := True\<rparr>))"

lemmas factory_reset_defs = app_state_factory_reset_def factory_reset_wipe_def

end
