(* ===== verification/Ble_Manager.thy ===== *)
theory Ble_Manager
  imports App_State
begin

section \<open>Bluetooth manager\<close>

text \<open>
  \<open>src/ble/ble_manager.c\<close>, with the service table of \<open>ble_gatt.c\<close>: the stack, the advertising
  lifecycle and the connection callbacks. \<open>bt_conn_disconnect\<close> only asks for the disconnection;
  the \<open>disconnected\<close> callback comes later, as an operation of its own.
\<close>

subsection \<open>The service table\<close>

text \<open>An attribute is the service, the declaration or the value of a characteristic, or a CCC.\<close>

datatype gatt_attr = Attr_Service nat | Attr_Chrc nat | Attr_Value nat | Attr_Ccc

definition smart_tag_svc :: "gatt_attr list" where
  "smart_tag_svc =
     [Attr_Service 0,
      Attr_Chrc 1, Attr_Value 1, Attr_Ccc,
      Attr_Chrc 2, Attr_Value 2, Attr_Ccc,
      Attr_Chrc 3, Attr_Value 3,
      Attr_Chrc 4, Attr_Value 4, Attr_Ccc,
      Attr_Chrc 5, Attr_Value 5,
      Attr_Chrc 6, Attr_Value 6,
      Attr_Chrc 7, Attr_Value 7, Attr_Ccc,
      Attr_Chrc 8, Attr_Value 8, Attr_Ccc,
      Attr_Chrc 9, Attr_Value 9]"

fun attr_uuid :: "ble_char \<Rightarrow> nat" where
  "attr_uuid BLE_CHAR_SENSOR_DATA = 1"
| "attr_uuid BLE_CHAR_STATUS = 2"
| "attr_uuid BLE_CHAR_EVENT = 4"
| "attr_uuid BLE_CHAR_LOG_DATA = 7"
| "attr_uuid BLE_CHAR_COMMAND = 8"

definition ble_chars :: "ble_char list" where
  "ble_chars = [BLE_CHAR_SENSOR_DATA, BLE_CHAR_STATUS, BLE_CHAR_EVENT, BLE_CHAR_LOG_DATA,
     BLE_CHAR_COMMAND]"

definition ble_gatt_init :: "('f, 'n, 'b) device \<Rightarrow> int \<times> ('f, 'n, 'b) device" where
  "ble_gatt_init d =
     (if \<exists>c \<in> set ble_chars. smart_tag_svc ! unat (attr_index c) \<noteq> Attr_Value (attr_uuid c)
      then (- EFAULT, d)
      else (0, app_state_subscribe (Some BLE_SUBSCRIBER) d))"

text \<open>The startup check passes: every notification goes to the value of its characteristic.\<close>

lemma ble_gatt_init_ok: "ble_gatt_init d = (0, app_state_subscribe (Some BLE_SUBSCRIBER) d)"
  by (simp add: ble_gatt_init_def ble_chars_def smart_tag_svc_def)

text \<open>The read handlers, up to \<open>bt_gatt_attr_read\<close>, which copies out of the value they give it.\<close>

definition read_sensor :: "('f, 'n, 'b) device \<Rightarrow> u8 list" where
  "read_sensor d = sensor_data_bytes (app_state_get_last_sample d)"

definition read_status :: "('f, 'n, 'b) device \<Rightarrow> u8 list" where
  "read_status d = tag_status_bytes (app_state_get_status d)"

definition read_event :: "('f, 'n, 'b) device \<Rightarrow> u8 list" where
  "read_event d = event_record_bytes (bg_latest_event (dev_gatt d))"

definition read_statistics :: "('f, 'n, 'b) device \<Rightarrow> u8 list" where
  "read_statistics d = tag_statistics_bytes (app_state_get_statistics d)"

definition ccc_write :: "ble_char \<Rightarrow> u16 \<Rightarrow> ('f, 'n, 'b) device \<Rightarrow> ('f, 'n, 'b) device" where
  "ccc_write which v d = d\<lparr>dev_gatt := ccc_changed which v (dev_gatt d)\<rparr>"

definition gatt_notify ::
  "('f, 'n, 'b) tag_env \<Rightarrow> ble_char \<Rightarrow> u8 list \<Rightarrow> ('f, 'n, 'b) device \<Rightarrow> int \<times> ('f, 'n, 'b) device" where
  "gatt_notify env which data d =
     (case ble_gatt_notify (bt_gatt_notify (te_bt env)) (dev_gatt d) which data (dev_bt d) of
        (err, bt) \<Rightarrow> (err, d\<lparr>dev_bt := bt\<rparr>))"

text \<open>The work queue running \<open>notify_work\<close> and \<open>stream_work\<close> on the device.\<close>

definition run_notify_work ::
  "('f, 'n, 'b) tag_env \<Rightarrow> ('f, 'n, 'b) device \<Rightarrow> ('f, 'n, 'b) device" where
  "run_notify_work env d =
     (case notify_work_fn (bt_gatt_notify (te_bt env)) (app_state_get_status d)
             ((dev_gatt d)\<lparr>bg_notify_work := False\<rparr>) (dev_bt d) of
        (g, bt) \<Rightarrow> d\<lparr>dev_gatt := g, dev_bt := bt\<rparr>)"

definition run_stream_work ::
  "('f, 'n, 'b) tag_env \<Rightarrow> ('f, 'n, 'b) device \<Rightarrow> ('f, 'n, 'b) device" where
  "run_stream_work env d =
     (let d = dev_feed 1 d in
      case stream_work_fn (ble_gatt_is_subscribed (dev_gatt d) BLE_CHAR_LOG_DATA)
             (read_records (sensor_log_read (te_flash env) (dev_sensors d))
                (event_log_read (te_flash env) (dev_events d)))
             (ble_gatt_notify (bt_gatt_notify (te_bt env)) (dev_gatt d) BLE_CHAR_LOG_DATA)
             ((dev_stream d)\<lparr>sm_work := None\<rparr>) (dev_bt d) of
        (_, sm, bt) \<Rightarrow> d\<lparr>dev_stream := sm, dev_bt := bt\<rparr>)"

definition log_write_control ::
  "('f, 'n, 'b) tag_env \<Rightarrow> u8 list \<Rightarrow> u16 \<Rightarrow> ('f, 'n, 'b) device \<Rightarrow> int \<times> ('f, 'n, 'b) device" where
  "log_write_control env buf offset d =
     (case ble_log_write_control (ble_gatt_is_subscribed (dev_gatt d) BLE_CHAR_LOG_DATA)
             (sensor_log_get_info (te_flash env) (dev_sensors d))
             (event_log_get_info (te_flash env) (dev_events d)) buf offset (dev_stream d) of
        (r, sm) \<Rightarrow> (r, d\<lparr>dev_stream := sm\<rparr>))"

definition log_read_info :: "('f, 'n, 'b) tag_env \<Rightarrow> ('f, 'n, 'b) device \<Rightarrow> u8 list" where
  "log_read_info env d = ble_log_info_bytes
     (ble_log_get_info (event_log_get_info (te_flash env) (dev_events d))
        (sensor_log_get_info (te_flash env) (dev_sensors d)) (dev_stream d))"

definition log_abort :: "('f, 'n, 'b) device \<Rightarrow> ('f, 'n, 'b) device" where
  "log_abort d = d\<lparr>dev_stream := ble_log_abort (dev_stream d)\<rparr>"

subsection \<open>Advertising\<close>

text \<open>The status summary in the manufacturer data: bytes 3 to 11.\<close>

definition adv_summary :: "tag_status \<Rightarrow> sensor_data \<Rightarrow> u8 list" where
  "adv_summary s sample =
     [st_operating_mode s, push_bit 4 (st_motion_state s) OR (st_orientation s AND 0x0f)] @
     le16 (st_alarm_flags s) @ le16 (sd_temperature_c_x100 sample) @ le16 (sd_humidity_x100 sample) @
     [sd_battery_percent sample]"

definition ble_manager_update_adv_data ::
  "('f, 'n, 'b) tag_env \<Rightarrow> ('f, 'n, 'b) device \<Rightarrow> ('f, 'n, 'b) device" where
  "ble_manager_update_adv_data env d =
     (let manuf = take 3 (bm_manuf_data (dev_ble d))
                  @ adv_summary (app_state_get_status d) (app_state_get_last_sample d);
          d = d\<lparr>dev_ble := (dev_ble d)\<lparr>bm_manuf_data := manuf\<rparr>\<rparr>
      in if bm_advertising (dev_ble d)
         then (case bt_le_adv_update_data (te_bt env) manuf (bm_scan_name (dev_ble d)) (dev_bt d) of
                 (_, bt) \<Rightarrow> d\<lparr>dev_bt := bt\<rparr>)
         else d)"

definition ble_manager_start_advertising ::
  "('f, 'n, 'b) tag_env \<Rightarrow> ('f, 'n, 'b) device \<Rightarrow> int \<times> ('f, 'n, 'b) device" where
  "ble_manager_start_advertising env d =
     (if \<not> bm_stack_ready (dev_ble d) then (- EAGAIN, d)
      else if bm_advertising (dev_ble d) then (0, d)
      else
        let d = ble_manager_update_adv_data env d in
        case bt_le_adv_start (te_bt env) (bm_manuf_data (dev_ble d)) (bm_scan_name (dev_ble d)) (dev_bt d) of
          (err, bt) \<Rightarrow>
        let d = d\<lparr>dev_bt := bt\<rparr> in
        if err \<noteq> 0 then (err, d)
        else (0, led_set LED_STATE_BLE_ADVERTISING True
                   (d\<lparr>dev_ble := (dev_ble d)\<lparr>bm_advertising := True\<rparr>\<rparr>)))"

definition ble_manager_stop_advertising ::
  "('f, 'n, 'b) tag_env \<Rightarrow> ('f, 'n, 'b) device \<Rightarrow> ('f, 'n, 'b) device" where
  "ble_manager_stop_advertising env d =
     (if \<not> bm_advertising (dev_ble d) then d
      else
        let d = d\<lparr>dev_ble := (dev_ble d)\<lparr>bm_advertising := False\<rparr>\<rparr>;
            d = (if bm_connected (dev_ble d)
                 then d\<lparr>dev_bt := snd (bt_conn_disconnect (te_bt env) (dev_bt d))\<rparr> else d);
            d = d\<lparr>dev_bt := snd (bt_le_adv_stop (te_bt env) (dev_bt d))\<rparr>
        in led_set LED_STATE_BLE_ADVERTISING False d)"

definition ble_manager_is_advertising :: "('f, 'n, 'b) device \<Rightarrow> bool" where
  "ble_manager_is_advertising d = bm_advertising (dev_ble d)"

definition ble_manager_is_connected :: "('f, 'n, 'b) device \<Rightarrow> bool" where
  "ble_manager_is_connected d = bm_connected (dev_ble d)"

subsection \<open>Connection callbacks\<close>

definition ble_connected ::
  "('f, 'n, 'b) tag_env \<Rightarrow> u8 \<Rightarrow> ('f, 'n, 'b) device \<Rightarrow> ('f, 'n, 'b) device" where
  "ble_connected env err d =
     (if err \<noteq> 0 then d
      else
        let d = d\<lparr>dev_ble := (dev_ble d)\<lparr>bm_connected := True\<rparr>\<rparr>;
            d = led_set LED_STATE_BLE_ADVERTISING False d
        in raise_event env EVENT_BLE_CONNECTED EVENT_SEVERITY_INFO 0 d)"

definition ble_disconnected ::
  "('f, 'n, 'b) tag_env \<Rightarrow> ('f, 'n, 'b) device \<Rightarrow> ('f, 'n, 'b) device" where
  "ble_disconnected env d =
     (let d = d\<lparr>dev_gatt := ble_gatt_reset_subscriptions (dev_gatt d)\<rparr>;
          d = log_abort d;
          d = d\<lparr>dev_ble := (dev_ble d)\<lparr>bm_connected := False\<rparr>\<rparr>
      in if bm_advertising (dev_ble d)
         then snd (ble_manager_start_advertising env
                     (d\<lparr>dev_ble := (dev_ble d)\<lparr>bm_advertising := False\<rparr>\<rparr>))
         else d)"

subsection \<open>Initialisation\<close>

definition hex_digit :: "nat \<Rightarrow> char" where
  "hex_digit n = ''0123456789ABCDEF'' ! n"

definition hex_byte :: "u8 \<Rightarrow> string" where
  "hex_byte b = [hex_digit (unat b div 16), hex_digit (unat b mod 16)]"

text \<open>\<open>snprintk\<close> writes at most \<open>sizeof(name) - 1\<close> characters.\<close>

definition set_device_name ::
  "('f, 'n, 'b) tag_env \<Rightarrow> ('f, 'n, 'b) device \<Rightarrow> ('f, 'n, 'b) device" where
  "set_device_name env d =
     (case bt_id_get (te_bt env) (dev_bt d) of
        [] \<Rightarrow> d
      | addr # _ \<Rightarrow>
          let name = take (te_device_name_max env - 1)
                       (te_device_name env @ ''-'' @ hex_byte (addr ! 1) @ hex_byte (addr ! 0))
          in case bt_set_name (te_bt env) name (dev_bt d) of (err, bt) \<Rightarrow>
             let d = d\<lparr>dev_bt := bt\<rparr> in
             if err = 0
             then d\<lparr>dev_ble := (dev_ble d)\<lparr>bm_scan_name := bt_get_name (te_bt env) (dev_bt d)\<rparr>\<rparr>
             else d)"

definition ble_config_init :: "('f, 'n, 'b) device \<Rightarrow> int \<times> ('f, 'n, 'b) device" where
  "ble_config_init d = (0, d)"

definition ble_manager_init ::
  "('f, 'n, 'b) tag_env \<Rightarrow> ('f, 'n, 'b) device \<Rightarrow> int \<times> ('f, 'n, 'b) device" where
  "ble_manager_init env d =
     (case ble_gatt_init d of (err, d) \<Rightarrow>
      if err \<noteq> 0 then (err, d)
      else case ble_config_init d of (err, d) \<Rightarrow>
      if err \<noteq> 0 then (err, d)
      else
        let d = d\<lparr>dev_stream := ble_log_init\<rparr> in
        case bt_enable (te_bt env) (dev_bt d) of (err, bt) \<Rightarrow>
        let d = d\<lparr>dev_bt := bt\<rparr> in
        if err \<noteq> 0 then (err, d)
        else
          let d = (if te_bt_settings env
                   then d\<lparr>dev_bt := bt_settings_load (te_bt env) (dev_bt d)\<rparr> else d);
              d = set_device_name env d
          in (0, d\<lparr>dev_ble := (dev_ble d)\<lparr>bm_stack_ready := True\<rparr>\<rparr>))"

end
