(* ===== verification/Power_Manager.thy ===== *)
theory Power_Manager
  imports Ble_Manager
begin

section \<open>Power manager\<close>

text \<open>
  \<open>src/power/power_manager.c\<close>: the sampling thread and the Bluetooth service window. One round
  of the thread's loop is \<open>sampling_round\<close>, of which \<open>read\<close> is what the sensors give; the sleep
  between two rounds lasts \<open>sleep_interval_s\<close> seconds or until the semaphore is given.
\<close>

definition sleep_interval_s :: "('f, 'n, 'b) tag_env \<Rightarrow> ('f, 'n, 'b) device \<Rightarrow> u16" where
  "sleep_interval_s env d =
     (if sensor_board_wake_source (te_board env) = None then app_config_effective_interval_s d
      else if st_motion_state (app_state_get_status d) = motion_state_code MOTION_STATE_MOVING
      then app_config_effective_interval_s d
      else max (cfg_sampling_interval_s (app_config_get d)) 1)"

definition power_manager_sample_now :: "('f, 'n, 'b) device \<Rightarrow> ('f, 'n, 'b) device" where
  "power_manager_sample_now d = d\<lparr>dev_power := (dev_power d)\<lparr>pw_sample_now := True\<rparr>\<rparr>"

definition motion_trigger_fn :: "('f, 'n, 'b) device \<Rightarrow> ('f, 'n, 'b) device" where
  "motion_trigger_fn d =
     d\<lparr>dev_power := (dev_power d)\<lparr>pw_motion_pending := True, pw_sample_now := True\<rparr>\<rparr>"

text \<open>\<open>motion_trigger_init\<close>: whether the trigger is armed.\<close>

definition motion_trigger_init :: "('f, 'n, 'b) tag_env \<Rightarrow> sensor_hw \<Rightarrow> bool \<Rightarrow> bool" where
  "motion_trigger_init env hw trigger_set \<longleftrightarrow>
     (case sensor_board_wake_source (te_board env) of
        None \<Rightarrow> False
      | Some wake \<Rightarrow> hw_device_is_ready hw wake \<and> trigger_set)"

definition sampling_round ::
  "('f, 'n, 'b) tag_env \<Rightarrow> sensor_hw \<Rightarrow> ('f, 'n, 'b) device \<Rightarrow> ('f, 'n, 'b) device" where
  "sampling_round env hw d =
     (let d = d\<lparr>dev_power := (dev_power d)\<lparr>pw_motion_pending := False\<rparr>\<rparr>;
          data = sensor_manager_read (te_board env) hw (dev_uptime_s d);
          d = app_process_sensor_data env data d
      in dev_feed 1 d)"

text \<open>\<open>k_sem_take\<close> at the end of the loop takes the semaphore when it was given.\<close>

definition take_sample_now :: "('f, 'n, 'b) device \<Rightarrow> ('f, 'n, 'b) device" where
  "take_sample_now d = d\<lparr>dev_power := (dev_power d)\<lparr>pw_sample_now := False\<rparr>\<rparr>"

definition power_manager_start :: "('f, 'n, 'b) device \<Rightarrow> ('f, 'n, 'b) device" where
  "power_manager_start d =
     (if pw_started (dev_power d) then d
      else app_state_set APP_STATE_RUNNING
             (d\<lparr>dev_power := (dev_power d)\<lparr>pw_started := True\<rparr>\<rparr>))"

definition power_manager_service_mode_active :: "('f, 'n, 'b) device \<Rightarrow> bool" where
  "power_manager_service_mode_active d = pw_service_mode (dev_power d)"

definition power_manager_request_service_mode ::
  "('f, 'n, 'b) tag_env \<Rightarrow> ('f, 'n, 'b) device \<Rightarrow> ('f, 'n, 'b) device" where
  "power_manager_request_service_mode env d =
     (let window = unat (cfg_ble_service_window_s (app_config_get d));
          reschedule = (\<lambda>d. d\<lparr>dev_power := (dev_power d)\<lparr>pw_service_timeout := Some window\<rparr>\<rparr>) in
      if \<not> pw_service_mode (dev_power d) then
        (case ble_manager_start_advertising env
                (d\<lparr>dev_power := (dev_power d)\<lparr>pw_service_mode := True\<rparr>\<rparr>) of (err, d) \<Rightarrow>
         if err \<noteq> 0 then d\<lparr>dev_power := (dev_power d)\<lparr>pw_service_mode := False\<rparr>\<rparr>
         else reschedule (app_state_set APP_STATE_SERVICE d))
      else reschedule d)"

definition power_manager_end_service_mode ::
  "('f, 'n, 'b) tag_env \<Rightarrow> ('f, 'n, 'b) device \<Rightarrow> ('f, 'n, 'b) device" where
  "power_manager_end_service_mode env d =
     (if \<not> pw_service_mode (dev_power d) then d
      else
        let d = d\<lparr>dev_power := (dev_power d)\<lparr>pw_service_timeout := None\<rparr>\<rparr> in
        if ble_manager_is_connected d
        then d\<lparr>dev_power := (dev_power d)\<lparr>pw_service_timeout := Some 30\<rparr>\<rparr>
        else app_state_set APP_STATE_RUNNING
               (ble_manager_stop_advertising env
                  (d\<lparr>dev_power := (dev_power d)\<lparr>pw_service_mode := False\<rparr>\<rparr>)))"

text \<open>The work queue takes the expired work item off and runs \<open>service_timeout_fn\<close>.\<close>

definition service_timeout_fn ::
  "('f, 'n, 'b) tag_env \<Rightarrow> ('f, 'n, 'b) device \<Rightarrow> ('f, 'n, 'b) device" where
  "service_timeout_fn env d =
     power_manager_end_service_mode env
       (d\<lparr>dev_power := (dev_power d)\<lparr>pw_service_timeout := None\<rparr>\<rparr>)"

end
