(* ===== verification/Ble_Config.thy ===== *)
theory Ble_Config
  imports Power_Manager
begin

section \<open>Configuration and command characteristics\<close>

text \<open>
  \<open>src/ble/ble_config.c\<close>: the write handlers and the command dispatch. The work queue runs
  \<open>command_work_fn\<close> on the command that is pending then. A factory reset or an erase that does
  not end is \<open>None\<close>; a reboot is \<open>dev_rebooting\<close>.
\<close>

definition IDENTIFY_DURATION_S :: u16 where [c_const]: "IDENTIFY_DURATION_S = 10"

definition BLE_CMD_IDENTIFY :: u8 where [c_const]: "BLE_CMD_IDENTIFY = 0x01"
definition BLE_CMD_CLEAR_EVENT_LOG :: u8 where [c_const]: "BLE_CMD_CLEAR_EVENT_LOG = 0x02"
definition BLE_CMD_CLEAR_SENSOR_LOG :: u8 where [c_const]: "BLE_CMD_CLEAR_SENSOR_LOG = 0x03"
definition BLE_CMD_RESET_COUNTERS :: u8 where [c_const]: "BLE_CMD_RESET_COUNTERS = 0x04"
definition BLE_CMD_FACTORY_RESET :: u8 where [c_const]: "BLE_CMD_FACTORY_RESET = 0x05"
definition BLE_CMD_SAMPLE_NOW :: u8 where [c_const]: "BLE_CMD_SAMPLE_NOW = 0x06"
definition BLE_CMD_SET_MODE :: u8 where [c_const]: "BLE_CMD_SET_MODE = 0x07"
definition BLE_CMD_CLEAR_ALARMS :: u8 where [c_const]: "BLE_CMD_CLEAR_ALARMS = 0x08"
definition BLE_CMD_REBOOT :: u8 where [c_const]: "BLE_CMD_REBOOT = 0x09"
definition BLE_CMD_START_CALIBRATION :: u8 where [c_const]: "BLE_CMD_START_CALIBRATION = 0x0a"
definition BLE_CMD_SET_TIME :: u8 where [c_const]: "BLE_CMD_SET_TIME = 0x0b"
definition BLE_CMD_SNAPSHOT_GAS_BASELINE :: u8 where [c_const]: "BLE_CMD_SNAPSHOT_GAS_BASELINE = 0x0c"

text \<open>The bytes \<open>send_response\<close> notifies: opcode, status, length and at most 32 bytes of payload.\<close>

definition RESPONSE_PAYLOAD_MAX :: nat where [c_const]: "RESPONSE_PAYLOAD_MAX = 32"

definition response_bytes :: "u8 \<Rightarrow> u8 \<Rightarrow> u8 list \<Rightarrow> u8 list" where
  "response_bytes opcode status payload =
     (let payload = take RESPONSE_PAYLOAD_MAX payload in
      [opcode, status] @ le16 (of_nat (length payload)) @ payload)"

definition send_response ::
  "('f, 'n, 'b) tag_env \<Rightarrow> u8 \<Rightarrow> u8 \<Rightarrow> u8 list \<Rightarrow> ('f, 'n, 'b) device \<Rightarrow> ('f, 'n, 'b) device" where
  "send_response env opcode status payload d =
     snd (gatt_notify env BLE_CHAR_COMMAND (response_bytes opcode status payload) d)"

text \<open>The reply at the end: \<open>(int8_t)err\<close> unless the command has a payload of its own.\<close>

definition finish_command ::
  "('f, 'n, 'b) tag_env \<Rightarrow> u8 \<Rightarrow> int \<Rightarrow> ('f, 'n, 'b) device \<Rightarrow> ('f, 'n, 'b) device" where
  "finish_command env opcode err d =
     (if opcode = BLE_CMD_RESET_COUNTERS \<and> err = 0
      then send_response env opcode 0 (tag_statistics_bytes (app_state_get_statistics d)) d
      else if opcode = BLE_CMD_SET_TIME \<and> err = 0
      then send_response env opcode 0 (le32 (stat_boot_epoch_utc (app_state_get_statistics d))) d
      else send_response env opcode (word_of_int err) [] d)"

definition command_work_fn ::
  "('f, 'n, 'b) tag_env \<Rightarrow> ('f, 'n, 'b) device \<Rightarrow> ('f, 'n, 'b) device option" where
  "command_work_fn env d =
     (let cmd = bc_pending (dev_command d); op = cr_opcode cmd; d = dev_feed 1 d in
      if op = BLE_CMD_IDENTIFY then
        Some (finish_command env op 0
                (d\<lparr>dev_led := led_manager_identify IDENTIFY_DURATION_S (dev_led d)\<rparr>))
      else if op = BLE_CMD_CLEAR_EVENT_LOG then
        (case clear_event_log env (log_abort d) of
           None \<Rightarrow> None | Some (err, d) \<Rightarrow> Some (finish_command env op err d))
      else if op = BLE_CMD_CLEAR_SENSOR_LOG then
        (case clear_sensor_log env (log_abort d) of
           None \<Rightarrow> None | Some (err, d) \<Rightarrow> Some (finish_command env op err d))
      else if op = BLE_CMD_RESET_COUNTERS \<or> op = BLE_CMD_CLEAR_ALARMS then
        Some (finish_command env op 0 (app_state_reset_counters env d))
      else if op = BLE_CMD_SAMPLE_NOW then
        Some (finish_command env op 0 (power_manager_sample_now d))
      else if op = BLE_CMD_SET_MODE then
        (case app_config_set_mode env (cr_argument cmd) d of (err, d) \<Rightarrow>
           Some (finish_command env op err d))
      else if op = BLE_CMD_START_CALIBRATION then Some (finish_command env op (- ENOTSUP) d)
      else if op = BLE_CMD_SET_TIME then
        (case app_state_set_time_utc env (cr_argument cmd) d of (err, d) \<Rightarrow>
           Some (finish_command env op err d))
      else if op = BLE_CMD_SNAPSHOT_GAS_BASELINE then
        (case app_state_snapshot_gas_baseline env d of
           (err, threshold, d) \<Rightarrow>
             if err = 0
             then Some (send_response env op 0 (le32 (case threshold of None \<Rightarrow> 0 | Some t \<Rightarrow> t)) d)
             else Some (finish_command env op err d))
      else if op = BLE_CMD_FACTORY_RESET then
        app_state_factory_reset env (send_response env op 0 [] d)
      else if op = BLE_CMD_REBOOT then
        Some ((app_state_flush_statistics env (send_response env op 0 [] d))\<lparr>dev_rebooting := True\<rparr>)
      else Some (finish_command env op (- ENOTSUP) d))"

definition run_command_work ::
  "('f, 'n, 'b) tag_env \<Rightarrow> ('f, 'n, 'b) device \<Rightarrow> ('f, 'n, 'b) device option" where
  "run_command_work env d =
     command_work_fn env (d\<lparr>dev_command := (dev_command d)\<lparr>bc_work := False\<rparr>\<rparr>)"

definition ble_config_read :: "('f, 'n, 'b) device \<Rightarrow> u8 list" where
  "ble_config_read d = tag_config_bytes (app_config_get d)"

definition ble_config_write ::
  "('f, 'n, 'b) tag_env \<Rightarrow> u8 list \<Rightarrow> u16 \<Rightarrow> ('f, 'n, 'b) device \<Rightarrow> int \<times> ('f, 'n, 'b) device" where
  "ble_config_write env buf offset d =
     (if offset \<noteq> 0 then (- BT_ATT_ERR_INVALID_OFFSET, d)
      else if length buf \<noteq> 40 then (- BT_ATT_ERR_INVALID_ATTRIBUTE_LEN, d)
      else
        let config = tag_config_of_bytes buf in
        case app_config_set env config d of (err, d) \<Rightarrow>
        if err = - EINVAL then (- BT_ATT_ERR_VALUE_NOT_ALLOWED, d)
        else if err \<noteq> 0 then (- BT_ATT_ERR_UNLIKELY, d)
        else (int (length buf),
              raise_event env EVENT_CONFIG_CHANGED EVENT_SEVERITY_INFO
                (ucast (cfg_operating_mode config)) d))"

text \<open>The request as the code reads it out of zeroed memory.\<close>

definition cmd_request_of_bytes :: "u8 list \<Rightarrow> ble_cmd_request" where
  "cmd_request_of_bytes buf =
     (let bs = buf @ replicate (6 - length buf) 0 in
      \<lparr> cr_opcode = bs ! 0, cr_reserved = bs ! 1, cr_argument = rd32 bs 2 \<rparr>)"

definition ble_config_write_command ::
  "u8 list \<Rightarrow> u16 \<Rightarrow> ('f, 'n, 'b) device \<Rightarrow> int \<times> ('f, 'n, 'b) device" where
  "ble_config_write_command buf offset d =
     (if offset \<noteq> 0 then (- BT_ATT_ERR_INVALID_OFFSET, d)
      else if length buf < 1 \<or> length buf > 6 then (- BT_ATT_ERR_INVALID_ATTRIBUTE_LEN, d)
      else (int (length buf),
            d\<lparr>dev_command := \<lparr> bc_work = True, bc_pending = cmd_request_of_bytes buf \<rparr>\<rparr>))"

end
