(* ===== verification/Zigbee_Manager.thy ===== *)
theory Zigbee_Manager
  imports Power_Manager
begin

section \<open>Zigbee manager and over-the-air update\<close>

text \<open>
  \<open>src/zigbee/zigbee_manager.c\<close> and \<open>src/zigbee/zigbee_ota.c\<close> as they are with the add-on built
  in: publishing, identify, attribute writes from the coordinator, stack signals, and the
  events of the download. The ZBOSS scheduler is the counter \<open>zb_publish\<close>; buffers, the
  default signal handler and the FOTA library's own handlers are ZBOSS's.
\<close>

definition LONG_POLL_INTERVAL_MS :: nat where [c_const]: "LONG_POLL_INTERVAL_MS = 15000"

subsection \<open>Publishing\<close>

definition publish_attributes ::
  "('f, 'n, 'b) tag_env \<Rightarrow> ('f, 'n, 'b) device \<Rightarrow> ('f, 'n, 'b) device" where
  "publish_attributes env d =
     (if \<not> zb_joined (dev_zigbee d) then d
      else
        let data = app_state_get_last_sample d;
            status = app_state_get_status d;
            config = app_config_get d;
            log_info = event_log_get_info (te_flash env) (dev_events d);
            report = zigbee_reporting_evaluate data status config (zb_baseline (dev_zigbee d))
        in if report = 0 then d
           else
             case zigbee_clusters_update data status (li_record_count log_info) config report
                    (app_state_get_statistics d) (zb_ctx (dev_zigbee d)) of (writes, ctx) \<Rightarrow>
             d\<lparr>dev_zigbee := (dev_zigbee d)\<lparr>zb_ctx := ctx,
                 zb_writes := zb_writes (dev_zigbee d) @ writes,
                 zb_baseline := zigbee_reporting_commit data status report
                                  (zb_baseline (dev_zigbee d))\<rparr>\<rparr>)"

text \<open>The ZBOSS thread runs one scheduled callback.\<close>

definition run_publish ::
  "('f, 'n, 'b) tag_env \<Rightarrow> ('f, 'n, 'b) device \<Rightarrow> ('f, 'n, 'b) device" where
  "run_publish env d =
     (if zb_publish (dev_zigbee d) = 0 then d
      else publish_attributes env
             (d\<lparr>dev_zigbee := (dev_zigbee d)\<lparr>zb_publish := zb_publish (dev_zigbee d) - 1\<rparr>\<rparr>))"

definition identify_cb :: "bool \<Rightarrow> ('f, 'n, 'b) device \<Rightarrow> ('f, 'n, 'b) device" where
  "identify_cb bufid d =
     (if bufid then d\<lparr>dev_led := led_manager_identify 10 (dev_led d)\<rparr>
      else led_set LED_STATE_IDENTIFY False d)"

subsection \<open>Attribute writes\<close>

datatype zcl_status = RET_OK | RET_NOT_IMPLEMENTED | RET_INVALID_PARAMETER

definition ZB_ZCL_CLUSTER_ID_TAG_MONITOR :: u16 where
  [c_const]: "ZB_ZCL_CLUSTER_ID_TAG_MONITOR = 0xfc00"

text \<open>
  \<open>zcl_device_cb\<close> for a written attribute: cluster, attribute and the value's bits, of which
  \<open>data8\<close>, \<open>data16\<close> and \<open>data32\<close> are the members of a union. \<open>None\<close> as the write is any other callback, which goes to
  the OTA library when it is built in.
\<close>

record attr_write =
  aw_cluster_id :: u16
  aw_attr_id :: u16
  aw_value :: u32

definition zigbee_ota_zcl_cb :: "('f, 'n, 'b) tag_env \<Rightarrow> bool" where
  "zigbee_ota_zcl_cb env = te_zigbee_fota env"

definition zcl_apply_config ::
  "('f, 'n, 'b) tag_env \<Rightarrow> tag_config \<Rightarrow> ('f, 'n, 'b) device \<Rightarrow> zcl_status \<times> ('f, 'n, 'b) device" where
  "zcl_apply_config env config d =
     (case app_config_set env config d of (err, d) \<Rightarrow>
      if err \<noteq> 0 then (RET_INVALID_PARAMETER, d)
      else (RET_OK, raise_event env EVENT_CONFIG_CHANGED EVENT_SEVERITY_INFO
                      (ucast (cfg_operating_mode config)) (power_manager_config_changed d)))"

definition zcl_device_cb ::
  "('f, 'n, 'b) tag_env \<Rightarrow> attr_write option \<Rightarrow> ('f, 'n, 'b) device \<Rightarrow>
   zcl_status \<times> ('f, 'n, 'b) device" where
  "zcl_device_cb env request d =
     (case request of
        None \<Rightarrow> (if zigbee_ota_zcl_cb env then RET_OK else RET_NOT_IMPLEMENTED, d)
      | Some w \<Rightarrow>
          if aw_cluster_id w \<noteq> ZB_ZCL_CLUSTER_ID_TAG_MONITOR then (RET_NOT_IMPLEMENTED, d)
          else
            let config = app_config_get d in
            if aw_attr_id w = TAG_ATTR_OPERATING_MODE
            then zcl_apply_config env (config\<lparr>cfg_operating_mode := ucast (aw_value w)\<rparr>) d
            else if aw_attr_id w = TAG_ATTR_SAMPLING_INTERVAL
            then zcl_apply_config env (config\<lparr>cfg_sampling_interval_s := ucast (aw_value w)\<rparr>) d
            else if aw_attr_id w = TAG_ATTR_BOOT_EPOCH
            then (case app_state_set_time_utc env (aw_value w) d of (err, d) \<Rightarrow>
                    (if err \<noteq> 0 then RET_INVALID_PARAMETER else RET_OK, d))
            else (RET_NOT_IMPLEMENTED, d))"

subsection \<open>Stack signals\<close>

datatype zb_signal =
  ZB_BDB_SIGNAL_DEVICE_FIRST_START | ZB_BDB_SIGNAL_DEVICE_REBOOT | ZB_BDB_SIGNAL_STEERING
| ZB_ZDO_SIGNAL_LEAVE | ZB_SIGNAL_OTHER

definition zboss_commissioned ::
  "('f, 'n, 'b) tag_env \<Rightarrow> bool \<Rightarrow> ('f, 'n, 'b) device \<Rightarrow> ('f, 'n, 'b) device" where
  "zboss_commissioned env ok d =
     (if ok then
        let d = (if \<not> zb_joined (dev_zigbee d)
                 then raise_event env EVENT_ZIGBEE_JOINED EVENT_SEVERITY_INFO 0 d else d);
            d = d\<lparr>dev_zigbee := (dev_zigbee d)\<lparr>zb_joined := True, zb_joining := False\<rparr>\<rparr>;
            d = led_set LED_STATE_ZIGBEE_JOINING False d;
            d = led_set LED_STATE_ZIGBEE_CONNECTED True d
        in d\<lparr>dev_zigbee := (dev_zigbee d)\<lparr>
               zb_baseline := zigbee_reporting_force (zb_baseline (dev_zigbee d)),
               zb_publish := zb_publish (dev_zigbee d) + 1\<rparr>\<rparr>
      else
        let d = d\<lparr>dev_zigbee := (dev_zigbee d)\<lparr>zb_joining := True\<rparr>\<rparr>;
            d = led_set LED_STATE_ZIGBEE_JOINING True d
        in led_set LED_STATE_ZIGBEE_CONNECTED False d)"

definition zboss_left ::
  "('f, 'n, 'b) tag_env \<Rightarrow> ('f, 'n, 'b) device \<Rightarrow> ('f, 'n, 'b) device" where
  "zboss_left env d =
     (let d = d\<lparr>dev_zigbee := (dev_zigbee d)\<lparr>zb_joined := False, zb_joining := True\<rparr>\<rparr>;
          d = led_set LED_STATE_ZIGBEE_CONNECTED False d;
          d = led_set LED_STATE_ZIGBEE_JOINING True d
      in raise_event env EVENT_ZIGBEE_LEFT EVENT_SEVERITY_WARNING 0 d)"

definition zboss_signal_handler ::
  "('f, 'n, 'b) tag_env \<Rightarrow> zb_signal \<Rightarrow> bool \<Rightarrow> ('f, 'n, 'b) device \<Rightarrow> ('f, 'n, 'b) device" where
  "zboss_signal_handler env signal ok d =
     (case signal of
        ZB_BDB_SIGNAL_DEVICE_FIRST_START \<Rightarrow> zboss_commissioned env ok d
      | ZB_BDB_SIGNAL_DEVICE_REBOOT \<Rightarrow> zboss_commissioned env ok d
      | ZB_BDB_SIGNAL_STEERING \<Rightarrow> zboss_commissioned env ok d
      | ZB_ZDO_SIGNAL_LEAVE \<Rightarrow> zboss_left env d
      | ZB_SIGNAL_OTHER \<Rightarrow> d)"

definition zigbee_manager_init ::
  "('f, 'n, 'b) tag_env \<Rightarrow> ('f, 'n, 'b) device \<Rightarrow> int \<times> ('f, 'n, 'b) device" where
  "zigbee_manager_init env d =
     (if \<not> te_zigbee_add_on env then (- ENOTSUP, d)
      else
        let d = d\<lparr>dev_zigbee := (dev_zigbee d)\<lparr>
                    zb_ctx := zigbee_clusters_init (te_board env) (te_zcl env) (app_config_get d)
                                (zb_ctx (dev_zigbee d)),
                    zb_baseline := zigbee_reporting_init\<rparr>\<rparr>;
            d = app_state_subscribe (Some ZB_SUBSCRIBER) d;
            d = d\<lparr>dev_zigbee := (dev_zigbee d)\<lparr>zb_joining := True\<rparr>\<rparr>
        in (0, led_set LED_STATE_ZIGBEE_JOINING True d))"

definition zigbee_manager_is_joined :: "('f, 'n, 'b) tag_env \<Rightarrow> ('f, 'n, 'b) device \<Rightarrow> bool" where
  "zigbee_manager_is_joined env d \<longleftrightarrow> te_zigbee_add_on env \<and> zb_joined (dev_zigbee d)"

subsection \<open>Over-the-air update\<close>

datatype fota_evt =
  ZIGBEE_FOTA_EVT_PROGRESS u8 | ZIGBEE_FOTA_EVT_FINISHED | ZIGBEE_FOTA_EVT_ERROR | ZIGBEE_FOTA_EVT_OTHER

definition fota_evt_handler ::
  "('f, 'n, 'b) tag_env \<Rightarrow> fota_evt \<Rightarrow> ('f, 'n, 'b) device \<Rightarrow> ('f, 'n, 'b) device" where
  "fota_evt_handler env evt d =
     (case evt of
        ZIGBEE_FOTA_EVT_PROGRESS percent \<Rightarrow>
          if \<not> zb_ota_in_progress (dev_zigbee d) then
            let d = d\<lparr>dev_zigbee := (dev_zigbee d)\<lparr>zb_ota_in_progress := True\<rparr>\<rparr>;
                d = led_set LED_STATE_OTA True d
            in raise_event env EVENT_OTA_STARTED EVENT_SEVERITY_INFO 0 d
          else d
      | ZIGBEE_FOTA_EVT_FINISHED \<Rightarrow>
          let d = raise_event env EVENT_OTA_FINISHED EVENT_SEVERITY_INFO 0 d;
              d = app_state_flush_statistics env d;
              d = led_set LED_STATE_OTA False d;
              d = d\<lparr>dev_zigbee := (dev_zigbee d)\<lparr>zb_ota_in_progress := False\<rparr>\<rparr>
          in d\<lparr>dev_rebooting := True\<rparr>
      | ZIGBEE_FOTA_EVT_ERROR \<Rightarrow>
          let d = led_set LED_STATE_OTA False d
          in d\<lparr>dev_zigbee := (dev_zigbee d)\<lparr>zb_ota_in_progress := False\<rparr>\<rparr>
      | ZIGBEE_FOTA_EVT_OTHER \<Rightarrow> d)"

definition zigbee_ota_in_progress :: "('f, 'n, 'b) tag_env \<Rightarrow> ('f, 'n, 'b) device \<Rightarrow> bool" where
  "zigbee_ota_in_progress env d \<longleftrightarrow> te_zigbee_fota env \<and> zb_ota_in_progress (dev_zigbee d)"

text \<open>
  \<open>zigbee_ota_init\<close>: its result and whether the image was confirmed, from what the FOTA library
  and MCUboot return.
\<close>

definition zigbee_ota_init ::
  "('f, 'n, 'b) tag_env \<Rightarrow> int \<Rightarrow> bool \<Rightarrow> int \<Rightarrow> int \<times> bool" where
  "zigbee_ota_init env fota_init img_confirmed write_confirmed =
     (if \<not> te_zigbee_fota env then (- ENOTSUP, False)
      else if fota_init \<noteq> 0 then (fota_init, img_confirmed)
      else (0, img_confirmed \<or> write_confirmed = 0))"

end
