(* ===== verification/App_Main.thy ===== *)
theory App_Main
  imports Ble_Config Zigbee_Manager
begin

section \<open>Startup, the button, and the running tag\<close>

text \<open>
  \<open>src/app/app_main.c\<close>: \<open>main\<close>, the button's interrupt, timer and work items, and then everything
  that can happen to the running tag as one function over the interrupts, timer expiries, work
  items and requests (\<open>tag_step\<close>). A reachable state is one after \<open>main\<close> and any sequence of these.
\<close>

subsection \<open>The button\<close>

definition FACTORY_RESET_HOLD_MS :: nat where [c_const]: "FACTORY_RESET_HOLD_MS = 5000"

text \<open>
  \<open>bt_status\<close> is the expiry count that \<open>k_timer_status_get\<close> returns and clears, and that
  \<open>k_timer_start\<close> clears.
\<close>

record button =
  bu_timer :: "nat option"
  bu_status :: nat
  bu_press_work :: bool
  bu_reset_work :: bool

definition button_boot :: button where
  "button_boot = \<lparr> bu_timer = None, bu_status = 0, bu_press_work = False, bu_reset_work = False \<rparr>"

record button_hw =
  bh_ready :: bool
  bh_configure :: int
  bh_interrupt :: int
  bh_add_callback :: int

definition button_init :: "button_hw \<Rightarrow> button \<Rightarrow> int \<times> button" where
  "button_init hw b =
     (if \<not> bh_ready hw then (- ENODEV, b)
      else
        let b = button_boot in
        if bh_configure hw \<noteq> 0 then (bh_configure hw, b)
        else if bh_interrupt hw \<noteq> 0 then (bh_interrupt hw, b)
        else (bh_add_callback hw, b))"

definition button_cb :: "bool \<Rightarrow> button \<Rightarrow> button" where
  "button_cb pressed b =
     (if pressed then b\<lparr>bu_timer := Some FACTORY_RESET_HOLD_MS, bu_status := 0\<rparr>
      else
        let expired = bu_status b; b = b\<lparr>bu_status := 0\<rparr> in
        if expired = 0 then b\<lparr>bu_timer := None, bu_press_work := True\<rparr> else b)"

definition factory_reset_timeout :: "button \<Rightarrow> button" where
  "factory_reset_timeout b =
     b\<lparr>bu_timer := None, bu_status := bu_status b + 1, bu_reset_work := True\<rparr>"

definition button_press_work_fn ::
  "('f, 'n, 'b) tag_env \<Rightarrow> ('f, 'n, 'b) device \<Rightarrow> ('f, 'n, 'b) device" where
  "button_press_work_fn env d = power_manager_sample_now (power_manager_request_service_mode env d)"

text \<open>\<open>zigbee_manager_factory_reset\<close> erases ZBOSS's own storage only.\<close>

definition factory_reset_work_fn ::
  "('f, 'n, 'b) tag_env \<Rightarrow> ('f, 'n, 'b) device \<Rightarrow> ('f, 'n, 'b) device option" where
  "factory_reset_work_fn env d = app_state_factory_reset env d"

text \<open>
  Holding the button to the end resets and does not open the service window; releasing it
  earlier does the opposite.
\<close>

lemma button_hold:
  "let b = button_cb False (factory_reset_timeout (button_cb True b0)) in
     bu_reset_work b \<and> bu_press_work b = bu_press_work b0"
  by (simp add: button_cb_def factory_reset_timeout_def Let_def)

lemma button_short_press:
  "let b = button_cb False (button_cb True b0) in
     bu_press_work b \<and> bu_timer b = None \<and> bu_reset_work b = bu_reset_work b0"
  by (simp add: button_cb_def Let_def)

subsection \<open>Startup\<close>

record boot_hw =
  bo_leds_ready :: bool
  bo_button :: button_hw
  bo_sensors :: sensor_hw

text \<open>The static variables at reset, over what the flash, the settings store and the stack hold.\<close>

definition device_at_reset ::
  "('f, 'n, 'b) tag_env \<Rightarrow> u8 \<Rightarrow> u8 \<Rightarrow> 'f \<Rightarrow> 'f \<Rightarrow> 'n \<Rightarrow> 'b \<Rightarrow> ('f, 'n, 'b) device" where
  "device_at_reset env event_partition sensor_partition event_mem sensor_mem nvs bt = \<lparr>
     dev_uptime_s = 0,
     dev_events = \<lparr> lf_log = event_log_instance event_partition, lf_mem = event_mem \<rparr>,
     dev_sensors = \<lparr> lf_log = sensor_log_instance sensor_partition, lf_mem = sensor_mem \<rparr>,
     dev_store = config_storage_boot, dev_nvs = nvs,
     dev_sensing = \<lparr> ss_init_faults = 0, ss_expected_valid = 0 \<rparr>,
     dev_motion = motion_manager_init TAG_CONFIG_DEFAULTS, dev_led = led_manager_boot,
     dev_config = TAG_CONFIG_DEFAULTS, dev_core = app_core_boot, dev_power = power_manager_boot,
     dev_gatt = ble_gatt_boot, dev_stream = ble_log_init, dev_command = ble_command_boot,
     dev_ble = ble_manager_boot (te_device_name env), dev_bt = bt,
     dev_zigbee = zigbee_manager_boot, dev_watchdog = watchdog_boot, dev_rebooting = False \<rparr>"

text \<open>The part of \<open>main\<close> up to the configuration: hardware, logs and settings.\<close>

definition main_storage ::
  "('f, 'n, 'b) tag_env \<Rightarrow> boot_hw \<Rightarrow> ('f, 'n, 'b) device \<Rightarrow> ('f, 'n, 'b) device" where
  "main_storage env hw d =
     (let d = d\<lparr>dev_led := snd (led_manager_init (bo_leds_ready hw) (dev_led d))\<rparr>;
          d = app_state_set APP_STATE_INIT d;
          d = d\<lparr>dev_sensing := snd (sensor_manager_init (te_board env) (bo_sensors hw))\<rparr>;
          d = d\<lparr>dev_events := snd (event_log_init (te_flash env) (dev_events d))\<rparr>;
          d = d\<lparr>dev_sensors := snd (sensor_log_init (te_flash env) (dev_sensors d))\<rparr>
      in d\<lparr>dev_store := settings_load_smart_tag (te_settings env) (dev_nvs d) (dev_store d)\<rparr>)"

definition main_application ::
  "('f, 'n, 'b) tag_env \<Rightarrow> ('f, 'n, 'b) device \<Rightarrow> ('f, 'n, 'b) device" where
  "main_application env d =
     (let d = app_config_init d;
          config = app_config_get d;
          d = app_state_init d;
          d = d\<lparr>dev_motion := motion_manager_init config\<rparr>;
          d = d\<lparr>dev_watchdog := snd (smart_tag_watchdog_init (te_wdt env) (dev_watchdog d))\<rparr>;
          d = d\<lparr>dev_led := led_manager_set_enabled (cfg_led_enabled config \<noteq> 0) (dev_led d)\<rparr>
      in raise_event env EVENT_BOOT EVENT_SEVERITY_INFO (word_of_int SMART_TAG_PROTOCOL_VERSION) d)"

definition main_stacks ::
  "('f, 'n, 'b) tag_env \<Rightarrow> ('f, 'n, 'b) device \<Rightarrow> ('f, 'n, 'b) device" where
  "main_stacks env d =
     (let d = app_state_set APP_STATE_ZIGBEE_START d;
          d = snd (ble_manager_init env d);
          d = snd (zigbee_manager_init env d);
          d = power_manager_start d
      in if te_advertise_at_boot env then power_manager_request_service_mode env d else d)"

definition tag_main ::
  "('f, 'n, 'b) tag_env \<Rightarrow> boot_hw \<Rightarrow> ('f, 'n, 'b) device \<Rightarrow> ('f, 'n, 'b) device" where
  "tag_main env hw d = main_stacks env (main_application env (main_storage env hw d))"

subsection \<open>The running tag\<close>

text \<open>
  What can happen: the clock, a round of the sampling thread, the work items and timers of the
  modules, the button's work, and what a Bluetooth client, the Bluetooth host or the Zigbee
  stack ask for.
\<close>

datatype tag_event =
  Clock u32 | Sample sensor_hw | Motion_Interrupt | Blink_Work | Identify_Timeout
| Notify_Work | Stream_Work | Command_Work | Service_Timeout | Publish
| Button_Press_Work | Factory_Reset_Work
| Connected u8 | Disconnected | Ccc_Write ble_char u16
| Config_Write "u8 list" u16 | Command_Write "u8 list" u16 | Log_Control_Write "u8 list" u16
| Zcl_Callback "attr_write option" | Zigbee_Signal zb_signal bool | Zigbee_Identify bool
| Fota fota_evt

text \<open>A work item runs only when it is pending; nothing runs once the tag is rebooting.\<close>

fun handle :: "('f, 'n, 'b) tag_env \<Rightarrow> tag_event \<Rightarrow> ('f, 'n, 'b) device \<Rightarrow> ('f, 'n, 'b) device option" where
  "handle env (Clock t) d = Some (d\<lparr>dev_uptime_s := t\<rparr>)"
| "handle env (Sample hw) d = Some (take_sample_now (sampling_round env hw d))"
| "handle env Motion_Interrupt d = Some (motion_trigger_fn d)"
| "handle env Blink_Work d = Some (if led_blink_work (dev_led d) = None then d
     else d\<lparr>dev_led := blink_work_fn ((dev_led d)\<lparr>led_blink_work := None\<rparr>)\<rparr>)"
| "handle env Identify_Timeout d = Some (if led_identify_work (dev_led d) = None then d
     else d\<lparr>dev_led := identify_timeout_fn ((dev_led d)\<lparr>led_identify_work := None\<rparr>)\<rparr>)"
| "handle env Notify_Work d = Some (if bg_notify_work (dev_gatt d) then run_notify_work env d else d)"
| "handle env Stream_Work d = Some (if sm_work (dev_stream d) = None then d else run_stream_work env d)"
| "handle env Command_Work d = (if bc_work (dev_command d) then run_command_work env d else Some d)"
| "handle env Service_Timeout d = Some (if pw_service_timeout (dev_power d) = None then d
     else service_timeout_fn env d)"
| "handle env Publish d = Some (run_publish env d)"
| "handle env Button_Press_Work d = Some (button_press_work_fn env d)"
| "handle env Factory_Reset_Work d = factory_reset_work_fn env d"
| "handle env (Connected err) d = Some (ble_connected env err d)"
| "handle env Disconnected d = Some (ble_disconnected env d)"
| "handle env (Ccc_Write which v) d = Some (ccc_write which v d)"
| "handle env (Config_Write buf offset) d = Some (snd (ble_config_write env buf offset d))"
| "handle env (Command_Write buf offset) d = Some (snd (ble_config_write_command buf offset d))"
| "handle env (Log_Control_Write buf offset) d = Some (snd (log_write_control env buf offset d))"
| "handle env (Zcl_Callback w) d = Some (snd (zcl_device_cb env w d))"
| "handle env (Zigbee_Signal signal ok) d = Some (zboss_signal_handler env signal ok d)"
| "handle env (Zigbee_Identify bufid) d = Some (identify_cb bufid d)"
| "handle env (Fota evt) d = Some (fota_evt_handler env evt d)"

inductive tag_step :: "('f, 'n, 'b) tag_env \<Rightarrow> ('f, 'n, 'b) device \<Rightarrow> ('f, 'n, 'b) device \<Rightarrow> bool"
  for env where
  step: "\<not> dev_rebooting d \<Longrightarrow> handle env e d = Some d' \<Longrightarrow> tag_step env d d'"

inductive_cases tag_stepE: "tag_step env d d'"

inductive tag_reach :: "('f, 'n, 'b) tag_env \<Rightarrow> ('f, 'n, 'b) device \<Rightarrow> bool" for env where
  boot: "tag_reach env (tag_main env hw (device_at_reset env pe ps fe fs nvs bt))"
| more: "tag_reach env d \<Longrightarrow> tag_step env d d' \<Longrightarrow> tag_reach env d'"

end
