(* ===== verification/Device_Invariants.thy ===== *)
theory Device_Invariants
  imports App_Main
begin

section \<open>Invariants of the running tag\<close>

text \<open>
  What holds after startup and after every event: the configuration in force is valid and known
  to the modules that cache it, the live status and the statistics agree, Bluetooth advertises
  only inside a service window whose end is scheduled, and whatever is queued has its work item
  pending. Frame lemmas say which fields an operation leaves alone; each invariant is then
  shown operation by operation.
\<close>

named_theorems frame \<open>fields an operation leaves alone\<close>

subsection \<open>What operations leave alone\<close>

lemma led_enabled_ops [frame]:
  "led_enabled (led_manager_set s on l) = led_enabled l"
  "led_enabled (led_manager_identify n l) = led_enabled l"
  "led_enabled (blink_work_fn l) = led_enabled l"
  "led_enabled (identify_timeout_fn l) = led_enabled l"
  by (simp_all add: led_manager_set_def led_manager_identify_def blink_work_fn_def
      identify_timeout_fn_def Let_def)

lemma led_set_frame [frame]:
  "led_enabled (dev_led (led_set s on d)) = led_enabled (dev_led d)"
  "dev_core (led_set s on d) = dev_core d" "dev_gatt (led_set s on d) = dev_gatt d"
  "dev_events (led_set s on d) = dev_events d" "dev_zigbee (led_set s on d) = dev_zigbee d"
  "dev_config (led_set s on d) = dev_config d"
  "dev_motion (led_set s on d) = dev_motion d"
  "dev_power (led_set s on d) = dev_power d"
  "dev_ble (led_set s on d) = dev_ble d"
  "dev_stream (led_set s on d) = dev_stream d"
  "dev_store (led_set s on d) = dev_store d"
  "dev_nvs (led_set s on d) = dev_nvs d"
  "dev_sensing (led_set s on d) = dev_sensing d"
  "dev_command (led_set s on d) = dev_command d"
  "dev_bt (led_set s on d) = dev_bt d"
  "dev_watchdog (led_set s on d) = dev_watchdog d"
  "dev_rebooting (led_set s on d) = dev_rebooting d"
  "dev_uptime_s (led_set s on d) = dev_uptime_s d"
  "dev_sensors (led_set s on d) = dev_sensors d"
  by (simp_all add: led_set_def frame)

lemma on_event_frame [frame]:
  "dev_core (on_event r sub d) = dev_core d" "dev_led (on_event r sub d) = dev_led d"
  "dev_events (on_event r sub d) = dev_events d"
  "dev_config (on_event r sub d) = dev_config d"
  "dev_motion (on_event r sub d) = dev_motion d"
  "dev_power (on_event r sub d) = dev_power d"
  "dev_ble (on_event r sub d) = dev_ble d"
  "dev_stream (on_event r sub d) = dev_stream d"
  "dev_store (on_event r sub d) = dev_store d"
  "dev_nvs (on_event r sub d) = dev_nvs d"
  "dev_sensing (on_event r sub d) = dev_sensing d"
  "dev_command (on_event r sub d) = dev_command d"
  "dev_bt (on_event r sub d) = dev_bt d"
  "dev_watchdog (on_event r sub d) = dev_watchdog d"
  "dev_rebooting (on_event r sub d) = dev_rebooting d"
  "dev_uptime_s (on_event r sub d) = dev_uptime_s d"
  "dev_sensors (on_event r sub d) = dev_sensors d"
  by (cases sub; simp add: zb_schedule_publish_def)+

lemma on_events_frame [frame]:
  "dev_core (fold (on_event r) subs d) = dev_core d" "dev_led (fold (on_event r) subs d) = dev_led d"
  "dev_events (fold (on_event r) subs d) = dev_events d"
  "dev_config (fold (on_event r) subs d) = dev_config d"
  "dev_motion (fold (on_event r) subs d) = dev_motion d"
  "dev_power (fold (on_event r) subs d) = dev_power d"
  "dev_ble (fold (on_event r) subs d) = dev_ble d"
  "dev_stream (fold (on_event r) subs d) = dev_stream d"
  "dev_store (fold (on_event r) subs d) = dev_store d"
  "dev_nvs (fold (on_event r) subs d) = dev_nvs d"
  "dev_sensing (fold (on_event r) subs d) = dev_sensing d"
  "dev_command (fold (on_event r) subs d) = dev_command d"
  "dev_bt (fold (on_event r) subs d) = dev_bt d"
  "dev_watchdog (fold (on_event r) subs d) = dev_watchdog d"
  "dev_rebooting (fold (on_event r) subs d) = dev_rebooting d"
  "dev_uptime_s (fold (on_event r) subs d) = dev_uptime_s d"
  "dev_sensors (fold (on_event r) subs d) = dev_sensors d"
  by (induction subs arbitrary: d) (simp_all add: frame)

lemma on_sensor_data_frame [frame]:
  "dev_core (on_sensor_data s sub d) = dev_core d" "dev_led (on_sensor_data s sub d) = dev_led d"
  "dev_events (on_sensor_data s sub d) = dev_events d"
  "dev_config (on_sensor_data s sub d) = dev_config d"
  "dev_motion (on_sensor_data s sub d) = dev_motion d"
  "dev_power (on_sensor_data s sub d) = dev_power d"
  "dev_ble (on_sensor_data s sub d) = dev_ble d"
  "dev_stream (on_sensor_data s sub d) = dev_stream d"
  "dev_store (on_sensor_data s sub d) = dev_store d"
  "dev_nvs (on_sensor_data s sub d) = dev_nvs d"
  "dev_sensing (on_sensor_data s sub d) = dev_sensing d"
  "dev_command (on_sensor_data s sub d) = dev_command d"
  "dev_bt (on_sensor_data s sub d) = dev_bt d"
  "dev_watchdog (on_sensor_data s sub d) = dev_watchdog d"
  "dev_rebooting (on_sensor_data s sub d) = dev_rebooting d"
  "dev_uptime_s (on_sensor_data s sub d) = dev_uptime_s d"
  "dev_sensors (on_sensor_data s sub d) = dev_sensors d"
  by (cases sub; simp add: zb_schedule_publish_def)+

lemma on_sensor_datas_frame [frame]:
  "dev_core (fold (on_sensor_data s) subs d) = dev_core d"
  "dev_led (fold (on_sensor_data s) subs d) = dev_led d"
  "dev_events (fold (on_sensor_data s) subs d) = dev_events d"
  "dev_config (fold (on_sensor_data s) subs d) = dev_config d"
  "dev_motion (fold (on_sensor_data s) subs d) = dev_motion d"
  "dev_power (fold (on_sensor_data s) subs d) = dev_power d"
  "dev_ble (fold (on_sensor_data s) subs d) = dev_ble d"
  "dev_stream (fold (on_sensor_data s) subs d) = dev_stream d"
  "dev_store (fold (on_sensor_data s) subs d) = dev_store d"
  "dev_nvs (fold (on_sensor_data s) subs d) = dev_nvs d"
  "dev_sensing (fold (on_sensor_data s) subs d) = dev_sensing d"
  "dev_command (fold (on_sensor_data s) subs d) = dev_command d"
  "dev_bt (fold (on_sensor_data s) subs d) = dev_bt d"
  "dev_watchdog (fold (on_sensor_data s) subs d) = dev_watchdog d"
  "dev_rebooting (fold (on_sensor_data s) subs d) = dev_rebooting d"
  "dev_uptime_s (fold (on_sensor_data s) subs d) = dev_uptime_s d"
  "dev_sensors (fold (on_sensor_data s) subs d) = dev_sensors d"
  by (induction subs arbitrary: d) (simp_all add: frame)

lemma app_raise_event_frame [frame]:
  "led_enabled (dev_led (snd (app_raise_event env t sv v d))) = led_enabled (dev_led d)"
  "ac_pending (dev_core (snd (app_raise_event env t sv v d))) = ac_pending (dev_core d)"
  "ac_subscribers (dev_core (snd (app_raise_event env t sv v d))) = ac_subscribers (dev_core d)"
  "ac_state (dev_core (snd (app_raise_event env t sv v d))) = ac_state (dev_core d)"
  "dev_config (snd (app_raise_event env t sv v d)) = dev_config d"
  "dev_motion (snd (app_raise_event env t sv v d)) = dev_motion d"
  "dev_power (snd (app_raise_event env t sv v d)) = dev_power d"
  "dev_ble (snd (app_raise_event env t sv v d)) = dev_ble d"
  "dev_stream (snd (app_raise_event env t sv v d)) = dev_stream d"
  "dev_store (snd (app_raise_event env t sv v d)) = dev_store d"
  "dev_nvs (snd (app_raise_event env t sv v d)) = dev_nvs d"
  "dev_sensing (snd (app_raise_event env t sv v d)) = dev_sensing d"
  "dev_command (snd (app_raise_event env t sv v d)) = dev_command d"
  "dev_bt (snd (app_raise_event env t sv v d)) = dev_bt d"
  "dev_watchdog (snd (app_raise_event env t sv v d)) = dev_watchdog d"
  "dev_rebooting (snd (app_raise_event env t sv v d)) = dev_rebooting d"
  "dev_uptime_s (snd (app_raise_event env t sv v d)) = dev_uptime_s d"
  "dev_sensors (snd (app_raise_event env t sv v d)) = dev_sensors d"
  by (simp_all add: app_raise_event_def Let_def frame with_status_def with_statistics_def
      split: prod.split)

lemma raise_pending_frame [frame]:
  "led_enabled (dev_led (fold (raise_pending env) ps d)) = led_enabled (dev_led d)"
  "ac_pending (dev_core (fold (raise_pending env) ps d)) = ac_pending (dev_core d)"
  "ac_subscribers (dev_core (fold (raise_pending env) ps d)) = ac_subscribers (dev_core d)"
  "dev_config (fold (raise_pending env) ps d) = dev_config d"
  "dev_motion (fold (raise_pending env) ps d) = dev_motion d"
  "dev_power (fold (raise_pending env) ps d) = dev_power d"
  "dev_ble (fold (raise_pending env) ps d) = dev_ble d"
  "dev_stream (fold (raise_pending env) ps d) = dev_stream d"
  "dev_store (fold (raise_pending env) ps d) = dev_store d"
  "dev_nvs (fold (raise_pending env) ps d) = dev_nvs d"
  "dev_sensing (fold (raise_pending env) ps d) = dev_sensing d"
  "dev_command (fold (raise_pending env) ps d) = dev_command d"
  "dev_bt (fold (raise_pending env) ps d) = dev_bt d"
  "dev_watchdog (fold (raise_pending env) ps d) = dev_watchdog d"
  "dev_rebooting (fold (raise_pending env) ps d) = dev_rebooting d"
  "dev_uptime_s (fold (raise_pending env) ps d) = dev_uptime_s d"
  "dev_sensors (fold (raise_pending env) ps d) = dev_sensors d"
  by (induction ps arbitrary: d) (simp_all add: raise_pending_def frame)

lemma drain_frame [frame]:
  "led_enabled (dev_led (drain_pending_events env d)) = led_enabled (dev_led d)"
  "ac_pending (dev_core (drain_pending_events env d)) = []"
  "ac_subscribers (dev_core (drain_pending_events env d)) = ac_subscribers (dev_core d)"
  "dev_config (drain_pending_events env d) = dev_config d"
  "dev_motion (drain_pending_events env d) = dev_motion d"
  "dev_power (drain_pending_events env d) = dev_power d"
  "dev_ble (drain_pending_events env d) = dev_ble d"
  "dev_stream (drain_pending_events env d) = dev_stream d"
  "dev_store (drain_pending_events env d) = dev_store d"
  "dev_nvs (drain_pending_events env d) = dev_nvs d"
  "dev_sensing (drain_pending_events env d) = dev_sensing d"
  "dev_command (drain_pending_events env d) = dev_command d"
  "dev_bt (drain_pending_events env d) = dev_bt d"
  "dev_watchdog (drain_pending_events env d) = dev_watchdog d"
  "dev_rebooting (drain_pending_events env d) = dev_rebooting d"
  "dev_uptime_s (drain_pending_events env d) = dev_uptime_s d"
  "dev_sensors (drain_pending_events env d) = dev_sensors d"
  by (simp_all add: drain_pending_events_def Let_def frame)

lemma flush_frame [frame]:
  "dev_core (app_state_flush_statistics env d) = dev_core d"
  "dev_led (app_state_flush_statistics env d) = dev_led d"
  "dev_events (app_state_flush_statistics env d) = dev_events d"
  "dev_gatt (app_state_flush_statistics env d) = dev_gatt d"
  "dev_zigbee (app_state_flush_statistics env d) = dev_zigbee d"
  "dev_config (app_state_flush_statistics env d) = dev_config d"
  "dev_motion (app_state_flush_statistics env d) = dev_motion d"
  "dev_power (app_state_flush_statistics env d) = dev_power d"
  "dev_ble (app_state_flush_statistics env d) = dev_ble d"
  "dev_stream (app_state_flush_statistics env d) = dev_stream d"
  "dev_sensing (app_state_flush_statistics env d) = dev_sensing d"
  "dev_command (app_state_flush_statistics env d) = dev_command d"
  "dev_bt (app_state_flush_statistics env d) = dev_bt d"
  "dev_watchdog (app_state_flush_statistics env d) = dev_watchdog d"
  "dev_rebooting (app_state_flush_statistics env d) = dev_rebooting d"
  "dev_uptime_s (app_state_flush_statistics env d) = dev_uptime_s d"
  "dev_sensors (app_state_flush_statistics env d) = dev_sensors d"
  by (simp_all add: app_state_flush_statistics_def case_prod_beta)

lemma flush_stored_config [frame]:
  "cs_stored_config (dev_store (app_state_flush_statistics env d)) = cs_stored_config (dev_store d)"
  by (simp add: app_state_flush_statistics_def config_storage_save_statistics_def case_prod_beta Let_def)

lemma mm_config_process [frame]: "mm_config (mp_state d m) = mm_config m"
  by (simp add: motion_manager_process_def motion_state_step_def motion_orientation_step_def Let_def
      split: prod.split)

subsection \<open>The invariant\<close>

definition counters_agree :: "app_core \<Rightarrow> bool" where
  "counters_agree c \<longleftrightarrow>
     st_shock_count (ac_status c) = stat_shock_count (ac_statistics c) \<and>
     st_free_fall_count (ac_status c) = stat_free_fall_count (ac_statistics c) \<and>
     st_event_count (ac_status c) = stat_event_count (ac_statistics c) \<and>
     st_max_shock_mg (ac_status c) = stat_max_shock_mg (ac_statistics c) \<and>
     st_movement_duration_s (ac_status c) = stat_movement_duration_s (ac_statistics c)"

definition gatt_awake :: "ble_gatt \<Rightarrow> bool" where
  "gatt_awake g \<longleftrightarrow> length (bg_event_queue g) \<le> EVENT_QUEUE_LEN \<and>
     (bg_pending_sensor_valid g \<or> bg_event_queue g \<noteq> [] \<longrightarrow> bg_notify_work g)"

definition stream_awake :: "stream_state \<Rightarrow> bool" where
  "stream_awake sm \<longleftrightarrow> (sm_active sm \<longrightarrow> sm_work sm \<noteq> None)"

definition window_ok :: "power_manager \<Rightarrow> ble_manager \<Rightarrow> bool" where
  "window_ok p b \<longleftrightarrow> (pw_service_mode p \<longleftrightarrow> pw_service_timeout p \<noteq> None) \<and>
     (bm_advertising b \<longrightarrow> pw_service_mode p)"

text \<open>The bytes that stand for enumerations name one of their values.\<close>

definition status_typed :: "tag_status \<Rightarrow> bool" where
  "status_typed s \<longleftrightarrow> st_motion_state s \<in> range motion_state_code \<and>
     st_orientation s \<in> range orientation_code \<and>
     st_operating_mode s \<le> tag_mode_code TAG_MODE_SHIPPING \<and> st_tamper s \<le> 1"

definition tag_inv :: "pending_event list \<Rightarrow> ('f, 'n, 'b) device \<Rightarrow> bool" where
  "tag_inv ps d \<longleftrightarrow> config_in_force d \<and> counters_agree (dev_core d) \<and>
     status_typed (ac_status (dev_core d)) \<and> ac_pending (dev_core d) = ps \<and>
     gatt_awake (dev_gatt d) \<and> stream_awake (dev_stream d) \<and> window_ok (dev_power d) (dev_ble d)"

named_theorems keeps \<open>operations keep the invariant\<close>

subsection \<open>Counters\<close>

lemma counters_queue [simp]: "counters_agree (queue_event t sv v c) = counters_agree c"
  by (simp add: queue_event_def counters_agree_def)

lemma counters_queue_alarms [simp]: "counters_agree (fold queue_alarm es c) = counters_agree c"
  by (induction es arbitrary: c) (simp_all add: queue_alarm_def)

text \<open>Fields that are not counters.\<close>

lemma counters_frame [simp]:
  "counters_agree (c\<lparr>ac_pending := ps\<rparr>) = counters_agree c"
  "counters_agree (c\<lparr>ac_last_sample := s\<rparr>) = counters_agree c"
  "counters_agree (c\<lparr>ac_last_stats_flush := t\<rparr>) = counters_agree c"
  "counters_agree (c\<lparr>ac_state := st\<rparr>) = counters_agree c"
  "counters_agree (c\<lparr>ac_subscribers := subs\<rparr>) = counters_agree c"
  "counters_agree (with_status (st_alarm_flags_update f) c) = counters_agree c"
  "counters_agree (with_status (st_tamper_update g) c) = counters_agree c"
  "counters_agree (with_status (st_motion_state_update g) c) = counters_agree c"
  "counters_agree (with_status (st_orientation_update g) c) = counters_agree c"
  "counters_agree (with_status (st_operating_mode_update g) c) = counters_agree c"
  "counters_agree (with_status (st_last_movement_time_update h) c) = counters_agree c"
  "counters_agree (with_statistics (stat_motion_count_update h) c) = counters_agree c"
  "counters_agree (with_statistics (stat_sensor_faults_update f) c) = counters_agree c"
  "counters_agree (with_statistics (stat_min_battery_mv_update f) c) = counters_agree c"
  "counters_agree (with_statistics (stat_total_uptime_s_update h) c) = counters_agree c"
  "counters_agree (with_statistics (stat_boot_epoch_utc_update h) c) = counters_agree c"
  by (simp_all add: counters_agree_def with_status_def with_statistics_def)

text \<open>A counter that is changed in the status and copied to the statistics.\<close>

lemma counters_copied:
  assumes "counters_agree c"
  shows
    "counters_agree (with_statistics (stat_shock_count_update
       (\<lambda>_. st_shock_count (ac_status (with_status (st_shock_count_update h) c))))
       (with_status (st_shock_count_update h) c))"
    "counters_agree (with_statistics (stat_free_fall_count_update
       (\<lambda>_. st_free_fall_count (ac_status (with_status (st_free_fall_count_update h) c))))
       (with_status (st_free_fall_count_update h) c))"
    "counters_agree (with_statistics (stat_event_count_update
       (\<lambda>_. st_event_count (ac_status (with_status (st_event_count_update h) c))))
       (with_status (st_event_count_update h) c))"
    "counters_agree (with_statistics (stat_movement_duration_s_update
       (\<lambda>_. st_movement_duration_s (ac_status (with_status (st_movement_duration_s_update h) c))))
       (with_status (st_movement_duration_s_update h) c))"
    "counters_agree (with_statistics (stat_max_shock_mg_update (\<lambda>_. m))
       (with_status (st_max_shock_mg_update (\<lambda>_. m)) c))"
  using assms by (simp_all add: counters_agree_def with_status_def with_statistics_def)

lemma counters_motion_steps:
  assumes "counters_agree c"
  shows "counters_agree (apply_motion_start motion c)" "counters_agree (apply_motion_stop motion c)"
    "counters_agree (apply_shock motion c)" "counters_agree (apply_free_fall motion c)"
    "counters_agree (apply_orientation motion c)" "counters_agree (apply_tamper motion c)"
  using assms
  by (simp_all add: apply_motion_start_def apply_motion_stop_def apply_shock_def apply_free_fall_def
      apply_orientation_def apply_tamper_def Let_def counters_copied)

lemma counters_motion: "counters_agree c \<Longrightarrow> counters_agree (apply_motion_result motion c)"
  by (simp add: apply_motion_result_def Let_def counters_motion_steps)

lemma counters_thresholds:
  "counters_agree (check_thresholds data config expected c) = counters_agree c"
  by (simp add: check_thresholds_def Let_def split: prod.split)

lemma counters_process:
  "counters_agree c \<Longrightarrow> counters_agree (process_locked data motion config expected c)"
  by (simp add: process_locked_def Let_def counters_motion counters_thresholds)

subsection \<open>Enumerations\<close>

lemma typed_queue [simp]: "ac_status (queue_event t sv v c) = ac_status c"
  by (simp add: queue_event_def)

lemma typed_queue_alarms [simp]: "ac_status (fold queue_alarm es c) = ac_status c"
  by (induction es arbitrary: c) (simp_all add: queue_alarm_def)

lemma typed_with:
  "ac_status (with_status f c) = f (ac_status c)"
  "ac_status (with_statistics g c) = ac_status c"
  by (simp_all add: with_status_def with_statistics_def)

lemma typed_frame [simp]:
  "status_typed (st_alarm_flags_update h16 s) = status_typed s"
  "status_typed (st_max_shock_mg_update h16 s) = status_typed s"
  "status_typed (st_shock_count_update h s) = status_typed s"
  "status_typed (st_free_fall_count_update h s) = status_typed s"
  "status_typed (st_event_count_update h s) = status_typed s"
  "status_typed (st_movement_duration_s_update h s) = status_typed s"
  "status_typed (st_last_movement_time_update h s) = status_typed s"
  by (simp_all add: status_typed_def)

lemma typed_zero [simp]: "0 \<in> range motion_state_code" "0 \<in> range orientation_code"
  by (metis motion_state_code.simps(1) rangeI) (metis orientation_code.simps(1) rangeI)

lemma typed_tamper [simp]:
  "status_typed s \<Longrightarrow> status_typed (s\<lparr>st_tamper := 0\<rparr>)"
  "status_typed s \<Longrightarrow> status_typed (s\<lparr>st_tamper := 1\<rparr>)"
  by (simp_all add: status_typed_def)

lemma typed_motion_steps:
  assumes "status_typed (ac_status c)"
  shows "status_typed (ac_status (apply_motion_start motion c))"
    "status_typed (ac_status (apply_motion_stop motion c))"
    "status_typed (ac_status (apply_shock motion c))"
    "status_typed (ac_status (apply_free_fall motion c))"
    "status_typed (ac_status (apply_orientation motion c))"
    "status_typed (ac_status (apply_tamper motion c))"
  using assms
  by (simp_all add: apply_motion_start_def apply_motion_stop_def apply_shock_def apply_free_fall_def
      apply_orientation_def apply_tamper_def Let_def typed_with)

lemma typed_thresholds:
  "status_typed (ac_status (check_thresholds data config expected c)) = status_typed (ac_status c)"
  by (simp add: check_thresholds_def Let_def typed_with split: prod.split)

lemma typed_result:
  assumes "motion_manager_process data m = (data', motion, m')"
  shows "mr_motion_state motion \<in> range motion_state_code"
    "mr_orientation motion \<in> range orientation_code"
  using assms by (auto simp: motion_manager_process_def Let_def split: prod.splits if_splits)

lemma typed_process:
  assumes "status_typed (ac_status c)" and "app_config_validate config"
    and "mr_motion_state motion \<in> range motion_state_code"
    and "mr_orientation motion \<in> range orientation_code"
  shows "status_typed (ac_status (process_locked data' motion config expected c))"
proof -
  have "status_typed (ac_status (apply_motion_result motion c'))" if "ac_status c' = ac_status c" for c'
    using typed_motion_steps assms(1,3,4) that
    by (simp add: apply_motion_result_def Let_def typed_with) (simp add: status_typed_def typed_motion_steps)
  then have "status_typed (ac_status (check_thresholds data' config expected
      (apply_motion_result motion (c\<lparr>ac_last_sample := data'\<rparr>))))"
    by (simp add: typed_thresholds)
  then show ?thesis
    using assms(2) by (simp add: process_locked_def Let_def status_typed_def typed_with
        app_config_validate_def not_less)
qed

subsection \<open>Events and samples\<close>

lemma gatt_awake_on_event: "gatt_awake g \<Longrightarrow> gatt_awake (gatt_on_event r g)"
  by (auto simp: gatt_awake_def gatt_on_event_def msgq_put_def EVENT_QUEUE_LEN_def Let_def)

lemma gatt_awake_on_sensor: "gatt_awake g \<Longrightarrow> gatt_awake (gatt_on_sensor_data s g)"
  by (auto simp: gatt_awake_def gatt_on_sensor_data_def)

lemma gatt_awake_on_events: "gatt_awake (dev_gatt d) \<Longrightarrow> gatt_awake (dev_gatt (fold (on_event r) subs d))"
proof (induction subs arbitrary: d)
  case (Cons sub subs)
  then show ?case by (cases sub) (simp_all add: gatt_awake_on_event zb_schedule_publish_def)
qed simp

lemma gatt_awake_on_samples:
  "gatt_awake (dev_gatt d) \<Longrightarrow> gatt_awake (dev_gatt (fold (on_sensor_data s) subs d))"
proof (induction subs arbitrary: d)
  case (Cons sub subs)
  then show ?case by (cases sub) (simp_all add: gatt_awake_on_sensor zb_schedule_publish_def)
qed simp

text \<open>What an event leaves: its parts of the invariant hold when they did.\<close>

lemma raise_counters:
  "counters_agree (dev_core d) \<Longrightarrow> counters_agree (dev_core (snd (app_raise_event env t sv v d)))"
  by (simp add: app_raise_event_def Let_def frame counters_copied split: prod.split)

lemma raise_typed:
  "status_typed (ac_status (dev_core (snd (app_raise_event env t sv v d)))) =
     status_typed (ac_status (dev_core d))"
  by (simp add: app_raise_event_def Let_def frame typed_with split: prod.split)

lemma raise_pendings_typed:
  "status_typed (ac_status (dev_core (fold (raise_pending env) ps d))) =
     status_typed (ac_status (dev_core d))"
  by (induction ps arbitrary: d) (simp_all add: raise_pending_def raise_typed)

lemma drain_typed:
  "status_typed (ac_status (dev_core (drain_pending_events env d))) =
     status_typed (ac_status (dev_core d))"
  by (simp add: drain_pending_events_def Let_def raise_pendings_typed)

lemma raise_gatt:
  "gatt_awake (dev_gatt d) \<Longrightarrow> gatt_awake (dev_gatt (snd (app_raise_event env t sv v d)))"
  by (simp add: app_raise_event_def Let_def frame gatt_awake_on_events split: prod.split)

lemma raise_inv [keeps]: "tag_inv ps d \<Longrightarrow> tag_inv ps (snd (app_raise_event env t sv v d))"
  by (simp add: tag_inv_def config_in_force_def frame raise_counters raise_typed raise_gatt)

lemma raise_event_inv [keeps]: "tag_inv ps d \<Longrightarrow> tag_inv ps (raise_event env t sv v d)"
  by (simp add: raise_event_def raise_inv)

lemma raise_pendings:
  "counters_agree (dev_core d) \<Longrightarrow> counters_agree (dev_core (fold (raise_pending env) ps d))"
  "gatt_awake (dev_gatt d) \<Longrightarrow> gatt_awake (dev_gatt (fold (raise_pending env) ps d))"
  by (induction ps arbitrary: d) (simp_all add: raise_pending_def raise_counters raise_gatt)

lemma drain_parts:
  "counters_agree (dev_core d) \<Longrightarrow> counters_agree (dev_core (drain_pending_events env d))"
  "gatt_awake (dev_gatt d) \<Longrightarrow> gatt_awake (dev_gatt (drain_pending_events env d))"
  by (simp_all add: drain_pending_events_def Let_def raise_pendings)

lemma flush_inv [keeps]: "tag_inv ps d \<Longrightarrow> tag_inv ps (app_state_flush_statistics env d)"
  by (simp add: tag_inv_def config_in_force_def frame)

lemma led_set_inv [keeps]: "tag_inv ps d \<Longrightarrow> tag_inv ps (led_set s on d)"
  by (simp add: tag_inv_def config_in_force_def frame)

lemma process_sample_inv [keeps]:
  assumes "tag_inv [] d"
  shows "tag_inv [] (app_process_sensor_data env data d)"
proof -
  obtain data' motion mm where proc: "motion_manager_process data (dev_motion d) = (data', motion, mm)"
    by (metis prod_cases3)
  then have mm: "mm_config mm = mm_config (dev_motion d)"
    using mm_config_process [of data "dev_motion d"] by simp
  show ?thesis
    using assms
    by (simp add: app_process_sensor_data_def proc Let_def tag_inv_def config_in_force_def frame mm
        drain_parts drain_typed counters_process typed_process [OF _ _ typed_result [OF proc]] app_config_get_def
        gatt_awake_on_samples split: prod.split)
qed

subsection \<open>Configuration and application state\<close>

text \<open>Fields the invariant does not look at.\<close>

lemma tag_inv_frame [simp]:
  "tag_inv ps (d\<lparr>dev_uptime_s := t\<rparr>) = tag_inv ps d"
  "tag_inv ps (d\<lparr>dev_events := lf\<rparr>) = tag_inv ps d"
  "tag_inv ps (d\<lparr>dev_sensors := lf\<rparr>) = tag_inv ps d"
  "tag_inv ps (d\<lparr>dev_store := cs\<rparr>) = tag_inv ps d"
  "tag_inv ps (d\<lparr>dev_nvs := nvs\<rparr>) = tag_inv ps d"
  "tag_inv ps (d\<lparr>dev_command := cmd\<rparr>) = tag_inv ps d"
  "tag_inv ps (d\<lparr>dev_bt := bt\<rparr>) = tag_inv ps d"
  "tag_inv ps (d\<lparr>dev_zigbee := zb\<rparr>) = tag_inv ps d"
  "tag_inv ps (d\<lparr>dev_watchdog := w\<rparr>) = tag_inv ps d"
  "tag_inv ps (d\<lparr>dev_rebooting := b\<rparr>) = tag_inv ps d"
  "tag_inv ps (dev_feed n d) = tag_inv ps d"
  "tag_inv ps (d\<lparr>dev_power := (dev_power d)\<lparr>pw_sample_now := b\<rparr>\<rparr>) = tag_inv ps d"
  "tag_inv ps (d\<lparr>dev_power := (dev_power d)\<lparr>pw_motion_pending := b\<rparr>\<rparr>) = tag_inv ps d"
  by (simp_all add: tag_inv_def config_in_force_def window_ok_def dev_feed_def)

lemma tag_inv_core [simp]:
  "tag_inv ps (d\<lparr>dev_core := (dev_core d)\<lparr>ac_state := st\<rparr>\<rparr>) = tag_inv ps d"
  "tag_inv ps (d\<lparr>dev_core := (dev_core d)\<lparr>ac_subscribers := subs\<rparr>\<rparr>) = tag_inv ps d"
  "tag_inv ps (d\<lparr>dev_core := with_statistics (stat_boot_epoch_utc_update h) (dev_core d)\<rparr>) = tag_inv ps d"
  by (auto simp: tag_inv_def config_in_force_def with_statistics_def
      counters_frame(16) [unfolded with_statistics_def])

lemma led_inv_frame [keeps]:
  "tag_inv ps d \<Longrightarrow> led_enabled l = led_enabled (dev_led d) \<Longrightarrow> tag_inv ps (d\<lparr>dev_led := l\<rparr>)"
  by (simp add: tag_inv_def config_in_force_def)

lemma app_config_set_inv [keeps]:
  assumes "tag_inv ps d"
  shows "tag_inv ps (snd (app_config_set env cfg d))"
proof -
  obtain err d' where set: "app_config_set env cfg d = (err, d')" by fastforce
  from app_config_set_state [OF set] assms show ?thesis
    by (auto simp: set tag_inv_def window_ok_def split: if_splits)
qed

lemma config_changed_inv [keeps]: "tag_inv ps d \<Longrightarrow> tag_inv ps (power_manager_config_changed d)"
  by (simp add: power_manager_config_changed_def)

lemma app_state_set_inv [keeps]: "tag_inv ps d \<Longrightarrow> tag_inv ps (app_state_set st d)"
  by (simp add: app_state_set_def)

lemma subscribe_inv [keeps]: "tag_inv ps d \<Longrightarrow> tag_inv ps (app_state_subscribe sub d)"
  by (simp add: app_state_subscribe_def split: option.split)

lemma set_time_inv [keeps]: "tag_inv ps d \<Longrightarrow> tag_inv ps (snd (app_state_set_time_utc env utc d))"
  by (simp add: app_state_set_time_utc_def Let_def keeps)

lemma app_config_set_inv_dest:
  "app_config_set env cfg d = (err, d') \<Longrightarrow> tag_inv ps d \<Longrightarrow> tag_inv ps d'"
  by (metis app_config_set_inv snd_conv)

lemma snapshot_inv [keeps]:
  "tag_inv ps d \<Longrightarrow> tag_inv ps (snd (snd (app_state_snapshot_gas_baseline env d)))"
  by (auto simp: app_state_snapshot_gas_baseline_def Let_def split: prod.split
      intro!: raise_event_inv dest: app_config_set_inv_dest)

lemma reset_counters_inv [keeps]:
  assumes "tag_inv ps d"
  shows "tag_inv ps (app_state_reset_counters env d)"
proof -
  have "tag_inv ps (d\<lparr>dev_core := core_reset_counters (dev_core d),
                  dev_motion := motion_manager_clear_tamper (dev_motion d)\<rparr>)"
    using assms
    by (simp add: tag_inv_def config_in_force_def counters_agree_def core_reset_counters_def
        motion_manager_clear_tamper_def)
  then show ?thesis by (simp add: app_state_reset_counters_def Let_def keeps)
qed

lemma clear_logs_inv [keeps]:
  "tag_inv ps d \<Longrightarrow> clear_event_log env d = Some (err, d') \<Longrightarrow> tag_inv ps d'"
  "tag_inv ps d \<Longrightarrow> clear_sensor_log env d = Some (err, d') \<Longrightarrow> tag_inv ps d'"
  by (auto simp: clear_event_log_def clear_sensor_log_def split: option.splits)

lemma factory_reset_inv:
  assumes inv: "tag_inv ps d" and reset: "app_state_factory_reset env d = Some d'"
  shows "tag_inv ps d'"
proof -
  let ?d0 = "raise_event env EVENT_FACTORY_RESET EVENT_SEVERITY_WARNING 0 (led_set LED_STATE_ALARM True d)"
  obtain e1 d1 where d1: "clear_event_log env ?d0 = Some (e1, d1)"
    using reset by (auto simp: factory_reset_defs Let_def split: option.splits)
  obtain e2 d2 where d2: "clear_sensor_log env d1 = Some (e2, d2)"
    using reset by (auto simp: factory_reset_defs d1 Let_def split: option.splits)
  have "tag_inv ps ?d0" by (intro raise_event_inv led_set_inv inv)
  then have "tag_inv ps d1" by (rule clear_logs_inv(1) [OF _ d1])
  then have "tag_inv ps d2" by (rule clear_logs_inv(2) [OF _ d2])
  then show ?thesis
    using reset
    by (auto simp: factory_reset_defs d1 d2 Let_def app_config_reset_def
        split: prod.splits dest!: app_config_set_inv_dest)
qed

subsection \<open>Bluetooth\<close>

lemma gatt_notify_inv [keeps]: "tag_inv ps d \<Longrightarrow> tag_inv ps (snd (gatt_notify env which data d))"
  by (simp add: gatt_notify_def split: prod.split)

lemma ccc_inv [keeps]: "tag_inv ps d \<Longrightarrow> tag_inv ps (ccc_write which v d)"
  by (simp add: ccc_write_def ccc_changed_def tag_inv_def config_in_force_def gatt_awake_def)

lemma notify_events_leaves:
  "notify_events nt g q bt = (q', again, bt') \<Longrightarrow> length q \<le> EVENT_QUEUE_LEN \<Longrightarrow>
     length q' \<le> EVENT_QUEUE_LEN \<and> (q' \<noteq> [] \<longrightarrow> again)"
  by (induction q arbitrary: bt) (auto simp: msgq_put_def split: prod.splits if_splits)

lemma notify_work_awake:
  "notify_work_fn nt st (g\<lparr>bg_notify_work := False\<rparr>) bt = (g', bt') \<Longrightarrow>
     length (bg_event_queue g) \<le> EVENT_QUEUE_LEN \<Longrightarrow> gatt_awake g'"
  by (auto simp: notify_work_fn_def gatt_awake_def Let_def split: prod.splits
      dest!: notify_events_leaves)

lemma notify_work_inv [keeps]: "tag_inv ps d \<Longrightarrow> tag_inv ps (run_notify_work env d)"
  by (auto simp: run_notify_work_def tag_inv_def config_in_force_def gatt_awake_def split: prod.split
      dest!: notify_work_awake)

lemma stream_work_awake:
  "stream_work_fn subscribed read notify (sm\<lparr>sm_work := None\<rparr>) bt = (sent, sm', bt') \<Longrightarrow> stream_awake sm'"
  by (auto simp: stream_work_fn_def stream_awake_def Let_def split: prod.splits if_splits)

lemma stream_work_inv [keeps]: "tag_inv ps d \<Longrightarrow> tag_inv ps (run_stream_work env d)"
  by (auto simp: run_stream_work_def tag_inv_def config_in_force_def dev_feed_def Let_def
      split: prod.split dest!: stream_work_awake)

lemma log_control_awake:
  "ble_log_write_control subscribed si ei buf offset sm = (r, sm') \<Longrightarrow> stream_awake sm \<Longrightarrow>
     stream_awake sm'"
  by (auto simp: ble_log_write_control_def ble_log_handle_request_def ble_log_abort_def
      stream_awake_def Let_def split: prod.splits if_splits)

lemma log_control_inv [keeps]: "tag_inv ps d \<Longrightarrow> tag_inv ps (snd (log_write_control env buf offset d))"
  by (auto simp: log_write_control_def tag_inv_def config_in_force_def split: prod.split
      dest!: log_control_awake)

lemma log_abort_inv [keeps]: "tag_inv ps d \<Longrightarrow> tag_inv ps (log_abort d)"
  by (simp add: log_abort_def ble_log_abort_def tag_inv_def config_in_force_def stream_awake_def)

subsection \<open>The service window\<close>

text \<open>
  Opening and closing the window goes through states in which the window part of the invariant
  does not hold; the rest does, and only depends on these fields.
\<close>

definition tag_base :: "pending_event list \<Rightarrow> ('f, 'n, 'b) device \<Rightarrow> bool" where
  "tag_base ps d \<longleftrightarrow> config_in_force d \<and> counters_agree (dev_core d) \<and>
     status_typed (ac_status (dev_core d)) \<and> ac_pending (dev_core d) = ps \<and>
     gatt_awake (dev_gatt d) \<and> stream_awake (dev_stream d)"

lemma tag_inv_base: "tag_inv ps d \<longleftrightarrow> tag_base ps d \<and> window_ok (dev_power d) (dev_ble d)"
  by (auto simp: tag_inv_def tag_base_def)

lemma tag_base_frame [simp]:
  "tag_base ps (d\<lparr>dev_power := p\<rparr>) = tag_base ps d"
  "tag_base ps (d\<lparr>dev_ble := b\<rparr>) = tag_base ps d"
  "tag_base ps (d\<lparr>dev_bt := bt\<rparr>) = tag_base ps d"
  "tag_base ps (led_set s on d) = tag_base ps d"
  "tag_base ps (app_state_set st d) = tag_base ps d"
  "tag_base ps (ble_manager_update_adv_data env d) = tag_base ps d"
  by (simp_all add: tag_base_def config_in_force_def frame app_state_set_def
      ble_manager_update_adv_data_def Let_def split: prod.split)

lemma app_state_set_frame [frame]:
  "dev_power (app_state_set st d) = dev_power d" "dev_ble (app_state_set st d) = dev_ble d"
  by (simp_all add: app_state_set_def)

lemma start_advertising_result:
  assumes "ble_manager_start_advertising env d = (err, d')"
  shows "dev_power d' = dev_power d" "tag_base ps d' = tag_base ps d"
    "bm_advertising (dev_ble d') \<longleftrightarrow> bm_advertising (dev_ble d) \<or> err = 0"
    "bm_connected (dev_ble d') = bm_connected (dev_ble d)"
  using assms
  by (auto simp: ble_manager_start_advertising_def ble_manager_update_adv_data_def EAGAIN_def Let_def
      frame split: prod.splits if_splits)

lemma stop_advertising_result:
  "dev_power (ble_manager_stop_advertising env d) = dev_power d"
  "tag_base ps (ble_manager_stop_advertising env d) = tag_base ps d"
  "\<not> bm_advertising (dev_ble (ble_manager_stop_advertising env d))"
  by (simp_all add: ble_manager_stop_advertising_def Let_def frame)

lemma update_adv_inv [keeps]: "tag_inv ps d \<Longrightarrow> tag_inv ps (ble_manager_update_adv_data env d)"
  by (simp add: tag_inv_base)
    (auto simp: ble_manager_update_adv_data_def window_ok_def Let_def split: prod.split)

lemma connected_inv [keeps]:
  assumes "tag_inv ps d"
  shows "tag_inv ps (ble_connected env err d)"
proof -
  have "tag_inv ps (d\<lparr>dev_ble := (dev_ble d)\<lparr>bm_connected := True\<rparr>\<rparr>)"
    using assms by (auto simp: tag_inv_base window_ok_def)
  then have "tag_inv ps (raise_event env EVENT_BLE_CONNECTED EVENT_SEVERITY_INFO 0
      (led_set LED_STATE_BLE_ADVERTISING False (d\<lparr>dev_ble := (dev_ble d)\<lparr>bm_connected := True\<rparr>\<rparr>)))"
    by (intro raise_event_inv led_set_inv)
  with assms show ?thesis by (simp add: ble_connected_def Let_def)
qed

lemma disconnected_inv [keeps]:
  assumes "tag_inv ps d"
  shows "tag_inv ps (ble_disconnected env d)"
proof -
  let ?d = "log_abort (d\<lparr>dev_gatt := ble_gatt_reset_subscriptions (dev_gatt d)\<rparr>)"
  have base: "tag_base ps ?d" "window_ok (dev_power ?d) (dev_ble ?d)"
    using assms
    by (simp_all add: tag_inv_def tag_base_def config_in_force_def log_abort_def ble_log_abort_def
        stream_awake_def ble_gatt_reset_subscriptions_def gatt_awake_def)
  let ?off = "?d\<lparr>dev_ble := (dev_ble ?d)\<lparr>bm_connected := False, bm_advertising := False\<rparr>\<rparr>"
  obtain err d' where start: "ble_manager_start_advertising env ?off = (err, d')" by fastforce
  show ?thesis
    using base start_advertising_result [OF start]
    by (auto simp: ble_disconnected_def Let_def tag_inv_base window_ok_def start)
qed

lemma request_service_inv [keeps]:
  assumes "tag_inv ps d"
  shows "tag_inv ps (power_manager_request_service_mode env d)"
proof (cases "pw_service_mode (dev_power d)")
  case True
  then show ?thesis
    using assms by (simp add: power_manager_request_service_mode_def tag_inv_base window_ok_def)
next
  case False
  obtain err d' where start: "ble_manager_start_advertising env
      (d\<lparr>dev_power := (dev_power d)\<lparr>pw_service_mode := True\<rparr>\<rparr>) = (err, d')"
    by fastforce
  have "\<not> bm_advertising (dev_ble d)" "pw_service_timeout (dev_power d) = None"
    using assms False by (simp_all add: tag_inv_base window_ok_def)
  with start_advertising_result [OF start] False assms show ?thesis
    by (auto simp: power_manager_request_service_mode_def start Let_def tag_inv_base window_ok_def frame)
qed

lemma end_service_inv:
  assumes "tag_base ps d" and "bm_advertising (dev_ble d) \<Longrightarrow> pw_service_mode (dev_power d)"
    and "\<not> pw_service_mode (dev_power d) \<Longrightarrow> pw_service_timeout (dev_power d) = None"
  shows "tag_inv ps (power_manager_end_service_mode env d)"
  using assms
  by (auto simp: power_manager_end_service_mode_def tag_inv_base window_ok_def Let_def
      stop_advertising_result frame)

lemma service_timeout_inv [keeps]: "tag_inv ps d \<Longrightarrow> tag_inv ps (service_timeout_fn env d)"
  unfolding service_timeout_fn_def
  by (rule end_service_inv) (auto simp: tag_inv_base window_ok_def)


subsection \<open>Commands and Zigbee\<close>

lemma send_response_inv [keeps]: "tag_inv ps d \<Longrightarrow> tag_inv ps (send_response env op st payload d)"
  by (simp add: send_response_def gatt_notify_inv)

lemma finish_command_inv: "tag_inv ps d \<Longrightarrow> tag_inv ps (finish_command env op err d)"
  by (simp add: finish_command_def send_response_inv)

lemma set_mode_inv_dest: "app_config_set_mode env m d = (err, d') \<Longrightarrow> tag_inv ps d \<Longrightarrow> tag_inv ps d'"
  by (auto simp: app_config_set_mode_def dest: app_config_set_inv_dest)

lemma set_time_inv_dest: "app_state_set_time_utc env t d = (err, d') \<Longrightarrow> tag_inv ps d \<Longrightarrow> tag_inv ps d'"
  using set_time_inv [of ps d env t] by simp

lemma snapshot_inv_dest:
  "app_state_snapshot_gas_baseline env d = (err, t, d') \<Longrightarrow> tag_inv ps d \<Longrightarrow> tag_inv ps d'"
  using snapshot_inv [of ps d env] by simp

lemma identify_inv: "tag_inv ps d \<Longrightarrow> tag_inv ps (d\<lparr>dev_led := led_manager_identify n (dev_led d)\<rparr>)"
  by (rule led_inv_frame) (simp_all add: frame)

text \<open>One lemma per way out of the dispatch.\<close>

lemma command_work_inv:
  assumes "tag_inv ps d" "command_work_fn env d = Some d'"
  shows "tag_inv ps d'"
proof -
  have "tag_inv ps (dev_feed 1 d)" "tag_inv ps (log_abort (dev_feed 1 d))"
    using assms(1) by (simp_all add: log_abort_inv)
  with assms(2) show ?thesis
    by (auto simp: command_work_fn_def Let_def power_manager_sample_now_def
        split: if_splits option.splits prod.splits simp del: One_nat_def tag_inv_frame(11)
        intro!: finish_command_inv send_response_inv reset_counters_inv flush_inv identify_inv
        dest: set_mode_inv_dest set_time_inv_dest snapshot_inv_dest clear_logs_inv
        intro: factory_reset_inv)
qed

lemma config_write_inv: "tag_inv ps d \<Longrightarrow> tag_inv ps (snd (ble_config_write env buf offset d))"
  by (auto simp: ble_config_write_def Let_def split: prod.split
      intro!: raise_event_inv dest: app_config_set_inv_dest)

lemma publish_inv [keeps]: "tag_inv ps d \<Longrightarrow> tag_inv ps (run_publish env d)"
  by (simp add: run_publish_def publish_attributes_def Let_def split: prod.split)

lemma zcl_apply_inv: "tag_inv ps d \<Longrightarrow> tag_inv ps (snd (zcl_apply_config env config d))"
  by (auto simp: zcl_apply_config_def split: prod.split
      intro!: raise_event_inv config_changed_inv dest: app_config_set_inv_dest)

lemma zcl_inv: "tag_inv ps d \<Longrightarrow> tag_inv ps (snd (zcl_device_cb env w d))"
  by (auto simp: zcl_device_cb_def Let_def zcl_apply_inv split: option.split prod.split
      dest: set_time_inv_dest)

lemma signal_inv [keeps]: "tag_inv ps d \<Longrightarrow> tag_inv ps (zboss_signal_handler env sig ok d)"
  by (cases sig) (simp_all add: zboss_signal_handler_def zboss_commissioned_def zboss_left_def
      Let_def led_set_inv raise_event_inv)

lemma fota_inv [keeps]: "tag_inv ps d \<Longrightarrow> tag_inv ps (fota_evt_handler env evt d)"
  by (cases evt) (simp_all add: fota_evt_handler_def Let_def led_set_inv raise_event_inv flush_inv)

lemma sampling_inv [keeps]: "tag_inv [] d \<Longrightarrow> tag_inv [] (take_sample_now (sampling_round env hw d))"
  by (simp add: take_sample_now_def sampling_round_def Let_def process_sample_inv)

subsection \<open>Every reachable state\<close>

lemma power_flags_inv:
  "tag_inv ps d \<Longrightarrow> tag_inv ps (motion_trigger_fn d)"
  "tag_inv ps d \<Longrightarrow> tag_inv ps (power_manager_sample_now d)"
  by (auto simp: motion_trigger_fn_def power_manager_sample_now_def tag_inv_base window_ok_def)

lemma command_write_inv: "tag_inv ps d \<Longrightarrow> tag_inv ps (snd (ble_config_write_command buf offset d))"
  by (simp add: ble_config_write_command_def)

lemma identify_cb_inv: "tag_inv ps d \<Longrightarrow> tag_inv ps (identify_cb b d)"
  by (simp add: identify_cb_def identify_inv led_set_inv)

lemma led_timer_inv:
  "tag_inv ps d \<Longrightarrow> tag_inv ps (d\<lparr>dev_led := blink_work_fn ((dev_led d)\<lparr>led_blink_work := None\<rparr>)\<rparr>)"
  "tag_inv ps d \<Longrightarrow> tag_inv ps (d\<lparr>dev_led := identify_timeout_fn ((dev_led d)\<lparr>led_identify_work := None\<rparr>)\<rparr>)"
  by (rule led_inv_frame; simp add: frame)+

lemma handle_inv:
  assumes "tag_inv ps d" and "handle env e d = Some d'" and "\<And>hw. e = Sample hw \<Longrightarrow> ps = []"
  shows "tag_inv ps d'"
proof (cases e)
  case Command_Work
  then show ?thesis
    using assms command_work_inv [of ps "d\<lparr>dev_command := (dev_command d)\<lparr>bc_work := False\<rparr>\<rparr>"]
    by (auto simp: run_command_work_def split: if_splits)
next
  case Factory_Reset_Work
  then show ?thesis using assms by (auto simp: factory_reset_work_fn_def intro: factory_reset_inv)
qed (use assms in \<open>auto simp: button_press_work_fn_def sampling_inv notify_work_inv stream_work_inv
    service_timeout_inv publish_inv request_service_inv connected_inv disconnected_inv ccc_inv
    config_write_inv command_write_inv log_control_inv zcl_inv signal_inv identify_cb_inv fota_inv
    power_flags_inv led_timer_inv\<close>)

subsection \<open>Startup\<close>

lemma tag_inv_cong:
  "dev_config d' = dev_config d \<Longrightarrow> dev_motion d' = dev_motion d \<Longrightarrow> dev_led d' = dev_led d \<Longrightarrow>
   dev_core d' = dev_core d \<Longrightarrow> dev_gatt d' = dev_gatt d \<Longrightarrow> dev_stream d' = dev_stream d \<Longrightarrow>
   dev_power d' = dev_power d \<Longrightarrow> bm_advertising (dev_ble d') = bm_advertising (dev_ble d) \<Longrightarrow>
   tag_inv ps d' = tag_inv ps d"
  by (simp add: tag_inv_def config_in_force_def window_ok_def)

lemma main_application_inv:
  assumes "ac_pending (dev_core d) = []" "status_typed (ac_status (dev_core d))" "gatt_awake (dev_gatt d)" "stream_awake (dev_stream d)"
    "window_ok (dev_power d) (dev_ble d)"
  shows "tag_inv [] (main_application env d)"
  unfolding main_application_def Let_def
  by (rule raise_event_inv)
    (use assms in \<open>simp add: tag_inv_def config_in_force_def app_config_init_def app_state_init_def
       app_config_get_def core_init_def counters_agree_def status_typed_def motion_manager_init_def
       Let_def\<close>)

lemma ble_manager_init_inv: "tag_inv ps d \<Longrightarrow> tag_inv ps (snd (ble_manager_init env d))"
proof -
  assume inv: "tag_inv ps d"
  let ?d = "app_state_subscribe (Some BLE_SUBSCRIBER) d\<lparr>dev_stream := ble_log_init\<rparr>"
  have "tag_inv ps (app_state_subscribe (Some BLE_SUBSCRIBER) d)" using inv by (rule subscribe_inv)
  then have "tag_inv ps ?d"
    by (simp add: tag_inv_def config_in_force_def stream_awake_def ble_log_init_def)
  moreover have "tag_inv ps e \<Longrightarrow> tag_inv ps ((set_device_name env e)\<lparr>dev_ble :=
      (dev_ble (set_device_name env e))\<lparr>bm_stack_ready := True\<rparr>\<rparr>)" for e :: "('a, 'b, 'c) device"
    by (subst tag_inv_cong [of _ e])
      (simp_all add: set_device_name_def Let_def split: list.split prod.split)
  ultimately show ?thesis
    by (auto simp: ble_manager_init_def ble_gatt_init_ok ble_config_init_def Let_def split: prod.split)
qed

lemma zigbee_manager_init_inv: "tag_inv ps d \<Longrightarrow> tag_inv ps (snd (zigbee_manager_init env d))"
  by (auto simp: zigbee_manager_init_def Let_def intro!: led_set_inv subscribe_inv)

lemma power_manager_start_inv: "tag_inv ps d \<Longrightarrow> tag_inv ps (power_manager_start d)"
proof -
  assume "tag_inv ps d"
  then have "tag_inv ps (d\<lparr>dev_power := (dev_power d)\<lparr>pw_started := True\<rparr>\<rparr>)"
    by (auto simp: tag_inv_base window_ok_def)
  with \<open>tag_inv ps d\<close> show ?thesis by (simp add: power_manager_start_def app_state_set_inv)
qed

lemma main_inv: "tag_inv [] (tag_main env hw (device_at_reset env pe ps fe fs nvs bt))"
proof -
  have "tag_inv [] (main_application env (main_storage env hw (device_at_reset env pe ps fe fs nvs bt)))"
    by (rule main_application_inv)
      (simp_all add: main_storage_def device_at_reset_def app_core_boot_def tag_status_zero_def
        status_typed_def app_state_set_def
        ble_gatt_boot_def gatt_awake_def ble_log_init_def stream_awake_def power_manager_boot_def
        ble_manager_boot_def window_ok_def Let_def)
  then show ?thesis
    by (simp add: tag_main_def main_stacks_def Let_def app_state_set_inv ble_manager_init_inv
        zigbee_manager_init_inv power_manager_start_inv request_service_inv)
qed

lemma reach_inv: "tag_reach env d \<Longrightarrow> tag_inv [] d"
  by (induction rule: tag_reach.induct) (auto simp: main_inv elim: tag_stepE handle_inv)

end
