(* ===== verification/Motion_Sections.thy ===== *)
theory Motion_Sections
  imports Motion_Manager
begin

section \<open>A motion sample, preempted\<close>

text \<open>
  \<open>motion_manager_process\<close> of \<open>src/motion/motion_manager.c\<close> takes no lock and reads the thresholds
  three times: for the shock detector, for the motion classifier and for the motion timeout. The
  thread it runs in can be preempted by one that changes the configuration
  (\<open>motion_manager_update_config\<close>) or clears the tamper flag, so it is cut here before each of these
  reads and before it looks at the tamper flag.
\<close>

subsection \<open>The sections\<close>

definition no_motion :: motion_result where
  "no_motion = \<lparr> mr_events = 0, mr_shock_mg = 0, mr_orientation = 0, mr_motion_state = 0,
     mr_movement_duration_s = 0 \<rparr>"

text \<open>Up to the shock detector: whether the tag had been at rest, and whether it was struck.\<close>

definition motion_strike ::
  "sensor_data \<Rightarrow> motion_manager \<Rightarrow> bool \<times> bool \<times> sensor_data \<times> motion_result \<times> motion_manager" where
  "motion_strike d m =
     (let was_settled = (mm_state m = MOTION_STATE_STATIONARY \<and>
                         sd_timestamp d - mm_stationary_since m \<ge> TAMPER_SETTLED_S) in
      case shock_detector_process d (cfg_shock_threshold_mg (mm_config m))
             (cfg_free_fall_threshold_mg (mm_config m)) (mm_shock m) of (shock, det) \<Rightarrow>
      case motion_impulses shock d no_motion of (d, r) \<Rightarrow>
        (was_settled, shr_shock shock, d, r, m\<lparr>mm_shock := det\<rparr>))"

text \<open>The classifier's verdict, with the threshold of this moment.\<close>

definition motion_judge :: "sensor_data \<Rightarrow> motion_manager \<Rightarrow> bool" where
  "motion_judge d m = motion_classifier_is_active d (cfg_motion_threshold_mg (mm_config m))"

text \<open>The motion state, with the timeout of this moment.\<close>

definition motion_move ::
  "bool \<Rightarrow> sensor_data \<Rightarrow> motion_result \<Rightarrow> motion_manager \<Rightarrow> motion_result \<times> motion_manager" where
  "motion_move active d r m =
     (let now = sd_timestamp d in
      if active then
        let m = m\<lparr>mm_last_active_time := now\<rparr> in
        if mm_state m = MOTION_STATE_STATIONARY
        then (r\<lparr>mr_events := mr_events r OR MOTION_EVENT_START\<rparr>,
              m\<lparr>mm_state := MOTION_STATE_MOVING, mm_motion_started_time := now\<rparr>)
        else (r, m)
      else if mm_state m = MOTION_STATE_MOVING \<and>
              now - mm_last_active_time m \<ge> ucast (cfg_motion_timeout_s (mm_config m)) then
        let duration = mm_last_active_time m - mm_motion_started_time m in
        (r\<lparr>mr_events := mr_events r OR MOTION_EVENT_STOP, mr_movement_duration_s := duration\<rparr>,
         m\<lparr>mm_state := MOTION_STATE_STATIONARY, mm_stationary_since := now,
           mm_total_movement_s := mm_total_movement_s m + duration\<rparr>)
      else (r, m))"

text \<open>The orientation and the tamper flag, and the end.\<close>

definition motion_turn ::
  "sensor_data \<Rightarrow> bool \<Rightarrow> bool \<Rightarrow> motion_result \<Rightarrow> motion_manager \<Rightarrow>
   sensor_data \<times> motion_result \<times> motion_manager" where
  "motion_turn d was_settled shock r m =
     (let d = d\<lparr>sd_motion := (mm_state m = MOTION_STATE_MOVING)\<rparr> in
      case motion_orientation_step d was_settled shock r m of (r, m) \<Rightarrow>
        (d\<lparr>sd_orientation := orientation_code (mm_orientation m)\<rparr>,
         r\<lparr>mr_orientation := orientation_code (mm_orientation m),
           mr_motion_state := motion_state_code (mm_state m)\<rparr>, m))"

subsection \<open>Undisturbed\<close>

lemma state_step_sections:
  "motion_state_step d r m = motion_move (motion_judge d m) d r m"
  by (simp add: motion_state_step_def motion_move_def motion_judge_def)

lemma process_sections:
  assumes "accel_valid d"
  shows "motion_manager_process d m =
    (case motion_strike d m of (ws, sh, d, r, m) \<Rightarrow>
     case motion_move (motion_judge d m) d r m of (r, m) \<Rightarrow> motion_turn d ws sh r m)"
  using assms
  by (simp add: motion_manager_process_def motion_strike_def motion_turn_def no_motion_def
      state_step_sections [symmetric] Let_def case_prod_beta)

subsection \<open>With the configuration changing in between\<close>

text \<open>
  The configuration a sample was judged by, when \<open>c2\<close> was in force at the second read and \<open>c3\<close> at
  the third.
\<close>

definition judged_by :: "tag_config \<Rightarrow> tag_config \<Rightarrow> tag_config \<Rightarrow> tag_config" where
  "judged_by c1 c2 c3 = c1\<lparr>cfg_motion_threshold_mg := cfg_motion_threshold_mg c2,
     cfg_motion_timeout_s := cfg_motion_timeout_s c3\<rparr>"

definition process_while_configured ::
  "tag_config \<Rightarrow> tag_config \<Rightarrow> tag_config \<Rightarrow> sensor_data \<Rightarrow> motion_manager \<Rightarrow>
   sensor_data \<times> motion_result \<times> motion_manager" where
  "process_while_configured c2 c3 c4 d m =
     (case motion_strike d m of (ws, sh, d, r, m) \<Rightarrow>
      let m = motion_manager_update_config c2 m; active = motion_judge d m;
          m = motion_manager_update_config c3 m in
      case motion_move active d r m of (r, m) \<Rightarrow>
        motion_turn d ws sh r (motion_manager_update_config c4 m))"

lemma strike_config:
  assumes "cfg_shock_threshold_mg c = cfg_shock_threshold_mg (mm_config m)"
    and "cfg_free_fall_threshold_mg c = cfg_free_fall_threshold_mg (mm_config m)"
  shows "motion_strike d (m\<lparr>mm_config := c\<rparr>) =
    (case motion_strike d m of (ws, sh, d, r, m) \<Rightarrow> (ws, sh, d, r, m\<lparr>mm_config := c\<rparr>))"
  using assms by (simp add: motion_strike_def Let_def split: prod.split)

lemma move_config:
  assumes "cfg_motion_timeout_s c = cfg_motion_timeout_s (mm_config m)"
  shows "motion_move active d r (m\<lparr>mm_config := c\<rparr>) =
    (case motion_move active d r m of (r, m) \<Rightarrow> (r, m\<lparr>mm_config := c\<rparr>))"
  using assms by (simp add: motion_move_def Let_def)

lemma turn_config:
  "motion_turn d ws sh r (m\<lparr>mm_config := c\<rparr>) =
    (case motion_turn d ws sh r m of (d, r, m) \<Rightarrow> (d, r, m\<lparr>mm_config := c\<rparr>))"
  by (simp add: motion_turn_def motion_orientation_step_def Let_def)

lemma section_configs:
  "motion_strike d m = (ws, sh, d', r, m') \<Longrightarrow> mm_config m' = mm_config m"
  "motion_move active d r m = (r', m') \<Longrightarrow> mm_config m' = mm_config m"
  "motion_turn d ws sh r m = (d', r', m') \<Longrightarrow> mm_config m' = mm_config m"
  by (auto simp: motion_strike_def motion_move_def motion_turn_def motion_orientation_step_def Let_def
      split: prod.splits if_splits)

text \<open>
  The outcome is that of an undisturbed sample under a configuration that takes each threshold from
  the one in force when it was read.
\<close>

lemma process_while_configured_mixed:
  assumes "accel_valid d"
  shows "process_while_configured c2 c3 c4 d m =
    (case motion_manager_process d (motion_manager_update_config (judged_by (mm_config m) c2 c3) m) of
       (d, r, m) \<Rightarrow> (d, r, motion_manager_update_config c4 m))"
proof -
  let ?c = "judged_by (mm_config m) c2 c3"
  obtain ws sh d1 r1 m1 where strike: "motion_strike d m = (ws, sh, d1, r1, m1)" by (metis prod_cases5)
  define active where "active = motion_judge d1 (m1\<lparr>mm_config := c2\<rparr>)"
  obtain r2 m2 where move: "motion_move active d1 r1 (m1\<lparr>mm_config := c3\<rparr>) = (r2, m2)" by fastforce
  have judge: "motion_judge d1 (m1\<lparr>mm_config := ?c\<rparr>) = active"
    by (simp add: active_def motion_judge_def judged_by_def)
  have "motion_move active d1 r1 (m1\<lparr>mm_config := ?c\<rparr>) = (r2, m2\<lparr>mm_config := ?c\<rparr>)"
    using move_config [of ?c "m1\<lparr>mm_config := c3\<rparr>" active d1 r1] move by (simp add: judged_by_def)
  then have "motion_manager_process d (m\<lparr>mm_config := ?c\<rparr>) = motion_turn d1 ws sh r2 (m2\<lparr>mm_config := ?c\<rparr>)"
    using strike_config [of ?c m d] strike judge
    by (simp add: process_sections [OF assms]) (simp add: judged_by_def)
  moreover have "process_while_configured c2 c3 c4 d m = motion_turn d1 ws sh r2 (m2\<lparr>mm_config := c4\<rparr>)"
    using strike move by (simp add: process_while_configured_def motion_manager_update_config_def
        Let_def flip: active_def)
  ultimately show ?thesis
    by (simp add: motion_manager_update_config_def turn_config split: prod.split)
qed

lemma stop_iff:
  assumes "accel_valid d"
  shows "bit (mr_events (mp_result d m)) 1 \<longleftrightarrow>
    mm_state m = MOTION_STATE_MOVING \<and> \<not> motion_active d m \<and> motion_quiet d m"
proof -
  have "bit (mr_events (mp_result d m)) 1 \<longleftrightarrow> mm_state m = MOTION_STATE_MOVING \<and>
      mm_state (snd (motion_state_step d (mp_impulses d m) (mp_after_shock d m))) = MOTION_STATE_STATIONARY"
    unfolding process_valid(2) [OF assms] by (auto simp: mp_turned_def mp_moved_def)
  also have "\<dots> \<longleftrightarrow> mm_state m = MOTION_STATE_MOVING \<and> \<not> motion_active d m \<and> motion_quiet d m"
    by (cases d "mp_after_shock d m" rule: motion_step_cases)
      (auto simp: state_step_start state_step_moving state_step_stop state_step_rest)
  finally show ?thesis .
qed

text \<open>
  Such a mixture can report what neither configuration would: a stop of the motion, when the old
  threshold is too high for the sample, the new one is not, and the new timeout has passed while the
  old one has not.
\<close>

lemma stop_under_no_configuration:
  assumes "accel_valid d" and "mm_state m = MOTION_STATE_MOVING"
    and "\<not> motion_classifier_is_active d (cfg_motion_threshold_mg (mm_config m))"
    and "motion_classifier_is_active d (cfg_motion_threshold_mg c)"
    and "ucast (cfg_motion_timeout_s c) \<le> sd_timestamp d - mm_last_active_time m"
    and "sd_timestamp d - mm_last_active_time m < ucast (cfg_motion_timeout_s (mm_config m))"
  shows "bit (mr_events (fst (snd (process_while_configured (mm_config m) c c d m)))) 1 \<and>
    \<not> bit (mr_events (mp_result d m)) 1 \<and>
    \<not> bit (mr_events (mp_result d (motion_manager_update_config c m))) 1"
proof -
  have "fst (snd (process_while_configured (mm_config m) c c d m)) =
      mp_result d (motion_manager_update_config (judged_by (mm_config m) (mm_config m) c) m)"
    by (simp add: process_while_configured_mixed [OF assms(1)] case_prod_beta)
  then show ?thesis
    using assms(2-) by (simp add: stop_iff [OF assms(1)] motion_active_def motion_quiet_def
        motion_manager_update_config_def judged_by_def not_le
        del: One_nat_def)
qed

text \<open>A tag at 1.1 g: the new configuration takes that for motion, and has a shorter timeout.\<close>

lemma stop_under_no_configuration_witness:
  "let m = (motion_manager_init (TAG_CONFIG_DEFAULTS\<lparr>cfg_motion_threshold_mg := 200, cfg_motion_timeout_s := 30\<rparr>))
             \<lparr>mm_state := MOTION_STATE_MOVING\<rparr>;
       c = TAG_CONFIG_DEFAULTS\<lparr>cfg_motion_threshold_mg := 50, cfg_motion_timeout_s := 5\<rparr>;
       d = (sample_of_magnitude 1100)\<lparr>sd_timestamp := 10\<rparr> in
   bit (mr_events (fst (snd (process_while_configured (mm_config m) c c d m)))) 1 \<and>
   \<not> bit (mr_events (mp_result d m)) 1 \<and> \<not> bit (mr_events (mp_result d (motion_manager_update_config c m))) 1"
  unfolding Let_def
  by (rule stop_under_no_configuration)
    (simp_all add: sample_of_magnitude_def flag_defs motion_manager_init_def TAG_CONFIG_DEFAULTS_def
      motion_classifier_is_active_def motion_classifier_deviation_def c_const)

end
