(* ===== verification/Sampling_Thread.thy ===== *)
theory Sampling_Thread
  imports Device_Invariants Motion_Sections
begin

section \<open>The sampling thread, preempted\<close>

text \<open>
  \<open>sampling_thread_fn\<close> of \<open>src/power/power_manager.c\<close> with \<open>app_process_sensor_data\<close>,
  \<open>drain_pending_events\<close>, \<open>app_raise_event\<close> and \<open>app_state_flush_statistics\<close> of
  \<open>src/app/app_state.c\<close>, cut where the code takes and releases a lock. The thread is the lowest of
  the firmware: interrupts, work items, the Bluetooth host and the Zigbee stack can run between
  any two of its sections. A program counter with the local variables says where it is. The
  handlers of \<open>App_Main\<close> are one step each, except that a handler that reboots sleeps first, and
  the rest of the firmware runs meanwhile. \<open>motion_manager_process\<close> takes no lock and is cut into
  the sections of \<open>Motion_Sections\<close>.
\<close>

subsection \<open>Program counter and sections\<close>

text \<open>\<open>app_raise_event\<close>: not yet logged, logged, counted, and telling the subscribers left.\<close>

datatype raise_pc =
  To_Log | To_Count event_record | To_Light event_record
| To_Tell event_record "app_subscriber list"

text \<open>
  \<open>Asleep\<close> is the wait for the semaphore. From \<open>Configured\<close> to \<open>Classified\<close> the thread is in
  \<open>motion_manager_process\<close>; what is kept with the sample is the copy of the configuration, whether
  the tag had been at rest, whether it was struck, the result, and the classifier's verdict. The head of the list of \<open>Raising\<close> is the event being
  raised, the rest is what remains of the batch.
\<close>

datatype sampling_pc =
  Asleep | Awake
| Sampled sensor_data
| Configured sensor_data tag_config
| Struck sensor_data tag_config bool bool motion_result
| Judged sensor_data tag_config bool bool motion_result bool
| Moved sensor_data tag_config bool bool motion_result
| Classified sensor_data motion_result tag_config
| Unlocked sensor_data bool tag_config
| Recorded sensor_data bool
| Raising sensor_data bool "pending_event list" raise_pc
| Raised_All sensor_data bool
| Telling sensor_data "app_subscriber list"
| Saving tag_statistics
| Finished

definition raise_log ::
  "('f, 'n, 'b) tag_env \<Rightarrow> pending_event \<Rightarrow> ('f, 'n, 'b) device \<Rightarrow> ('f, 'n, 'b) device" where
  "raise_log env p d =
     (case event_log_add (te_flash env) (dev_uptime_s d) (pe_type p) (pe_severity p) (pe_value p)
             (dev_events d) of (_, _, events) \<Rightarrow> d\<lparr>dev_events := events\<rparr>)"

definition raised_record :: "pending_event \<Rightarrow> ('f, 'n, 'b) device \<Rightarrow> event_record" where
  "raised_record p d = \<lparr> ev_timestamp = dev_uptime_s d, ev_type = pe_type p,
     ev_severity = pe_severity p, ev_value = pe_value p \<rparr>"

definition raise_count :: "('f, 'n, 'b) device \<Rightarrow> ('f, 'n, 'b) device" where
  "raise_count d =
     (let core = with_status (st_event_count_update (\<lambda>n. n + 1)) (dev_core d)
      in d\<lparr>dev_core :=
             with_statistics (stat_event_count_update (\<lambda>_. st_event_count (ac_status core))) core\<rparr>)"

definition raise_light :: "event_record \<Rightarrow> ('f, 'n, 'b) device \<Rightarrow> ('f, 'n, 'b) device" where
  "raise_light r d =
     (if ev_severity r = severity_code EVENT_SEVERITY_ALARM then led_set LED_STATE_ALARM True d else d)"

definition statistics_due :: "sensor_data \<Rightarrow> ('f, 'n, 'b) device \<Rightarrow> bool" where
  "statistics_due data d \<longleftrightarrow> sd_timestamp data - ac_last_stats_flush (dev_core d) \<ge> STATS_FLUSH_INTERVAL_S"

fun sampling_step ::
  "('f, 'n, 'b) tag_env \<Rightarrow> sensor_hw \<Rightarrow> sampling_pc \<times> ('f, 'n, 'b) device \<Rightarrow>
   sampling_pc \<times> ('f, 'n, 'b) device" where
  "sampling_step env hw (Asleep, d) = (Awake, take_sample_now d)"
| "sampling_step env hw (Awake, d) =
     (Sampled (sensor_manager_read (te_board env) hw (dev_uptime_s d)),
      d\<lparr>dev_power := (dev_power d)\<lparr>pw_motion_pending := False\<rparr>\<rparr>)"
| "sampling_step env hw (Sampled data, d) = (Configured data (app_config_get d), d)"
| "sampling_step env hw (Configured data config, d) =
     (if \<not> accel_valid data then
        (case motion_manager_process data (dev_motion d) of (data, motion, mm) \<Rightarrow>
         (Classified data motion config, d\<lparr>dev_motion := mm\<rparr>))
      else
        (case motion_strike data (dev_motion d) of (was_settled, shock, data, motion, mm) \<Rightarrow>
         (Struck data config was_settled shock motion, d\<lparr>dev_motion := mm\<rparr>)))"
| "sampling_step env hw (Struck data config was_settled shock motion, d) =
     (Judged data config was_settled shock motion (motion_judge data (dev_motion d)), d)"
| "sampling_step env hw (Judged data config was_settled shock motion active, d) =
     (case motion_move active data motion (dev_motion d) of (motion, mm) \<Rightarrow>
      (Moved data config was_settled shock motion, d\<lparr>dev_motion := mm\<rparr>))"
| "sampling_step env hw (Moved data config was_settled shock motion, d) =
     (case motion_turn data was_settled shock motion (dev_motion d) of (data, motion, mm) \<Rightarrow>
      (Classified data motion config, d\<lparr>dev_motion := mm\<rparr>))"
| "sampling_step env hw (Classified data motion config, d) =
     (let d = d\<lparr>dev_core := process_locked data motion config
                              (ss_expected_valid (dev_sensing d)) (dev_core d)\<rparr>
      in (Unlocked (data\<lparr>sd_orientation := st_orientation (ac_status (dev_core d))\<rparr>)
            (st_alarm_flags (ac_status (dev_core d)) \<noteq> 0) config, d))"
| "sampling_step env hw (Unlocked data alarm config, d) =
     (Recorded data alarm,
      if cfg_sensor_history_enabled config \<noteq> 0
      then (case sensor_log_add (te_flash env) data alarm (dev_sensors d) of
              (_, _, sensors) \<Rightarrow> d\<lparr>dev_sensors := sensors\<rparr>)
      else d)"
| "sampling_step env hw (Recorded data alarm, d) =
     (Raising data alarm (ac_pending (dev_core d)) To_Log,
      d\<lparr>dev_core := (dev_core d)\<lparr>ac_pending := []\<rparr>\<rparr>)"
| "sampling_step env hw (Raising data alarm [] r, d) = (Raised_All data alarm, d)"
| "sampling_step env hw (Raising data alarm (p # ps) To_Log, d) =
     (let d = raise_log env p d in (Raising data alarm (p # ps) (To_Count (raised_record p d)), d))"
| "sampling_step env hw (Raising data alarm (p # ps) (To_Count r), d) =
     (Raising data alarm (p # ps) (To_Light r), raise_count d)"
| "sampling_step env hw (Raising data alarm (p # ps) (To_Light r), d) =
     (Raising data alarm (p # ps) (To_Tell r (ac_subscribers (dev_core d))), raise_light r d)"
| "sampling_step env hw (Raising data alarm (p # ps) (To_Tell r (s # ss)), d) =
     (Raising data alarm (p # ps) (To_Tell r ss), on_event r s d)"
| "sampling_step env hw (Raising data alarm (p # ps) (To_Tell r []), d) =
     (Raising data alarm ps To_Log, d)"
| "sampling_step env hw (Raised_All data alarm, d) =
     (Telling data (ac_subscribers (dev_core d)),
      if \<not> alarm then led_set LED_STATE_ALARM False d else d)"
| "sampling_step env hw (Telling data (s # ss), d) = (Telling data ss, on_sensor_data data s d)"
| "sampling_step env hw (Telling data [], d) =
     (if statistics_due data d
      then (Saving (ac_statistics (dev_core d)),
            d\<lparr>dev_core := (dev_core d)\<lparr>ac_last_stats_flush := sd_timestamp data\<rparr>\<rparr>)
      else (Finished, d))"
| "sampling_step env hw (Saving snapshot, d) =
     (Finished, case config_storage_save_statistics (te_settings env) snapshot
                       (dev_store d, dev_nvs d) of
                  (_, store, nvs) \<Rightarrow> d\<lparr>dev_store := store, dev_nvs := nvs\<rparr>)"
| "sampling_step env hw (Finished, d) = (Asleep, dev_feed 1 d)"

subsection \<open>The firmware with a preemptible sampling thread\<close>

text \<open>
  The flag says that a handler has done everything but its reboot and sleeps before it, during
  which \<open>dev_rebooting\<close> is not yet set.
\<close>

type_synonym ('f, 'n, 'b) tag_system = "sampling_pc \<times> bool \<times> ('f, 'n, 'b) device"

fun not_sample :: "tag_event \<Rightarrow> bool" where
  "not_sample (Sample hw) = False"
| "not_sample e = True"

inductive preempt_step ::
  "('f, 'n, 'b) tag_env \<Rightarrow> ('f, 'n, 'b) tag_system \<Rightarrow> ('f, 'n, 'b) tag_system \<Rightarrow> bool" for env where
  sampling: "\<not> dev_rebooting d \<Longrightarrow> sampling_step env hw (pc, d) = (pc', d') \<Longrightarrow>
    preempt_step env (pc, resetting, d) (pc', resetting, d')"
| handler: "\<not> dev_rebooting d \<Longrightarrow> not_sample e \<Longrightarrow> handle env e d = Some d' \<Longrightarrow>
    preempt_step env (pc, resetting, d)
      (pc, resetting \<or> dev_rebooting d', d'\<lparr>dev_rebooting := False\<rparr>)"
| reboot: "\<not> dev_rebooting d \<Longrightarrow>
    preempt_step env (pc, True, d) (pc, True, d\<lparr>dev_rebooting := True\<rparr>)"

inductive preempt_reach :: "('f, 'n, 'b) tag_env \<Rightarrow> ('f, 'n, 'b) tag_system \<Rightarrow> bool" for env where
  boot: "preempt_reach env (Awake, False, tag_main env hw (device_at_reset env pe ps fe fs nvs bt))"
| more: "preempt_reach env s \<Longrightarrow> preempt_step env s s' \<Longrightarrow> preempt_reach env s'"

inductive_cases preempt_stepE: "preempt_step env s s'"

subsection \<open>Without interference\<close>

text \<open>Some number of sections later.\<close>

definition runs_to ::
  "('f, 'n, 'b) tag_env \<Rightarrow> sensor_hw \<Rightarrow> sampling_pc \<times> ('f, 'n, 'b) device \<Rightarrow>
   sampling_pc \<times> ('f, 'n, 'b) device \<Rightarrow> bool" where
  "runs_to env hw s s' \<longleftrightarrow> (\<exists>n. (sampling_step env hw ^^ n) s = s')"

lemma runs_refl: "runs_to env hw s s"
  unfolding runs_to_def by (rule exI [of _ 0]) simp

lemma runs_step: "runs_to env hw (sampling_step env hw s) s' \<Longrightarrow> runs_to env hw s s'"
  unfolding runs_to_def by (metis funpow_Suc_right o_apply)

lemma runs_trans: "runs_to env hw s s' \<Longrightarrow> runs_to env hw s' s'' \<Longrightarrow> runs_to env hw s s''"
  unfolding runs_to_def by (metis funpow_add o_apply)

lemma runs_tell_event:
  "runs_to env hw (Raising data alarm (p # ps) (To_Tell r ss), d)
     (Raising data alarm ps To_Log, fold (on_event r) ss d)"
proof (induction ss arbitrary: d)
  case Nil
  show ?case by (rule runs_step) (simp add: runs_refl)
next
  case (Cons s ss)
  then show ?case by (intro runs_step [of _ _ "(Raising data alarm (p # ps) (To_Tell r (s # ss)), d)"]) simp
qed

text \<open>The sections of \<open>app_raise_event\<close> in a row.\<close>

lemma raise_pending_sections:
  "raise_pending env p d =
     (let d = raise_log env p d; r = raised_record p d; d = raise_light r (raise_count d)
      in fold (on_event r) (ac_subscribers (dev_core d)) d)"
proof -
  obtain err seq events where log: "event_log_add (te_flash env) (dev_uptime_s d) (pe_type p)
      (pe_severity p) (pe_value p) (dev_events d) = (err, seq, events)" by (metis prod_cases3)
  show ?thesis
    by (simp only: raise_pending_def app_raise_event_def raise_log_def raised_record_def
        raise_count_def raise_light_def Let_def log prod.case snd_conv event_record.select_convs)
qed

lemma subscribers_sections [frame]:
  "ac_subscribers (dev_core (raise_log env p d)) = ac_subscribers (dev_core d)"
  "ac_subscribers (dev_core (raise_count d)) = ac_subscribers (dev_core d)"
  "ac_subscribers (dev_core (raise_light r d)) = ac_subscribers (dev_core d)"
  by (simp_all add: raise_log_def raise_count_def raise_light_def Let_def with_status_def
      with_statistics_def led_set_frame split: prod.split)

lemma runs_raise:
  "runs_to env hw (Raising data alarm (p # ps) To_Log, d)
     (Raising data alarm ps To_Log, raise_pending env p d)"
  by ((rule runs_step, simp only: sampling_step.simps Let_def)+,
      simp add: raise_pending_sections Let_def frame runs_tell_event)

lemma runs_drain:
  "runs_to env hw (Raising data alarm ps To_Log, d)
     (Raised_All data alarm, fold (raise_pending env) ps d)"
proof (induction ps arbitrary: d)
  case Nil
  show ?case by (rule runs_step) (simp add: runs_refl)
next
  case (Cons p ps)
  show ?case using runs_trans [OF runs_raise Cons.IH] by simp
qed

lemma runs_tell_sample:
  "runs_to env hw (Telling data ss, d) (Telling data [], fold (on_sensor_data data) ss d)"
proof (induction ss arbitrary: d)
  case Nil
  show ?case by (simp add: runs_refl)
next
  case (Cons s ss)
  then show ?case by (intro runs_step [of env hw "(Telling data (s # ss), d)"]) simp
qed

lemma runs_flush:
  "runs_to env hw (Telling data [], d)
     (Finished, if statistics_due data d
                then app_state_flush_statistics env
                       (d\<lparr>dev_core := (dev_core d)\<lparr>ac_last_stats_flush := sd_timestamp data\<rparr>\<rparr>)
                else d)"
proof (cases "statistics_due data d")
  case True
  show ?thesis
    by (rule runs_step, simp add: True del: funpow.simps, rule runs_step)
      (simp add: app_state_flush_statistics_def runs_refl split: prod.split)
next
  case False
  show ?thesis by (rule runs_step) (simp add: False runs_refl)
qed

text \<open>
  Undisturbed, the sections from the top of the loop to the next wait are one round of the
  thread, as \<open>App_Main\<close> has it.
\<close>

lemma alarm_led_subscribers:
  "ac_subscribers (dev_core (if \<not> alarm then led_set LED_STATE_ALARM False d else d)) =
     ac_subscribers (dev_core d)"
  by (simp add: frame)

text \<open>The sections of \<open>motion_manager_process\<close>.\<close>

lemma runs_classify:
  assumes "motion_manager_process data (dev_motion d) = (data', motion, mm)"
  shows "runs_to env hw (Configured data config, d) (Classified data' motion config, d\<lparr>dev_motion := mm\<rparr>)"
proof (cases "accel_valid data")
  case True
  obtain ws sh d1 r1 m1 where strike: "motion_strike data (dev_motion d) = (ws, sh, d1, r1, m1)"
    by (metis prod_cases5)
  obtain r2 m2 where move: "motion_move (motion_judge d1 m1) d1 r1 m1 = (r2, m2)" by fastforce
  have turn: "motion_turn d1 ws sh r2 m2 = (data', motion, mm)"
    using assms process_sections [OF True, of "dev_motion d"] by (simp add: strike move)
  have "runs_to env hw (Configured data config, d) (Moved d1 config ws sh r2, d\<lparr>dev_motion := m2\<rparr>)"
    by (rule runs_step, simp add: True strike, rule runs_step, simp, rule runs_step) (simp add: move runs_refl)
  moreover have "runs_to env hw (Moved d1 config ws sh r2, d\<lparr>dev_motion := m2\<rparr>)
      (Classified data' motion config, d\<lparr>dev_motion := mm\<rparr>)"
    by (rule runs_step) (simp add: turn runs_refl)
  ultimately show ?thesis by (rule runs_trans)
next
  case False
  then show ?thesis by (intro runs_step [of env hw "(Configured data config, d)"]) (simp add: assms runs_refl)
qed

lemma runs_process:
  "runs_to env hw (Sampled data, d) (Finished, app_process_sensor_data env data d)"
proof -
  obtain data' motion mm where proc: "motion_manager_process data (dev_motion d) = (data', motion, mm)"
    by (metis prod_cases3)
  let ?config = "app_config_get d"
  let ?d0 = "d\<lparr>dev_motion := mm\<rparr>"
  let ?d1 = "?d0\<lparr>dev_core := process_locked data' motion ?config
      (ss_expected_valid (dev_sensing ?d0)) (dev_core ?d0)\<rparr>"
  let ?data = "data'\<lparr>sd_orientation := st_orientation (ac_status (dev_core ?d1))\<rparr>"
  let ?alarm = "st_alarm_flags (ac_status (dev_core ?d1)) \<noteq> 0"
  let ?d2 = "if cfg_sensor_history_enabled ?config \<noteq> 0
      then (case sensor_log_add (te_flash env) ?data ?alarm (dev_sensors ?d1) of
              (_, _, sensors) \<Rightarrow> ?d1\<lparr>dev_sensors := sensors\<rparr>)
      else ?d1"
  let ?d3 = "drain_pending_events env ?d2"
  let ?d4 = "if \<not> ?alarm then led_set LED_STATE_ALARM False ?d3 else ?d3"
  let ?d5 = "fold (on_sensor_data ?data) (ac_subscribers (dev_core ?d4)) ?d4"
  have "runs_to env hw (Sampled data, d) (Classified data' motion ?config, ?d0)"
    by (rule runs_step) (simp only: sampling_step.simps runs_classify [OF proc])
  moreover have "runs_to env hw (Classified data' motion ?config, ?d0) (Recorded ?data ?alarm, ?d2)"
    by (rule runs_step, simp only: sampling_step.simps Let_def,
        rule runs_step, simp only: sampling_step.simps runs_refl)
  moreover have "runs_to env hw (Recorded ?data ?alarm, ?d2) (Raised_All ?data ?alarm, ?d3)"
    by (rule runs_step) (simp only: sampling_step.simps drain_pending_events_def Let_def runs_drain)
  moreover have "runs_to env hw (Raised_All ?data ?alarm, ?d3) (Telling ?data [], ?d5)"
    by (rule runs_step) (simp only: sampling_step.simps runs_tell_sample alarm_led_subscribers)
  moreover note runs_flush [of env hw ?data ?d5]
  ultimately have "runs_to env hw (Sampled data, d) (Finished, if statistics_due ?data ?d5
      then app_state_flush_statistics env
             (?d5\<lparr>dev_core := (dev_core ?d5)\<lparr>ac_last_stats_flush := sd_timestamp ?data\<rparr>\<rparr>)
      else ?d5)"
    by (blast intro: runs_trans)
  then show ?thesis
    by (simp only: app_process_sensor_data_def proc Let_def prod.case statistics_due_def)
qed

lemma runs_to_wait: "runs_to env hw (Awake, d) (Asleep, sampling_round env hw d)"
proof -
  let ?d = "d\<lparr>dev_power := (dev_power d)\<lparr>pw_motion_pending := False\<rparr>\<rparr>"
  let ?data = "sensor_manager_read (te_board env) hw (dev_uptime_s d)"
  have "runs_to env hw (Awake, d) (Sampled ?data, ?d)" by (rule runs_step) (simp add: runs_refl)
  moreover note runs_process [of env hw ?data ?d]
  moreover have "runs_to env hw (Finished, app_process_sensor_data env ?data ?d)
      (Asleep, sampling_round env hw d)"
    by (rule runs_step) (simp add: sampling_round_def Let_def runs_refl)
  ultimately show ?thesis by (blast intro: runs_trans)
qed

lemma runs_round: "runs_to env hw (Awake, d) (Awake, take_sample_now (sampling_round env hw d))"
  by (rule runs_trans [OF runs_to_wait], rule runs_step) (simp add: runs_refl)

subsection \<open>Every run of the tag is one of the preemptible tag\<close>

lemma sampling_step_rebooting [frame]:
  "dev_rebooting (snd (sampling_step env hw (pc, d))) = dev_rebooting d"
  by (cases "(env, hw, pc, d)" rule: sampling_step.cases)
    (auto simp: raise_log_def raise_count_def raise_light_def take_sample_now_def dev_feed_def
      frame Let_def split: prod.split)

lemma runs_preempt:
  assumes "runs_to env hw (pc, d) (pc', d')" and "\<not> dev_rebooting d" and "preempt_reach env (pc, r, d)"
  shows "preempt_reach env (pc', r, d') \<and> \<not> dev_rebooting d'"
proof -
  have "(sampling_step env hw ^^ n) (pc, d) = (pc', d') \<Longrightarrow>
      preempt_reach env (pc', r, d') \<and> \<not> dev_rebooting d'" for n
  proof (induction n arbitrary: pc' d')
    case 0
    then show ?case using assms by simp
  next
    case (Suc n)
    obtain q e where q: "(sampling_step env hw ^^ n) (pc, d) = (q, e)" by fastforce
    then have step: "sampling_step env hw (q, e) = (pc', d')" using Suc.prems by simp
    from Suc.IH [OF q] show ?case
      using preempt_step.sampling [OF _ step] sampling_step_rebooting [of env hw q e] step
      by (auto intro: preempt_reach.more)
  qed
  then show ?thesis using assms(1) unfolding runs_to_def by blast
qed

lemma preempt_handler:
  assumes "preempt_reach env (pc, r, d)" and "\<not> dev_rebooting d" and "not_sample e"
    and "handle env e d = Some d'"
  shows "\<exists>r'. preempt_reach env (pc, r', d')"
proof -
  have one: "preempt_reach env (pc, r \<or> dev_rebooting d', d'\<lparr>dev_rebooting := False\<rparr>)"
    by (rule preempt_reach.more [OF assms(1) preempt_step.handler [OF assms(2-4)]])
  show ?thesis
  proof (cases "dev_rebooting d'")
    case True
    then have "preempt_reach env (pc, True, d'\<lparr>dev_rebooting := True\<rparr>)"
      using preempt_reach.more [OF one] preempt_step.reboot [of "d'\<lparr>dev_rebooting := False\<rparr>" env pc]
      by simp
    moreover have "d'\<lparr>dev_rebooting := True\<rparr> = d'" using True by simp
    ultimately show ?thesis by auto
  next
    case False
    then have "d'\<lparr>dev_rebooting := False\<rparr> = d'" by simp
    with one show ?thesis by auto
  qed
qed

lemma tag_reach_preempt: "tag_reach env d \<Longrightarrow> \<exists>r. preempt_reach env (Awake, r, d)"
proof (induction rule: tag_reach.induct)
  case boot
  show ?case by (blast intro: preempt_reach.boot)
next
  case (more d d')
  from more.IH obtain r where r: "preempt_reach env (Awake, r, d)" by blast
  from more.hyps(2) obtain e where e: "\<not> dev_rebooting d" "handle env e d = Some d'"
    by (auto elim: tag_stepE)
  show ?case
  proof (cases "not_sample e")
    case True
    from preempt_handler [OF r e(1) True e(2)] show ?thesis .
  next
    case False
    then obtain hw where "e = Sample hw" by (cases e) auto
    then show ?thesis using runs_preempt [OF runs_round e(1) r] e(2) by auto
  qed
qed

subsection \<open>The invariant at every preemption point\<close>

lemma pending_queue_le:
  "length (ac_pending c) \<le> 8 \<Longrightarrow> length (ac_pending (queue_event t s v c)) \<le> 8"
  by (simp add: queue_event_def MAX_PENDING_EVENTS_def)

lemma pending_alarms_le:
  "length (ac_pending c) \<le> 8 \<Longrightarrow> length (ac_pending (fold queue_alarm es c)) \<le> 8"
  by (induction es arbitrary: c) (simp_all add: queue_alarm_def pending_queue_le)

lemma pending_motion_le:
  "length (ac_pending c) \<le> 8 \<Longrightarrow> length (ac_pending (apply_motion_result motion c)) \<le> 8"
  by (simp add: apply_motion_result_def apply_motion_start_def apply_motion_stop_def apply_shock_def
      apply_free_fall_def apply_orientation_def apply_tamper_def Let_def with_status_def
      with_statistics_def pending_queue_le)

lemma pending_process_le:
  assumes "length (ac_pending c) \<le> 8"
  shows "length (ac_pending (process_locked data motion config expected c)) \<le> 8"
  using pending_motion_le [of "c\<lparr>ac_last_sample := data\<rparr>" motion] assms
  by (simp add: process_locked_def check_thresholds_def Let_def with_status_def with_statistics_def
      pending_alarms_le split: prod.split)

text \<open>Whether detected events may be waiting in the shared queue.\<close>

fun between_queue_and_drain :: "sampling_pc \<Rightarrow> bool" where
  "between_queue_and_drain (Unlocked _ _ _) = True"
| "between_queue_and_drain (Recorded _ _) = True"
| "between_queue_and_drain _ = False"

text \<open>The local variables: a valid configuration, a motion result in range, at most eight events.\<close>

fun locals_ok :: "sampling_pc \<Rightarrow> bool" where
  "locals_ok (Configured _ config) = app_config_validate config"
| "locals_ok (Struck _ config _ _ _) = app_config_validate config"
| "locals_ok (Judged _ config _ _ _ _) = app_config_validate config"
| "locals_ok (Moved _ config _ _ _) = app_config_validate config"
| "locals_ok (Classified _ motion config) = (app_config_validate config \<and>
     mr_motion_state motion \<in> range motion_state_code \<and> mr_orientation motion \<in> range orientation_code)"
| "locals_ok (Raising _ _ ps _) = (length ps \<le> 8)"
| "locals_ok _ = True"

definition preempt_inv :: "sampling_pc \<Rightarrow> ('f, 'n, 'b) device \<Rightarrow> bool" where
  "preempt_inv pc d \<longleftrightarrow> locals_ok pc \<and> length (ac_pending (dev_core d)) \<le> 8 \<and>
     (between_queue_and_drain pc \<or> ac_pending (dev_core d) = []) \<and>
     tag_inv (ac_pending (dev_core d)) d"

text \<open>Sections that leave the queue alone.\<close>

lemma preempt_inv_same:
  assumes "preempt_inv pc d" and "tag_inv (ac_pending (dev_core d)) d'" and "locals_ok pc'"
    and "between_queue_and_drain pc \<longrightarrow> between_queue_and_drain pc'"
  shows "preempt_inv pc' d'"
  using assms by (auto simp: preempt_inv_def tag_inv_def)

lemma raise_sections_inv:
  assumes "tag_inv ps d"
  shows "tag_inv ps (raise_log env p d)" "tag_inv ps (raise_count d)" "tag_inv ps (raise_light r d)"
    "tag_inv ps (on_event r sub d)" "tag_inv ps (on_sensor_data data sub d)"
proof -
  show "tag_inv ps (raise_log env p d)" "tag_inv ps (raise_light r d)"
    using assms by (simp_all add: raise_log_def raise_light_def led_set_inv split: prod.split)
  show "tag_inv ps (raise_count d)"
    using assms counters_copied(3) [of "dev_core d" "\<lambda>n. n + 1"]
    by (simp add: tag_inv_def config_in_force_def raise_count_def Let_def typed_with)
      (simp add: with_status_def with_statistics_def)
  show "tag_inv ps (on_event r sub d)" "tag_inv ps (on_sensor_data data sub d)"
    using assms
    by (cases sub; simp add: tag_inv_def config_in_force_def zb_schedule_publish_def
        gatt_awake_on_event gatt_awake_on_sensor)+
qed

lemma flush_time_inv:
  "tag_inv ps (d\<lparr>dev_core := (dev_core d)\<lparr>ac_last_stats_flush := t\<rparr>\<rparr>) = tag_inv ps d"
  by (simp add: tag_inv_def config_in_force_def)

lemma classify_inv:
  assumes "tag_inv ps d" and "mm_config mm = mm_config (dev_motion d)"
  shows "tag_inv ps (d\<lparr>dev_motion := mm\<rparr>)"
  using assms by (simp add: tag_inv_def config_in_force_def)

lemma turn_typed:
  assumes "motion_turn data ws sh r m = (data', motion, m')"
  shows "mr_motion_state motion \<in> range motion_state_code \<and> mr_orientation motion \<in> range orientation_code"
  using assms by (auto simp: motion_turn_def Let_def split: prod.splits)

lemma locked_inv:
  assumes "tag_inv ps d" and "app_config_validate config"
    and "mr_motion_state motion \<in> range motion_state_code"
    and "mr_orientation motion \<in> range orientation_code"
  shows "tag_inv (ac_pending (process_locked data motion config expected (dev_core d)))
    (d\<lparr>dev_core := process_locked data motion config expected (dev_core d)\<rparr>)"
  using assms by (simp add: tag_inv_def config_in_force_def counters_process typed_process)

lemma sampling_step_inv:
  assumes "preempt_inv pc d" and "sampling_step env hw (pc, d) = (pc', d')"
  shows "preempt_inv pc' d'"
proof -
  have inv: "tag_inv (ac_pending (dev_core d)) d" and ok: "locals_ok pc"
    using assms(1) by (simp_all add: preempt_inv_def)
  show ?thesis
  proof (cases "(env, hw, pc, d)" rule: sampling_step.cases)
    case (3 env hw data d)
    then show ?thesis
      using assms inv by (auto intro!: preempt_inv_same [OF assms(1)]
          simp: app_config_get_def tag_inv_def config_in_force_def)
  next
    case (4 env hw data config d)
    obtain data' motion mm where proc: "motion_manager_process data (dev_motion d) = (data', motion, mm)"
      by (metis prod_cases3)
    obtain ws sh d1 r1 m1 where strike: "motion_strike data (dev_motion d) = (ws, sh, d1, r1, m1)"
      by (metis prod_cases5)
    have "mm_config mm = mm_config (dev_motion d)" using mm_config_process [of data "dev_motion d"] proc by simp
    with section_configs(1) [OF strike] show ?thesis
      using 4 proc strike assms classify_inv [OF inv] typed_result [OF proc]
      by (auto intro!: preempt_inv_same [OF assms(1)] simp: preempt_inv_def split: if_splits)
  next
    case (6 env hw data config ws sh motion active d)
    obtain r mm where move: "motion_move active data motion (dev_motion d) = (r, mm)" by fastforce
    show ?thesis
      using 6 assms classify_inv [OF inv] section_configs(2) [OF move] move
      by (auto intro!: preempt_inv_same [OF assms(1)] simp: preempt_inv_def)
  next
    case (7 env hw data config ws sh motion d)
    obtain data' r mm where turn: "motion_turn data ws sh motion (dev_motion d) = (data', r, mm)"
      by (metis prod_cases3)
    show ?thesis
      using 7 assms classify_inv [OF inv] section_configs(3) [OF turn] turn turn_typed [OF turn]
      by (auto intro!: preempt_inv_same [OF assms(1)] simp: preempt_inv_def)
  next
    case (8 env hw data motion config d)
    then show ?thesis
      using assms locked_inv [OF inv, of config motion] pending_process_le [of "dev_core d"]
      by (auto simp: preempt_inv_def Let_def)
  next
    case (10 env hw data alarm d)
    then show ?thesis
      using assms by (auto simp: preempt_inv_def tag_inv_def config_in_force_def)
  qed (use assms inv ok in \<open>auto intro!: preempt_inv_same [OF assms(1)] simp: raise_sections_inv
    flush_time_inv
    take_sample_now_def config_in_force_def app_config_get_def led_set_inv Let_def
    split: prod.splits if_splits\<close>)
qed

lemma not_sample_iff: "not_sample e \<longleftrightarrow> (\<forall>hw. e \<noteq> Sample hw)"
  by (cases e) simp_all

lemma preempt_step_inv:
  assumes "preempt_step env (pc, r, d) (pc', r', d')" and "preempt_inv pc d"
  shows "preempt_inv pc' d'"
proof -
  have ok: "locals_ok pc" using assms(2) by (simp add: preempt_inv_def)
  show ?thesis
    using assms(1)
  proof (cases rule: preempt_step.cases)
    case (sampling hw)
    then show ?thesis using assms(2) by (auto intro: sampling_step_inv)
  next
    case (handler e d1)
    then have "tag_inv (ac_pending (dev_core d)) d1"
      using assms(2) handle_inv [of "ac_pending (dev_core d)" d env e d1]
      by (auto simp: preempt_inv_def not_sample_iff)
    with handler(1,3) show ?thesis
      by (intro preempt_inv_same [OF assms(2)]) (simp_all add: ok)
  next
    case reboot
    then show ?thesis
      by (intro preempt_inv_same [OF assms(2)]) (use assms(2) in \<open>simp_all add: preempt_inv_def\<close>)
  qed
qed

lemma preempt_reach_inv: "preempt_reach env (pc, r, d) \<Longrightarrow> preempt_inv pc d"
proof (induction "(pc, r, d)" arbitrary: pc r d rule: preempt_reach.induct)
  case (boot hw pe ps fe fs nvs bt)
  have "ac_pending (dev_core (tag_main env hw (device_at_reset env pe ps fe fs nvs bt))) = []"
    using main_inv [of env hw pe ps fe fs nvs bt] by (simp add: tag_inv_def)
  then show ?case using main_inv [of env hw pe ps fe fs nvs bt] by (simp add: preempt_inv_def)
next
  case (more s)
  then show ?case by (cases s) (auto intro: preempt_step_inv)
qed

end
