(* ===== verification/Mock_Tag.thy ===== *)
theory Mock_Tag
  imports App_Main Flash_Mock
begin

section \<open>A concrete tag\<close>

text \<open>
  The flash area of the unit tests, a finite map as settings store, and a Bluetooth host that
  accepts everything and records what it is given: the environment of the witnesses.
\<close>

definition accepting_bluetooth :: "(u8 \<times> u8 list) list bluetooth" where
  "accepting_bluetooth = \<lparr>
     bt_gatt_notify = \<lambda>sent a data. (0, sent @ [(a, data)]),
     bt_enable = \<lambda>sent. (0, sent), bt_settings_load = \<lambda>sent. sent,
     bt_id_get = \<lambda>sent. [[0x34, 0x12, 0, 0, 0, 0]], bt_set_name = \<lambda>name sent. (0, sent),
     bt_get_name = \<lambda>sent. ''tag'', bt_le_adv_start = \<lambda>manuf name sent. (0, sent),
     bt_le_adv_update_data = \<lambda>manuf name sent. (0, sent), bt_le_adv_stop = \<lambda>sent. (0, sent),
     bt_conn_disconnect = \<lambda>sent. (0, sent) \<rparr>"

definition mock_tag_env :: "(u8 list, string \<Rightarrow> u8 list option, (u8 \<times> u8 list) list) tag_env" where
  "mock_tag_env = \<lparr> te_board = BOARD_HOLYIOT, te_flash = mock_env, te_settings = map_settings,
     te_bt = accepting_bluetooth,
     te_wdt = \<lparr> wh_present = True, wh_ready = True, wh_install_timeout = \<lambda>n. 0, wh_setup = \<lambda>p. 0 \<rparr>,
     te_zcl = \<lparr> zk_zcl_version = 8, zk_power_source_battery = 3, zk_env_unspecified = 0,
                zk_identify_time_default = 0 \<rparr>,
     te_device_name = ''Smart Tag'', te_device_name_max = 28, te_bt_settings = True,
     te_advertise_at_boot = False, te_zigbee_add_on = False, te_zigbee_fota = False \<rparr>"

definition mock_sensor_hw :: sensor_hw where
  "mock_sensor_hw = \<lparr> hw_device_is_ready = \<lambda>dev. False, hw_sample_fetch = \<lambda>dev. 0,
     hw_channel_get = \<lambda>dev ch. (0, \<lparr> sv_val1 = 0, sv_val2 = 0 \<rparr>),
     hw_channel_get_xyz = \<lambda>dev. (0, \<lparr> sv_val1 = 0, sv_val2 = 0 \<rparr>, \<lparr> sv_val1 = 0, sv_val2 = 0 \<rparr>,
                                    \<lparr> sv_val1 = 0, sv_val2 = 0 \<rparr>),
     hw_has_ext_flash = False, hw_flash_jedec_id = (0, []), hw_adc_is_ready = False,
     hw_adc_channel_setup = 0, hw_adc_sequence_init = 0, hw_adc_read = (0, 0),
     hw_adc_raw_to_millivolts = \<lambda>v. (0, v), hw_milli_g = \<lambda>v. 0, hw_x100_signed = \<lambda>v. 0,
     hw_x100_unsigned = \<lambda>v. 0, hw_pascal = \<lambda>v. 0, hw_dps_x10 = \<lambda>v. 0 \<rparr>"

definition mock_boot_hw :: boot_hw where
  "mock_boot_hw = \<lparr> bo_leds_ready = True, bo_button = \<lparr> bh_ready = True, bh_configure = 0,
     bh_interrupt = 0, bh_add_callback = 0 \<rparr>, bo_sensors = mock_sensor_hw \<rparr>"

definition mock_tag :: "(u8 list, string \<Rightarrow> u8 list option, (u8 \<times> u8 list) list) device" where
  "mock_tag = tag_main mock_tag_env mock_boot_hw
     (device_at_reset mock_tag_env 0 1 flash_mock_reset flash_mock_reset Map.empty [])"

lemma mock_tag_reach: "tag_reach mock_tag_env mock_tag"
  unfolding mock_tag_def by (rule tag_reach.boot)

end
