(* ===== verification/Preemption.thy ===== *)
theory Preemption
  imports Sampling_Thread Mock_Tag
begin

section \<open>What preemption cannot break\<close>

text \<open>
  The sampling thread against everything that can run between its sections: a round always ends,
  every event it detects is logged once and in order, and the subscribers it walks are the ones
  registered at startup.
\<close>

subsection \<open>The subscribers\<close>

named_theorems subs \<open>operations that leave the list of subscribers alone\<close>

abbreviation subscribers :: "('f, 'n, 'b) device \<Rightarrow> app_subscriber list" where
  "subscribers d \<equiv> ac_subscribers (dev_core d)"

lemma subs_small [subs]:
  "subscribers (led_set s on d) = subscribers d"
  "subscribers (raise_event env t sv v d) = subscribers d"
  "subscribers (app_state_flush_statistics env d) = subscribers d"
  "subscribers (app_state_set st d) = subscribers d"
  "subscribers (dev_feed n d) = subscribers d"
  "subscribers (app_state_reset_counters env d) = subscribers d"
  by (simp_all add: frame raise_event_def app_state_set_def dev_feed_def app_state_reset_counters_def
      core_reset_counters_def Let_def)

lemma subs_ops [subs]:
  "subscribers (snd (gatt_notify env which data d)) = subscribers d"
  "subscribers (send_response env op st payload d) = subscribers d"
  "subscribers (finish_command env op err d) = subscribers d"
  "subscribers (log_abort d) = subscribers d"
  "subscribers (ccc_write which v d) = subscribers d"
  "subscribers (run_notify_work env d) = subscribers d"
  "subscribers (run_stream_work env d) = subscribers d"
  "subscribers (snd (log_write_control env buf offset d)) = subscribers d"
  "subscribers (power_manager_config_changed d) = subscribers d"
  "subscribers (power_manager_sample_now d) = subscribers d"
  "subscribers (motion_trigger_fn d) = subscribers d"
  "subscribers (run_publish env d) = subscribers d"
  "subscribers (identify_cb bufid d) = subscribers d"
  "subscribers (snd (ble_config_write_command buf offset d)) = subscribers d"
  "subscribers (ble_manager_update_adv_data env d) = subscribers d"
  by (simp_all add: gatt_notify_def send_response_def finish_command_def log_abort_def ccc_write_def
      run_notify_work_def run_stream_work_def log_write_control_def power_manager_config_changed_def
      power_manager_sample_now_def motion_trigger_fn_def run_publish_def publish_attributes_def
      identify_cb_def ble_config_write_command_def ble_manager_update_adv_data_def subs Let_def
      split: prod.split)

lemma subs_advertising [subs]:
  "subscribers (snd (ble_manager_start_advertising env d)) = subscribers d"
  "subscribers (ble_manager_stop_advertising env d) = subscribers d"
  by (simp_all add: ble_manager_start_advertising_def ble_manager_stop_advertising_def Let_def subs
      split: prod.split)

lemma subs_config_set [subs]: "subscribers (snd (app_config_set env cfg d)) = subscribers d"
  by (simp add: app_config_set_def subs Let_def split: prod.split)

lemma subs_dest:
  "ble_manager_start_advertising env d = (err, d') \<Longrightarrow> subscribers d' = subscribers d"
  "app_config_set env cfg d = (err, d') \<Longrightarrow> subscribers d' = subscribers d"
  using subs_advertising(1) [of env d] subs_config_set [of env cfg d] by simp_all

lemma subs_service [subs]:
  "subscribers (power_manager_request_service_mode env d) = subscribers d"
  "subscribers (service_timeout_fn env d) = subscribers d"
  "subscribers (ble_disconnected env d) = subscribers d"
  by (auto simp: power_manager_request_service_mode_def service_timeout_fn_def
      power_manager_end_service_mode_def ble_disconnected_def Let_def subs split: prod.split dest: subs_dest)

lemma subs_raising [subs]:
  "subscribers (ble_connected env err d) = subscribers d"
  "subscribers (snd (ble_config_write env buf offset d)) = subscribers d"
  "subscribers (snd (app_state_set_time_utc env t d)) = subscribers d"
  "subscribers (snd (snd (app_state_snapshot_gas_baseline env d))) = subscribers d"
  "subscribers (snd (zcl_apply_config env config d)) = subscribers d"
  "subscribers (zboss_signal_handler env sig ok d) = subscribers d"
  "subscribers (fota_evt_handler env evt d) = subscribers d"
  by (auto simp: ble_connected_def ble_config_write_def app_state_set_time_utc_def
      app_state_snapshot_gas_baseline_def zcl_apply_config_def zboss_signal_handler_def
      zboss_commissioned_def zboss_left_def fota_evt_handler_def Let_def subs with_statistics_def
      split: prod.split zb_signal.split fota_evt.split dest: subs_dest)

lemma subs_raising_dest:
  "app_state_set_time_utc env t d = (err, d') \<Longrightarrow> subscribers d' = subscribers d"
  "app_state_snapshot_gas_baseline env d = (err, th, d') \<Longrightarrow> subscribers d' = subscribers d"
  "app_config_set_mode env m d = (err, d') \<Longrightarrow> subscribers d' = subscribers d"
  using subs_raising(3) [of env t d] subs_raising(4) [of env d]
  by (auto simp: app_config_set_mode_def dest: subs_dest)

lemma subs_clear:
  "clear_event_log env d = Some (err, d') \<Longrightarrow> subscribers d' = subscribers d"
  "clear_sensor_log env d = Some (err, d') \<Longrightarrow> subscribers d' = subscribers d"
  by (auto simp: clear_event_log_def clear_sensor_log_def subs split: option.splits)

lemma subs_factory_reset:
  "app_state_factory_reset env d = Some d' \<Longrightarrow> subscribers d' = subscribers d"
  by (auto simp: factory_reset_defs app_config_reset_def Let_def subs
      split: option.splits prod.splits dest!: subs_dest subs_clear)

lemma subs_command: "run_command_work env d = Some d' \<Longrightarrow> subscribers d' = subscribers d"
  by (auto simp: run_command_work_def command_work_fn_def Let_def subs
      split: if_splits option.splits prod.splits
      dest!: subs_clear subs_factory_reset subs_raising_dest simp del: One_nat_def)

lemma subs_zcl [subs]: "subscribers (snd (zcl_device_cb env w d)) = subscribers d"
  by (auto simp: zcl_device_cb_def Let_def subs split: option.split prod.split dest: subs_raising_dest)

lemma handle_subscribers:
  assumes "handle env e d = Some d'" and "not_sample e"
  shows "subscribers d' = subscribers d"
proof (cases e)
  case Command_Work
  then show ?thesis using assms(1) subs_command by (auto split: if_splits)
next
  case Factory_Reset_Work
  then show ?thesis using assms(1) subs_factory_reset by (auto simp: factory_reset_work_fn_def)
qed (use assms in \<open>auto simp: button_press_work_fn_def subs split: if_splits\<close>)

subsection \<open>A round ends\<close>

text \<open>
  The sections left until the thread waits again, for \<open>n\<close> subscribers and \<open>k\<close> events in the
  shared queue. An event takes its record, its count, its LED, its subscribers and the way to
  the next one.
\<close>

fun sections_left :: "nat \<Rightarrow> nat \<Rightarrow> sampling_pc \<Rightarrow> nat" where
  "sections_left n k Asleep = 0"
| "sections_left n k Awake = n + 8 * (n + 4) + 14"
| "sections_left n k (Sampled _) = n + 8 * (n + 4) + 13"
| "sections_left n k (Configured _ _) = n + 8 * (n + 4) + 12"
| "sections_left n k (Struck _ _ _ _ _) = n + 8 * (n + 4) + 11"
| "sections_left n k (Judged _ _ _ _ _ _) = n + 8 * (n + 4) + 10"
| "sections_left n k (Moved _ _ _ _ _) = n + 8 * (n + 4) + 9"
| "sections_left n k (Classified _ _ _) = n + 8 * (n + 4) + 8"
| "sections_left n k (Unlocked _ _ _) = n + k * (n + 4) + 7"
| "sections_left n k (Recorded _ _) = n + k * (n + 4) + 6"
| "sections_left n k (Raising _ _ ps To_Log) = n + length ps * (n + 4) + 5"
| "sections_left n k (Raising _ _ ps (To_Count _)) = 2 * n + length (tl ps) * (n + 4) + 8"
| "sections_left n k (Raising _ _ ps (To_Light _)) = 2 * n + length (tl ps) * (n + 4) + 7"
| "sections_left n k (Raising _ _ ps (To_Tell _ ss)) =
     n + length ss + length (tl ps) * (n + 4) + 6"
| "sections_left n k (Raised_All _ _) = n + 4"
| "sections_left n k (Telling _ ss) = length ss + 3"
| "sections_left n k (Saving _) = 2"
| "sections_left n k Finished = 1"

abbreviation sections :: "sampling_pc \<Rightarrow> ('f, 'n, 'b) device \<Rightarrow> nat" where
  "sections pc d \<equiv> sections_left (length (subscribers d)) (length (ac_pending (dev_core d))) pc"

lemma subs_queue_alarms: "ac_subscribers (fold queue_alarm es c) = ac_subscribers c"
  by (induction es arbitrary: c) (simp_all add: queue_alarm_def queue_event_def)

lemma subs_with [simp]:
  "ac_subscribers (with_status f c) = ac_subscribers c"
  "ac_subscribers (with_statistics g c) = ac_subscribers c"
  "ac_subscribers (queue_event t s v c) = ac_subscribers c"
  by (simp_all add: with_status_def with_statistics_def queue_event_def)

lemma subs_motion_steps [simp]:
  "ac_subscribers (apply_motion_start motion c) = ac_subscribers c"
  "ac_subscribers (apply_motion_stop motion c) = ac_subscribers c"
  "ac_subscribers (apply_shock motion c) = ac_subscribers c"
  "ac_subscribers (apply_free_fall motion c) = ac_subscribers c"
  "ac_subscribers (apply_orientation motion c) = ac_subscribers c"
  "ac_subscribers (apply_tamper motion c) = ac_subscribers c"
  by (simp_all add: apply_motion_start_def apply_motion_stop_def apply_shock_def apply_free_fall_def
      apply_orientation_def apply_tamper_def Let_def)

lemma subs_process_locked:
  "ac_subscribers (process_locked data motion config expected c) = ac_subscribers c"
  by (simp add: process_locked_def check_thresholds_def apply_motion_result_def subs_queue_alarms
      Let_def split: prod.split)

lemma subs_sampling: "subscribers (snd (sampling_step env hw (pc, d))) = subscribers d"
  by (cases "(env, hw, pc, d)" rule: sampling_step.cases)
    (auto simp: subs_process_locked subscribers_sections take_sample_now_def dev_feed_def frame Let_def
      split: prod.split)

lemma length_pos_mult: "(length ps) * k \<le> 8 * k" if "length ps \<le> 8" for ps :: "'a list" and k :: nat
  using that by (rule mult_le_mono1)

lemma pending_sections [frame]:
  "ac_pending (dev_core (raise_log env p d)) = ac_pending (dev_core d)"
  "ac_pending (dev_core (raise_count d)) = ac_pending (dev_core d)"
  "ac_pending (dev_core (raise_light r d)) = ac_pending (dev_core d)"
  by (simp_all add: raise_log_def raise_count_def raise_light_def Let_def with_status_def
      with_statistics_def led_set_frame split: prod.split)

lemma sections_raising_nil: "n + 4 < sections_left n k (Raising data alarm [] r)"
  by (cases r) simp_all

lemma sampling_step_advances:
  assumes "preempt_inv pc d" and "sampling_step env hw (pc, d) = (pc', d')" and "pc \<noteq> Asleep"
  shows "sections pc' d' < sections pc d"
proof -
  have few: "length (ac_pending (dev_core d')) \<le> 8"
    using sampling_step_inv [OF assms(1,2)] by (simp add: preempt_inv_def)
  have subs: "subscribers d' = subscribers d" using subs_sampling [of env hw pc d] assms(2) by simp
  show ?thesis
    using assms few subs length_pos_mult [OF few, of "length (subscribers d) + 4"]
    by (cases "(env, hw, pc, d)" rule: sampling_step.cases)
      (auto simp: sections_raising_nil frame subscribers_sections pending_sections Let_def split: prod.splits if_splits)
qed

text \<open>Everything else that can happen leaves the thread where it is.\<close>

lemma handler_sections:
  assumes "preempt_inv pc d" and "not_sample e" and "handle env e d = Some d'"
  shows "sections pc (d'\<lparr>dev_rebooting := b\<rparr>) = sections pc d"
proof -
  have "tag_inv (ac_pending (dev_core d)) d'"
    using assms handle_inv [of "ac_pending (dev_core d)" d env e d']
    by (auto simp: preempt_inv_def not_sample_iff)
  then show ?thesis using handle_subscribers [OF assms(3,2)] by (simp add: tag_inv_def)
qed

lemma preempt_step_sections:
  assumes "preempt_step env (pc, r, d) (pc', r', d')" and "preempt_inv pc d" and "pc' = pc"
  shows "sections pc' d' \<le> sections pc d"
  using assms(1)
proof (cases rule: preempt_step.cases)
  case (sampling hw)
  then show ?thesis
    using sampling_step_advances [OF assms(2), of env hw pc' d'] assms(3) by (cases pc) auto
next
  case (handler e d1)
  then show ?thesis using handler_sections [OF assms(2)] by simp
next
  case reboot
  then show ?thesis by simp
qed

lemma subs_sampling_dest:
  "sampling_step env hw (pc, d) = (pc', d') \<Longrightarrow> subscribers d' = subscribers d"
  using subs_sampling [of env hw pc d] by simp

text \<open>The two stacks subscribe at startup.\<close>

lemma subs_subscribe: "length (subscribers (app_state_subscribe sub d)) \<le> Suc (length (subscribers d))"
  by (simp add: app_state_subscribe_def split: option.split)

lemma subs_ble_init: "length (subscribers (snd (ble_manager_init env d))) \<le> Suc (length (subscribers d))"
  using subs_subscribe [of "Some BLE_SUBSCRIBER" d]
  by (auto simp: ble_manager_init_def ble_gatt_init_ok ble_config_init_def set_device_name_def Let_def
      split: prod.split list.split)

lemma subs_zigbee_init:
  "length (subscribers (snd (zigbee_manager_init env d))) \<le> Suc (length (subscribers d))"
  using subs_subscribe [of "Some ZB_SUBSCRIBER" d]
  by (simp add: zigbee_manager_init_def subs Let_def) (simp add: app_state_subscribe_def)

lemma main_subscribers:
  "length (subscribers (tag_main env hw (device_at_reset env pe ps fe fs nvs bt))) \<le> 2"
proof -
  let ?d = "main_application env (main_storage env hw (device_at_reset env pe ps fe fs nvs bt))"
  have "subscribers ?d = []"
    by (simp add: main_application_def Let_def subs app_state_init_def core_init_def)
  then have "length (subscribers (snd (zigbee_manager_init env
      (snd (ble_manager_init env (app_state_set APP_STATE_ZIGBEE_START ?d)))))) \<le> 2"
    using subs_ble_init [of env "app_state_set APP_STATE_ZIGBEE_START ?d"]
      subs_zigbee_init [of env "snd (ble_manager_init env (app_state_set APP_STATE_ZIGBEE_START ?d))"]
    by (simp add: subs)
  then show ?thesis
    by (simp add: tag_main_def main_stacks_def power_manager_start_def Let_def subs)
qed

lemma reach_subscribers: "preempt_reach env (pc, r, d) \<Longrightarrow> length (subscribers d) \<le> 2"
proof (induction "(pc, r, d)" arbitrary: pc r d rule: preempt_reach.induct)
  case (boot hw pe ps fe fs nvs bt)
  show ?case by (rule main_subscribers)
next
  case (more s)
  obtain q t e where s: "s = (q, t, e)" by (cases s)
  from more.hyps(3) [unfolded s] have "subscribers d = subscribers e"
    by (cases rule: preempt_step.cases)
      (auto simp: handle_subscribers dest: subs_sampling_dest)
  then show ?case using more.hyps(2) s by simp
qed

text \<open>
  A run in which the thread does not pass through its wait, and the number of sections it ran.
\<close>

inductive awake_run ::
  "('f, 'n, 'b) tag_env \<Rightarrow> ('f, 'n, 'b) tag_system \<Rightarrow> nat \<Rightarrow> ('f, 'n, 'b) tag_system \<Rightarrow> bool"
  for env s where
  start: "awake_run env s 0 s"
| ran: "awake_run env s n (pc, r, d) \<Longrightarrow> pc \<noteq> Asleep \<Longrightarrow> \<not> dev_rebooting d \<Longrightarrow>
    sampling_step env hw (pc, d) = (pc', d') \<Longrightarrow> awake_run env s (Suc n) (pc', r, d')"
| other: "awake_run env s n (pc, r, d) \<Longrightarrow> preempt_step env (pc, r, d) (pc, r', d') \<Longrightarrow>
    awake_run env s n (pc, r', d')"

lemma awake_run_inv:
  assumes "awake_run env (pc, r, d) n (pc', r', d')" and "preempt_inv pc d"
  shows "preempt_inv pc' d' \<and> n + sections pc' d' \<le> sections pc d"
  using assms
proof (induction n "(pc', r', d')" arbitrary: pc' r' d' rule: awake_run.induct)
  case start
  then show ?case by simp
next
  case (ran n q t e hw q' e')
  then show ?case using sampling_step_inv sampling_step_advances by fastforce
next
  case (other n q t e t' e')
  then show ?case using preempt_step_inv preempt_step_sections by fastforce
qed

lemma awake_run_reach: "awake_run env s n s' \<Longrightarrow> preempt_reach env s \<Longrightarrow> preempt_reach env s'"
  by (induction rule: awake_run.induct)
    (auto intro: preempt_reach.more preempt_step.sampling)

text \<open>Left alone, the thread gets there.\<close>

lemma reaches_wait:
  assumes "awake_run env s m (pc, r, d)" and "preempt_inv pc d" and "\<not> dev_rebooting d"
  shows "\<exists>n d'. awake_run env s n (Asleep, r, d') \<and> \<not> dev_rebooting d'"
  using assms
proof (induction "sections pc d" arbitrary: m pc d rule: less_induct)
  case less
  show ?case
  proof (cases "pc = Asleep")
    case False
    obtain q e where step: "sampling_step env undefined (pc, d) = (q, e)" by fastforce
    have "\<not> dev_rebooting e"
      using sampling_step_rebooting [of env undefined pc d] step less.prems(3) by simp
    with less.hyps [OF sampling_step_advances [OF less.prems(2) step False]
        awake_run.ran [OF less.prems(1) False less.prems(3) step] sampling_step_inv [OF less.prems(2) step]]
    show ?thesis by blast
  qed (use less.prems in blast)
qed

subsection \<open>Every detected event is logged\<close>

text \<open>The event log after the record of a queued event, as \<open>event_log_add\<close> leaves it.\<close>

definition log_queued :: "('f, 'n, 'b) tag_env \<Rightarrow> u32 \<Rightarrow> pending_event \<Rightarrow> 'f log_file \<Rightarrow> 'f log_file" where
  "log_queued env uptime p lf =
     snd (snd (event_log_add (te_flash env) uptime (pe_type p) (pe_severity p) (pe_value p) lf))"

text \<open>The event log has got the records of the events \<open>ps\<close>, in order, and nothing else.\<close>

definition log_extended ::
  "('f, 'n, 'b) tag_env \<Rightarrow> pending_event list \<Rightarrow> ('f, 'n, 'b) device \<Rightarrow> ('f, 'n, 'b) device \<Rightarrow> bool" where
  "log_extended env ps d d' \<longleftrightarrow> dev_events d' = fold (log_queued env (dev_uptime_s d)) ps (dev_events d)"

text \<open>
  What a section of the thread queues (the events the locked section leaves in the shared queue),
  and what it logs: the event it is to log when the event log is then the one \<open>event_log_add\<close> leaves
  for its record; and the events of the thread that are queued and not yet logged.
\<close>

fun queued_by :: "sampling_pc \<Rightarrow> sampling_pc \<Rightarrow> ('f, 'n, 'b) device \<Rightarrow> pending_event list" where
  "queued_by (Classified _ _ _) (Unlocked _ _ _) d' = ac_pending (dev_core d')"
| "queued_by _ _ _ = []"

fun to_log :: "sampling_pc \<Rightarrow> sampling_pc \<Rightarrow> pending_event list" where
  "to_log (Raising _ _ (p # ps) To_Log) (Raising _ _ _ (To_Count _)) = [p]"
| "to_log _ _ = []"

definition logged_by ::
  "('f, 'n, 'b) tag_env \<Rightarrow> sampling_pc \<Rightarrow> ('f, 'n, 'b) device \<Rightarrow> sampling_pc \<Rightarrow> ('f, 'n, 'b) device \<Rightarrow>
   pending_event list" where
  "logged_by env pc d pc' d' = (if log_extended env (to_log pc pc') d d' then to_log pc pc' else [])"

fun unlogged :: "sampling_pc \<Rightarrow> ('f, 'n, 'b) device \<Rightarrow> pending_event list" where
  "unlogged (Raising _ _ ps To_Log) d = ps"
| "unlogged (Raising _ _ ps _) d = tl ps"
| "unlogged _ d = ac_pending (dev_core d)"

inductive preempt_run ::
  "('f, 'n, 'b) tag_env \<Rightarrow> ('f, 'n, 'b) tag_system \<Rightarrow> pending_event list \<Rightarrow> pending_event list \<Rightarrow>
   ('f, 'n, 'b) tag_system \<Rightarrow> bool" for env s where
  none: "preempt_run env s [] [] s"
| step: "preempt_run env s queued logged (pc, r, d) \<Longrightarrow>
    preempt_step env (pc, r, d) (pc', r', d') \<Longrightarrow>
    preempt_run env s (queued @ queued_by pc pc' d') (logged @ logged_by env pc d pc' d') (pc', r', d')"

lemma unlogged_nil [simp]: "unlogged (Raising data alarm [] r) d = []"
  by (cases r) simp_all

lemma same_pc_labels [simp]: "queued_by pc pc d = []" "to_log pc pc = []"
  by (cases pc; simp) (cases "(pc, pc)" rule: to_log.cases; auto)

lemma same_pc_logs [simp]: "logged_by env pc d pc d' = []"
  by (simp add: logged_by_def)

lemma unlogged_same:
  "ac_pending (dev_core d') = ac_pending (dev_core d) \<Longrightarrow> unlogged pc d' = unlogged pc d"
  by (cases "(pc, d)" rule: unlogged.cases) simp_all

text \<open>A section changes the event log by the record it is to log, and the other sections do not.\<close>

lemma raise_log_extends: "log_extended env [p] d (raise_log env p d)"
  by (simp add: log_extended_def log_queued_def raise_log_def split: prod.split)

lemma events_sections:
  "dev_events (raise_count d) = dev_events d" "dev_events (raise_light r d) = dev_events d"
  "dev_events (take_sample_now d) = dev_events d" "dev_events (dev_feed n d) = dev_events d"
  by (simp_all add: raise_count_def raise_light_def take_sample_now_def dev_feed_def frame Let_def)

lemma sampling_step_log:
  assumes "sampling_step env hw (pc, d) = (pc', d')"
  shows "log_extended env (to_log pc pc') d d'"
  using assms raise_log_extends [of env _ d]
  by (cases "(env, hw, pc, d)" rule: sampling_step.cases)
    (auto simp: Let_def log_extended_def events_sections frame split: prod.splits if_splits)

lemma sampling_step_logged: "sampling_step env hw (pc, d) = (pc', d') \<Longrightarrow> logged_by env pc d pc' d' = to_log pc pc'"
  by (simp add: logged_by_def sampling_step_log)

lemma sampling_step_fifo:
  assumes "preempt_inv pc d" and "sampling_step env hw (pc, d) = (pc', d')"
  shows "unlogged pc d @ queued_by pc pc' d' = logged_by env pc d pc' d' @ unlogged pc' d'"
proof -
  have idle: "between_queue_and_drain pc \<or> ac_pending (dev_core d) = []"
    using assms(1) by (simp add: preempt_inv_def)
  show ?thesis
    unfolding sampling_step_logged [OF assms(2)] using assms(2) idle
    by (cases "(env, hw, pc, d)" rule: sampling_step.cases)
      (auto simp: Let_def take_sample_now_def dev_feed_def frame split: prod.splits if_splits)
qed

lemma preempt_step_fifo:
  assumes "preempt_step env (pc, r, d) (pc', r', d')" and "preempt_inv pc d"
  shows "unlogged pc d @ queued_by pc pc' d' = logged_by env pc d pc' d' @ unlogged pc' d'"
  using assms(1)
proof (cases rule: preempt_step.cases)
  case (sampling hw)
  then show ?thesis using sampling_step_fifo [OF assms(2)] by simp
next
  case (handler e d1)
  have "tag_inv (ac_pending (dev_core d)) d1"
    using assms(2) handler handle_inv [of "ac_pending (dev_core d)" d env e d1]
    by (auto simp: preempt_inv_def not_sample_iff)
  then have "ac_pending (dev_core d') = ac_pending (dev_core d)"
    using handler by (simp add: tag_inv_def)
  then show ?thesis using handler(1) unlogged_same [of d' d pc] by simp
next
  case reboot
  then show ?thesis using unlogged_same [of d' d pc] by simp
qed

lemma preempt_run_fifo:
  assumes "preempt_run env (pc, r, d) queued logged (pc', r', d')" and "preempt_inv pc d"
  shows "preempt_inv pc' d' \<and> unlogged pc d @ queued = logged @ unlogged pc' d'"
  using assms
proof (induction queued logged "(pc', r', d')" arbitrary: pc' r' d' rule: preempt_run.induct)
  case none
  then show ?case by simp
next
  case (step queued logged q t e q' t' e')
  then have "preempt_inv q e" "unlogged pc d @ queued = logged @ unlogged q e" by simp_all
  with preempt_step_inv [OF step.hyps(3)] preempt_step_fifo [OF step.hyps(3)] show ?case
    by (metis append.assoc)
qed

text \<open>A run without a wait goes on from any other.\<close>

lemma awake_run_preempt_run:
  assumes "awake_run env s n s'" and "preempt_run env s0 queued logged s"
  shows "\<exists>queued logged. preempt_run env s0 queued logged s'"
  using assms
proof (induction n s' rule: awake_run.induct)
  case start
  then show ?case by blast
next
  case (ran n q r e hw q' e')
  then show ?case using preempt_run.step [OF _ preempt_step.sampling] by blast
next
  case (other n q r e t' e')
  then show ?case using preempt_run.step by blast
qed

text \<open>
  C10: a queued event is neither lost, repeated nor overtaken, whatever preempts the thread that
  queued it. In every run from a wait of the sampling thread, the events queued under the lock, at
  most eight for a sample, are the ones logged and then, in order, those of the current batch
  still to be logged; when the thread waits again they have all been logged. Logged means that the
  event log is the one \<open>event_log_add\<close> leaves for the record of the event, and every section of
  the thread extends the event log by what it logs and by nothing else.
\<close>

theorem queued_events_all_logged:
  assumes "preempt_reach env (Asleep, r, d)"
    and "preempt_run env (Asleep, r, d) queued logged (pc', r', d')"
  shows "queued = logged @ unlogged pc' d' \<and> length (unlogged pc' d') \<le> 8 \<and>
    (pc' = Asleep \<longrightarrow> logged = queued) \<and>
    (case sampling_step env hw (pc', d') of (pc2, d2) \<Rightarrow> log_extended env (logged_by env pc' d' pc2 d2) d' d2)"
proof -
  have start: "preempt_inv Asleep d" using assms(1) by (rule preempt_reach_inv)
  note run = preempt_run_fifo [OF assms(2) start]
  have "preempt_inv pc' d'" "unlogged Asleep d @ queued = logged @ unlogged pc' d'"
    using run by simp_all
  moreover have "unlogged Asleep d = []" using start by (simp add: preempt_inv_def)
  moreover from \<open>preempt_inv pc' d'\<close> have "length (unlogged pc' d') \<le> 8"
    by (cases "(pc', d')" rule: unlogged.cases) (auto simp: preempt_inv_def)
  moreover from \<open>preempt_inv pc' d'\<close> have "pc' = Asleep \<Longrightarrow> unlogged pc' d' = []"
    by (simp add: preempt_inv_def)
  moreover have "case sampling_step env hw (pc', d') of (pc2, d2) \<Rightarrow>
      log_extended env (logged_by env pc' d' pc2 d2) d' d2"
    using sampling_step_log [of env hw pc' d'] sampling_step_logged [of env hw pc' d'] by (auto split: prod.split)
  ultimately show ?thesis by auto
qed

text \<open>
  C11: a round of the sampling thread always ends. From waking up, whatever interrupts it and
  however often, the thread runs at most 64 sections before it waits again.
\<close>

theorem sampling_round_ends:
  assumes "preempt_reach env (Awake, r, d)" and "awake_run env (Awake, r, d) n (pc', r', d')"
  shows "n \<le> 64 \<and> (n = 64 \<longrightarrow> pc' = Asleep) \<and>
    (pc' \<noteq> Asleep \<longrightarrow> sections (fst (sampling_step env hw (pc', d'))) (snd (sampling_step env hw (pc', d')))
       < sections pc' d')"
proof -
  have inv: "preempt_inv Awake d" using assms(1) by (rule preempt_reach_inv)
  have "sections Awake d \<le> 64" using reach_subscribers [OF assms(1)] by simp
  moreover have run: "preempt_inv pc' d'" "n + sections pc' d' \<le> sections Awake d"
    using awake_run_inv [OF assms(2) inv] by simp_all
  moreover have "sections pc' d' = 0 \<Longrightarrow> pc' = Asleep"
    by (cases "(length (subscribers d'), length (ac_pending (dev_core d')), pc')"
        rule: sections_left.cases) auto
  moreover have "pc' \<noteq> Asleep \<Longrightarrow>
      sections (fst (sampling_step env hw (pc', d'))) (snd (sampling_step env hw (pc', d')))
       < sections pc' d'"
    using sampling_step_advances [OF run(1)] by simp
  ultimately show ?thesis by auto
qed

text \<open>The tag of the witnesses, about to take its first sample.\<close>

lemma mock_tag_preempt: "preempt_reach mock_tag_env (Awake, False, mock_tag)"
  unfolding mock_tag_def by (rule preempt_reach.boot)

lemma init_rebooting:
  "dev_rebooting (snd (ble_manager_init env d)) = dev_rebooting d"
  "dev_rebooting (snd (zigbee_manager_init env d)) = dev_rebooting d"
  by (simp_all add: ble_manager_init_def ble_gatt_init_ok ble_config_init_def set_device_name_def
      app_state_subscribe_def zigbee_manager_init_def frame Let_def split: prod.split list.split)

lemma main_parts_rebooting:
  "dev_rebooting (main_storage env hw d) = dev_rebooting d"
  "dev_rebooting (main_application env d) = dev_rebooting d"
  "dev_rebooting (app_state_set st d) = dev_rebooting d"
  "dev_rebooting (power_manager_start d) = dev_rebooting d"
  by (simp_all add: main_storage_def main_application_def app_config_init_def app_state_init_def
      app_state_set_def power_manager_start_def raise_event_def frame Let_def)

lemma mock_tag_running: "\<not> dev_rebooting mock_tag"
proof -
  have "\<not> te_advertise_at_boot mock_tag_env" by (simp add: mock_tag_env_def)
  then show ?thesis
    by (simp add: mock_tag_def tag_main_def main_stacks_def main_parts_rebooting init_rebooting
        device_at_reset_def Let_def)
qed

theorem sampling_round_ends_witness:
  "\<exists>n d'. awake_run mock_tag_env (Awake, False, mock_tag) n (Asleep, False, d') \<and> n \<le> 64"
proof -
  obtain n d' where "awake_run mock_tag_env (Awake, False, mock_tag) n (Asleep, False, d')"
    using reaches_wait [OF awake_run.start preempt_reach_inv [OF mock_tag_preempt] mock_tag_running]
    by blast
  with sampling_round_ends [OF mock_tag_preempt this] show ?thesis by blast
qed

text \<open>From the end of the first round through a second one.\<close>

theorem queued_events_all_logged_witness:
  "\<exists>d queued d'. preempt_reach mock_tag_env (Asleep, False, d) \<and>
     preempt_run mock_tag_env (Asleep, False, d) queued queued (Asleep, False, d')"
proof -
  obtain n d where first: "awake_run mock_tag_env (Awake, False, mock_tag) n (Asleep, False, d)"
    "\<not> dev_rebooting d"
    using reaches_wait [OF awake_run.start preempt_reach_inv [OF mock_tag_preempt] mock_tag_running]
    by blast
  have waits: "preempt_reach mock_tag_env (Asleep, False, d)"
    by (rule awake_run_reach [OF first(1) mock_tag_preempt])
  let ?s = "(Asleep, False, d)" and ?wake = "(Awake, False, take_sample_now d)"
  have on: "\<not> dev_rebooting (take_sample_now d)" using first(2) by (simp add: take_sample_now_def)
  have wake: "preempt_step mock_tag_env ?s ?wake"
    by (rule preempt_step.sampling) (use first(2) in simp_all)
  obtain m d' where again: "awake_run mock_tag_env ?wake m (Asleep, False, d')"
    using reaches_wait [OF awake_run.start preempt_reach_inv [OF preempt_reach.more [OF waits wake]] on]
    by blast
  obtain queued logged where run: "preempt_run mock_tag_env ?s queued logged (Asleep, False, d')"
    using awake_run_preempt_run [OF again preempt_run.step [OF preempt_run.none wake]] by blast
  have "logged = queued" using queued_events_all_logged [OF waits run] by blast
  from run [unfolded this] waits show ?thesis by blast
qed

end
