(* ===== verification/Device_Properties.thy ===== *)
theory Device_Properties
  imports Preemption
begin

section \<open>Properties of the running tag\<close>

text \<open>
  The invariants of every state of the tag, also between two sections of the sampling thread,
  and setting the configuration.
\<close>

subsection \<open>Invariants\<close>

text \<open>
  C13: the configuration in force is always valid, and the motion manager and the LED always
  work with it, when the writes of the configuration do not overlap: from startup on, also
  between two sections of the sampling thread, whatever the settings store held and whatever is
  written over Bluetooth or Zigbee, each write being one step. (\<open>Config_Race\<close> shows that two
  overlapping writes can break it.) The sampling interval computed from it is at least one
  second and at most the configured one.
\<close>

theorem config_always_in_force:
  assumes "preempt_reach env (pc, r, d)"
  shows "app_config_validate (dev_config d) \<and> mm_config (dev_motion d) = dev_config d \<and>
    led_enabled (dev_led d) = (cfg_led_enabled (dev_config d) \<noteq> 0) \<and>
    1 \<le> sleep_interval_s env d \<and> sleep_interval_s env d \<le> cfg_sampling_interval_s (dev_config d)"
proof -
  have force: "config_in_force d" using preempt_reach_inv [OF assms] by (simp add: preempt_inv_def tag_inv_def)
  let ?s = "cfg_sampling_interval_s (dev_config d)"
  have "\<not> ?s < 1" using force unfolding config_in_force_def app_config_validate_def by blast
  then have pos: "1 \<le> ?s" by (simp only: not_less)
  have div: "?s div k \<le> ?s" for k :: u16
    by (simp add: word_le_nat_alt unat_div)
  have "1 \<le> sleep_interval_s env d \<and> sleep_interval_s env d \<le> ?s"
    using pos div
    by (auto simp: sleep_interval_s_def app_config_effective_interval_s_def app_config_get_def Let_def
        max_def not_le)
  then show ?thesis using force by (simp add: config_in_force_def)
qed

theorem config_always_in_force_witness:
  "app_config_validate (dev_config mock_tag) \<and> 1 \<le> sleep_interval_s mock_tag_env mock_tag"
  using config_always_in_force [OF mock_tag_preempt] by simp

text \<open>
  C20: the status a client reads and the statistics that are stored never disagree on the shock,
  free fall, event and movement counters, also while the sampling thread is preempted; events wait
  in the queue only between the section that detects them and the one that takes the batch.
\<close>

theorem counters_always_agree:
  assumes "preempt_reach env (pc, r, d)"
  shows "st_shock_count (app_state_get_status d) = stat_shock_count (app_state_get_statistics d) \<and>
    st_free_fall_count (app_state_get_status d) = stat_free_fall_count (app_state_get_statistics d) \<and>
    st_event_count (app_state_get_status d) = stat_event_count (app_state_get_statistics d) \<and>
    st_max_shock_mg (app_state_get_status d) = stat_max_shock_mg (app_state_get_statistics d) \<and>
    st_movement_duration_s (app_state_get_status d)
      = stat_movement_duration_s (app_state_get_statistics d) \<and>
    (between_queue_and_drain pc \<or> ac_pending (dev_core d) = [])"
  using preempt_reach_inv [OF assms]
  by (simp add: preempt_inv_def tag_inv_def counters_agree_def app_state_get_status_def app_state_get_statistics_def)

theorem counters_always_agree_witness:
  "st_event_count (app_state_get_status mock_tag) = stat_event_count (app_state_get_statistics mock_tag)"
  using counters_always_agree [OF mock_tag_preempt] by simp

text \<open>A byte that is at most the last mode is a mode, and the packed byte of an advertisement unpacks.\<close>

lemma tag_mode_of_code:
  assumes "m \<le> tag_mode_code TAG_MODE_SHIPPING"
  shows "m \<in> range tag_mode_code"
proof -
  have "unat m \<le> 2" using assms by (simp add: word_le_nat_alt)
  then have "unat m \<in> {0, 1, 2}" by auto
  then have "m \<in> {0, 1, 2}" by (auto simp: word_unat_eq_iff)
  then show ?thesis by (auto simp flip: tag_mode_code.simps)
qed

lemma adv_state_byte:
  assumes "b = push_bit 4 (motion_state_code ms) OR (orientation_code o1 AND 0x0f)"
  shows "drop_bit 4 b = motion_state_code ms" and "b AND 0x0f = orientation_code o1"
  unfolding assms by (cases ms; cases o1; simp)+

text \<open>
  C21: in every state, also between two sections of the sampling thread, the bytes of the status that stand for the motion state, the
  orientation and the operating mode name a value of their enumeration, and the byte of an
  advertisement that packs the first two unpacks to them.
\<close>

theorem status_always_typed:
  assumes "preempt_reach env (pc, r, d)"
  shows "\<exists>ms o1 mode. st_motion_state (app_state_get_status d) = motion_state_code ms \<and>
    st_orientation (app_state_get_status d) = orientation_code o1 \<and>
    st_operating_mode (app_state_get_status d) = tag_mode_code mode \<and>
    drop_bit 4 (adv_summary (app_state_get_status d) sample ! 1) = motion_state_code ms \<and>
    adv_summary (app_state_get_status d) sample ! 1 AND 0x0f = orientation_code o1"
proof -
  have typed: "status_typed (app_state_get_status d)"
    using preempt_reach_inv [OF assms] by (simp add: preempt_inv_def tag_inv_def app_state_get_status_def)
  then obtain ms o1 where s: "st_motion_state (app_state_get_status d) = motion_state_code ms"
    "st_orientation (app_state_get_status d) = orientation_code o1"
    unfolding status_typed_def by blast
  moreover obtain mode where "st_operating_mode (app_state_get_status d) = tag_mode_code mode"
    using typed tag_mode_of_code unfolding status_typed_def by blast
  moreover have "adv_summary (app_state_get_status d) sample ! 1 =
      push_bit 4 (motion_state_code ms) OR (orientation_code o1 AND 0x0f)"
    by (simp add: adv_summary_def s)
  ultimately show ?thesis using adv_state_byte by metis
qed

theorem status_always_typed_witness:
  "st_motion_state (app_state_get_status mock_tag) \<in> range motion_state_code"
  using status_always_typed [OF mock_tag_preempt] by auto

text \<open>
  C18: the radio is never left on. At every moment, also while the sampling thread is preempted, the
  tag advertises only while a service window is open, and every open window has its timeout
  scheduled.
\<close>

theorem advertising_only_in_window:
  assumes "preempt_reach env (pc, r, d)"
  shows "(bm_advertising (dev_ble d) \<longrightarrow> pw_service_mode (dev_power d)) \<and>
    (pw_service_mode (dev_power d) \<longleftrightarrow> pw_service_timeout (dev_power d) \<noteq> None)"
  using preempt_reach_inv [OF assms] unfolding preempt_inv_def tag_inv_def window_ok_def by blast

theorem advertising_only_in_window_witness:
  "pw_service_mode (dev_power mock_tag) \<longleftrightarrow> pw_service_timeout (dev_power mock_tag) \<noteq> None"
  using advertising_only_in_window [OF mock_tag_preempt] by simp

text \<open>
  C19: nothing waits for a work item that is not scheduled: a pending sample or event has the
  notification work submitted, and a running log download has its work item pending; also between
  two sections of the sampling thread.
\<close>

theorem queued_work_is_scheduled:
  assumes "preempt_reach env (pc, r, d)"
  shows "(bg_pending_sensor_valid (dev_gatt d) \<or> bg_event_queue (dev_gatt d) \<noteq> [] \<longrightarrow>
      bg_notify_work (dev_gatt d)) \<and> length (bg_event_queue (dev_gatt d)) \<le> 8 \<and>
    (sm_active (dev_stream d) \<longrightarrow> sm_work (dev_stream d) \<noteq> None)"
  using preempt_reach_inv [OF assms]
  by (simp add: preempt_inv_def tag_inv_def gatt_awake_def stream_awake_def EVENT_QUEUE_LEN_def)

theorem queued_work_is_scheduled_witness:
  "length (bg_event_queue (dev_gatt mock_tag)) \<le> 8"
  using queued_work_is_scheduled [OF mock_tag_preempt] by simp

subsection \<open>Setting the configuration\<close>

lemma settings_restore_stats_config [simp]:
  "cs_stored_config (settings_restore ''stats'' stored cs) = cs_stored_config cs"
  by (auto simp: settings_restore_def settings_set_def split: option.split sum.split)

text \<open>
  A configuration is applied everywhere or not at all. Out of range, \<open>app_config_set\<close> is
  refused and nothing changes; otherwise the new configuration is in force in the modules that
  cache it, the sampling thread is woken, the counters and logs are untouched, and when the
  store took it, the next boot starts from it.
\<close>

lemma config_set_all_or_nothing:
  assumes "settings_store_ok (te_settings env)" and "app_config_set env cfg d = (err, d')"
  shows "if app_config_validate cfg
    then dev_config d' = cfg \<and> mm_config (dev_motion d') = cfg \<and>
      led_enabled (dev_led d') = (cfg_led_enabled cfg \<noteq> 0) \<and> pw_sample_now (dev_power d') \<and>
      dev_core d' = dev_core d \<and> dev_events d' = dev_events d \<and>
      (err = 0 \<longrightarrow> dev_config (app_config_init (d0\<lparr>dev_store :=
         settings_load_smart_tag (te_settings env) (dev_nvs d') config_storage_boot\<rparr>)) = cfg)
    else err = - EINVAL \<and> d' = d"
proof (cases "app_config_validate cfg")
  case True
  have stored: "cs_stored_config (settings_load_smart_tag (te_settings env) (dev_nvs d') config_storage_boot) = cfg"
    if "err = 0"
  proof -
    have save: "se_save_one (te_settings env) (dev_nvs d) SETTINGS_KEY_CONFIG
        (tag_config_encode cfg SETTINGS_BLOB_MAX) = (0, dev_nvs d')"
      using assms(2) True that
      by (auto simp: app_config_set_def config_storage_save_def power_manager_config_changed_def Let_def
          split: prod.splits)
    then have "se_load (te_settings env) (dev_nvs d') SETTINGS_KEY_CONFIG
        = Some (tag_config_encode cfg SETTINGS_BLOB_MAX)"
      using assms(1) by (auto simp: settings_store_ok_def)
    then show ?thesis
      by (simp add: settings_load_smart_tag_def settings_restore_stats_config)
  qed
  show ?thesis
    using app_config_set_state [OF assms(2)] True stored
    by (auto simp: config_in_force_def app_config_init_def config_storage_load_def Let_def)
next
  case False
  then show ?thesis using app_config_set_state [OF assms(2)] by simp
qed

text \<open>Switching the LED off on the tag of the witnesses.\<close>

lemma mock_config_set:
  "\<exists>d'. app_config_set mock_tag_env (TAG_CONFIG_DEFAULTS\<lparr>cfg_led_enabled := 0\<rparr>) mock_tag = (0, d')"
  by (simp add: app_config_set_def config_storage_save_def mock_tag_env_def map_settings_def Let_def
      app_config_validate_def TAG_CONFIG_DEFAULTS_def power_manager_config_changed_def)

lemma config_set_all_or_nothing_witness:
  "\<exists>d'. app_config_set mock_tag_env (TAG_CONFIG_DEFAULTS\<lparr>cfg_led_enabled := 0\<rparr>) mock_tag = (0, d') \<and>
    \<not> led_enabled (dev_led d') \<and>
    cfg_led_enabled (dev_config (app_config_init (mock_tag\<lparr>dev_store := settings_load_smart_tag
      map_settings (dev_nvs d') config_storage_boot\<rparr>))) = 0"
proof -
  let ?c = "TAG_CONFIG_DEFAULTS\<lparr>cfg_led_enabled := 0\<rparr>"
  have ok: "app_config_validate ?c" by (simp add: app_config_validate_def TAG_CONFIG_DEFAULTS_def)
  have env: "te_settings mock_tag_env = map_settings" by (simp add: mock_tag_env_def)
  obtain d' where set_c: "app_config_set mock_tag_env ?c mock_tag = (0, d')"
    using mock_config_set by blast
  then show ?thesis
    using config_set_all_or_nothing [OF _ set_c, where ?d0.0 = mock_tag] ok by (simp add: env map_settings_ok)
qed

end
