(* ===== verification/Device_Operations.thy ===== *)
theory Device_Operations
  imports Device_Properties Log_Properties
begin

section \<open>Operations that go through the whole tag\<close>

text \<open>
  What a sample does from the classifier to the event log, and what the factory reset leaves.
\<close>

subsection \<open>The events of a sample\<close>

text \<open>The events a motion result and an alarm stand for, as they are queued.\<close>

definition queued :: "event_type \<Rightarrow> event_severity \<Rightarrow> s16 \<Rightarrow> pending_event" where
  "queued type severity value = \<lparr> pe_type = event_code type, pe_severity = severity_code severity,
     pe_value = value \<rparr>"

definition motion_events :: "motion_result \<Rightarrow> pending_event list" where
  "motion_events m =
     (if has_flag (mr_events m) MOTION_EVENT_START
      then [queued EVENT_MOTION_START EVENT_SEVERITY_INFO 0] else []) @
     (if has_flag (mr_events m) MOTION_EVENT_STOP
      then [queued EVENT_MOTION_STOP EVENT_SEVERITY_INFO
              (ucast (min (mr_movement_duration_s m) (word_of_int INT16_MAX)))] else []) @
     (if has_flag (mr_events m) MOTION_EVENT_SHOCK
      then [queued EVENT_SHOCK EVENT_SEVERITY_ALARM (mr_shock_mg m)] else []) @
     (if has_flag (mr_events m) MOTION_EVENT_FREE_FALL
      then [queued EVENT_FREE_FALL EVENT_SEVERITY_ALARM 0] else []) @
     (if has_flag (mr_events m) MOTION_EVENT_ORIENTATION
      then [queued EVENT_ORIENTATION_CHANGE EVENT_SEVERITY_INFO (ucast (mr_orientation m))] else []) @
     (if has_flag (mr_events m) MOTION_EVENT_TAMPER
      then [queued EVENT_TAMPER EVENT_SEVERITY_ALARM 0] else [])"

definition alarm_event :: "app_alarm_event \<Rightarrow> pending_event" where
  "alarm_event a = \<lparr> pe_type = ae_type a, pe_severity = ae_severity a, pe_value = ae_value a \<rparr>"

definition motion_alarm_flags :: "motion_result \<Rightarrow> u16 \<Rightarrow> u16" where
  "motion_alarm_flags m f =
     (let f = (if has_flag (mr_events m) MOTION_EVENT_SHOCK then f OR ALARM_SHOCK else f);
          f = (if has_flag (mr_events m) MOTION_EVENT_FREE_FALL then f OR ALARM_FREE_FALL else f)
      in if has_flag (mr_events m) MOTION_EVENT_TAMPER then f OR ALARM_TAMPER else f)"

text \<open>The queue keeps the first eight.\<close>

lemma take_queue: "take n (take n xs @ ys) = take n (xs @ ys)"
  by (cases "length xs \<le> n") simp_all

lemma pending_queue_event:
  "length (ac_pending c) \<le> 8 \<Longrightarrow> ac_pending (queue_event t s v c)
     = take 8 (ac_pending c @ [\<lparr> pe_type = t, pe_severity = s, pe_value = v \<rparr>])"
  by (simp add: queue_event_def MAX_PENDING_EVENTS_def)

lemma pending_with [simp]:
  "ac_pending (with_status f c) = ac_pending c" "ac_pending (with_statistics g c) = ac_pending c"
  by (simp_all add: with_status_def with_statistics_def)

lemma pending_queue_alarms:
  "length (ac_pending c) \<le> 8 \<Longrightarrow>
     ac_pending (fold queue_alarm es c) = take 8 (ac_pending c @ map alarm_event es)"
proof (induction es arbitrary: c)
  case (Cons e es)
  have q: "ac_pending (queue_alarm e c) = take 8 (ac_pending c @ [alarm_event e])"
    using Cons.prems by (simp add: queue_alarm_def alarm_event_def pending_queue_event)
  then show ?case using Cons.IH [of "queue_alarm e c"] by (simp only: fold_simps o_apply take_queue) simp
qed simp

lemma pending_blocks:
  assumes "length (ac_pending c) \<le> 8"
  shows "ac_pending (apply_motion_start m c) = take 8 (ac_pending c @
      (if has_flag (mr_events m) MOTION_EVENT_START
       then [queued EVENT_MOTION_START EVENT_SEVERITY_INFO 0] else []))"
    "ac_pending (apply_motion_stop m c) = take 8 (ac_pending c @
      (if has_flag (mr_events m) MOTION_EVENT_STOP
       then [queued EVENT_MOTION_STOP EVENT_SEVERITY_INFO
               (ucast (min (mr_movement_duration_s m) (word_of_int INT16_MAX)))] else []))"
    "ac_pending (apply_shock m c) = take 8 (ac_pending c @
      (if has_flag (mr_events m) MOTION_EVENT_SHOCK
       then [queued EVENT_SHOCK EVENT_SEVERITY_ALARM (mr_shock_mg m)] else []))"
    "ac_pending (apply_free_fall m c) = take 8 (ac_pending c @
      (if has_flag (mr_events m) MOTION_EVENT_FREE_FALL
       then [queued EVENT_FREE_FALL EVENT_SEVERITY_ALARM 0] else []))"
    "ac_pending (apply_orientation m c) = take 8 (ac_pending c @
      (if has_flag (mr_events m) MOTION_EVENT_ORIENTATION
       then [queued EVENT_ORIENTATION_CHANGE EVENT_SEVERITY_INFO (ucast (mr_orientation m))] else []))"
    "ac_pending (apply_tamper m c) = take 8 (ac_pending c @
      (if has_flag (mr_events m) MOTION_EVENT_TAMPER
       then [queued EVENT_TAMPER EVENT_SEVERITY_ALARM 0] else []))"
  using assms
  by (simp_all add: apply_motion_start_def apply_motion_stop_def apply_shock_def apply_free_fall_def
      apply_orientation_def apply_tamper_def Let_def pending_queue_event queued_def)

lemma length_take_queue: "length (take n xs) \<le> n"
  by simp

lemma pending_motion:
  assumes "length (ac_pending c) \<le> 8"
  shows "ac_pending (apply_motion_result m c) = take 8 (ac_pending c @ motion_events m)"
  using assms
  by (simp only: apply_motion_result_def Let_def pending_with pending_blocks length_take_queue
      take_queue append_assoc motion_events_def)

lemma flags_queue [simp]: "ac_status (queue_event t s v c) = ac_status c"
  by (simp add: queue_event_def)

lemma status_motion:
  "st_alarm_flags (ac_status (apply_motion_result m c)) = motion_alarm_flags m (st_alarm_flags (ac_status c))"
  "st_event_count (ac_status (apply_motion_result m c)) = st_event_count (ac_status c)"
  by (simp_all add: apply_motion_result_def Let_def apply_motion_start_def apply_motion_stop_def apply_shock_def
      apply_free_fall_def apply_orientation_def apply_tamper_def motion_alarm_flags_def with_status_def with_statistics_def)

text \<open>What raising queued events does to the log and the counter.\<close>

lemma raise_pending_logs:
  "dev_events (raise_pending env p d) = log_queued env (dev_uptime_s d) p (dev_events d)"
  "st_event_count (ac_status (dev_core (raise_pending env p d))) = st_event_count (ac_status (dev_core d)) + 1"
  "st_alarm_flags (ac_status (dev_core (raise_pending env p d))) = st_alarm_flags (ac_status (dev_core d))"
  "dev_uptime_s (raise_pending env p d) = dev_uptime_s d"
  by (simp_all add: raise_pending_def app_raise_event_def Let_def frame log_queued_def
      with_status_def with_statistics_def split: prod.split)

lemma raise_pendings_log:
  "dev_events (fold (raise_pending env) ps d) = fold (log_queued env (dev_uptime_s d)) ps (dev_events d)"
  "st_event_count (ac_status (dev_core (fold (raise_pending env) ps d)))
     = st_event_count (ac_status (dev_core d)) + of_nat (length ps)"
  "st_alarm_flags (ac_status (dev_core (fold (raise_pending env) ps d)))
     = st_alarm_flags (ac_status (dev_core d))"
  by (induction ps arbitrary: d) (simp_all add: raise_pending_logs)

lemma status_queue_alarms [simp]: "ac_status (fold queue_alarm es c) = ac_status c"
  by (induction es arbitrary: c) (simp_all add: queue_alarm_def)

lemma process_locked_result:
  assumes "ac_pending c = []"
    and "app_alarms_eval data config expected (motion_alarm_flags motion (st_alarm_flags (ac_status c)))
      = (flags, alarms)"
  shows "ac_pending (process_locked data motion config expected c)
      = take 8 (motion_events motion @ map alarm_event alarms)"
    "st_alarm_flags (ac_status (process_locked data motion config expected c)) = flags"
    "st_event_count (ac_status (process_locked data motion config expected c)) = st_event_count (ac_status c)"
proof -
  let ?c = "c\<lparr>ac_last_sample := data\<rparr>"
  have m: "ac_pending (apply_motion_result motion ?c) = take 8 (motion_events motion)"
    using pending_motion [of ?c motion] assms(1) by simp
  have rest: "take (8 - min (length xs) 8) ys = take (8 - length xs) ys" for xs ys :: "pending_event list"
    by (simp add: min_def)
  show "ac_pending (process_locked data motion config expected c)
      = take 8 (motion_events motion @ map alarm_event alarms)"
    using assms(2)
    by (simp add: process_locked_def Let_def check_thresholds_def status_motion pending_queue_alarms m
        rest)
  show "st_alarm_flags (ac_status (process_locked data motion config expected c)) = flags"
    "st_event_count (ac_status (process_locked data motion config expected c)) = st_event_count (ac_status c)"
    using assms(2)
    by (simp_all add: process_locked_def Let_def check_thresholds_def status_motion with_status_def
        with_statistics_def)
qed

text \<open>
  C12: a detected event is neither lost nor repeated. The events of a sample are those of its
  motion result and then those of its alarms, in this order and at most eight; each is added to
  the event log once, the event counter grows by their number, and none stays queued.
\<close>

theorem sample_events_logged:
  assumes "ac_pending (dev_core d) = []"
    and "motion_manager_process data (dev_motion d) = (sample, motion, mm)"
    and "app_alarms_eval sample (dev_config d) (ss_expected_valid (dev_sensing d))
      (motion_alarm_flags motion (st_alarm_flags (ac_status (dev_core d)))) = (flags, alarms)"
  shows "let events = take 8 (motion_events motion @ map alarm_event alarms);
      d' = app_process_sensor_data env data d in
    dev_events d' = fold (log_queued env (dev_uptime_s d)) events (dev_events d) \<and>
    st_event_count (ac_status (dev_core d'))
      = st_event_count (ac_status (dev_core d)) + of_nat (length events) \<and>
    st_alarm_flags (ac_status (dev_core d')) = flags \<and> ac_pending (dev_core d') = []"
  using process_locked_result [OF assms(1,3)]
  by (simp add: app_process_sensor_data_def app_config_get_def assms(2) Let_def frame drain_pending_events_def
      raise_pendings_log split: prod.split)

text \<open>A low battery and a missing temperature sensor: two events.\<close>

definition low_battery_tag :: "(u8 list, string \<Rightarrow> u8 list option, (u8 \<times> u8 list) list) device" where
  "low_battery_tag = mock_tag\<lparr>dev_core := app_core_boot, dev_motion := motion_manager_init TAG_CONFIG_DEFAULTS,
     dev_config := TAG_CONFIG_DEFAULTS,
     dev_sensing := \<lparr> ss_init_faults = 0, ss_expected_valid = SENSOR_VALID_TEMP_RH \<rparr>\<rparr>"

definition low_battery_sample :: sensor_data where
  "low_battery_sample = sensor_data_zero\<lparr>sd_battery_mv := 2000, sd_valid := SENSOR_VALID_BATTERY\<rparr>"

lemma low_battery_detected:
  "\<exists>r mm flags alarms. motion_manager_process low_battery_sample (dev_motion low_battery_tag) = (low_battery_sample, r, mm) \<and>
    app_alarms_eval low_battery_sample (dev_config low_battery_tag) (ss_expected_valid (dev_sensing low_battery_tag))
      (motion_alarm_flags r (st_alarm_flags (ac_status (dev_core low_battery_tag)))) = (flags, alarms) \<and>
    motion_events r @ map alarm_event alarms =
      [\<lparr> pe_type = event_code EVENT_BATTERY_LOW, pe_severity = severity_code EVENT_SEVERITY_WARNING, pe_value = 2000 \<rparr>,
       \<lparr> pe_type = event_code EVENT_SENSOR_FAULT, pe_severity = severity_code EVENT_SEVERITY_WARNING, pe_value = 8 \<rparr>]"
proof -
  let ?d = low_battery_tag and ?s = low_battery_sample
  have accel: "\<not> accel_valid ?s" by (simp add: low_battery_sample_def flag_defs)
  let ?r = "mp_result ?s (dev_motion ?d)"
  have proc: "motion_manager_process ?s (dev_motion ?d) = (?s, ?r, dev_motion ?d)"
    using process_invalid [OF accel, of "dev_motion ?d"] by (simp add: prod_eq_iff)
  have none: "motion_events ?r = []" "motion_alarm_flags ?r f = f" for f
    using process_invalid(3) [OF accel, of "dev_motion ?d"]
    by (simp_all add: motion_events_def motion_alarm_flags_def)
  have two: "map alarm_event (snd (app_alarms_eval ?s TAG_CONFIG_DEFAULTS SENSOR_VALID_TEMP_RH 0)) =
      [\<lparr> pe_type = event_code EVENT_BATTERY_LOW, pe_severity = severity_code EVENT_SEVERITY_WARNING, pe_value = 2000 \<rparr>,
       \<lparr> pe_type = event_code EVENT_SENSOR_FAULT, pe_severity = severity_code EVENT_SEVERITY_WARNING, pe_value = 8 \<rparr>]"
    unfolding low_battery_sample_def by code_simp
  have state: "dev_config ?d = TAG_CONFIG_DEFAULTS" "ss_expected_valid (dev_sensing ?d) = SENSOR_VALID_TEMP_RH"
    "st_alarm_flags (ac_status (dev_core ?d)) = 0"
    by (simp_all add: low_battery_tag_def app_core_boot_def tag_status_zero_def)
  have "app_alarms_eval ?s TAG_CONFIG_DEFAULTS SENSOR_VALID_TEMP_RH 0 =
      (fst (app_alarms_eval ?s TAG_CONFIG_DEFAULTS SENSOR_VALID_TEMP_RH 0),
       snd (app_alarms_eval ?s TAG_CONFIG_DEFAULTS SENSOR_VALID_TEMP_RH 0))" by simp
  with proc two none state show ?thesis by (metis append_Nil)
qed

theorem sample_events_logged_witness:
  "st_event_count (ac_status (dev_core (app_process_sensor_data mock_tag_env low_battery_sample low_battery_tag))) = 2"
proof -
  have idle: "ac_pending (dev_core low_battery_tag) = []" "st_event_count (ac_status (dev_core low_battery_tag)) = 0"
    by (simp_all add: low_battery_tag_def app_core_boot_def tag_status_zero_def)
  obtain r mm flags alarms where
    "motion_manager_process low_battery_sample (dev_motion low_battery_tag) = (low_battery_sample, r, mm)"
    "app_alarms_eval low_battery_sample (dev_config low_battery_tag) (ss_expected_valid (dev_sensing low_battery_tag))
      (motion_alarm_flags r (st_alarm_flags (ac_status (dev_core low_battery_tag)))) = (flags, alarms)"
    "length (motion_events r @ map alarm_event alarms) = 2"
    using low_battery_detected by (metis One_nat_def Suc_1 length_Cons list.size(3))
  then show ?thesis
    using sample_events_logged [OF idle(1), of low_battery_sample low_battery_sample r mm flags alarms mock_tag_env] idle(2)
    by (simp add: Let_def)
qed

subsection \<open>The factory reset\<close>

context flash_partition
begin

lemma file_append:
  assumes "file_ok env cells medium_ok lf" and "unat (fl_next_seq (lf_log lf)) + 1 < 2 ^ 32"
    and "length rec = unat (fl_payload_size (lf_log lf))"
  shows "\<exists>lf'. log_file_append env rec lf = (0, Some (fl_next_seq (lf_log lf)), lf') \<and>
    file_ok env cells medium_ok lf'"
proof -
  obtain log' f' where "flash_log_append env (lf_log lf) (lf_mem lf) rec
      = (0, Some (fl_next_seq (lf_log lf)), log', f')" "ring_inv env cells medium_ok log' f'"
    using flash_log_append_correct assms unfolding file_ok_def by blast
  then show ?thesis by (simp add: log_file_append_def file_ok_def)
qed

lemma file_clear:
  assumes "file_ok env cells medium_ok lf"
  shows "\<exists>n lf'. log_file_clear env lf = Some (0, n, lf') \<and> file_ok env cells medium_ok lf' \<and>
    file_entries env cells lf' = []"
proof -
  obtain log' f' n where "flash_log_erase env (lf_log lf) (lf_mem lf) = Some (0, log', f', n)"
    "ring_inv env cells medium_ok log' f'" "ring_entries env cells log' f' = []"
    using flash_log_erase_correct assms unfolding file_ok_def by blast
  then show ?thesis by (simp add: log_file_clear_def file_ok_def file_entries_def)
qed

end

text \<open>A settings store that does not fail.\<close>

definition settings_writable :: "'n settings_env \<Rightarrow> bool" where
  "settings_writable se \<longleftrightarrow> (\<forall>nvs key blob. fst (se_save_one se nvs key blob) = 0) \<and>
     (\<forall>nvs key. fst (se_delete se nvs key) = 0)"

text \<open>After the reset the store holds the default configuration and no statistics.\<close>

lemma reset_config_stored:
  assumes "settings_store_ok (te_settings env)" and "settings_writable (te_settings env)"
    and "config_storage_factory_reset (te_settings env) (dev_store d, dev_nvs d) = (e, store, nvs)"
    and "app_config_reset env (d\<lparr>dev_store := store, dev_nvs := nvs\<rparr>) = (e', d')"
  shows "se_load (te_settings env) (dev_nvs d') SETTINGS_KEY_CONFIG
      = Some (tag_config_encode TAG_CONFIG_DEFAULTS SETTINGS_BLOB_MAX) \<and>
    se_load (te_settings env) (dev_nvs d') SETTINGS_KEY_STATS = None \<and>
    dev_config d' = TAG_CONFIG_DEFAULTS \<and> dev_events d' = dev_events d \<and> dev_sensors d' = dev_sensors d"
proof -
  let ?se = "te_settings env"
  obtain n1 where del1: "se_delete ?se (dev_nvs d) SETTINGS_KEY_CONFIG = (0, n1)"
    using assms(2) by (metis settings_writable_def prod.collapse)
  obtain n2 where del2: "se_delete ?se n1 SETTINGS_KEY_STATS = (0, n2)"
    using assms(2) by (metis settings_writable_def prod.collapse)
  have "nvs = n2" using assms(3) del1 del2 by (auto simp: config_storage_factory_reset_def Let_def)
  obtain n3 where save: "se_save_one ?se n2 SETTINGS_KEY_CONFIG
      (tag_config_encode TAG_CONFIG_DEFAULTS SETTINGS_BLOB_MAX) = (0, n3)"
    using assms(2) by (metis settings_writable_def prod.collapse)
  have d': "dev_nvs d' = n3" "dev_config d' = TAG_CONFIG_DEFAULTS" "dev_events d' = dev_events d"
    "dev_sensors d' = dev_sensors d"
    using assms(4) save \<open>nvs = n2\<close>
    by (auto simp: app_config_reset_def app_config_set_def config_storage_save_def Let_def
        power_manager_config_changed_def)
  have "se_load ?se n2 SETTINGS_KEY_STATS = None"
    using assms(1) del2 unfolding settings_store_ok_def by blast
  then have "se_load ?se n3 SETTINGS_KEY_STATS = None"
    using assms(1) save settings_keys_differ(2) unfolding settings_store_ok_def by metis
  moreover have "se_load ?se n3 SETTINGS_KEY_CONFIG
      = Some (tag_config_encode TAG_CONFIG_DEFAULTS SETTINGS_BLOB_MAX)"
    using assms(1) save unfolding settings_store_ok_def by blast
  ultimately show ?thesis using d' by simp
qed

text \<open>Raising an event keeps the event log a ring; the clear operations empty theirs.\<close>

lemma raised_file_ok:
  assumes "flash_partition (te_flash env) cells medium_ok"
    and "file_ok (te_flash env) cells medium_ok (dev_events d)"
    and "fl_payload_size (lf_log (dev_events d)) = 8"
    and "unat (fl_next_seq (lf_log (dev_events d))) + 1 < 2 ^ 32"
  shows "file_ok (te_flash env) cells medium_ok (dev_events (raise_event env t sv v d))"
proof -
  let ?r = "\<lparr> ev_timestamp = dev_uptime_s d, ev_type = event_code t, ev_severity = severity_code sv,
    ev_value = v \<rparr>"
  have "length (event_record_bytes ?r) = unat (fl_payload_size (lf_log (dev_events d)))"
    using assms(3) by (simp add: wire_defs)
  from flash_partition.file_append [OF assms(1,2,4) this] show ?thesis
    by (auto simp: raise_event_def app_raise_event_def event_log_add_def Let_def frame)
qed

lemma cleared_logs:
  assumes "flash_partition (te_flash env) cells medium_ok"
  shows "file_ok (te_flash env) cells medium_ok (dev_events d) \<Longrightarrow>
      \<exists>d'. clear_event_log env d = Some (0, d') \<and> file_entries (te_flash env) cells (dev_events d') = [] \<and>
        dev_sensors d' = dev_sensors d"
    "file_ok (te_flash env) cells medium_ok (dev_sensors d) \<Longrightarrow>
      \<exists>d'. clear_sensor_log env d = Some (0, d') \<and> file_entries (te_flash env) cells (dev_sensors d') = [] \<and>
        dev_events d' = dev_events d"
  using flash_partition.file_clear [OF assms]
  by (fastforce simp: clear_event_log_def clear_sensor_log_def event_log_clear_def sensor_log_clear_def
      dev_feed_def)+

text \<open>What the factory reset does before it sleeps is not yet the reboot.\<close>

lemma factory_reset_wipe_awake:
  assumes "factory_reset_wipe env d = Some d'"
  shows "dev_rebooting d' = dev_rebooting d"
  using assms
  by (auto simp: factory_reset_wipe_def clear_event_log_def clear_sensor_log_def app_config_reset_def
      app_config_set_def power_manager_config_changed_def dev_feed_def raise_event_def frame Let_def
      split: option.splits prod.splits if_splits)

lemma settings_restore_none [simp]: "settings_restore name None cs = cs"
  by (simp add: settings_restore_def)

text \<open>
  C16: the factory reset ends and leaves nothing behind, if nothing else runs during the 500 ms it
  sleeps before the reboot (see \<open>Factory_Reset\<close> for what can). On working flash and a working
  store both logs are empty, the defaults are in force, the tag reboots, and that boot restores
  the default configuration and zero statistics. In the preemptible firmware this is the run in
  which the handler's step is followed by the reboot.
\<close>

theorem factory_reset_restores_defaults:
  assumes "flash_partition (te_flash env) cells medium_ok"
    and "settings_store_ok (te_settings env)" and "settings_writable (te_settings env)"
    and "file_ok (te_flash env) cells medium_ok (dev_events d)"
    and "file_ok (te_flash env) cells medium_ok (dev_sensors d)"
    and "fl_payload_size (lf_log (dev_events d)) = 8"
    and "unat (fl_next_seq (lf_log (dev_events d))) + 1 < 2 ^ 32" and "\<not> dev_rebooting d"
  shows "\<exists>d1 d'. preempt_step env (pc, False, d) (pc, True, d1) \<and> preempt_step env (pc, True, d1) (pc, True, d') \<and>
    factory_reset_wipe env d = Some d1 \<and> app_state_factory_reset env d = Some d' \<and> dev_rebooting d' \<and>
    file_entries (te_flash env) cells (dev_events d') = [] \<and>
    file_entries (te_flash env) cells (dev_sensors d') = [] \<and>
    dev_config d' = TAG_CONFIG_DEFAULTS \<and>
    (let stored = settings_load_smart_tag (te_settings env) (dev_nvs d') config_storage_boot in
     config_storage_load stored = TAG_CONFIG_DEFAULTS \<and>
     config_storage_load_statistics stored = tag_statistics_zero)"
proof -
  note part = assms(1)
  let ?d0 = "raise_event env EVENT_FACTORY_RESET EVENT_SEVERITY_WARNING 0 (led_set LED_STATE_ALARM True d)"
  have ok0: "file_ok (te_flash env) cells medium_ok (dev_events ?d0)"
    using raised_file_ok [OF part, of "led_set LED_STATE_ALARM True d"] assms(4,6,7) by (simp add: frame)
  have sensors: "dev_sensors ?d0 = dev_sensors d" by (simp add: raise_event_def frame)
  obtain d1 where d1: "clear_event_log env ?d0 = Some (0, d1)"
    "file_entries (te_flash env) cells (dev_events d1) = []" "dev_sensors d1 = dev_sensors d"
    using cleared_logs(1) [OF part ok0] sensors by auto
  obtain d2 where d2: "clear_sensor_log env d1 = Some (0, d2)"
    "file_entries (te_flash env) cells (dev_sensors d2) = []" "dev_events d2 = dev_events d1"
    using cleared_logs(2) [OF part] assms(5) d1(3) by metis
  obtain e store nvs where store: "config_storage_factory_reset (te_settings env) (dev_store d2, dev_nvs d2)
      = (e, store, nvs)" by (metis prod_cases3)
  obtain e' d3 where d3: "app_config_reset env (d2\<lparr>dev_store := store, dev_nvs := nvs\<rparr>) = (e', d3)"
    by (metis prod.exhaust)
  have wipe: "factory_reset_wipe env d = Some d3"
    by (simp add: factory_reset_wipe_def Let_def d1(1) d2(1) store d3)
  then have run: "app_state_factory_reset env d = Some (d3\<lparr>dev_rebooting := True\<rparr>)"
    by (simp add: app_state_factory_reset_def)
  have awake: "\<not> dev_rebooting d3"
    using factory_reset_wipe_awake [OF wipe] assms(8) by simp
  then have "d3\<lparr>dev_rebooting := False\<rparr> = d3" by (intro device.equality) simp_all
  then have "preempt_step env (pc, False, d) (pc, True, d3)"
    using preempt_step.handler [of d Factory_Reset_Work env "d3\<lparr>dev_rebooting := True\<rparr>" pc False] run assms(8)
    by (simp add: factory_reset_work_fn_def)
  moreover have "preempt_step env (pc, True, d3) (pc, True, d3\<lparr>dev_rebooting := True\<rparr>)"
    by (rule preempt_step.reboot [OF awake])
  moreover have "settings_load_smart_tag (te_settings env) (dev_nvs d3) config_storage_boot = config_storage_boot"
    using reset_config_stored [OF assms(2,3) store d3]
    by (simp add: settings_load_smart_tag_def settings_restore_none config_storage_boot_def)
  ultimately show ?thesis
    using wipe run reset_config_stored [OF assms(2,3) store d3] d1(2) d2(2,3)
    by (intro exI [of _ d3] exI [of _ "d3\<lparr>dev_rebooting := True\<rparr>"])
      (simp add: config_storage_boot_def config_storage_load_def config_storage_load_statistics_def Let_def)
qed

theorem factory_reset_restores_defaults_witness:
  "\<exists>d'. app_state_factory_reset mock_tag_env (mock_tag\<lparr>dev_events := \<lparr> lf_log = mock_log, lf_mem = flash_mock_reset \<rparr>,
      dev_sensors := \<lparr> lf_log = mock_log, lf_mem = flash_mock_reset \<rparr>\<rparr>) = Some d' \<and>
    file_entries mock_env (\<lambda>mem. mem) (dev_events d') = [] \<and> dev_config d' = TAG_CONFIG_DEFAULTS"
proof -
  let ?lf = "\<lparr> lf_log = mock_log, lf_mem = flash_mock_reset \<rparr>"
  have env: "te_flash mock_tag_env = mock_env" "te_settings mock_tag_env = map_settings"
    by (simp_all add: mock_tag_env_def)
  have ok: "file_ok mock_env (\<lambda>mem. mem) mock_medium_ok ?lf" by (simp add: file_ok_def mock_log_ring(1))
  have writable: "settings_writable map_settings" by (simp add: settings_writable_def map_settings_def)
  show ?thesis
    using factory_reset_restores_defaults [of mock_tag_env "\<lambda>mem. mem" mock_medium_ok
        "mock_tag\<lparr>dev_events := ?lf, dev_sensors := ?lf\<rparr>"]
      mock.flash_partition_axioms map_settings_ok writable ok mock_tag_running
    by (auto simp: env)
qed

subsection \<open>A failed restart of advertising\<close>

text \<open>
  A connection that ends inside the service window can leave the button without effect. If
  the host cannot restart advertising, the window stays open without it; every later press of the
  button takes the window as open, does not try to advertise, and makes it last longer.
\<close>

lemma restart_failure_blocks_button:
  assumes "bm_advertising (dev_ble d)" and "pw_service_mode (dev_power d)"
    and "\<And>manuf name bt. fst (bt_le_adv_start (te_bt env) manuf name bt) \<noteq> 0"
  shows "let d1 = ble_disconnected env d; d2 = button_press_work_fn env' d1 in
    \<not> bm_advertising (dev_ble d1) \<and> pw_service_mode (dev_power d1) \<and>
    \<not> bm_advertising (dev_ble d2) \<and> dev_bt d2 = dev_bt d1 \<and>
    pw_service_timeout (dev_power d2) = Some (unat (cfg_ble_service_window_s (dev_config d)))"
proof -
  have "\<not> bm_advertising (dev_ble (ble_disconnected env d)) \<and>
      dev_power (ble_disconnected env d) = dev_power d \<and> dev_config (ble_disconnected env d) = dev_config d"
    using assms(1) assms(3)
    by (auto simp: ble_disconnected_def ble_manager_start_advertising_def ble_manager_update_adv_data_def
        log_abort_def Let_def split: prod.split) (metis fst_conv)+
  then show ?thesis
    using assms(2)
    by (simp add: button_press_work_fn_def power_manager_request_service_mode_def power_manager_sample_now_def
        app_config_get_def Let_def)
qed

text \<open>A host whose advertising does not start.\<close>

definition busy_tag_env :: "(u8 list, string \<Rightarrow> u8 list option, (u8 \<times> u8 list) list) tag_env" where
  "busy_tag_env = mock_tag_env\<lparr>te_bt := accepting_bluetooth\<lparr>bt_le_adv_start := \<lambda>manuf name sent. (- ENOMEM, sent)\<rparr>\<rparr>"

lemma restart_failure_blocks_button_witness:
  "let d = mock_tag\<lparr>dev_ble := (dev_ble mock_tag)\<lparr>bm_advertising := True\<rparr>,
                    dev_power := (dev_power mock_tag)\<lparr>pw_service_mode := True\<rparr>\<rparr>;
     d2 = button_press_work_fn mock_tag_env (ble_disconnected busy_tag_env d) in
   \<not> bm_advertising (dev_ble d2)"
proof -
  have "fst (bt_le_adv_start (te_bt busy_tag_env) manuf name bt) \<noteq> 0" for manuf name bt
    by (simp add: busy_tag_env_def ENOMEM_def)
  from restart_failure_blocks_button [OF _ _ this] show ?thesis by (simp add: Let_def)
qed

end
