(* ===== verification/Device_Logs.thy ===== *)
theory Device_Logs
  imports Device_Operations
begin

section \<open>The tag and its logs\<close>

text \<open>
  On a working flash both logs stay rings whatever happens, and no operation hangs: an erase is
  the only loop whose end depends on the medium. \<open>logs_ok env cells medium_ok k d\<close> says that the
  logs are rings of their record size with at least \<open>k\<close> sequence numbers left.
\<close>

definition log_room :: "'f flash_env \<Rightarrow> ('f \<Rightarrow> u8 list) \<Rightarrow> ('f \<Rightarrow> bool) \<Rightarrow> nat \<Rightarrow> nat \<Rightarrow> 'f log_file \<Rightarrow> bool" where
  "log_room env cells medium_ok rsize k lf \<longleftrightarrow> file_ok env cells medium_ok lf \<and>
     unat (fl_payload_size (lf_log lf)) = rsize \<and> unat (fl_next_seq (lf_log lf)) + k < 2 ^ 32"

definition logs_ok ::
  "('f, 'n, 'b) tag_env \<Rightarrow> ('f \<Rightarrow> u8 list) \<Rightarrow> ('f \<Rightarrow> bool) \<Rightarrow> nat \<Rightarrow> ('f, 'n, 'b) device \<Rightarrow> bool" where
  "logs_ok env cells medium_ok k d \<longleftrightarrow>
     log_room (te_flash env) cells medium_ok EVENT_RECORD_SIZE k (dev_events d) \<and>
     log_room (te_flash env) cells medium_ok SENSOR_RECORD_SIZE k (dev_sensors d)"

lemma log_room_mono: "log_room env cells medium_ok rsize k lf \<Longrightarrow> j \<le> k \<Longrightarrow> log_room env cells medium_ok rsize j lf"
  by (auto simp: log_room_def)

lemma logs_ok_mono: "logs_ok env cells medium_ok k d \<Longrightarrow> j \<le> k \<Longrightarrow> logs_ok env cells medium_ok j d"
  by (auto simp: logs_ok_def log_room_mono)

context flash_partition
begin

lemma room_append:
  assumes "log_room env cells medium_ok rsize (Suc k) lf" and "length rec = rsize"
  shows "log_room env cells medium_ok rsize k (snd (snd (log_file_append env rec lf)))"
proof -
  note room = assms(1) [unfolded log_room_def file_ok_def]
  obtain log' f' where app: "flash_log_append env (lf_log lf) (lf_mem lf) rec
      = (0, Some (fl_next_seq (lf_log lf)), log', f')" "ring_inv env cells medium_ok log' f'"
    "fl_next_seq log' = fl_next_seq (lf_log lf) + 1" "fl_payload_size log' = fl_payload_size (lf_log lf)"
    using flash_log_append_correct [of "lf_log lf" "lf_mem lf" rec] room assms(2) by force
  have "unat (fl_next_seq (lf_log lf) + 1) = unat (fl_next_seq (lf_log lf)) + 1"
    using room by (subst unat_plus_simple [THEN iffD1]) (auto simp: no_olen_add_nat)
  then show ?thesis
    using app room by (simp add: log_file_append_def log_room_def file_ok_def)
qed

lemma room_clear:
  assumes "log_room env cells medium_ok rsize (Suc k) lf"
  shows "\<exists>n lf'. log_file_clear env lf = Some (0, n, lf') \<and> log_room env cells medium_ok rsize k lf'"
proof -
  note room = assms [unfolded log_room_def file_ok_def]
  obtain log' f' n where erase: "flash_log_erase env (lf_log lf) (lf_mem lf) = Some (0, log', f', n)"
    "ring_inv env cells medium_ok log' f'"
    using flash_log_erase_correct room by blast
  moreover have "fl_next_seq log' = 1 \<and> fl_payload_size log' = fl_payload_size (lf_log lf)"
    using erase room
    by (auto simp: flash_log_erase_def ring_inv_def ring_core_def Let_def split: option.splits if_splits)
  ultimately show ?thesis using room by (auto simp: log_file_clear_def log_room_def file_ok_def)
qed

end

subsection \<open>Operations that write to the logs\<close>

lemma logs_raise:
  assumes "flash_partition (te_flash env) cells medium_ok" and "logs_ok env cells medium_ok (Suc k) d"
  shows "logs_ok env cells medium_ok k (snd (app_raise_event env t sv v d))"
proof -
  let ?r = "\<lparr> ev_timestamp = dev_uptime_s d, ev_type = t, ev_severity = sv, ev_value = v \<rparr>"
  have "length (event_record_bytes ?r) = EVENT_RECORD_SIZE" by (simp add: wire_defs EVENT_RECORD_SIZE_def)
  from flash_partition.room_append [OF assms(1) _ this] assms(2)
  have "log_room (te_flash env) cells medium_ok EVENT_RECORD_SIZE k
      (snd (snd (log_file_append (te_flash env) (event_record_bytes ?r) (dev_events d))))"
    by (simp add: logs_ok_def)
  then show ?thesis
    using assms(2) logs_ok_mono [OF assms(2), of k]
    by (auto simp: logs_ok_def app_raise_event_def event_log_add_def Let_def frame split: prod.split)
qed

lemma logs_raise_pendings:
  assumes "flash_partition (te_flash env) cells medium_ok"
  shows "logs_ok env cells medium_ok (k + length ps) d \<Longrightarrow>
    logs_ok env cells medium_ok k (fold (raise_pending env) ps d)"
  by (induction ps arbitrary: d) (auto simp: raise_pending_def intro: logs_raise [OF assms])

lemma logs_raise_event:
  "flash_partition (te_flash env) cells medium_ok \<Longrightarrow> logs_ok env cells medium_ok (Suc k) d \<Longrightarrow>
   logs_ok env cells medium_ok k (raise_event env t sv v d)"
  by (simp add: raise_event_def logs_raise)

lemma logs_clear:
  assumes "flash_partition (te_flash env) cells medium_ok" and "logs_ok env cells medium_ok (Suc k) d"
  shows "\<exists>d'. clear_event_log env d = Some (0, d') \<and> logs_ok env cells medium_ok k d'"
    "\<exists>d'. clear_sensor_log env d = Some (0, d') \<and> logs_ok env cells medium_ok k d'"
proof -
  have room: "log_room (te_flash env) cells medium_ok EVENT_RECORD_SIZE (Suc k) (dev_events d)"
    "log_room (te_flash env) cells medium_ok SENSOR_RECORD_SIZE (Suc k) (dev_sensors d)"
    "log_room (te_flash env) cells medium_ok EVENT_RECORD_SIZE k (dev_events d)"
    "log_room (te_flash env) cells medium_ok SENSOR_RECORD_SIZE k (dev_sensors d)"
    using assms(2) logs_ok_mono [OF assms(2), of k] by (auto simp: logs_ok_def)
  show "\<exists>d'. clear_event_log env d = Some (0, d') \<and> logs_ok env cells medium_ok k d'"
    using flash_partition.room_clear [OF assms(1) room(1)] room(4)
    by (auto simp: clear_event_log_def event_log_clear_def dev_feed_def logs_ok_def)
  show "\<exists>d'. clear_sensor_log env d = Some (0, d') \<and> logs_ok env cells medium_ok k d'"
    using flash_partition.room_clear [OF assms(1) room(2)] room(3)
    by (auto simp: clear_sensor_log_def sensor_log_clear_def dev_feed_def logs_ok_def)
qed

text \<open>A sample adds at most eight events and one sensor record.\<close>

lemma logs_sensor_add:
  assumes "flash_partition (te_flash env) cells medium_ok" and "logs_ok env cells medium_ok (Suc k) d"
    and "sensor_log_add (te_flash env) data alarm (dev_sensors d) = (e, s, sensors)"
  shows "logs_ok env cells medium_ok k (d\<lparr>dev_sensors := sensors\<rparr>)"
proof -
  have "length (sensor_log_record_bytes r) = SENSOR_RECORD_SIZE" for r
    by (simp add: wire_defs SENSOR_RECORD_SIZE_def)
  from flash_partition.room_append [OF assms(1) _ this] assms(2,3) logs_ok_mono [OF assms(2), of k]
  show ?thesis by (simp add: logs_ok_def sensor_log_add_def) (metis snd_conv)
qed

lemma logs_core [simp]: "logs_ok env cells medium_ok k (d\<lparr>dev_core := c\<rparr>) = logs_ok env cells medium_ok k d"
  "logs_ok env cells medium_ok k (d\<lparr>dev_motion := m\<rparr>) = logs_ok env cells medium_ok k d"
  "logs_ok env cells medium_ok k (d\<lparr>dev_power := p\<rparr>) = logs_ok env cells medium_ok k d"
  "logs_ok env cells medium_ok k (d\<lparr>dev_led := l\<rparr>) = logs_ok env cells medium_ok k d"
  "logs_ok env cells medium_ok k (d\<lparr>dev_zigbee := z\<rparr>) = logs_ok env cells medium_ok k d"
  "logs_ok env cells medium_ok k (d\<lparr>dev_gatt := g\<rparr>) = logs_ok env cells medium_ok k d"
  "logs_ok env cells medium_ok k (d\<lparr>dev_ble := b\<rparr>) = logs_ok env cells medium_ok k d"
  "logs_ok env cells medium_ok k (d\<lparr>dev_bt := bt\<rparr>) = logs_ok env cells medium_ok k d"
  "logs_ok env cells medium_ok k (d\<lparr>dev_stream := sm\<rparr>) = logs_ok env cells medium_ok k d"
  "logs_ok env cells medium_ok k (d\<lparr>dev_command := cmd\<rparr>) = logs_ok env cells medium_ok k d"
  "logs_ok env cells medium_ok k (d\<lparr>dev_store := st\<rparr>) = logs_ok env cells medium_ok k d"
  "logs_ok env cells medium_ok k (d\<lparr>dev_nvs := nvs\<rparr>) = logs_ok env cells medium_ok k d"
  "logs_ok env cells medium_ok k (d\<lparr>dev_config := cfg\<rparr>) = logs_ok env cells medium_ok k d"
  "logs_ok env cells medium_ok k (d\<lparr>dev_uptime_s := t\<rparr>) = logs_ok env cells medium_ok k d"
  "logs_ok env cells medium_ok k (d\<lparr>dev_watchdog := w\<rparr>) = logs_ok env cells medium_ok k d"
  "logs_ok env cells medium_ok k (d\<lparr>dev_rebooting := r\<rparr>) = logs_ok env cells medium_ok k d"
  by (simp_all add: logs_ok_def)

named_theorems logs \<open>operations that leave the logs alone\<close>

lemma logs_small [logs]:
  "logs_ok env cells medium_ok k (led_set s on d) = logs_ok env cells medium_ok k d"
  "logs_ok env cells medium_ok k (fold (on_sensor_data data) subs d) = logs_ok env cells medium_ok k d"
  "logs_ok env cells medium_ok k (app_state_flush_statistics env' d) = logs_ok env cells medium_ok k d"
  "logs_ok env cells medium_ok k (dev_feed n d) = logs_ok env cells medium_ok k d"
  "logs_ok env cells medium_ok k (app_state_set st d) = logs_ok env cells medium_ok k d"
  by (simp_all add: logs_ok_def frame dev_feed_def app_state_set_def)

lemma logs_sample:
  assumes part: "flash_partition (te_flash env) cells medium_ok" and "logs_ok env cells medium_ok (k + 9) d"
    and "ac_pending (dev_core d) = []"
  shows "logs_ok env cells medium_ok k (app_process_sensor_data env data d)"
proof -
  obtain data' motion mm where proc: "motion_manager_process data (dev_motion d) = (data', motion, mm)"
    by (metis prod_cases3)
  let ?c = "process_locked data' motion (dev_config d) (ss_expected_valid (dev_sensing d)) (dev_core d)"
  have few: "length (ac_pending ?c) \<le> 8"
    using process_locked_result(1) [OF assms(3)] by (metis length_take_queue prod.exhaust)
  let ?d1 = "d\<lparr>dev_motion := mm, dev_core := ?c\<rparr>"
  have add: "logs_ok env cells medium_ok (k + length (ac_pending ?c)) (?d1\<lparr>dev_sensors := sensors\<rparr>)"
    if "sensor_log_add (te_flash env) data'' alarm (dev_sensors ?d1) = (e, s, sensors)"
    for data'' alarm e s sensors
    using logs_sensor_add [OF part _ that, of "k + length (ac_pending ?c)"] logs_ok_mono [OF assms(2)] few by simp
  have skip: "logs_ok env cells medium_ok (k + length (ac_pending ?c)) ?d1"
    using logs_ok_mono [OF assms(2)] few by simp
  have drain: "logs_ok env cells medium_ok k (drain_pending_events env x)"
    if "logs_ok env cells medium_ok (k + length (ac_pending (dev_core x))) x" for x
    using that by (simp add: drain_pending_events_def Let_def logs_raise_pendings [OF part])
  show ?thesis
    using add skip
    by (auto simp: app_process_sensor_data_def app_config_get_def proc Let_def logs intro!: drain split: prod.split)
qed

subsection \<open>Operations that leave the logs alone\<close>

lemma logs_ops [logs]:
  "logs_ok env cells medium_ok k (snd (gatt_notify env' which data d)) = logs_ok env cells medium_ok k d"
  "logs_ok env cells medium_ok k (send_response env' op st payload d) = logs_ok env cells medium_ok k d"
  "logs_ok env cells medium_ok k (finish_command env' op err d) = logs_ok env cells medium_ok k d"
  "logs_ok env cells medium_ok k (log_abort d) = logs_ok env cells medium_ok k d"
  "logs_ok env cells medium_ok k (ccc_write which v d) = logs_ok env cells medium_ok k d"
  "logs_ok env cells medium_ok k (run_notify_work env' d) = logs_ok env cells medium_ok k d"
  "logs_ok env cells medium_ok k (run_stream_work env' d) = logs_ok env cells medium_ok k d"
  "logs_ok env cells medium_ok k (snd (log_write_control env' buf offset d)) = logs_ok env cells medium_ok k d"
  "logs_ok env cells medium_ok k (power_manager_config_changed d) = logs_ok env cells medium_ok k d"
  "logs_ok env cells medium_ok k (power_manager_sample_now d) = logs_ok env cells medium_ok k d"
  "logs_ok env cells medium_ok k (motion_trigger_fn d) = logs_ok env cells medium_ok k d"
  "logs_ok env cells medium_ok k (take_sample_now d) = logs_ok env cells medium_ok k d"
  "logs_ok env cells medium_ok k (app_state_reset_counters env' d) = logs_ok env cells medium_ok k d"
  "logs_ok env cells medium_ok k (run_publish env' d) = logs_ok env cells medium_ok k d"
  "logs_ok env cells medium_ok k (identify_cb bufid d) = logs_ok env cells medium_ok k d"
  "logs_ok env cells medium_ok k (snd (ble_config_write_command buf offset d)) = logs_ok env cells medium_ok k d"
  "logs_ok env cells medium_ok k (ble_manager_update_adv_data env' d) = logs_ok env cells medium_ok k d"
  by (simp_all add: gatt_notify_def send_response_def finish_command_def log_abort_def ccc_write_def
      run_notify_work_def run_stream_work_def log_write_control_def power_manager_config_changed_def
      power_manager_sample_now_def motion_trigger_fn_def take_sample_now_def app_state_reset_counters_def
      run_publish_def publish_attributes_def identify_cb_def ble_config_write_command_def
      ble_manager_update_adv_data_def logs Let_def split: prod.split)

lemma logs_advertising [logs]:
  "logs_ok env cells medium_ok k (snd (ble_manager_start_advertising env' d)) = logs_ok env cells medium_ok k d"
  "logs_ok env cells medium_ok k (ble_manager_stop_advertising env' d) = logs_ok env cells medium_ok k d"
  by (simp_all add: ble_manager_start_advertising_def ble_manager_stop_advertising_def Let_def logs
      split: prod.split)

lemma logs_config_set [logs]:
  "logs_ok env cells medium_ok k (snd (app_config_set env' cfg d)) = logs_ok env cells medium_ok k d"
  by (simp add: app_config_set_def logs Let_def split: prod.split)

lemma logs_service [logs]:
  "logs_ok env cells medium_ok k (power_manager_request_service_mode env' d) = logs_ok env cells medium_ok k d"
  "logs_ok env cells medium_ok k (service_timeout_fn env' d) = logs_ok env cells medium_ok k d"
  "logs_ok env cells medium_ok k (ble_disconnected env' d) = logs_ok env cells medium_ok k d"
proof -
  have start: "ble_manager_start_advertising env' x = (err, y) \<Longrightarrow>
      logs_ok env cells medium_ok k y = logs_ok env cells medium_ok k x" for x y err
    using logs_advertising(1) [of env cells medium_ok k env' x] by simp
  show "logs_ok env cells medium_ok k (power_manager_request_service_mode env' d) = logs_ok env cells medium_ok k d"
    by (auto simp: power_manager_request_service_mode_def Let_def logs split: prod.split dest: start)
  show "logs_ok env cells medium_ok k (service_timeout_fn env' d) = logs_ok env cells medium_ok k d"
    "logs_ok env cells medium_ok k (ble_disconnected env' d) = logs_ok env cells medium_ok k d"
    by (simp_all add: service_timeout_fn_def power_manager_end_service_mode_def ble_disconnected_def Let_def logs)
qed

subsection \<open>Every operation returns\<close>

lemma logs_config_set_dest:
  "app_config_set env' cfg d = (err, d') \<Longrightarrow> logs_ok env cells medium_ok k d' = logs_ok env cells medium_ok k d"
  using logs_config_set [of env cells medium_ok k env' cfg d] by simp

lemma logs_raising:
  assumes part: "flash_partition (te_flash env) cells medium_ok" and "logs_ok env cells medium_ok (Suc k) d"
  shows "logs_ok env cells medium_ok k (ble_connected env err d)"
    "logs_ok env cells medium_ok k (snd (ble_config_write env buf offset d))"
    "logs_ok env cells medium_ok k (snd (app_state_set_time_utc env t d))"
    "logs_ok env cells medium_ok k (snd (snd (app_state_snapshot_gas_baseline env d)))"
    "logs_ok env cells medium_ok k (snd (zcl_apply_config env config d))"
    "logs_ok env cells medium_ok k (zboss_signal_handler env sig ok d)"
    "logs_ok env cells medium_ok k (fota_evt_handler env evt d)"
  using assms(2) logs_ok_mono [OF assms(2), of k]
  by (auto simp: ble_connected_def ble_config_write_def app_state_set_time_utc_def
      app_state_snapshot_gas_baseline_def zcl_apply_config_def zboss_signal_handler_def zboss_commissioned_def
      zboss_left_def fota_evt_handler_def Let_def logs logs_raise_event [OF part] logs_config_set_dest
      split: prod.split zb_signal.split fota_evt.split)

lemma logs_set_mode:
  "app_config_set_mode env' m d = (err, d') \<Longrightarrow> logs_ok env cells medium_ok k d' = logs_ok env cells medium_ok k d"
  by (simp add: app_config_set_mode_def logs_config_set_dest)

lemma logs_set_time:
  assumes "flash_partition (te_flash env) cells medium_ok" and "logs_ok env cells medium_ok (Suc k) d"
  shows "app_state_set_time_utc env t d = (err, d') \<Longrightarrow> logs_ok env cells medium_ok k d'"
    "app_state_snapshot_gas_baseline env d = (err, th, d') \<Longrightarrow> logs_ok env cells medium_ok k d'"
  using logs_raising(3) [OF assms, of t] logs_raising(4) [OF assms] by simp_all

lemma logs_factory_reset:
  assumes part: "flash_partition (te_flash env) cells medium_ok" and "logs_ok env cells medium_ok (k + 3) d"
  shows "\<exists>d'. app_state_factory_reset env d = Some d' \<and> logs_ok env cells medium_ok k d'"
proof -
  let ?d0 = "raise_event env EVENT_FACTORY_RESET EVENT_SEVERITY_WARNING 0 (led_set LED_STATE_ALARM True d)"
  have "logs_ok env cells medium_ok (Suc (Suc k)) ?d0"
    using assms(2) by (intro logs_raise_event [OF part]) (simp add: logs numeral_3_eq_3)
  then obtain d1 where d1: "clear_event_log env ?d0 = Some (0, d1)" "logs_ok env cells medium_ok (Suc k) d1"
    using logs_clear(1) [OF part] by blast
  then obtain d2 where d2: "clear_sensor_log env d1 = Some (0, d2)" "logs_ok env cells medium_ok k d2"
    using logs_clear(2) [OF part] by blast
  show ?thesis
    using d2(2)
    by (auto simp: factory_reset_defs Let_def d1(1) d2(1) app_config_reset_def logs_config_set_dest
        split: prod.split)
qed

lemma logs_command:
  assumes part: "flash_partition (te_flash env) cells medium_ok" and "logs_ok env cells medium_ok (k + 3) d"
  shows "\<exists>d'. run_command_work env d = Some d' \<and> logs_ok env cells medium_ok k d'"
proof -
  let ?d = "dev_feed 1 (d\<lparr>dev_command := (dev_command d)\<lparr>bc_work := False\<rparr>\<rparr>)"
  have more: "logs_ok env cells medium_ok (k + 3) ?d" using assms(2) by (simp add: logs)
  have ok: "logs_ok env cells medium_ok (Suc k) ?d" "logs_ok env cells medium_ok k ?d"
    "logs_ok env cells medium_ok (Suc k) (log_abort ?d)"
    using logs_ok_mono [OF more] by (simp_all add: logs)
  obtain d1 d2 where clear: "clear_event_log env (log_abort ?d) = Some (0, d1)" "logs_ok env cells medium_ok k d1"
    "clear_sensor_log env (log_abort ?d) = Some (0, d2)" "logs_ok env cells medium_ok k d2"
    using logs_clear [OF part ok(3)] by blast
  obtain d3 where reset: "app_state_factory_reset env (send_response env op 0 [] ?d) = Some d3"
    "logs_ok env cells medium_ok k d3" if "op = cr_opcode (bc_pending (dev_command d))" for op
    using logs_factory_reset [OF part, of k "send_response env (cr_opcode (bc_pending (dev_command d))) 0 [] ?d"] more
    by (auto simp: logs)
  show ?thesis
    using ok clear reset
    by (auto simp: run_command_work_def command_work_fn_def Let_def logs logs_set_mode
        split: prod.split dest: logs_set_time [OF part ok(1)] simp del: One_nat_def)
qed

lemma logs_zcl:
  assumes "flash_partition (te_flash env) cells medium_ok" and "logs_ok env cells medium_ok (Suc k) d"
  shows "logs_ok env cells medium_ok k (snd (zcl_device_cb env w d))"
  using logs_raising(3,5) [OF assms] logs_ok_mono [OF assms(2), of k]
  by (auto simp: zcl_device_cb_def Let_def split: option.split prod.split dest: logs_set_time [OF assms])

lemma logs_sampling:
  assumes "flash_partition (te_flash env) cells medium_ok" and "logs_ok env cells medium_ok (k + 9) d"
    and "ac_pending (dev_core d) = []"
  shows "logs_ok env cells medium_ok k (sampling_round env hw d)"
  using assms(2,3) by (simp add: sampling_round_def Let_def logs logs_sample [OF assms(1)])

lemma handle_logs:
  assumes part: "flash_partition (te_flash env) cells medium_ok" and room: "logs_ok env cells medium_ok (k + 9) d"
    and idle: "\<And>hw. e = Sample hw \<Longrightarrow> ac_pending (dev_core d) = []"
  shows "\<exists>d'. handle env e d = Some d' \<and> logs_ok env cells medium_ok k d'"
proof -
  have ok: "logs_ok env cells medium_ok k d" "logs_ok env cells medium_ok (Suc k) d"
    "logs_ok env cells medium_ok (k + 3) d"
    using logs_ok_mono [OF room] by simp_all
  show ?thesis
  proof (cases e)
    case Command_Work
    then show ?thesis using logs_command [OF part ok(3)] ok(1) by simp
  next
    case Factory_Reset_Work
    then show ?thesis using logs_factory_reset [OF part ok(3)] by (simp add: factory_reset_work_fn_def)
  qed (use ok idle in \<open>auto simp: button_press_work_fn_def logs logs_sampling [OF part room]
    logs_raising [OF part] logs_zcl [OF part]\<close>)
qed

text \<open>A section of the sampling thread appends at most one record to each log.\<close>

lemma logs_raise_log:
  assumes "flash_partition (te_flash env) cells medium_ok" and "logs_ok env cells medium_ok (Suc k) d"
  shows "logs_ok env cells medium_ok k (raise_log env p d)"
proof -
  have "dev_events (raise_log env p d) =
      dev_events (snd (app_raise_event env (pe_type p) (pe_severity p) (pe_value p) d))"
    "dev_sensors (raise_log env p d) =
      dev_sensors (snd (app_raise_event env (pe_type p) (pe_severity p) (pe_value p) d))"
    by (simp_all add: raise_log_def app_raise_event_def Let_def frame split: prod.split)
  then show ?thesis using logs_raise [OF assms] by (simp add: logs_ok_def)
qed

lemma logs_sections [logs]:
  "logs_ok env cells medium_ok k (raise_count d) = logs_ok env cells medium_ok k d"
  "logs_ok env cells medium_ok k (raise_light r d) = logs_ok env cells medium_ok k d"
  "logs_ok env cells medium_ok k (on_event r sub d) = logs_ok env cells medium_ok k d"
  "logs_ok env cells medium_ok k (on_sensor_data data sub d) = logs_ok env cells medium_ok k d"
  by (simp_all add: logs_ok_def raise_count_def raise_light_def frame Let_def)

lemma logs_sampling_step:
  assumes part: "flash_partition (te_flash env) cells medium_ok"
    and room: "logs_ok env cells medium_ok (Suc k) d"
  shows "logs_ok env cells medium_ok k (snd (sampling_step env hw (pc, d)))"
  using room logs_ok_mono [OF room, of k]
  by (cases "(env, hw, pc, d)" rule: sampling_step.cases)
    (auto simp: logs Let_def logs_raise_log [OF part] dest: logs_sensor_add [OF part]
      split: prod.split)

text \<open>
  C9: the tag never hangs. On a working flash, whatever happens to the tag, also between two
  sections of the sampling thread, is handled to the end, and both logs are still rings of their
  record size; a handler uses up at most nine sequence numbers of a log and a section one.
\<close>

theorem every_operation_returns:
  assumes "flash_partition (te_flash env) cells medium_ok" and "preempt_reach env (pc, r, d)"
    and "logs_ok env cells medium_ok (k + 9) d" and "not_sample e"
  shows "(\<exists>d'. handle env e d = Some d' \<and> logs_ok env cells medium_ok k d') \<and>
    logs_ok env cells medium_ok (k + 8) (snd (sampling_step env hw (pc, d)))"
proof -
  have "logs_ok env cells medium_ok (Suc (k + 8)) d" using assms(3) by (simp add: eval_nat_numeral)
  then have "logs_ok env cells medium_ok (k + 8) (snd (sampling_step env hw (pc, d)))"
    by (rule logs_sampling_step [OF assms(1)])
  moreover have "\<exists>d'. handle env e d = Some d' \<and> logs_ok env cells medium_ok k d'"
    by (rule handle_logs [OF assms(1,3)]) (use assms(4) in \<open>simp add: not_sample_iff\<close>)
  ultimately show ?thesis by blast
qed

text \<open>The start: the logs are rings after \<open>main\<close> when their initialisation made them so.\<close>

lemma logs_startup:
  "logs_ok env cells medium_ok k (snd (ble_manager_init env' d)) = logs_ok env cells medium_ok k d"
  "logs_ok env cells medium_ok k (snd (zigbee_manager_init env' d)) = logs_ok env cells medium_ok k d"
  "logs_ok env cells medium_ok k (power_manager_start d) = logs_ok env cells medium_ok k d"
  "logs_ok env cells medium_ok k (app_config_init d) = logs_ok env cells medium_ok k d"
  "logs_ok env cells medium_ok k (app_state_init d) = logs_ok env cells medium_ok k d"
  by (simp_all add: ble_manager_init_def ble_gatt_init_ok ble_config_init_def app_state_subscribe_def
      set_device_name_def zigbee_manager_init_def power_manager_start_def app_config_init_def
      app_state_init_def Let_def logs split: prod.split list.split)

lemma logs_main:
  assumes "flash_partition (te_flash env) cells medium_ok"
    and "logs_ok env cells medium_ok (Suc k) (main_storage env hw d)"
  shows "logs_ok env cells medium_ok k (tag_main env hw d)"
  using assms(2)
  by (simp add: tag_main_def main_stacks_def main_application_def Let_def logs logs_startup
      logs_raise_event [OF assms(1)])

text \<open>Both logs of the tag of the witnesses.\<close>

lemma mock_file_init:
  assumes "p = 8 \<or> p = 17" and "k < 1000"
  shows "log_room mock_env (\<lambda>mem. mem) mock_medium_ok (unat p) k
    (snd (log_file_init mock_env \<lparr> lf_log = log_instance pid p, lf_mem = flash_mock_reset \<rparr>))"
proof -
  let ?log = "snd (flash_log_init mock_env flash_mock_reset (log_instance pid p))"
  have init: "flash_log_init mock_env flash_mock_reset (log_instance pid p) = (0, ?log)"
    using assms(1) by (auto simp: flash_log_init_def log_instance_def mock_env_def c_const)
  have blank: "mock_medium_ok flash_mock_reset" "flash_mock_reset = replicate 256 0xff"
    "fe_open mock_env (fl_partition_id (log_instance pid p)) = (0, \<lparr> fa_off = 0, fa_size = 256 \<rparr>)"
    "fe_page_info mock_env (fa_off \<lparr> fa_off = 0, fa_size = 256 \<rparr>) = (0, 64)"
    by (simp_all add: mock_medium_ok_def flash_mock_reset_def mock_env_def c_const)
  have ring: "ring_inv mock_env (\<lambda>mem. mem) mock_medium_ok ?log flash_mock_reset"
    "ring_entries mock_env (\<lambda>mem. mem) ?log flash_mock_reset = []"
    by (rule mock.flash_log_init_blank [OF init blank(1,2) _ blank(3) _ blank(4)]; simp)+
  then have "fl_next_seq ?log = 1"
    using mock.length_ring_entries [of ?log flash_mock_reset] by (auto simp: ring_inv_def unat_eq_zero)
  moreover have "fl_payload_size ?log = p"
    using assms(1) by (auto simp: flash_log_init_def log_instance_def mock_env_def c_const Let_def)
  ultimately show ?thesis
    using ring assms(2) by (simp add: log_file_init_def log_room_def file_ok_def case_prod_beta)
qed

lemma mock_tag_logs:
  assumes "k < 999"
  shows "logs_ok mock_tag_env (\<lambda>mem. mem) mock_medium_ok k mock_tag"
proof -
  have env: "te_flash mock_tag_env = mock_env" by (simp add: mock_tag_env_def)
  have "logs_ok mock_tag_env (\<lambda>mem. mem) mock_medium_ok (Suc k) (main_storage mock_tag_env mock_boot_hw
      (device_at_reset mock_tag_env 0 1 flash_mock_reset flash_mock_reset Map.empty []))"
    using mock_file_init [of 8 "Suc k" 0] mock_file_init [of 17 "Suc k" 1] assms
    by (simp add: main_storage_def device_at_reset_def app_state_set_def logs_ok_def env event_log_init_def
        sensor_log_init_def event_log_instance_def sensor_log_instance_def c_const Let_def)
  then show ?thesis
    unfolding mock_tag_def using logs_main [of mock_tag_env "\<lambda>mem. mem" mock_medium_ok k]
    by (simp add: env mock.flash_partition_axioms)
qed

theorem every_operation_returns_witness:
  "\<exists>d'. handle mock_tag_env Factory_Reset_Work mock_tag = Some d' \<and>
    logs_ok mock_tag_env (\<lambda>mem. mem) mock_medium_ok 0 d'"
  using every_operation_returns [OF _ mock_tag_preempt, of "\<lambda>mem. mem" mock_medium_ok 0 Factory_Reset_Work]
    mock.flash_partition_axioms mock_tag_logs [of 9] by (simp add: mock_tag_env_def)

end
