(* ===== verification/Factory_Reset.thy ===== *)
theory Factory_Reset
  imports Device_Logs
begin

section \<open>The factory reset and the sampling thread\<close>

text \<open>
  \<open>app_state_factory_reset\<close> sleeps for half a second between its last write and the reboot, and
  its last write gives the semaphore the sampling thread waits for.
\<close>

lemma config_set_sensors:
  "app_config_set env cfg d = (err, d') \<Longrightarrow> dev_sensors d' = dev_sensors d \<and> dev_events d' = dev_events d"
  by (auto simp: app_config_set_def power_manager_config_changed_def Let_def split: prod.splits if_splits)

lemma logs_ok_files:
  assumes "logs_ok env cells medium_ok k d"
  shows "file_ok (te_flash env) cells medium_ok (dev_events d)"
    "file_ok (te_flash env) cells medium_ok (dev_sensors d)"
  using assms by (simp_all add: logs_ok_def log_room_def)

text \<open>The state the reset sleeps in.\<close>

lemma factory_reset_outcome:
  assumes part: "flash_partition (te_flash env) cells medium_ok"
    and room: "logs_ok env cells medium_ok (k + 3) d" and reset: "app_state_factory_reset env d = Some d'"
  shows "dev_rebooting d' \<and> dev_config d' = TAG_CONFIG_DEFAULTS \<and> pw_sample_now (dev_power d') \<and>
    logs_ok env cells medium_ok k d' \<and>
    file_entries (te_flash env) cells (dev_events d') = [] \<and>
    file_entries (te_flash env) cells (dev_sensors d') = []"
proof -
  let ?d0 = "raise_event env EVENT_FACTORY_RESET EVENT_SEVERITY_WARNING 0 (led_set LED_STATE_ALARM True d)"
  have "logs_ok env cells medium_ok (Suc (Suc k)) ?d0"
    using room by (intro logs_raise_event [OF part]) (simp add: logs numeral_3_eq_3)
  then have ok0: "logs_ok env cells medium_ok (Suc k) ?d0" by (rule logs_ok_mono) simp
  obtain d1 where d1: "clear_event_log env ?d0 = Some (0, d1)"
    "file_entries (te_flash env) cells (dev_events d1) = []" "dev_sensors d1 = dev_sensors ?d0"
    using cleared_logs(1) [OF part logs_ok_files(1) [OF ok0]] by blast
  obtain d2 where d2: "clear_sensor_log env d1 = Some (0, d2)"
    "file_entries (te_flash env) cells (dev_sensors d2) = []" "dev_events d2 = dev_events d1"
    using cleared_logs(2) [OF part, of d1] logs_ok_files(2) [OF ok0] d1(3) by auto
  obtain e store nvs where store: "config_storage_factory_reset (te_settings env) (dev_store d2, dev_nvs d2)
      = (e, store, nvs)" by (metis prod_cases3)
  obtain e' d3 where d3: "app_config_set env TAG_CONFIG_DEFAULTS (d2\<lparr>dev_store := store, dev_nvs := nvs\<rparr>)
      = (e', d3)" by (metis prod.exhaust)
  have d': "d' = d3\<lparr>dev_rebooting := True\<rparr>"
    using reset by (simp add: factory_reset_defs app_config_reset_def Let_def d1(1) d2(1) store d3)
  have "logs_ok env cells medium_ok k d'"
    using logs_factory_reset [OF part room] reset by simp
  then show ?thesis
    using config_set_sensors [OF d3] app_config_set_state [OF d3] d1(2) d2(2,3) by (simp add: d')
qed

context flash_partition
begin

lemma first_record:
  assumes "log_room env cells medium_ok rsize (Suc k) lf" and "file_entries env cells lf = []"
    and "length rec = rsize" and "log_file_append env rec lf = (err, seq, lf')"
  shows "file_entries env cells lf' = [(1, rec)]"
proof -
  note room = assms(1) [unfolded log_room_def file_ok_def]
  have one: "fl_next_seq (lf_log lf) = 1" and "0 < unat (fl_total_slots (lf_log lf))"
    using room assms(2) length_ring_entries [of "lf_log lf" "lf_mem lf"]
    by (auto simp: ring_inv_def ring_core_def ring_geometry_def file_entries_def unat_eq_zero Let_def)
  with room assms(2-4) flash_log_append_correct [of "lf_log lf" "lf_mem lf" rec] show ?thesis
    by (force simp: log_file_append_def file_entries_def spec_append_def)
qed

end

text \<open>The thread from its wait to the end of the locked section.\<close>

lemma runs_to_unlocked:
  "\<exists>data alarm d'. runs_to env hw (Asleep, d) (Unlocked data alarm (dev_config d), d') \<and>
     dev_sensors d' = dev_sensors d"
proof -
  let ?d1 = "(take_sample_now d)\<lparr>dev_power := (dev_power (take_sample_now d))\<lparr>pw_motion_pending := False\<rparr>\<rparr>"
  let ?data = "sensor_manager_read (te_board env) hw (dev_uptime_s (take_sample_now d))"
  obtain data motion mm where proc: "motion_manager_process ?data (dev_motion ?d1) = (data, motion, mm)"
    by (metis prod_cases3)
  have same: "dev_config ?d1 = dev_config d" "dev_sensors ?d1 = dev_sensors d"
    by (simp_all add: take_sample_now_def)
  have "runs_to env hw (Asleep, d) (Classified data motion (dev_config d), ?d1\<lparr>dev_motion := mm\<rparr>)"
    by (rule runs_step, simp only: sampling_step.simps, rule runs_step, simp only: sampling_step.simps,
        rule runs_step, simp only: sampling_step.simps app_config_get_def same runs_classify [OF proc])
  moreover have "\<exists>data' alarm d'. sampling_step env hw (Classified data motion (dev_config d),
      ?d1\<lparr>dev_motion := mm\<rparr>) = (Unlocked data' alarm (dev_config d), d') \<and> dev_sensors d' = dev_sensors d"
    by (simp add: Let_def take_sample_now_def)
  ultimately show ?thesis
    by (metis runs_refl runs_step runs_trans)
qed

text \<open>
  C17: the factory reset does not leave the sensor log empty. Its last write wakes the sampling
  thread, which can run while the reset sleeps before the reboot: it takes a sample with the
  defaults in force, which record the sensor history, and appends it to the log that was just
  erased. That record is what the log holds when the tag reboots.
\<close>

theorem factory_reset_leaves_a_sample:
  assumes "flash_partition (te_flash env) cells medium_ok" and "preempt_reach env (Asleep, r, d)"
    and "logs_ok env cells medium_ok 4 d" and "\<not> dev_rebooting d"
    and "handle env Factory_Reset_Work d = Some d1"
  shows "pw_sample_now (dev_power d1) \<and> file_entries (te_flash env) cells (dev_sensors d1) = [] \<and>
    (\<exists>data alarm d2. preempt_reach env (Recorded data alarm, True, d2\<lparr>dev_rebooting := True\<rparr>) \<and>
       file_entries (te_flash env) cells (dev_sensors d2) =
         [(1, sensor_log_record_bytes (smart_tag_fill_log_record data alarm))])"
proof -
  have reset: "app_state_factory_reset env d = Some d1" using assms(5) by (simp add: factory_reset_work_fn_def)
  have out: "dev_rebooting d1" "dev_config d1 = TAG_CONFIG_DEFAULTS" "pw_sample_now (dev_power d1)"
    "logs_ok env cells medium_ok 1 d1" "file_entries (te_flash env) cells (dev_sensors d1) = []"
    using factory_reset_outcome [OF assms(1) _ reset, of 1] assms(3) by simp_all
  let ?sleeping = "d1\<lparr>dev_rebooting := False\<rparr>"
  have reach: "preempt_reach env (Asleep, True, ?sleeping)"
    using preempt_reach.more [OF assms(2) preempt_step.handler [OF assms(4) _ assms(5)]] out(1) by simp
  obtain data alarm d3 where run: "runs_to env undefined (Asleep, ?sleeping)
      (Unlocked data alarm TAG_CONFIG_DEFAULTS, d3)" and sensors: "dev_sensors d3 = dev_sensors d1"
    using runs_to_unlocked [of env undefined ?sleeping] out(2) by auto
  have "preempt_reach env (Unlocked data alarm TAG_CONFIG_DEFAULTS, True, d3) \<and> \<not> dev_rebooting d3"
    using runs_preempt [OF run _ reach] by simp
  then have at: "preempt_reach env (Unlocked data alarm TAG_CONFIG_DEFAULTS, True, d3)" "\<not> dev_rebooting d3"
    by simp_all
  obtain err seq lf where add: "sensor_log_add (te_flash env) data alarm (dev_sensors d3) = (err, seq, lf)"
    by (metis prod_cases3)
  let ?d4 = "d3\<lparr>dev_sensors := lf\<rparr>"
  have "sampling_step env undefined (Unlocked data alarm TAG_CONFIG_DEFAULTS, d3) = (Recorded data alarm, ?d4)"
    by (simp add: add TAG_CONFIG_DEFAULTS_def)
  then have "preempt_reach env (Recorded data alarm, True, ?d4\<lparr>dev_rebooting := True\<rparr>)"
    using preempt_reach.more [OF preempt_reach.more [OF at(1) preempt_step.sampling [OF at(2)]]
        preempt_step.reboot] at(2) by simp
  moreover have "file_entries (te_flash env) cells lf =
      [(1, sensor_log_record_bytes (smart_tag_fill_log_record data alarm))]"
    by (rule flash_partition.first_record [OF assms(1), of SENSOR_RECORD_SIZE 0 "dev_sensors d1"])
      (use out(4,5) add sensors in \<open>simp_all add: logs_ok_def sensor_log_add_def wire_defs SENSOR_RECORD_SIZE_def\<close>)
  moreover have "dev_sensors ?d4 = lf" by simp
  ultimately show ?thesis using out(3,5) by metis
qed

text \<open>The tag of the witnesses after its first sample.\<close>

theorem factory_reset_leaves_a_sample_witness:
  "\<exists>d1 data alarm d2. handle mock_tag_env Factory_Reset_Work
       (sampling_round mock_tag_env mock_sensor_hw mock_tag) = Some d1 \<and>
     pw_sample_now (dev_power d1) \<and>
     preempt_reach mock_tag_env (Recorded data alarm, True, d2\<lparr>dev_rebooting := True\<rparr>) \<and>
     file_entries mock_env (\<lambda>mem. mem) (dev_sensors d2) =
       [(1, sensor_log_record_bytes (smart_tag_fill_log_record data alarm))]"
proof -
  let ?d = "sampling_round mock_tag_env mock_sensor_hw mock_tag"
  have env: "te_flash mock_tag_env = mock_env" by (simp add: mock_tag_env_def)
  have part: "flash_partition (te_flash mock_tag_env) (\<lambda>mem. mem) mock_medium_ok"
    by (simp add: env mock.flash_partition_axioms)
  have reach: "preempt_reach mock_tag_env (Asleep, False, ?d)" "\<not> dev_rebooting ?d"
    using runs_preempt [OF runs_to_wait mock_tag_running mock_tag_preempt] by simp_all
  have "ac_pending (dev_core mock_tag) = []"
    using preempt_reach_inv [OF mock_tag_preempt] by (simp add: preempt_inv_def)
  then have logs: "logs_ok mock_tag_env (\<lambda>mem. mem) mock_medium_ok 4 ?d"
    using logs_sampling [OF part] mock_tag_logs [of 13] by simp
  then obtain d1 where d1: "handle mock_tag_env Factory_Reset_Work ?d = Some d1"
    using logs_factory_reset [OF part, of 1] by (auto simp: factory_reset_work_fn_def)
  show ?thesis
    using factory_reset_leaves_a_sample [OF part reach(1) logs reach(2) d1] d1 unfolding env by blast
qed

end
