(* ===== verification/Power_Cut.thy ===== *)
theory Power_Cut
  imports Factory_Reset
begin

section \<open>A power cut at any moment\<close>

text \<open>
  What the tag keeps in its settings store and its two logs is, in every state it can reach, all
  that the next boot needs: the store on the medium is the one in memory, the configuration in
  force is the one that store gives, and each log is of the partition its initialisation found.
  A boot on the media of any reachable state therefore continues where that state was.
\<close>

subsection \<open>What the next boot finds\<close>

text \<open>
  The values of the settings store in memory are those the handler restores from the medium, and
  the configuration in force is the stored one, or the defaults when that is out of range.
\<close>

definition config_at_boot :: "config_storage \<Rightarrow> tag_config" where
  "config_at_boot cs = (if app_config_validate (config_storage_load cs) then config_storage_load cs
     else TAG_CONFIG_DEFAULTS)"

lemma app_config_init_boot: "dev_config (app_config_init d) = config_at_boot (dev_store d)"
  by (simp add: app_config_init_def config_at_boot_def Let_def)

definition store_mirrored :: "('f, 'n, 'b) tag_env \<Rightarrow> ('f, 'n, 'b) device \<Rightarrow> bool" where
  "store_mirrored env d \<longleftrightarrow>
     (settings_store_ok (te_settings env) \<and> settings_writable (te_settings env) \<longrightarrow>
        settings_load_smart_tag (te_settings env) (dev_nvs d) config_storage_boot = dev_store d) \<and>
     dev_config d = config_at_boot (dev_store d)"

text \<open>A log that is ready was found by an initialisation, and keeps the partition and its geometry.\<close>

definition log_home :: "'f flash_env \<Rightarrow> u16 \<Rightarrow> 'f log_file \<Rightarrow> bool" where
  "log_home env rsize lf \<longleftrightarrow> (fl_ready (lf_log lf) \<longrightarrow>
     (\<exists>f0 log1. flash_log_init env f0 (log_instance (fl_partition_id (lf_log lf)) rsize) = (0, log1) \<and>
        same_geometry log1 (lf_log lf)))"

definition restartable :: "('f, 'n, 'b) tag_env \<Rightarrow> ('f, 'n, 'b) device \<Rightarrow> bool" where
  "restartable env d \<longleftrightarrow> store_mirrored env d \<and>
     log_home (te_flash env) (of_nat EVENT_RECORD_SIZE) (dev_events d) \<and>
     log_home (te_flash env) (of_nat SENSOR_RECORD_SIZE) (dev_sensors d)"

lemma same_geometry_trans: "same_geometry a b \<Longrightarrow> same_geometry b c \<Longrightarrow> same_geometry a c"
  by (simp add: same_geometry_def)

lemma home_kept:
  assumes "log_home env rsize lf" and "same_geometry (lf_log lf) (lf_log lf')"
    and "fl_ready (lf_log lf') \<Longrightarrow> fl_ready (lf_log lf)"
  shows "log_home env rsize lf'"
proof -
  have "fl_partition_id (lf_log lf') = fl_partition_id (lf_log lf)"
    using assms(2) by (simp add: same_geometry_def)
  then show ?thesis
    using assms same_geometry_trans unfolding log_home_def by metis
qed

lemma append_ready:
  assumes "flash_log_append env log f rec = (err, seq, log', f')"
  shows "fl_ready log' = fl_ready log"
  using assms by (auto simp: flash_log_append_def make_room_def Let_def split: if_splits prod.splits)

lemma home_append:
  assumes "log_home env rsize lf" and "log_file_append env rec lf = (err, seq, lf')"
  shows "log_home env rsize lf'"
proof -
  have "flash_log_append env (lf_log lf) (lf_mem lf) rec = (err, seq, lf_log lf', lf_mem lf')"
    using assms(2) by (auto simp: log_file_append_def split: prod.splits)
  then show ?thesis
    using home_kept [OF assms(1) append_same_geometry] append_ready by metis
qed

lemma home_clear:
  assumes "log_home env rsize lf" and "log_file_clear env lf = Some (err, n, lf')"
  shows "log_home env rsize lf'"
  using assms
  by (auto simp: log_file_clear_def flash_log_erase_def same_geometry_def split: option.splits if_splits
      intro!: home_kept [OF assms(1)])

lemma home_init:
  "log_home env rsize (snd (log_file_init env \<lparr> lf_log = log_instance pid rsize, lf_mem = f \<rparr>))"
proof -
  obtain err log where init: "flash_log_init env f (log_instance pid rsize) = (err, log)" by fastforce
  then have "fl_ready log \<longrightarrow> err = 0" and "fl_partition_id log = pid"
    by (auto simp: flash_log_init_def log_instance_def Let_def split: if_splits prod.splits)
  then show ?thesis
    using init by (auto simp: log_file_init_def log_home_def same_geometry_def)
qed

subsection \<open>The operations\<close>

named_theorems restart \<open>operations that keep a restart possible\<close>

lemma restart_field [restart]:
  "restartable env (d\<lparr>dev_uptime_s := x0\<rparr>) = restartable env d"
  "restartable env (d\<lparr>dev_sensing := x5\<rparr>) = restartable env d"
  "restartable env (d\<lparr>dev_motion := x6\<rparr>) = restartable env d"
  "restartable env (d\<lparr>dev_led := x7\<rparr>) = restartable env d"
  "restartable env (d\<lparr>dev_core := x9\<rparr>) = restartable env d"
  "restartable env (d\<lparr>dev_power := x10\<rparr>) = restartable env d"
  "restartable env (d\<lparr>dev_gatt := x11\<rparr>) = restartable env d"
  "restartable env (d\<lparr>dev_stream := x12\<rparr>) = restartable env d"
  "restartable env (d\<lparr>dev_command := x13\<rparr>) = restartable env d"
  "restartable env (d\<lparr>dev_ble := x14\<rparr>) = restartable env d"
  "restartable env (d\<lparr>dev_bt := x15\<rparr>) = restartable env d"
  "restartable env (d\<lparr>dev_zigbee := x18\<rparr>) = restartable env d"
  "restartable env (d\<lparr>dev_watchdog := x16\<rparr>) = restartable env d"
  "restartable env (d\<lparr>dev_rebooting := x17\<rparr>) = restartable env d"
  by (simp_all add: restartable_def store_mirrored_def)

lemma restart_logs [restart]:
  "restartable env d \<Longrightarrow> log_file_append (te_flash env) rec (dev_events d) = (err, seq, lf) \<Longrightarrow>
     restartable env (d\<lparr>dev_events := lf\<rparr>)"
  "restartable env d \<Longrightarrow> log_file_append (te_flash env) rec (dev_sensors d) = (err, seq, lf) \<Longrightarrow>
     restartable env (d\<lparr>dev_sensors := lf\<rparr>)"
  "restartable env d \<Longrightarrow> log_file_clear (te_flash env) (dev_events d) = Some (err, n, lf) \<Longrightarrow>
     restartable env (d\<lparr>dev_events := lf\<rparr>)"
  "restartable env d \<Longrightarrow> log_file_clear (te_flash env) (dev_sensors d) = Some (err, n, lf) \<Longrightarrow>
     restartable env (d\<lparr>dev_sensors := lf\<rparr>)"
  by (auto simp: restartable_def store_mirrored_def intro: home_append home_clear)

lemma restart_told [restart]:
  "restartable env (on_event r s d) = restartable env d"
  "restartable env (on_sensor_data data s d) = restartable env d"
  by (cases s; simp add: restart zb_schedule_publish_def)+

lemma restart_fold_told [restart]:
  "restartable env (fold (on_event r) ss d) = restartable env d"
  "restartable env (fold (on_sensor_data data) ss d) = restartable env d"
  by (induction ss arbitrary: d) (simp_all add: restart_told)

lemma restart_small [restart]:
  "restartable env (led_set s on d) = restartable env d"
  "restartable env (app_state_set st d) = restartable env d"
  "restartable env (dev_feed n d) = restartable env d"
  by (simp_all add: led_set_def app_state_set_def dev_feed_def restart_field Let_def)

subsubsection \<open>What changes the store\<close>

text \<open>The settings store after a save, and after the factory reset of it.\<close>

lemma load_fields:
  "settings_load_smart_tag se nvs config_storage_boot =
     \<lparr> cs_stored_config = cs_stored_config
         (settings_restore ''config'' (se_load se nvs SETTINGS_KEY_CONFIG) config_storage_boot),
       cs_stored_stats = cs_stored_stats
         (settings_restore ''stats'' (se_load se nvs SETTINGS_KEY_STATS) config_storage_boot) \<rparr>"
  by (auto simp: settings_load_smart_tag_def settings_restore_def settings_set_def config_storage_boot_def
      split: option.split sum.split)

lemma load_saved:
  assumes "settings_store_ok se" and "settings_writable se"
    and "settings_load_smart_tag se nvs config_storage_boot = cs"
  shows "config_storage_save se c (cs, nvs) = (err, cs', nvs') \<Longrightarrow>
      settings_load_smart_tag se nvs' config_storage_boot = cs'"
    "config_storage_save_statistics se s (cs, nvs) = (err, cs', nvs') \<Longrightarrow>
      settings_load_smart_tag se nvs' config_storage_boot = cs'"
    "config_storage_factory_reset se (cs, nvs) = (err, cs', nvs') \<Longrightarrow>
      settings_load_smart_tag se nvs' config_storage_boot = cs'"
proof -
  have save: "se_load se n key = Some blob \<and> (\<forall>k. k \<noteq> key \<longrightarrow> se_load se n k = se_load se nvs k)"
    if "se_save_one se nvs key blob = (e, n)" for key blob e n
    using assms(1,2) that unfolding settings_store_ok_def settings_writable_def by (metis fst_conv)
  have delete: "se_load se n key = None \<and> (\<forall>k. k \<noteq> key \<longrightarrow> se_load se n k = se_load se m k)"
    if "se_delete se m key = (e, n)" for key e m n
    using assms(1,2) that unfolding settings_store_ok_def settings_writable_def by (metis fst_conv)
  note mirrored = assms(3) [unfolded load_fields, symmetric]
  show "config_storage_save se c (cs, nvs) = (err, cs', nvs') \<Longrightarrow>
      settings_load_smart_tag se nvs' config_storage_boot = cs'"
    by (auto simp: config_storage_save_def load_fields mirrored Let_def dest!: save split: prod.splits)
  show "config_storage_save_statistics se s (cs, nvs) = (err, cs', nvs') \<Longrightarrow>
      settings_load_smart_tag se nvs' config_storage_boot = cs'"
    by (auto simp: config_storage_save_statistics_def load_fields mirrored Let_def dest!: save split: prod.splits)
  show "config_storage_factory_reset se (cs, nvs) = (err, cs', nvs') \<Longrightarrow>
      settings_load_smart_tag se nvs' config_storage_boot = cs'"
    by (auto simp: config_storage_factory_reset_def settings_load_smart_tag_def config_storage_boot_def
        settings_restore_none Let_def dest!: delete split: prod.splits)
qed

lemma saved_fields:
  "config_storage_save se c (cs, nvs) = (err, cs', nvs') \<Longrightarrow> cs_stored_config cs' = c"
  "config_storage_save_statistics se s (cs, nvs) = (err, cs', nvs') \<Longrightarrow>
     cs_stored_config cs' = cs_stored_config cs"
  by (auto simp: config_storage_save_def config_storage_save_statistics_def Let_def split: prod.splits)

lemma restart_store:
  assumes "restartable env d"
  shows "config_storage_save_statistics (te_settings env) s (dev_store d, dev_nvs d)
      = (err, store, nvs) \<Longrightarrow> restartable env (d\<lparr>dev_store := store, dev_nvs := nvs\<rparr>)"
    "app_config_validate c \<Longrightarrow>
      config_storage_save (te_settings env) c (dev_store d, dev_nvs d) = (err, store, nvs) \<Longrightarrow>
      restartable env (d\<lparr>dev_config := c, dev_store := store, dev_nvs := nvs\<rparr>)"
proof -
  note now = assms [unfolded restartable_def store_mirrored_def]
  assume save: "config_storage_save_statistics (te_settings env) s (dev_store d, dev_nvs d) = (err, store, nvs)"
  note load = load_saved(2) [OF _ _ _ save]
  from now load saved_fields(2) [OF save]
  show "restartable env (d\<lparr>dev_store := store, dev_nvs := nvs\<rparr>)"
    by (simp add: restartable_def store_mirrored_def config_at_boot_def config_storage_load_def)
next
  note now = assms [unfolded restartable_def store_mirrored_def]
  assume valid: "app_config_validate c"
    and save: "config_storage_save (te_settings env) c (dev_store d, dev_nvs d) = (err, store, nvs)"
  note load = load_saved(1) [OF _ _ _ save]
  from now load saved_fields(1) [OF save] valid
  show "restartable env (d\<lparr>dev_config := c, dev_store := store, dev_nvs := nvs\<rparr>)"
    by (simp add: restartable_def store_mirrored_def config_at_boot_def config_storage_load_def)
qed

lemma restart_flush [restart]: "restartable env d \<Longrightarrow> restartable env (app_state_flush_statistics env d)"
  by (auto simp: app_state_flush_statistics_def restart_store split: prod.split)

lemma restart_config_set [restart]:
  assumes "restartable env d"
  shows "restartable env (snd (app_config_set env cfg d))"
proof (cases "app_config_validate cfg")
  case True
  obtain err store nvs where save: "config_storage_save (te_settings env) cfg (dev_store d, dev_nvs d)
      = (err, store, nvs)" by (metis prod_cases3)
  have "snd (app_config_set env cfg d) = (d\<lparr>dev_config := cfg, dev_store := store, dev_nvs := nvs\<rparr>)
      \<lparr>dev_motion := motion_manager_update_config cfg (dev_motion d),
       dev_led := led_manager_set_enabled (cfg_led_enabled cfg \<noteq> 0) (dev_led d),
       dev_power := (dev_power d)\<lparr>pw_sample_now := True\<rparr>\<rparr>"
    using True save by (simp add: app_config_set_def power_manager_config_changed_def Let_def)
  then show ?thesis using restart_store(2) [OF assms True save] by (simp add: restart_field)
qed (use assms in \<open>simp add: app_config_set_def\<close>)

text \<open>The factory reset empties the store, and saves the defaults into it.\<close>

lemma restart_config_reset:
  assumes "restartable env d" and "config_storage_factory_reset (te_settings env) (dev_store d, dev_nvs d) = (e, store, nvs)"
  shows "restartable env (snd (app_config_reset env (d\<lparr>dev_store := store, dev_nvs := nvs\<rparr>)))"
proof -
  let ?d = "d\<lparr>dev_store := store, dev_nvs := nvs\<rparr>"
  note now = assms(1) [unfolded restartable_def store_mirrored_def]
  note load = load_saved(3) [OF _ _ _ assms(2)]
  have "config_storage_load store = TAG_CONFIG_DEFAULTS" using factory_reset_stored [OF assms(2)] by simp
  with now load have "restartable env (?d\<lparr>dev_config := TAG_CONFIG_DEFAULTS\<rparr>)"
    by (simp add: restartable_def store_mirrored_def config_at_boot_def)
  moreover have "app_config_reset env ?d = app_config_reset env (?d\<lparr>dev_config := TAG_CONFIG_DEFAULTS\<rparr>)"
    by (simp add: app_config_reset_def app_config_set_def power_manager_config_changed_def Let_def)
  ultimately show ?thesis
    using restart_config_set [of env "?d\<lparr>dev_config := TAG_CONFIG_DEFAULTS\<rparr>"]
    by (simp only: app_config_reset_def)
qed

subsubsection \<open>The rest of the tag\<close>

lemma restart_raise [restart]:
  "restartable env d \<Longrightarrow> restartable env (snd (app_raise_event env t sv v d))"
  "restartable env d \<Longrightarrow> restartable env (raise_event env ty sy v d)"
  by (auto simp: raise_event_def app_raise_event_def event_log_add_def Let_def restart_small restart_field
      restart_fold_told split: prod.split intro: restart_logs)

lemma restart_ops [restart]:
  "restartable env (snd (gatt_notify env' which data d)) = restartable env d"
  "restartable env (send_response env' op st payload d) = restartable env d"
  "restartable env (finish_command env' op err d) = restartable env d"
  "restartable env (log_abort d) = restartable env d"
  "restartable env (ccc_write which cv d) = restartable env d"
  "restartable env (run_notify_work env' d) = restartable env d"
  "restartable env (run_stream_work env' d) = restartable env d"
  "restartable env (snd (log_write_control env' buf offset d)) = restartable env d"
  "restartable env (power_manager_config_changed d) = restartable env d"
  "restartable env (power_manager_sample_now d) = restartable env d"
  "restartable env (motion_trigger_fn d) = restartable env d"
  "restartable env (take_sample_now d) = restartable env d"
  "restartable env (run_publish env' d) = restartable env d"
  "restartable env (identify_cb bufid d) = restartable env d"
  "restartable env (snd (ble_config_write_command buf offset d)) = restartable env d"
  "restartable env (ble_manager_update_adv_data env' d) = restartable env d"
  by (simp_all add: gatt_notify_def send_response_def finish_command_def log_abort_def ccc_write_def
      run_notify_work_def run_stream_work_def log_write_control_def power_manager_config_changed_def
      power_manager_sample_now_def motion_trigger_fn_def take_sample_now_def run_publish_def
      publish_attributes_def identify_cb_def ble_config_write_command_def ble_manager_update_adv_data_def
      restart Let_def split: prod.split)

lemma restart_advertising [restart]:
  "restartable env (snd (ble_manager_start_advertising env' d)) = restartable env d"
  "restartable env (ble_manager_stop_advertising env' d) = restartable env d"
  by (simp_all add: ble_manager_start_advertising_def ble_manager_stop_advertising_def Let_def restart
      split: prod.split)

lemma restart_dest:
  "ble_manager_start_advertising env' d = (err, d') \<Longrightarrow> restartable env d' = restartable env d"
  "app_config_set env cfg d = (err, d') \<Longrightarrow> restartable env d \<Longrightarrow> restartable env d'"
  using restart_advertising(1) [of env env' d] restart_config_set [of env d cfg] by simp_all

lemma restart_service [restart]:
  "restartable env (power_manager_request_service_mode env' d) = restartable env d"
  "restartable env (service_timeout_fn env' d) = restartable env d"
  "restartable env (ble_disconnected env' d) = restartable env d"
proof -
  show "restartable env (power_manager_request_service_mode env' d) = restartable env d"
    by (auto simp: power_manager_request_service_mode_def Let_def restart split: prod.split
        dest: restart_dest(1) [where env = env])
  show "restartable env (service_timeout_fn env' d) = restartable env d"
    "restartable env (ble_disconnected env' d) = restartable env d"
    by (simp_all add: service_timeout_fn_def power_manager_end_service_mode_def ble_disconnected_def
        Let_def restart)
qed

lemma restart_counters [restart]:
  "restartable env d \<Longrightarrow> restartable env (app_state_reset_counters env d)"
  by (simp add: app_state_reset_counters_def restart Let_def)

lemma restart_raising [restart]:
  assumes "restartable env d"
  shows "restartable env (ble_connected env err d)"
    "restartable env (snd (ble_config_write env buf offset d))"
    "restartable env (snd (app_state_set_time_utc env t d))"
    "restartable env (snd (snd (app_state_snapshot_gas_baseline env d)))"
    "restartable env (snd (zcl_apply_config env config d))"
    "restartable env (zboss_signal_handler env sig ok d)"
    "restartable env (fota_evt_handler env evt d)"
  using assms
  by (auto simp: ble_connected_def ble_config_write_def app_state_set_time_utc_def
      app_state_snapshot_gas_baseline_def zcl_apply_config_def zboss_signal_handler_def
      zboss_commissioned_def zboss_left_def fota_evt_handler_def Let_def restart
      split: prod.split zb_signal.split fota_evt.split dest: restart_dest)

lemma restart_raising_dest:
  "app_state_set_time_utc env t d = (err, d') \<Longrightarrow> restartable env d \<Longrightarrow> restartable env d'"
  "app_state_snapshot_gas_baseline env d = (err, th, d') \<Longrightarrow> restartable env d \<Longrightarrow> restartable env d'"
  "app_config_set_mode env m d = (err, d') \<Longrightarrow> restartable env d \<Longrightarrow> restartable env d'"
  using restart_raising(3) [of env d t] restart_raising(4) [of env d]
  by (auto simp: app_config_set_mode_def dest: restart_dest)

lemma restart_clear:
  "clear_event_log env d = Some (err, d') \<Longrightarrow> restartable env d \<Longrightarrow> restartable env d'"
  "clear_sensor_log env d = Some (err, d') \<Longrightarrow> restartable env d \<Longrightarrow> restartable env d'"
  by (auto simp: clear_event_log_def clear_sensor_log_def event_log_clear_def sensor_log_clear_def
      restart_small split: option.splits intro: restart_logs)

lemma restart_factory_reset:
  assumes "app_state_factory_reset env d = Some d'" and "restartable env d"
  shows "restartable env d'"
proof -
  let ?d0 = "raise_event env EVENT_FACTORY_RESET EVENT_SEVERITY_WARNING 0 (led_set LED_STATE_ALARM True d)"
  obtain e1 d1 e2 d2 e store nvs where clears: "clear_event_log env ?d0 = Some (e1, d1)"
    "clear_sensor_log env d1 = Some (e2, d2)"
    and store: "config_storage_factory_reset (te_settings env) (dev_store d2, dev_nvs d2) = (e, store, nvs)"
    and d': "d' = (snd (app_config_reset env (d2\<lparr>dev_store := store, dev_nvs := nvs\<rparr>)))\<lparr>dev_rebooting := True\<rparr>"
    using assms(1) by (auto simp: factory_reset_defs Let_def split: option.splits prod.splits)
  have "restartable env d2"
    by (rule restart_clear(2) [OF clears(2) restart_clear(1) [OF clears(1) restart_raise(2)]])
      (simp add: restart_small assms(2))
  then show ?thesis using restart_config_reset [OF _ store] by (simp add: d' restart_field)
qed

lemma restart_command: "run_command_work env d = Some d' \<Longrightarrow> restartable env d \<Longrightarrow> restartable env d'"
  by (auto simp: run_command_work_def command_work_fn_def Let_def restart
      split: if_splits option.splits prod.splits
      dest!: restart_clear restart_factory_reset restart_raising_dest simp del: One_nat_def)

lemma restart_zcl [restart]: "restartable env d \<Longrightarrow> restartable env (snd (zcl_device_cb env w d))"
  by (auto simp: zcl_device_cb_def Let_def restart split: option.split prod.split dest: restart_raising_dest)

lemma handle_restartable:
  assumes "handle env e d = Some d'" and "not_sample e" and "restartable env d"
  shows "restartable env d'"
proof (cases e)
  case Command_Work
  then show ?thesis using assms restart_command by (auto split: if_splits)
next
  case Factory_Reset_Work
  then show ?thesis using assms restart_factory_reset by (auto simp: factory_reset_work_fn_def)
qed (use assms in \<open>auto simp: button_press_work_fn_def restart split: if_splits\<close>)

lemma restart_sampling:
  assumes "restartable env d"
  shows "restartable env (snd (sampling_step env hw (pc, d)))"
  using assms
  by (cases "(env, hw, pc, d)" rule: sampling_step.cases)
    (auto simp: raise_log_def raise_count_def raise_light_def event_log_add_def sensor_log_add_def restart
      Let_def split: prod.split intro: restart_logs restart_store)

lemma restart_sampling_dest:
  "sampling_step env hw (pc, d) = (pc', d') \<Longrightarrow> restartable env d \<Longrightarrow> restartable env d'"
  using restart_sampling [of env d hw pc] by simp

subsection \<open>Startup\<close>

lemma restart_init [restart]:
  "restartable env (app_state_subscribe sub d) = restartable env d"
  "restartable env (app_state_init d) = restartable env d"
  "restartable env (power_manager_start d) = restartable env d"
  "restartable env (snd (ble_manager_init env' d)) = restartable env d"
  "restartable env (snd (zigbee_manager_init env' d)) = restartable env d"
  by (auto simp: app_state_subscribe_def app_state_init_def power_manager_start_def zigbee_manager_init_def
      ble_manager_init_def ble_gatt_init_ok ble_config_init_def set_device_name_def restart Let_def
      split: option.split prod.split list.split)

lemma restart_storage:
  "restartable env (app_config_init (main_storage env hw (device_at_reset env pe ps fe fs nvs bt)))"
  by (simp add: restartable_def store_mirrored_def app_config_init_def main_storage_def device_at_reset_def
      app_state_set_def config_at_boot_def event_log_init_def sensor_log_init_def event_log_instance_def
      sensor_log_instance_def home_init Let_def)

lemma restart_main: "restartable env (tag_main env hw (device_at_reset env pe ps fe fs nvs bt))"
  using restart_storage [of env hw pe ps fe fs nvs bt]
  by (simp add: tag_main_def main_stacks_def main_application_def restart Let_def)

lemma reach_restartable: "preempt_reach env (pc, r, d) \<Longrightarrow> restartable env d"
proof (induction "(pc, r, d)" arbitrary: pc r d rule: preempt_reach.induct)
  case (boot hw pe ps fe fs nvs bt)
  show ?case by (rule restart_main)
next
  case (more s pc' r' d')
  obtain pc r d where s: "s = (pc, r, d)" by (metis prod_cases3)
  from more(3) [unfolded s] more(2) [OF s] show ?case
    by (cases rule: preempt_step.cases)
      (auto simp: restart_field dest: handle_restartable restart_sampling_dest)
qed

text \<open>What the two radio stacks leave alone when they start.\<close>

definition boot_view :: "('f, 'n, 'b) device \<Rightarrow> 'f log_file \<times> 'f log_file \<times> tag_config \<times> tag_statistics" where
  "boot_view d = (dev_events d, dev_sensors d, dev_config d, ac_statistics (dev_core d))"

lemma boot_view_field:
  "boot_view (d\<lparr>dev_power := x10\<rparr>) = boot_view d" "boot_view (d\<lparr>dev_gatt := x11\<rparr>) = boot_view d"
  "boot_view (d\<lparr>dev_stream := x12\<rparr>) = boot_view d" "boot_view (d\<lparr>dev_command := x13\<rparr>) = boot_view d"
  "boot_view (d\<lparr>dev_ble := x14\<rparr>) = boot_view d" "boot_view (d\<lparr>dev_bt := x15\<rparr>) = boot_view d"
  "boot_view (d\<lparr>dev_zigbee := x18\<rparr>) = boot_view d" "boot_view (led_set s on d) = boot_view d"
  by (simp_all add: boot_view_def led_set_def Let_def)

lemma boot_view_small:
  "boot_view (app_state_set st d) = boot_view d" "boot_view (app_state_subscribe sub d) = boot_view d"
  by (simp_all add: app_state_set_def app_state_subscribe_def boot_view_def split: option.split)

lemma boot_view_init:
  "boot_view (power_manager_start d) = boot_view d"
  "boot_view (snd (ble_manager_init env d)) = boot_view d"
  "boot_view (snd (zigbee_manager_init env d)) = boot_view d"
  by (auto simp: power_manager_start_def zigbee_manager_init_def ble_manager_init_def ble_gatt_init_ok
      ble_config_init_def set_device_name_def boot_view_field boot_view_small Let_def
      split: prod.split list.split)

lemma boot_view_start: "ble_manager_start_advertising env d = (err, d') \<Longrightarrow> boot_view d' = boot_view d"
  by (auto simp: ble_manager_start_advertising_def ble_manager_update_adv_data_def boot_view_field Let_def
      split: prod.splits if_splits)

lemma boot_view_advertise: "boot_view (power_manager_request_service_mode env d) = boot_view d"
  by (auto simp: power_manager_request_service_mode_def boot_view_small(1) boot_view_field Let_def
      split: prod.split dest: boot_view_start)

lemma boot_view_stacks: "boot_view (main_stacks env d) = boot_view d"
  by (simp add: main_stacks_def boot_view_small boot_view_init boot_view_advertise Let_def)

subsection \<open>The restart\<close>

text \<open>The boot of the partitions and media a state leaves, on hardware of any kind.\<close>

definition restart_from ::
  "('f, 'n, 'b) tag_env \<Rightarrow> boot_hw \<Rightarrow> 'b \<Rightarrow> ('f, 'n, 'b) device \<Rightarrow> ('f, 'n, 'b) device" where
  "restart_from env hw bt d = tag_main env hw
     (device_at_reset env (fl_partition_id (lf_log (dev_events d))) (fl_partition_id (lf_log (dev_sensors d)))
        (lf_mem (dev_events d)) (lf_mem (dev_sensors d)) (dev_nvs d) bt)"

lemma home_restored:
  assumes part: "flash_partition env cells medium_ok" and "file_ok env cells medium_ok lf"
    and "log_home env rsize lf"
  shows "snd (log_file_init env \<lparr> lf_log = log_instance (fl_partition_id (lf_log lf)) rsize,
    lf_mem = lf_mem lf \<rparr>) = lf"
proof -
  have ring: "ring_inv env cells medium_ok (lf_log lf) (lf_mem lf)" using assms(2) by (simp add: file_ok_def)
  then have "fl_ready (lf_log lf)" by (simp add: ring_inv_def ring_core_def Let_def)
  then obtain f0 log1 where "flash_log_init env f0 (log_instance (fl_partition_id (lf_log lf)) rsize) = (0, log1)"
    "same_geometry log1 (lf_log lf)" using assms(3) by (auto simp: log_home_def)
  then have "flash_log_init env (lf_mem lf) (log_instance (fl_partition_id (lf_log lf)) rsize) = (0, lf_log lf)"
    by (rule flash_partition.flash_log_init_reboot [OF part _ _ ring])
  then show ?thesis by (simp add: log_file_init_def)
qed

lemma boot_event:
  assumes "flash_partition (te_flash env) cells medium_ok" and "logs_ok env cells medium_ok (Suc k) d"
    and "dev_uptime_s d = 0"
  shows "let log = lf_log (dev_events d); v = word_of_int SMART_TAG_PROTOCOL_VERSION in
    file_entries (te_flash env) cells (dev_events (raise_event env t sv v d)) =
      spec_append (unat (fl_total_slots log)) (unat (fl_slots_per_sector log))
        (file_entries (te_flash env) cells (dev_events d))
        (fl_next_seq log, event_record_bytes \<lparr> ev_timestamp = 0, ev_type = event_code t,
           ev_severity = severity_code sv, ev_value = v \<rparr>)"
proof -
  let ?log = "lf_log (dev_events d)" and ?v = "word_of_int SMART_TAG_PROTOCOL_VERSION :: s16"
  let ?r = "event_record_bytes \<lparr> ev_timestamp = 0, ev_type = event_code t, ev_severity = severity_code sv,
    ev_value = ?v \<rparr>"
  have ok: "ring_inv (te_flash env) cells medium_ok ?log (lf_mem (dev_events d))"
    "unat (fl_next_seq ?log) + 1 < 2 ^ 32" "length ?r = unat (fl_payload_size ?log)"
    using assms(2) by (simp_all add: logs_ok_def log_room_def file_ok_def wire_defs EVENT_RECORD_SIZE_def)
  then show ?thesis
    using flash_partition.flash_log_append_correct [OF assms(1) ok] assms(3)
    by (auto simp: raise_event_def app_raise_event_def event_log_add_def log_file_append_def file_entries_def
        Let_def frame)
qed

text \<open>The end of \<open>main_application\<close>: everything is in place and the boot event is raised.\<close>

lemma main_application_raises:
  obtains e where "main_application env d =
      raise_event env EVENT_BOOT EVENT_SEVERITY_INFO (word_of_int SMART_TAG_PROTOCOL_VERSION) e"
    "dev_events e = dev_events d" "dev_sensors e = dev_sensors d" "dev_uptime_s e = dev_uptime_s d"
    "dev_config e = config_at_boot (dev_store d)"
    "dev_core e = core_init (config_storage_load_statistics (dev_store d)) (dev_core d)"
proof -
  define e where "e = (let d = app_state_init (app_config_init d); config = app_config_get d;
      d = d\<lparr>dev_motion := motion_manager_init config\<rparr>;
      d = d\<lparr>dev_watchdog := snd (smart_tag_watchdog_init (te_wdt env) (dev_watchdog d))\<rparr>
    in d\<lparr>dev_led := led_manager_set_enabled (cfg_led_enabled config \<noteq> 0) (dev_led d)\<rparr>)"
  have "main_application env d =
      raise_event env EVENT_BOOT EVENT_SEVERITY_INFO (word_of_int SMART_TAG_PROTOCOL_VERSION) e"
    by (simp add: e_def main_application_def app_config_get_def app_state_init_def Let_def)
  moreover have "dev_events e = dev_events d" "dev_sensors e = dev_sensors d" "dev_uptime_s e = dev_uptime_s d"
    "dev_config e = config_at_boot (dev_store d)"
    "dev_core e = core_init (config_storage_load_statistics (dev_store d)) (dev_core d)"
    by (simp_all add: e_def app_state_init_def app_config_init_def config_at_boot_def Let_def)
  ultimately show ?thesis using that by blast
qed

lemma raise_boot_view:
  "dev_config (raise_event env t sv v d) = dev_config d"
  "dev_sensors (raise_event env t sv v d) = dev_sensors d"
  "ac_statistics (dev_core (raise_event env t sv v d)) =
     (ac_statistics (dev_core d))\<lparr>stat_event_count := st_event_count (ac_status (dev_core d)) + 1\<rparr>"
  by (simp_all add: raise_event_def app_raise_event_def frame with_status_def with_statistics_def Let_def
      split: prod.split)

lemma restart_config:
  assumes "settings_store_ok (te_settings env)" and "settings_writable (te_settings env)" and "restartable env d"
  shows "dev_config (restart_from env hw bt d) = dev_config d"
proof -
  have now: "store_mirrored env d" using assms(3) by (simp add: restartable_def)
  let ?d1 = "main_storage env hw (device_at_reset env (fl_partition_id (lf_log (dev_events d)))
    (fl_partition_id (lf_log (dev_sensors d))) (lf_mem (dev_events d)) (lf_mem (dev_sensors d)) (dev_nvs d) bt)"
  have "dev_config (main_application env ?d1) = config_at_boot (dev_store ?d1)"
    using main_application_raises [of env ?d1] by (metis raise_boot_view(1))
  moreover have "dev_store ?d1 = dev_store d"
    using now assms(1,2) by (simp add: store_mirrored_def main_storage_def device_at_reset_def
        app_state_set_def Let_def)
  ultimately show ?thesis
    using now boot_view_stacks [of env "main_application env ?d1"]
    by (simp add: restart_from_def tag_main_def store_mirrored_def boot_view_def)
qed

text \<open>
  C4: a power cut loses nothing that was saved. Whenever power fails between two steps of the
  tag (so that no write to the flash or the settings store is cut short; \<open>Torn_Write\<close> has the
  writes of records), with the sampling thread preempted anywhere, and with working flash and
  settings and sequence numbers left, the boot that follows runs with exactly the
  configuration that was in force, finds the sensor log exactly as it was and the event log as it
  was with the boot event added, restores the statistics last saved, with the boot and its event
  counted, and has usable logs again. The next boot's own state is the only thing that differs.
\<close>

theorem power_cut_loses_nothing:
  assumes "flash_partition (te_flash env) cells medium_ok"
    and "settings_store_ok (te_settings env)" and "settings_writable (te_settings env)"
    and "preempt_reach env (pc, r, d)" and "logs_ok env cells medium_ok (Suc k) d"
  shows "let d' = restart_from env hw bt d; log = lf_log (dev_events d); saved = cs_stored_stats (dev_store d) in
    dev_config d' = dev_config d \<and> dev_sensors d' = dev_sensors d \<and>
    file_entries (te_flash env) cells (dev_events d') =
      spec_append (unat (fl_total_slots log)) (unat (fl_slots_per_sector log))
        (file_entries (te_flash env) cells (dev_events d))
        (fl_next_seq log, event_record_bytes \<lparr> ev_timestamp = 0, ev_type = event_code EVENT_BOOT,
           ev_severity = severity_code EVENT_SEVERITY_INFO,
           ev_value = word_of_int SMART_TAG_PROTOCOL_VERSION \<rparr>) \<and>
    ac_statistics (dev_core d') = saved\<lparr>stat_boot_count := stat_boot_count saved + 1,
      stat_event_count := stat_event_count saved + 1\<rparr> \<and>
    logs_ok env cells medium_ok k d'"
proof -
  let ?d0 = "device_at_reset env (fl_partition_id (lf_log (dev_events d))) (fl_partition_id (lf_log (dev_sensors d)))
    (lf_mem (dev_events d)) (lf_mem (dev_sensors d)) (dev_nvs d) bt"
  let ?d1 = "main_storage env hw ?d0"
  have now: "store_mirrored env d" "log_home (te_flash env) (of_nat EVENT_RECORD_SIZE) (dev_events d)"
    "log_home (te_flash env) (of_nat SENSOR_RECORD_SIZE) (dev_sensors d)"
    using reach_restartable [OF assms(4)] by (simp_all add: restartable_def)
  have files: "dev_events ?d1 = dev_events d" "dev_sensors ?d1 = dev_sensors d"
    using home_restored [OF assms(1) logs_ok_files(1) [OF assms(5)] now(2)]
      home_restored [OF assms(1) logs_ok_files(2) [OF assms(5)] now(3)]
    by (simp_all add: main_storage_def device_at_reset_def app_state_set_def event_log_init_def
        sensor_log_init_def event_log_instance_def sensor_log_instance_def Let_def)
  have store: "dev_store ?d1 = dev_store d" "dev_uptime_s ?d1 = 0" "ac_status (dev_core ?d1) = tag_status_zero"
    using now(1) assms(2,3)
    by (simp_all add: store_mirrored_def main_storage_def device_at_reset_def app_state_set_def
        app_core_boot_def Let_def)
  obtain e where e: "main_application env ?d1 =
      raise_event env EVENT_BOOT EVENT_SEVERITY_INFO (word_of_int SMART_TAG_PROTOCOL_VERSION) e"
    "dev_events e = dev_events ?d1" "dev_sensors e = dev_sensors ?d1" "dev_uptime_s e = dev_uptime_s ?d1"
    "dev_config e = config_at_boot (dev_store ?d1)"
    "dev_core e = core_init (config_storage_load_statistics (dev_store ?d1)) (dev_core ?d1)"
    using main_application_raises [of env ?d1] .
  have logs: "logs_ok env cells medium_ok (Suc k) e" using assms(5) e(2,3) files by (simp add: logs_ok_def)
  have same: "boot_view (restart_from env hw bt d) = boot_view
      (raise_event env EVENT_BOOT EVENT_SEVERITY_INFO (word_of_int SMART_TAG_PROTOCOL_VERSION) e)"
    by (simp add: restart_from_def tag_main_def boot_view_stacks e(1))
  have "logs_ok env cells medium_ok k (restart_from env hw bt d)"
    using logs_raise_event [OF assms(1) logs] same by (simp add: logs_ok_def boot_view_def)
  moreover have "config_at_boot (dev_store d) = dev_config d" using now(1) by (simp add: store_mirrored_def)
  ultimately show ?thesis
    using same boot_event [OF assms(1) logs] e(2-6) files store
    by (simp add: boot_view_def Let_def raise_boot_view core_init_def config_storage_load_statistics_def
        tag_status_zero_def)
qed

text \<open>The tag of the witnesses loses power after its first sample.\<close>

theorem power_cut_loses_nothing_witness:
  "let d = sampling_round mock_tag_env mock_sensor_hw mock_tag; d' = restart_from mock_tag_env mock_boot_hw [] d in
   dev_config d' = dev_config d \<and> dev_sensors d' = dev_sensors d \<and>
   logs_ok mock_tag_env (\<lambda>mem. mem) mock_medium_ok 3 d'"
proof -
  let ?d = "sampling_round mock_tag_env mock_sensor_hw mock_tag"
  have env: "te_flash mock_tag_env = mock_env" "te_settings mock_tag_env = map_settings"
    by (simp_all add: mock_tag_env_def)
  have part: "flash_partition (te_flash mock_tag_env) (\<lambda>mem. mem) mock_medium_ok"
    by (simp add: env mock.flash_partition_axioms)
  have settings: "settings_store_ok (te_settings mock_tag_env)" "settings_writable (te_settings mock_tag_env)"
    by (simp_all add: env map_settings_ok settings_writable_def) (simp_all add: map_settings_def)
  have reach: "preempt_reach mock_tag_env (Asleep, False, ?d)"
    using runs_preempt [OF runs_to_wait mock_tag_running mock_tag_preempt] by simp
  have "ac_pending (dev_core mock_tag) = []"
    using preempt_reach_inv [OF mock_tag_preempt] by (simp add: preempt_inv_def)
  then have "logs_ok mock_tag_env (\<lambda>mem. mem) mock_medium_ok (Suc 3) ?d"
    using logs_sampling [OF part, of "Suc 3"] mock_tag_logs [of 13] by simp
  from power_cut_loses_nothing [OF part settings reach this, of mock_boot_hw "[]"] show ?thesis
    by (simp add: Let_def)
qed

subsection \<open>A configuration written over Bluetooth\<close>

text \<open>
  C14: a configuration written over Bluetooth is the one read back, and stays. On a working
  settings store and when no other write overlaps with it, a write of a struct that holds values in range is accepted: the characteristic then reads the very bytes written, the
  motion manager and the LED follow them, and after a power cut the next boot reads them too. Any other write, of a part, of another length or with a value
  out of range, is refused with the error for it and changes nothing.
\<close>

theorem written_config_is_read_back:
  assumes "settings_store_ok (te_settings env)" and "settings_writable (te_settings env)"
    and "preempt_reach env (pc, r, d)" and "ble_config_write env buf offset d = (n, d')"
  shows "if offset = 0 \<and> length buf = 40 \<and> app_config_validate (tag_config_of_bytes buf)
    then n = 40 \<and> ble_config_read d' = buf \<and> config_in_force d' \<and>
      ble_config_read (restart_from env hw bt d') = buf
    else d' = d \<and> n = (if offset \<noteq> 0 then - BT_ATT_ERR_INVALID_OFFSET
      else if length buf \<noteq> 40 then - BT_ATT_ERR_INVALID_ATTRIBUTE_LEN else - BT_ATT_ERR_VALUE_NOT_ALLOWED)"
proof (cases "offset = 0 \<and> length buf = 40 \<and> app_config_validate (tag_config_of_bytes buf)")
  case True
  let ?c = "tag_config_of_bytes buf"
  obtain err d1 where set: "app_config_set env ?c d = (err, d1)" by fastforce
  then have "err = 0"
    using True assms(2) unfolding settings_writable_def
    by (auto simp: app_config_set_def config_storage_save_def Let_def split: prod.splits) (metis fst_conv)
  then have d': "n = 40" "d' = raise_event env EVENT_CONFIG_CHANGED EVENT_SEVERITY_INFO
      (ucast (cfg_operating_mode ?c)) d1"
    using assms(4) True set by (auto simp: ble_config_write_def EINVAL_def Let_def)
  have "dev_config d1 = ?c \<and> config_in_force d1" using app_config_set_state [OF set] True by simp
  then have force: "dev_config d' = ?c" "config_in_force d'"
    unfolding d' using True by (simp_all add: config_in_force_def raise_event_def frame)
  have "restartable env d'"
    using restart_raising(2) [OF reach_restartable [OF assms(3)], of buf offset] assms(4) by simp
  then have "dev_config (restart_from env hw bt d') = ?c"
    using restart_config [OF assms(1,2)] force(1) by simp
  then show ?thesis
    using True d'(1) force
    by (simp add: ble_config_read_def app_config_get_def tag_config_bytes_inverse)
next
  case False
  then show ?thesis
    using assms(4) by (auto simp: ble_config_write_def app_config_set_def Let_def)
qed

text \<open>The defaults with the LED off, written to the tag of the witnesses.\<close>

theorem written_config_is_read_back_witness:
  "let buf = tag_config_bytes (TAG_CONFIG_DEFAULTS\<lparr>cfg_led_enabled := 0\<rparr>);
       d' = snd (ble_config_write mock_tag_env buf 0 mock_tag) in
   fst (ble_config_write mock_tag_env buf 0 mock_tag) = 40 \<and> ble_config_read d' = buf \<and>
   ble_config_read (restart_from mock_tag_env mock_boot_hw [] d') = buf"
proof -
  let ?c = "TAG_CONFIG_DEFAULTS\<lparr>cfg_led_enabled := 0\<rparr>"
  obtain n d' where written: "ble_config_write mock_tag_env (tag_config_bytes ?c) 0 mock_tag = (n, d')"
    by fastforce
  have settings: "settings_store_ok (te_settings mock_tag_env)" "settings_writable (te_settings mock_tag_env)"
    by (simp_all add: mock_tag_env_def map_settings_ok settings_writable_def) (simp_all add: map_settings_def)
  have "length (tag_config_bytes ?c) = 40" by (simp add: wire_defs)
  moreover have "app_config_validate ?c" by (simp add: app_config_validate_def TAG_CONFIG_DEFAULTS_def)
  ultimately show ?thesis
    using written_config_is_read_back [OF settings mock_tag_preempt written, of mock_boot_hw "[]"] written
    by (simp add: Let_def)
qed

end
