(* ===== verification/Config_Race.thy ===== *)
theory Config_Race
  imports Power_Cut
begin

section \<open>Two configuration writes at once\<close>

text \<open>
  \<open>app_config_set\<close> of \<open>src/app/app_config.c\<close> is called from the Bluetooth host (a write of the
  characteristic), from the system work queue (the commands) and from the Zigbee stack (a write of
  an attribute). It holds its mutex only while it copies the configuration; what it pushes to the
  modules and to the store comes after. Here it is cut where another thread can run, and two calls
  are interleaved.
\<close>

subsection \<open>The sections of a write\<close>

text \<open>
  \<open>Set_Begin\<close> has not taken the mutex, \<open>Set_Motion\<close> has released it; the others are named after the
  call that comes next, \<open>Set_Cache\<close> and \<open>Set_Flash\<close> being the two parts of \<open>config_storage_save\<close>.
\<close>

datatype config_pc =
  Set_Begin tag_config | Set_Motion tag_config | Set_Led tag_config | Set_Wake tag_config
| Set_Cache tag_config | Set_Flash tag_config | Set_Done int

fun config_step ::
  "('f, 'n, 'b) tag_env \<Rightarrow> config_pc \<times> ('f, 'n, 'b) device \<Rightarrow> config_pc \<times> ('f, 'n, 'b) device" where
  "config_step env (Set_Begin c, d) =
     (if \<not> app_config_validate c then (Set_Done (- EINVAL), d) else (Set_Motion c, d\<lparr>dev_config := c\<rparr>))"
| "config_step env (Set_Motion c, d) =
     (Set_Led c, d\<lparr>dev_motion := motion_manager_update_config c (dev_motion d)\<rparr>)"
| "config_step env (Set_Led c, d) =
     (Set_Wake c, d\<lparr>dev_led := led_manager_set_enabled (cfg_led_enabled c \<noteq> 0) (dev_led d)\<rparr>)"
| "config_step env (Set_Wake c, d) = (Set_Cache c, power_manager_config_changed d)"
| "config_step env (Set_Cache c, d) =
     (Set_Flash c, d\<lparr>dev_store := (dev_store d)\<lparr>cs_stored_config := c\<rparr>\<rparr>)"
| "config_step env (Set_Flash c, d) =
     (let blob = tag_config_encode c SETTINGS_BLOB_MAX in
      if blob = [] then (Set_Done (- ENOMEM), d)
      else case se_save_one (te_settings env) (dev_nvs d) SETTINGS_KEY_CONFIG blob of
        (err, nvs) \<Rightarrow> (Set_Done err, d\<lparr>dev_nvs := nvs\<rparr>))"
| "config_step env (Set_Done err, d) = (Set_Done err, d)"

text \<open>Undisturbed, the sections are \<open>app_config_set\<close>.\<close>

lemma config_set_sections:
  assumes "app_config_set env c d = (err, d')"
  shows "(config_step env ^^ 6) (Set_Begin c, d) = (Set_Done err, d')"
proof (cases "app_config_validate c")
  case True
  then show ?thesis
    using assms
    by (simp add: eval_nat_numeral app_config_set_def config_storage_save_def
        power_manager_config_changed_def Let_def split: prod.splits)
next
  case False
  then show ?thesis using assms by (simp add: eval_nat_numeral app_config_set_def)
qed

subsection \<open>Interleavings\<close>

text \<open>The first and the second write, and the device they share.\<close>

type_synonym ('f, 'n, 'b) config_race = "config_pc \<times> config_pc \<times> ('f, 'n, 'b) device"

inductive race ::
  "('f, 'n, 'b) tag_env \<Rightarrow> ('f, 'n, 'b) config_race \<Rightarrow> ('f, 'n, 'b) config_race \<Rightarrow> bool" for env s where
  here: "race env s s"
| first: "race env s (p, q, d) \<Longrightarrow> config_step env (p, d) = (p', d') \<Longrightarrow> race env s (p', q, d')"
| second: "race env s (p, q, d) \<Longrightarrow> config_step env (q, d) = (q', d') \<Longrightarrow> race env s (p, q', d')"

lemma race_first:
  "race env s (p, q, d) \<Longrightarrow> (config_step env ^^ n) (p, d) = (p', d') \<Longrightarrow> race env s (p', q, d')"
proof (induction n arbitrary: p' d')
  case (Suc n)
  obtain p1 d1 where "(config_step env ^^ n) (p, d) = (p1, d1)" by fastforce
  with Suc show ?case by (auto intro: race.first)
qed simp

lemma race_second:
  "race env s (p, q, d) \<Longrightarrow> (config_step env ^^ n) (q, d) = (q', d') \<Longrightarrow> race env s (p, q', d')"
proof (induction n arbitrary: q' d')
  case (Suc n)
  obtain q1 d1 where "(config_step env ^^ n) (q, d) = (q1, d1)" by fastforce
  with Suc show ?case by (auto intro: race.second)
qed simp

text \<open>
  Whatever the order, what is in force in each place is one of the two configurations, or still
  the old one: the writes do not mix within a configuration.
\<close>

fun write_of :: "config_pc \<Rightarrow> tag_config set" where
  "write_of (Set_Done err) = {}"
| "write_of (Set_Begin c) = {c}" | "write_of (Set_Motion c) = {c}" | "write_of (Set_Led c) = {c}"
| "write_of (Set_Wake c) = {c}" | "write_of (Set_Cache c) = {c}" | "write_of (Set_Flash c) = {c}"

definition configs_among :: "tag_config set \<Rightarrow> ('f, 'n, 'b) device \<Rightarrow> bool" where
  "configs_among C d \<longleftrightarrow> dev_config d \<in> C \<and> mm_config (dev_motion d) \<in> C \<and> cs_stored_config (dev_store d) \<in> C"

lemma config_step_among:
  assumes "config_step env (p, d) = (p', d')" and "configs_among C d" and "write_of p \<subseteq> C"
  shows "configs_among C d' \<and> write_of p' \<subseteq> C"
  using assms
  by (cases p) (auto simp: configs_among_def motion_manager_update_config_def
      power_manager_config_changed_def Let_def split: if_splits prod.splits)

lemma race_among:
  assumes "race env (p, q, d) (p', q', d')" and "configs_among C d" and "write_of p \<subseteq> C" and "write_of q \<subseteq> C"
  shows "configs_among C d' \<and> write_of p' \<subseteq> C \<and> write_of q' \<subseteq> C"
  using assms(1)
proof (induction "(p', q', d')" arbitrary: p' q' d' rule: race.induct)
  case here
  with assms(2-4) show ?case by simp
next
  case first
  then show ?case using config_step_among by blast
next
  case second
  then show ?case using config_step_among by blast
qed

lemma save_one_works:
  assumes "settings_store_ok se" and "settings_writable se"
  obtains nvs' where "se_save_one se nvs key blob = (0, nvs')" "se_load se nvs' key = Some blob"
  using assms unfolding settings_store_ok_def settings_writable_def by (metis prod.collapse)

text \<open>The rest of a write from the release of the mutex on.\<close>

lemma write_finishes:
  assumes "settings_store_ok (te_settings env)" and "settings_writable (te_settings env)"
  obtains d' where "(config_step env ^^ 5) (Set_Motion c, d) = (Set_Done 0, d')" "dev_config d' = dev_config d"
    "mm_config (dev_motion d') = c" "led_enabled (dev_led d') = (cfg_led_enabled c \<noteq> 0)"
    "cs_stored_config (dev_store d') = c"
    "config_storage_load (settings_load_smart_tag (te_settings env) (dev_nvs d') config_storage_boot) = c"
proof -
  obtain nvs where nvs: "se_save_one (te_settings env) (dev_nvs d) SETTINGS_KEY_CONFIG
      (tag_config_encode c SETTINGS_BLOB_MAX) = (0, nvs)"
    "se_load (te_settings env) nvs SETTINGS_KEY_CONFIG = Some (tag_config_encode c SETTINGS_BLOB_MAX)"
    using save_one_works [OF assms] .
  have "config_storage_load (settings_load_smart_tag (te_settings env) nvs config_storage_boot) = c"
    by (simp add: load_fields nvs(2) config_storage_load_def)
  with nvs(1) that show ?thesis
    by (simp add: eval_nat_numeral motion_manager_update_config_def power_manager_config_changed_def Let_def)
qed

text \<open>
  C15: two writes at once can leave the tag running with both. When a second write comes in while
  the first has released the mutex and not yet told the modules, both are accepted, and then the
  configuration the tag reports is the second one, while the motion manager and the LED run with
  the first, and the first is what the store holds and the next boot starts from. Any two
  valid configurations do; \<open>config_always_in_force\<close> is about writes that do not overlap.
\<close>

theorem racing_writes_disagree:
  assumes "settings_store_ok (te_settings env)" and "settings_writable (te_settings env)"
    and "app_config_validate a" and "app_config_validate b"
  shows "\<exists>d'. race env (Set_Begin a, Set_Begin b, d) (Set_Done 0, Set_Done 0, d') \<and>
    app_config_get d' = b \<and> mm_config (dev_motion d') = a \<and>
    led_enabled (dev_led d') = (cfg_led_enabled a \<noteq> 0) \<and> (a \<noteq> b \<longrightarrow> \<not> config_in_force d') \<and>
    config_at_boot (settings_load_smart_tag (te_settings env) (dev_nvs d') config_storage_boot) = a"
proof -
  let ?d1 = "d\<lparr>dev_config := a\<rparr>"
  have "(config_step env ^^ 1) (Set_Begin a, d) = (Set_Motion a, ?d1)" using assms(3) by simp
  from race_first [OF race.here this]
  have r1: "race env (Set_Begin a, Set_Begin b, d) (Set_Motion a, Set_Begin b, ?d1)" .
  have "config_step env (Set_Begin b, ?d1) = (Set_Motion b, ?d1\<lparr>dev_config := b\<rparr>)" using assms(4) by simp
  note r2 = race.second [OF r1 this]
  obtain d2 where d2: "(config_step env ^^ 5) (Set_Motion b, ?d1\<lparr>dev_config := b\<rparr>) = (Set_Done 0, d2)"
    "dev_config d2 = dev_config (?d1\<lparr>dev_config := b\<rparr>)"
    by (rule write_finishes [OF assms(1,2)])
  note r3 = race_second [OF r2 d2(1)]
  obtain d3 where d3: "(config_step env ^^ 5) (Set_Motion a, d2) = (Set_Done 0, d3)" "dev_config d3 = dev_config d2"
    "mm_config (dev_motion d3) = a" "led_enabled (dev_led d3) = (cfg_led_enabled a \<noteq> 0)"
    "config_storage_load (settings_load_smart_tag (te_settings env) (dev_nvs d3) config_storage_boot) = a"
    by (rule write_finishes [OF assms(1,2)])
  have "a \<noteq> b \<longrightarrow> \<not> config_in_force d3" using d3(2,3) d2(2) by (auto simp: config_in_force_def)
  then show ?thesis
    using race_first [OF r3 d3(1)] d3(2-) d2(2) assms(3)
    by (intro exI [of _ d3]) (simp add: app_config_get_def config_at_boot_def)
qed

text \<open>The tag of the witnesses is told to switch its LED off, and to be a shipping tag.\<close>

theorem racing_writes_disagree_witness:
  "\<exists>d'. race mock_tag_env (Set_Begin (TAG_CONFIG_DEFAULTS\<lparr>cfg_led_enabled := 0\<rparr>),
       Set_Begin (TAG_CONFIG_DEFAULTS\<lparr>cfg_operating_mode := tag_mode_code TAG_MODE_SHIPPING\<rparr>), mock_tag)
     (Set_Done 0, Set_Done 0, d') \<and>
   cfg_led_enabled (app_config_get d') = 1 \<and> \<not> led_enabled (dev_led d') \<and> \<not> config_in_force d'"
proof -
  let ?a = "TAG_CONFIG_DEFAULTS\<lparr>cfg_led_enabled := 0\<rparr>"
  let ?b = "TAG_CONFIG_DEFAULTS\<lparr>cfg_operating_mode := tag_mode_code TAG_MODE_SHIPPING\<rparr>"
  have settings: "settings_store_ok (te_settings mock_tag_env)" "settings_writable (te_settings mock_tag_env)"
    by (simp_all add: mock_tag_env_def map_settings_ok settings_writable_def) (simp_all add: map_settings_def)
  have "app_config_validate ?a" "app_config_validate ?b" "cfg_led_enabled ?b = 1"
    by (simp_all add: app_config_validate_def TAG_CONFIG_DEFAULTS_def)
  moreover from this(3) have "?a \<noteq> ?b" by (auto dest: arg_cong [where f = cfg_led_enabled])
  ultimately show ?thesis
    using racing_writes_disagree [OF settings, of ?a ?b mock_tag] by auto
qed

text \<open>
  A caller that changes one field reads the configuration and writes it back, with nothing held in
  between: what another thread wrote meanwhile is undone, and was acknowledged.
\<close>

lemma mode_command_undoes_write:
  assumes "app_config_set env b d = (0, d1)" and "app_config_validate b"
    and "app_config_set env ((app_config_get d)\<lparr>cfg_operating_mode := m\<rparr>) d1 = (0, d2)"
    and "app_config_validate ((app_config_get d)\<lparr>cfg_operating_mode := m\<rparr>)"
  shows "app_config_get d1 = b \<and> app_config_get d2 = (app_config_get d)\<lparr>cfg_operating_mode := m\<rparr>"
  using app_config_set_state [OF assms(1)] app_config_set_state [OF assms(3)] assms(2,4)
  by (simp add: app_config_get_def)

end
