(* ===== verification/Event_Path.thy ===== *)
theory Event_Path
  imports Power_Cut Ble_Transfer
begin

section \<open>From a sample to the client\<close>

text \<open>
  The way of an event through the components: the motion manager and the alarm policy detect it,
  \<open>app_state.c\<close> queues and raises it, \<open>event_log.c\<close> stores it on the flash ring, and a client finds
  its number in the log information, asks for it (\<open>ble_log.c\<close>) and decodes the packet it is sent.
\<close>

subsection \<open>The records\<close>

definition event_of :: "u32 \<Rightarrow> pending_event \<Rightarrow> event_record" where
  "event_of uptime p = \<lparr> ev_timestamp = uptime, ev_type = pe_type p, ev_severity = pe_severity p,
     ev_value = pe_value p \<rparr>"

text \<open>What the client makes of the records of a chunk.\<close>

fun decode_events :: "u8 list \<Rightarrow> event_record list" where
  "decode_events bs =
     (if length bs < 8 then [] else event_record_of_bytes (take 8 bs) # decode_events (drop 8 bs))"

declare decode_events.simps [simp del]

lemma length_event_bytes [simp]: "length (event_record_bytes r) = 8"
  by (simp add: wire_defs)

lemma decode_events_bytes: "decode_events (concat (map event_record_bytes rs)) = rs"
  by (induction rs) (simp_all add: decode_events.simps)

subsection \<open>Into the log\<close>

lemma queued_room:
  assumes "flash_partition (te_flash env) cells medium_ok"
    and "log_room (te_flash env) cells medium_ok EVENT_RECORD_SIZE (Suc k) lf"
  shows "log_room (te_flash env) cells medium_ok EVENT_RECORD_SIZE k (log_queued env uptime p lf) \<and>
    fl_total_slots (lf_log (log_queued env uptime p lf)) = fl_total_slots (lf_log lf) \<and>
    fl_slots_per_sector (lf_log (log_queued env uptime p lf)) = fl_slots_per_sector (lf_log lf) \<and>
    map snd (file_entries (te_flash env) cells (log_queued env uptime p lf)) =
      (if length (file_entries (te_flash env) cells lf) = unat (fl_total_slots (lf_log lf))
       then drop (unat (fl_slots_per_sector (lf_log lf))) (map snd (file_entries (te_flash env) cells lf))
       else map snd (file_entries (te_flash env) cells lf)) @ [event_record_bytes (event_of uptime p)]"
proof -
  let ?rec = "event_record_bytes (event_of uptime p)"
  have ok: "ring_inv (te_flash env) cells medium_ok (lf_log lf) (lf_mem lf)"
    "unat (fl_next_seq (lf_log lf)) + 1 < 2 ^ 32" "length ?rec = unat (fl_payload_size (lf_log lf))"
    using assms(2) by (simp_all add: log_room_def file_ok_def EVENT_RECORD_SIZE_def)
  have "log_room (te_flash env) cells medium_ok EVENT_RECORD_SIZE k
      (snd (snd (log_file_append (te_flash env) ?rec lf)))"
    by (rule flash_partition.room_append [OF assms]) (simp add: EVENT_RECORD_SIZE_def)
  then show ?thesis
    using flash_partition.flash_log_append_correct [OF assms(1) ok]
    by (auto simp: log_queued_def event_log_add_def log_file_append_def file_entries_def event_of_def
        spec_append_def drop_map)
qed

text \<open>As long as they fit beside one sector, the records just appended are the last of the log.\<close>

lemma queued_last:
  assumes "flash_partition (te_flash env) cells medium_ok"
    and "log_room (te_flash env) cells medium_ok EVENT_RECORD_SIZE (k + length ps) lf"
    and "unat (fl_slots_per_sector (lf_log lf)) + length ps \<le> unat (fl_total_slots (lf_log lf)) + 1"
  shows "\<exists>old. let lf' = fold (log_queued env uptime) ps lf in
    log_room (te_flash env) cells medium_ok EVENT_RECORD_SIZE k lf' \<and>
    fl_total_slots (lf_log lf') = fl_total_slots (lf_log lf) \<and>
    fl_slots_per_sector (lf_log lf') = fl_slots_per_sector (lf_log lf) \<and>
    map snd (file_entries (te_flash env) cells lf') = old @ map (event_record_bytes \<circ> event_of uptime) ps"
  using assms(2,3)
proof (induction ps arbitrary: k rule: rev_induct)
  case (snoc p ps)
  let ?S = "unat (fl_slots_per_sector (lf_log lf))" and ?T = "unat (fl_total_slots (lf_log lf))"
  have prems: "log_room (te_flash env) cells medium_ok EVENT_RECORD_SIZE (Suc k + length ps) lf"
    "?S + length ps \<le> ?T + 1"
    using snoc.prems by simp_all
  obtain old where old: "let lf' = fold (log_queued env uptime) ps lf in
    log_room (te_flash env) cells medium_ok EVENT_RECORD_SIZE (Suc k) lf' \<and>
    fl_total_slots (lf_log lf') = fl_total_slots (lf_log lf) \<and>
    fl_slots_per_sector (lf_log lf') = fl_slots_per_sector (lf_log lf) \<and>
    map snd (file_entries (te_flash env) cells lf') = old @ map (event_record_bytes \<circ> event_of uptime) ps"
    using snoc.IH [OF prems] by blast
  define lf1 where "lf1 = fold (log_queued env uptime) ps lf"
  note one = old [folded lf1_def, unfolded Let_def]
  then have entries: "map snd (file_entries (te_flash env) cells lf1) =
      old @ map (event_record_bytes \<circ> event_of uptime) ps" by blast
  from arg_cong [OF this, of length]
  have "length (file_entries (te_flash env) cells lf1) = length old + length ps" by simp
  then have cut: "drop ?S (map snd (file_entries (te_flash env) cells lf1)) =
      drop ?S old @ map (event_record_bytes \<circ> event_of uptime) ps"
    if "length (file_entries (te_flash env) cells lf1) = ?T"
    using that one snoc.prems(2) by simp
  show ?case
    using queued_room [OF assms(1), of k lf1 uptime p] one cut
    by (auto simp: Let_def simp flip: lf1_def)
qed (use assms(2) in auto)

subsection \<open>To the client\<close>

lemma newest_records:
  assumes "flash_partition env cells medium_ok" and "file_ok env cells medium_ok lf"
    and "es = file_entries env cells lf" and "0 < n" and "n \<le> length es"
    and "start = li_newest_seq (log_file_info env lf) - of_nat (n - 1)"
  shows "log_file_read env lf start n = (int n, drop (length es - n) (map snd es))"
proof -
  have ne: "es \<noteq> []" using assms(4,5) by auto
  have gapless: "contiguous es" using flash_partition.file_contiguous [OF assms(1,2)] by (simp add: assms(3))
  from gapless have "unat (fst (es ! (length es - 1))) = unat (fst (es ! 0)) + (length es - 1)"
    unfolding contiguous_def using ne by (metis diff_less length_greater_0_conv zero_less_one)
  then have last_seq: "unat (fst (last es)) = unat (fst (es ! 0)) + (length es - 1)"
    using ne by (simp add: last_conv_nth)
  have start: "start = fst (last es) - of_nat (n - 1)"
    using assms(2,3,6) ne flash_partition.flash_log_get_info_correct [OF assms(1)]
    by (simp add: log_file_info_def file_ok_def file_entries_def Let_def)
  have "n - 1 < 2 ^ 32" using last_seq assms(5) unsigned_less [of "fst (last es)", where ?'a = nat] by simp
  then have n1: "unat (of_nat (n - 1) :: u32) = n - 1" by (simp add: unat_of_nat)
  then have "(of_nat (n - 1) :: u32) \<le> fst (last es)" using last_seq assms(5) by (simp add: word_le_nat_alt)
  then have start_nat: "unat start = unat (fst (es ! 0)) + (length es - n)"
    using last_seq assms(4,5) n1 by (simp add: start unat_sub)
  then have "fst (es ! 0) \<le> start" by (simp add: word_le_nat_alt)
  then have "filter (\<lambda>e. start \<le> fst e) es = drop (length es - n) es"
    using contiguous_suffix [OF gapless ne] start_nat by simp
  then show ?thesis
    using flash_partition.file_read [OF assms(1,2)] assms(3,5) by (simp add: spec_read_def drop_map)
qed

text \<open>The request a client writes for \<open>n\<close> events from \<open>start\<close> on.\<close>

definition event_request :: "u32 \<Rightarrow> nat \<Rightarrow> u8 list" where
  "event_request start n = [BLE_LOG_OP_START, BLE_LOG_ID_EVENT] @ le32 start @ le16 (of_nat n)"

lemma event_request_parsed:
  "length (event_request start n) = 8"
  "ble_log_request_of_bytes (event_request start n) = \<lparr> lr_opcode = BLE_LOG_OP_START,
     lr_log_id = BLE_LOG_ID_EVENT, lr_start_seq = start, lr_max_records = of_nat n \<rparr>"
  by (simp_all add: event_request_def ble_log_request_of_bytes_def le32_def le16_def rd32_def rd16_def)

lemma newest_in_info: "rd32 (log_read_info env d) 8 = li_newest_seq (log_file_info (te_flash env) (dev_events d))"
  by (simp add: log_read_info_def ble_log_info_bytes_def ble_log_get_info_def event_log_get_info_def
      le32_def rd32_def)

lemma work_notifies:
  "stream_work_fn True read notify sm bt = (Some (err, data), sm', bt') \<Longrightarrow> notify data bt = (err, bt')"
  by (auto simp: stream_work_fn_def Let_def split: if_splits prod.splits)

lemma client_fetches_newest:
  assumes "flash_partition (te_flash env) cells medium_ok" and "file_ok (te_flash env) cells medium_ok (dev_events d)"
    and "es = file_entries (te_flash env) cells (dev_events d)" and "0 < n" and "n \<le> length es" and "n \<le> 22"
    and "bg_subscribed (dev_gatt d) BLE_CHAR_LOG_DATA"
    and "\<And>bt a data. fst (bt_gatt_notify (te_bt env) bt a data) = 0"
  shows "\<exists>packet d1. log_write_control env (event_request (rd32 (log_read_info env d) 8 - of_nat (n - 1)) n) 0 d = (8, d1) \<and>
    dev_bt (run_stream_work env d1) = snd (bt_gatt_notify (te_bt env) (dev_bt d) (attr_index BLE_CHAR_LOG_DATA) packet) \<and>
    packet ! 4 = BLE_LOG_CHUNK_FLAG_LAST \<and> drop 10 packet = concat (drop (length es - n) (map snd es)) \<and>
    \<not> sm_active (dev_stream (run_stream_work env d1))"
proof -
  let ?start = "rd32 (log_read_info env d) 8 - of_nat (n - 1)" and ?out = "drop (length es - n) (map snd es)"
  let ?read = "read_records (sensor_log_read (te_flash env) (dev_sensors d)) (event_log_read (te_flash env) (dev_events d))"
  let ?notify = "\<lambda>data bt. bt_gatt_notify (te_bt env) bt (attr_index BLE_CHAR_LOG_DATA) data"
  obtain sm0 where req: "ble_log_handle_request True (sensor_log_get_info (te_flash env) (dev_sensors d))
      (event_log_get_info (te_flash env) (dev_events d))
      (ble_log_request_of_bytes (event_request ?start n)) (dev_stream d) = (0, sm0)"
    by (simp add: event_request_parsed ble_log_handle_request_def c_const Let_def)
  have n: "unat (of_nat n :: u16) = n" "(of_nat n :: u16) \<noteq> 0"
    using assms(4,6) by (simp_all add: unat_of_nat unat_eq_zero [symmetric])
  have at: "transfer_at (sm0\<lparr>sm_work := None\<rparr>) BLE_LOG_ID_EVENT 0 (unat ?start) n"
    using handle_request_starts [OF req] n by (simp add: event_request_parsed transfer_at_def)
  have rec: "min n (records_per_chunk BLE_LOG_ID_EVENT) = n" "length ?out = n" "?out \<noteq> []"
    using assms(4-6) by (auto simp: records_per_chunk_def record_size_def c_const)
  have "?read BLE_LOG_ID_EVENT ?start n = (int n, ?out)"
    using newest_records [OF assms(1-5) newest_in_info [of env d, THEN arg_cong, of "\<lambda>w. w - of_nat (n - 1)"]]
    by (simp add: read_records_def event_log_read_def c_const)
  then obtain sm1 bt1 where work: "stream_work_fn True ?read ?notify (sm0\<lparr>sm_work := None\<rparr>) (dev_bt d)
      = (Some (0, chunk BLE_LOG_ID_EVENT 0 (unat ?start) True ?out), sm1, bt1)" "\<not> sm_active sm1"
    using work_step [OF at, of ?read ?out ?notify "dev_bt d"] rec assms(8) by auto
  let ?packet = "chunk BLE_LOG_ID_EVENT 0 (unat ?start) True ?out" and ?d1 = "d\<lparr>dev_stream := sm0\<rparr>"
  have "ble_gatt_notify (bt_gatt_notify (te_bt env)) (dev_gatt d) BLE_CHAR_LOG_DATA = ?notify"
    using assms(7) by (intro ext) (simp add: ble_gatt_notify_def)
  then have "run_stream_work env ?d1 = (dev_feed 1 d)\<lparr>dev_stream := sm1, dev_bt := bt1\<rparr>"
    using work(1) assms(7) by (simp add: run_stream_work_def ble_gatt_is_subscribed_def dev_feed_def Let_def)
  moreover have "log_write_control env (event_request ?start n) 0 d = (8, ?d1)"
    using req assms(7)
    by (simp add: log_write_control_def ble_log_write_control_def ble_gatt_is_subscribed_def event_request_parsed(1)
        EINVAL_def ENOTSUP_def)
  ultimately show ?thesis
    using work(2) work_notifies [OF work(1)]
    by (intro exI [of _ ?packet] exI [of _ ?d1]) (simp add: drop_chunk_header chunk_flag)
qed

subsection \<open>The whole way\<close>

lemma sample_log:
  assumes "ac_pending (dev_core d) = []"
    and "motion_manager_process data (dev_motion d) = (sample, motion, mm)"
    and "app_alarms_eval sample (dev_config d) (ss_expected_valid (dev_sensing d))
      (motion_alarm_flags motion (st_alarm_flags (ac_status (dev_core d)))) = (flags, alarms)"
  shows "dev_events (app_process_sensor_data env data d) =
    fold (log_queued env (dev_uptime_s d)) (take 8 (motion_events motion @ map alarm_event alarms)) (dev_events d)"
  using process_locked_result [OF assms(1,3)]
  by (simp add: app_process_sensor_data_def app_config_get_def assms(2) Let_def frame drain_pending_events_def
      raise_pendings_log split: prod.split)

text \<open>
  C5: an event detected in a sample is the event a client gets. The motion events and the alarms of a
  sample, the first eight of them if there are more, are stored; a client of any later tag with the same event log that reads the log
  information, and asks for as many of the newest events, is sent one packet, flagged as the last,
  whose records are exactly these events: their types, severities and values, in the order they
  were detected, with the time of the sample; and the transfer is over. This is on working flash,
  when the log has room for the events beside the sector it erases, and when the Bluetooth stack
  accepts the notification (\<open>refused_last_chunk_is_lost\<close> shows what happens when it does not).
\<close>

theorem detected_events_reach_client:
  assumes "flash_partition (te_flash env) cells medium_ok" and "logs_ok env cells medium_ok 8 d"
    and "ac_pending (dev_core d) = []"
    and "motion_manager_process data (dev_motion d) = (sample, motion, mm)"
    and "app_alarms_eval sample (dev_config d) (ss_expected_valid (dev_sensing d))
      (motion_alarm_flags motion (st_alarm_flags (ac_status (dev_core d)))) = (flags, alarms)"
    and events: "events = take 8 (motion_events motion @ map alarm_event alarms)" "events \<noteq> []"
    and "unat (fl_slots_per_sector (lf_log (dev_events d))) + length events \<le>
      unat (fl_total_slots (lf_log (dev_events d))) + 1"
    and later: "dev_events d' = dev_events (app_process_sensor_data env data d)"
    and "bg_subscribed (dev_gatt d') BLE_CHAR_LOG_DATA"
    and "\<And>bt a data. fst (bt_gatt_notify (te_bt env) bt a data) = 0"
  shows "let newest = rd32 (log_read_info env d') 8;
      (n, d1) = log_write_control env
        (event_request (newest - of_nat (length events - 1)) (length events)) 0 d';
      d2 = run_stream_work env d1 in
    n = 8 \<and> \<not> sm_active (dev_stream d2) \<and>
    (\<exists>packet. dev_bt d2 = snd (bt_gatt_notify (te_bt env) (dev_bt d') (attr_index BLE_CHAR_LOG_DATA) packet) \<and>
       packet ! 4 = BLE_LOG_CHUNK_FLAG_LAST \<and>
       decode_events (drop 10 packet) = map (event_of (dev_uptime_s d)) events)"
proof -
  let ?lf = "dev_events d'" and ?new = "map (event_record_bytes \<circ> event_of (dev_uptime_s d)) events"
  let ?es = "file_entries (te_flash env) cells ?lf"
  have few: "length events \<le> 8" "0 < length events" using events by auto
  have room: "log_room (te_flash env) cells medium_ok EVENT_RECORD_SIZE (0 + length events) (dev_events d)"
    using assms(2) few log_room_mono by (auto simp: logs_ok_def)
  obtain old where old: "log_room (te_flash env) cells medium_ok EVENT_RECORD_SIZE 0 ?lf" "map snd ?es = old @ ?new"
    using queued_last [OF assms(1) room assms(8), of "dev_uptime_s d"] sample_log [OF assms(3-5)] events(1)
    by (auto simp: later Let_def)
  have ok: "file_ok (te_flash env) cells medium_ok ?lf" using old(1) by (simp add: log_room_def)
  have len: "length ?es = length old + length events" using arg_cong [OF old(2), of length] by simp
  then have "drop (length ?es - length events) (map snd ?es) = ?new" using old(2) by simp
  moreover have "decode_events (concat ?new) = map (event_of (dev_uptime_s d)) events"
    using decode_events_bytes [of "map (event_of (dev_uptime_s d)) events"] by (simp add: comp_def)
  ultimately show ?thesis
    using client_fetches_newest [OF assms(1) ok refl few(2) _ _ assms(10,11)] len few(1) by fastforce
qed

text \<open>A weak battery and a missing temperature sensor, on a tag whose client has subscribed.\<close>

definition client_tag :: "(u8 list, string \<Rightarrow> u8 list option, (u8 \<times> u8 list) list) device" where
  "client_tag = (app_process_sensor_data mock_tag_env low_battery_sample low_battery_tag)
     \<lparr>dev_gatt := ble_gatt_boot\<lparr>bg_subscribed := \<lambda>c. True\<rparr>\<rparr>"

lemma mock_tag_geometry:
  "fl_total_slots (lf_log (dev_events mock_tag)) = 8" "fl_slots_per_sector (lf_log (dev_events mock_tag)) = 2"
proof -
  have env: "te_flash mock_tag_env = mock_env" by (simp add: mock_tag_env_def)
  have "fl_ready (lf_log (dev_events mock_tag))"
    using mock_tag_logs [of 0] by (simp add: logs_ok_def log_room_def file_ok_def ring_inv_def ring_core_def Let_def)
  then obtain f0 pid log1 where "flash_log_init mock_env f0 (log_instance pid (of_nat EVENT_RECORD_SIZE)) = (0, log1)"
    "same_geometry log1 (lf_log (dev_events mock_tag))"
    using reach_restartable [OF mock_tag_preempt] by (auto simp: restartable_def log_home_def env)
  moreover from flash_log_init_success [OF this(1)]
  have "fl_total_slots log1 = 8 \<and> fl_slots_per_sector log1 = 2"
    by (auto simp: mock_env_def log_sized_def c_const Let_def)
  ultimately show "fl_total_slots (lf_log (dev_events mock_tag)) = 8"
    "fl_slots_per_sector (lf_log (dev_events mock_tag)) = 2"
    by (simp_all add: same_geometry_def)
qed

theorem detected_events_reach_client_witness:
  "let (n, d1) = log_write_control mock_tag_env (event_request (rd32 (log_read_info mock_tag_env client_tag) 8 - 1) 2)
        0 client_tag; d2 = run_stream_work mock_tag_env d1 in
   \<exists>packet. dev_bt d2 = dev_bt client_tag @ [(attr_index BLE_CHAR_LOG_DATA, packet)] \<and>
     map ev_type (decode_events (drop 10 packet)) = [event_code EVENT_BATTERY_LOW, event_code EVENT_SENSOR_FAULT]"
proof -
  have env: "te_flash mock_tag_env = mock_env" "bt_gatt_notify (te_bt mock_tag_env) = (\<lambda>sent a data. (0, sent @ [(a, data)]))"
    by (simp_all add: mock_tag_env_def accepting_bluetooth_def)
  have part: "flash_partition (te_flash mock_tag_env) (\<lambda>mem. mem) mock_medium_ok"
    by (simp add: env mock.flash_partition_axioms)
  have logs: "logs_ok mock_tag_env (\<lambda>mem. mem) mock_medium_ok 8 low_battery_tag"
    using mock_tag_logs [of 8] by (simp add: low_battery_tag_def logs_ok_def)
  have idle: "ac_pending (dev_core low_battery_tag) = []" "dev_events low_battery_tag = dev_events mock_tag"
    by (simp_all add: low_battery_tag_def app_core_boot_def)
  obtain r mm flags alarms where detected:
    "motion_manager_process low_battery_sample (dev_motion low_battery_tag) = (low_battery_sample, r, mm)"
    "app_alarms_eval low_battery_sample (dev_config low_battery_tag) (ss_expected_valid (dev_sensing low_battery_tag))
      (motion_alarm_flags r (st_alarm_flags (ac_status (dev_core low_battery_tag)))) = (flags, alarms)"
    and events: "motion_events r @ map alarm_event alarms =
      [\<lparr> pe_type = event_code EVENT_BATTERY_LOW, pe_severity = severity_code EVENT_SEVERITY_WARNING, pe_value = 2000 \<rparr>,
       \<lparr> pe_type = event_code EVENT_SENSOR_FAULT, pe_severity = severity_code EVENT_SEVERITY_WARNING, pe_value = 8 \<rparr>]"
    using low_battery_detected by blast
  have client: "dev_events client_tag = dev_events (app_process_sensor_data mock_tag_env low_battery_sample low_battery_tag)"
    "bg_subscribed (dev_gatt client_tag) BLE_CHAR_LOG_DATA"
    by (simp_all add: client_tag_def)
  define es where "es = motion_events r @ map alarm_event alarms"
  have two: "length es = 2" "es \<noteq> []"
    "map ev_type (map (event_of t) es) = [event_code EVENT_BATTERY_LOW, event_code EVENT_SENSOR_FAULT]" for t
    by (simp_all add: es_def events event_of_def)
  have es: "es = take 8 (motion_events r @ map alarm_event alarms)" using two(1) by (simp add: es_def)
  have room: "unat (fl_slots_per_sector (lf_log (dev_events low_battery_tag))) + length es \<le>
      unat (fl_total_slots (lf_log (dev_events low_battery_tag))) + 1"
    by (simp add: idle(2) mock_tag_geometry two(1))
  obtain n d1 where wrote: "log_write_control mock_tag_env
      (event_request (rd32 (log_read_info mock_tag_env client_tag) 8 - 1) 2) 0 client_tag = (n, d1)" by fastforce
  then have "\<exists>packet. dev_bt (run_stream_work mock_tag_env d1) =
      dev_bt client_tag @ [(attr_index BLE_CHAR_LOG_DATA, packet)] \<and>
      decode_events (drop 10 packet) = map (event_of (dev_uptime_s low_battery_tag)) es"
    using detected_events_reach_client [OF part logs idle(1) detected es two(2) room client]
    by (auto simp: two(1) env Let_def)
  then show ?thesis using two(3) wrote by (auto simp: Let_def simp del: map_map)
qed

end
