(* ===== verification/Zigbee_Tag_Cluster.thy ===== *)
theory Zigbee_Tag_Cluster
  imports Zigbee_Manager
begin

section \<open>Declaration of the Smart Tag endpoint\<close>

text \<open>
  \<open>src/zigbee/zigbee_tag_cluster.h\<close> and the declarations at the top of \<open>zigbee_clusters.c\<close>: the
  attribute lists with the storage each entry points to, the cluster list, the simple descriptor
  and the endpoint. A pointer into \<open>dev_ctx\<close> is the function that reads the field. What the
  ZBOSS macros generate is not part of the repository: their arguments are kept in order, and
  \<open>ZB_ZCL_ARRAY_SIZE\<close> and the profile number are arguments here. The identifiers ZBOSS defines
  are constructors.
\<close>

definition SMART_TAG_ENDPOINT :: u8 where [c_const]: "SMART_TAG_ENDPOINT = 1"
definition SMART_TAG_DEVICE_ID :: u16 where [c_const]: "SMART_TAG_DEVICE_ID = 0x0302"
definition SMART_TAG_DEVICE_VERSION :: u8 where [c_const]: "SMART_TAG_DEVICE_VERSION = 1"
definition SMART_TAG_IN_CLUSTER_NUM :: nat where [c_const]: "SMART_TAG_IN_CLUSTER_NUM = 7"
definition SMART_TAG_OUT_CLUSTER_NUM :: nat where [c_const]: "SMART_TAG_OUT_CLUSTER_NUM = 1"
definition SMART_TAG_REPORT_ATTR_COUNT :: nat where [c_const]: "SMART_TAG_REPORT_ATTR_COUNT = 16"
definition SMART_TAG_MANUF_CODE :: u16 where [c_const]: "SMART_TAG_MANUF_CODE = 0x127f"

subsection \<open>Attributes\<close>

datatype zcl_type =
  ZB_ZCL_ATTR_TYPE_U8 | ZB_ZCL_ATTR_TYPE_U16 | ZB_ZCL_ATTR_TYPE_U32 | ZB_ZCL_ATTR_TYPE_16BITMAP

datatype zcl_access =
  ZB_ZCL_ATTR_ACCESS_READ_ONLY | ZB_ZCL_ATTR_ACCESS_READ_WRITE | ZB_ZCL_ATTR_ACCESS_REPORTING

type_synonym 'c pointer = "'c \<Rightarrow> zcl_value"

record 'c zcl_attr_desc =
  ad_id :: u16
  ad_type :: zcl_type
  ad_access :: "zcl_access list"
  ad_manuf_code :: u16
  ad_data :: "'c pointer"

definition manuf_spec_attr_desc ::
  "u16 \<Rightarrow> zcl_type \<Rightarrow> zcl_access list \<Rightarrow> u16 \<Rightarrow> 'c pointer \<Rightarrow> 'c zcl_attr_desc" where
  "manuf_spec_attr_desc attr_id attr_type access manuf data =
     \<lparr> ad_id = attr_id, ad_type = attr_type, ad_access = access, ad_manuf_code = manuf,
       ad_data = data \<rparr>"

text \<open>
  \<open>ZB_ZCL_DECLARE_TAG_MONITOR_ATTRIB_LIST\<close>, one entry per attribute; \<open>attrs\<close> points to the
  struct the entries point into.
\<close>

definition declare_tag_monitor_attrib_list ::
  "('c \<Rightarrow> tag_monitor_attrs) \<Rightarrow> 'c zcl_attr_desc list" where
  "declare_tag_monitor_attrib_list attrs =
     [manuf_spec_attr_desc TAG_ATTR_MOTION_STATE ZB_ZCL_ATTR_TYPE_U8
        [ZB_ZCL_ATTR_ACCESS_READ_ONLY, ZB_ZCL_ATTR_ACCESS_REPORTING]
        SMART_TAG_MANUF_CODE (\<lambda>c. U8 (tm_motion_state (attrs c))),
      manuf_spec_attr_desc TAG_ATTR_ORIENTATION ZB_ZCL_ATTR_TYPE_U8
        [ZB_ZCL_ATTR_ACCESS_READ_ONLY, ZB_ZCL_ATTR_ACCESS_REPORTING]
        SMART_TAG_MANUF_CODE (\<lambda>c. U8 (tm_orientation (attrs c))),
      manuf_spec_attr_desc TAG_ATTR_SHOCK_COUNT ZB_ZCL_ATTR_TYPE_U32
        [ZB_ZCL_ATTR_ACCESS_READ_ONLY, ZB_ZCL_ATTR_ACCESS_REPORTING]
        SMART_TAG_MANUF_CODE (\<lambda>c. U32 (tm_shock_count (attrs c))),
      manuf_spec_attr_desc TAG_ATTR_MAXIMUM_SHOCK ZB_ZCL_ATTR_TYPE_U16
        [ZB_ZCL_ATTR_ACCESS_READ_ONLY, ZB_ZCL_ATTR_ACCESS_REPORTING]
        SMART_TAG_MANUF_CODE (\<lambda>c. U16 (tm_maximum_shock (attrs c))),
      manuf_spec_attr_desc TAG_ATTR_FREE_FALL_COUNT ZB_ZCL_ATTR_TYPE_U32
        [ZB_ZCL_ATTR_ACCESS_READ_ONLY, ZB_ZCL_ATTR_ACCESS_REPORTING]
        SMART_TAG_MANUF_CODE (\<lambda>c. U32 (tm_free_fall_count (attrs c))),
      manuf_spec_attr_desc TAG_ATTR_TAMPER_STATE ZB_ZCL_ATTR_TYPE_U8
        [ZB_ZCL_ATTR_ACCESS_READ_ONLY, ZB_ZCL_ATTR_ACCESS_REPORTING]
        SMART_TAG_MANUF_CODE (\<lambda>c. U8 (tm_tamper_state (attrs c))),
      manuf_spec_attr_desc TAG_ATTR_MOVEMENT_DURATION ZB_ZCL_ATTR_TYPE_U32
        [ZB_ZCL_ATTR_ACCESS_READ_ONLY]
        SMART_TAG_MANUF_CODE (\<lambda>c. U32 (tm_movement_duration (attrs c))),
      manuf_spec_attr_desc TAG_ATTR_LAST_MOVEMENT_TIME ZB_ZCL_ATTR_TYPE_U32
        [ZB_ZCL_ATTR_ACCESS_READ_ONLY]
        SMART_TAG_MANUF_CODE (\<lambda>c. U32 (tm_last_movement_time (attrs c))),
      manuf_spec_attr_desc TAG_ATTR_EVENT_COUNT ZB_ZCL_ATTR_TYPE_U32
        [ZB_ZCL_ATTR_ACCESS_READ_ONLY]
        SMART_TAG_MANUF_CODE (\<lambda>c. U32 (tm_event_count (attrs c))),
      manuf_spec_attr_desc TAG_ATTR_LOG_RECORD_COUNT ZB_ZCL_ATTR_TYPE_U32
        [ZB_ZCL_ATTR_ACCESS_READ_ONLY]
        SMART_TAG_MANUF_CODE (\<lambda>c. U32 (tm_log_record_count (attrs c))),
      manuf_spec_attr_desc TAG_ATTR_ALARM_FLAGS ZB_ZCL_ATTR_TYPE_16BITMAP
        [ZB_ZCL_ATTR_ACCESS_READ_ONLY, ZB_ZCL_ATTR_ACCESS_REPORTING]
        SMART_TAG_MANUF_CODE (\<lambda>c. U16 (tm_alarm_flags (attrs c))),
      manuf_spec_attr_desc TAG_ATTR_OPERATING_MODE ZB_ZCL_ATTR_TYPE_U8
        [ZB_ZCL_ATTR_ACCESS_READ_WRITE]
        SMART_TAG_MANUF_CODE (\<lambda>c. U8 (tm_operating_mode (attrs c))),
      manuf_spec_attr_desc TAG_ATTR_SAMPLING_INTERVAL ZB_ZCL_ATTR_TYPE_U16
        [ZB_ZCL_ATTR_ACCESS_READ_WRITE]
        SMART_TAG_MANUF_CODE (\<lambda>c. U16 (tm_sampling_interval (attrs c))),
      manuf_spec_attr_desc TAG_ATTR_GAS_RESISTANCE ZB_ZCL_ATTR_TYPE_U32
        [ZB_ZCL_ATTR_ACCESS_READ_ONLY, ZB_ZCL_ATTR_ACCESS_REPORTING]
        SMART_TAG_MANUF_CODE (\<lambda>c. U32 (tm_gas_resistance (attrs c))),
      manuf_spec_attr_desc TAG_ATTR_BOOT_EPOCH ZB_ZCL_ATTR_TYPE_U32
        [ZB_ZCL_ATTR_ACCESS_READ_WRITE]
        SMART_TAG_MANUF_CODE (\<lambda>c. U32 (tm_boot_epoch (attrs c)))]"

definition tag_monitor_attr_list :: "device_ctx zcl_attr_desc list" where
  "tag_monitor_attr_list = declare_tag_monitor_attrib_list dc_tag"

text \<open>The standard lists: the pointers handed to the ZBOSS macro of the cluster, in its order.\<close>

definition basic_attr_list :: "device_ctx pointer list" where
  "basic_attr_list =
     [\<lambda>c. U8 (dc_zcl_version c), \<lambda>c. U8 (dc_app_version c), \<lambda>c. U8 (dc_stack_version c),
      \<lambda>c. U8 (dc_hw_version c), \<lambda>c. ZCL_String (dc_mf_name c), \<lambda>c. ZCL_String (dc_model_id c),
      \<lambda>c. ZCL_String (dc_date_code c), \<lambda>c. U8 (dc_power_source c), \<lambda>c. ZCL_String (dc_location_id c),
      \<lambda>c. U8 (dc_ph_env c), \<lambda>c. ZCL_String (dc_sw_ver c)]"

definition identify_attr_list :: "device_ctx pointer list" where
  "identify_attr_list = [\<lambda>c. U16 (dc_identify_time c)]"

definition power_config_attr_list :: "device_ctx pointer list" where
  "power_config_attr_list =
     [\<lambda>c. U8 (pc_voltage (dc_power c)), \<lambda>c. U8 (pc_size (dc_power c)),
      \<lambda>c. U8 (pc_quantity (dc_power c)), \<lambda>c. U8 (pc_rated_voltage (dc_power c)),
      \<lambda>c. U8 (pc_alarm_mask (dc_power c)), \<lambda>c. U8 (pc_voltage_min_threshold (dc_power c)),
      \<lambda>c. U8 (pc_remaining (dc_power c)), \<lambda>c. U8 (pc_threshold1 (dc_power c)),
      \<lambda>c. U8 (pc_threshold2 (dc_power c)), \<lambda>c. U8 (pc_threshold3 (dc_power c)),
      \<lambda>c. U8 (pc_min_threshold (dc_power c)), \<lambda>c. U8 (pc_percent_threshold1 (dc_power c)),
      \<lambda>c. U8 (pc_percent_threshold2 (dc_power c)), \<lambda>c. U8 (pc_percent_threshold3 (dc_power c)),
      \<lambda>c. U32 (pc_alarm_state (dc_power c))]"

definition temp_attr_list :: "device_ctx pointer list" where
  "temp_attr_list =
     [\<lambda>c. S16 (ma_temp_value (dc_measure c)), \<lambda>c. S16 (ma_temp_min (dc_measure c)),
      \<lambda>c. S16 (ma_temp_max (dc_measure c)), \<lambda>c. U16 (ma_temp_tolerance (dc_measure c))]"

definition humidity_attr_list :: "device_ctx pointer list" where
  "humidity_attr_list =
     [\<lambda>c. U16 (ma_humidity_value (dc_measure c)), \<lambda>c. U16 (ma_humidity_min (dc_measure c)),
      \<lambda>c. U16 (ma_humidity_max (dc_measure c))]"

definition pressure_attr_list :: "device_ctx pointer list" where
  "pressure_attr_list =
     [\<lambda>c. S16 (ma_pressure_value (dc_measure c)), \<lambda>c. S16 (ma_pressure_min (dc_measure c)),
      \<lambda>c. S16 (ma_pressure_max (dc_measure c)), \<lambda>c. U16 (ma_pressure_tolerance (dc_measure c))]"

subsection \<open>Clusters and endpoint\<close>

datatype zcl_cluster_id =
  ZB_ZCL_CLUSTER_ID_BASIC | ZB_ZCL_CLUSTER_ID_IDENTIFY | ZB_ZCL_CLUSTER_ID_POWER_CONFIG
| ZB_ZCL_CLUSTER_ID_TEMP_MEASUREMENT | ZB_ZCL_CLUSTER_ID_REL_HUMIDITY_MEASUREMENT
| ZB_ZCL_CLUSTER_ID_PRESSURE_MEASUREMENT | Manuf_Cluster u16

datatype zcl_role = ZB_ZCL_CLUSTER_SERVER_ROLE | ZB_ZCL_CLUSTER_CLIENT_ROLE

datatype attrib_list =
  Standard_List "device_ctx pointer list" | Manuf_List "device_ctx zcl_attr_desc list"

text \<open>
  The client entry has no attributes (\<open>NULL\<close>) and \<open>None\<close> as the manufacturer code is
  \<open>ZB_ZCL_MANUF_CODE_INVALID\<close>.
\<close>

record zcl_cluster_desc =
  cl_id :: zcl_cluster_id
  cl_attr_count :: nat
  cl_attr_list :: "attrib_list option"
  cl_role :: zcl_role
  cl_manuf_code :: "u16 option"

definition zcl_cluster_desc ::
  "zcl_cluster_id \<Rightarrow> nat \<Rightarrow> attrib_list option \<Rightarrow> zcl_role \<Rightarrow> u16 option \<Rightarrow> zcl_cluster_desc" where
  "zcl_cluster_desc cluster n attrs role manuf =
     \<lparr> cl_id = cluster, cl_attr_count = n, cl_attr_list = attrs, cl_role = role,
       cl_manuf_code = manuf \<rparr>"

definition declare_smart_tag_cluster_list ::
  "(attrib_list \<Rightarrow> nat) \<Rightarrow> attrib_list \<Rightarrow> attrib_list \<Rightarrow> attrib_list \<Rightarrow> attrib_list \<Rightarrow> attrib_list \<Rightarrow>
   attrib_list \<Rightarrow> attrib_list \<Rightarrow> zcl_cluster_desc list" where
  "declare_smart_tag_cluster_list array_size basic identify power_config temp humidity pressure tag_monitor =
     [zcl_cluster_desc ZB_ZCL_CLUSTER_ID_BASIC
        (array_size basic) (Some basic) ZB_ZCL_CLUSTER_SERVER_ROLE None,
      zcl_cluster_desc ZB_ZCL_CLUSTER_ID_IDENTIFY
        (array_size identify) (Some identify) ZB_ZCL_CLUSTER_SERVER_ROLE None,
      zcl_cluster_desc ZB_ZCL_CLUSTER_ID_POWER_CONFIG
        (array_size power_config) (Some power_config) ZB_ZCL_CLUSTER_SERVER_ROLE None,
      zcl_cluster_desc ZB_ZCL_CLUSTER_ID_TEMP_MEASUREMENT
        (array_size temp) (Some temp) ZB_ZCL_CLUSTER_SERVER_ROLE None,
      zcl_cluster_desc ZB_ZCL_CLUSTER_ID_REL_HUMIDITY_MEASUREMENT
        (array_size humidity) (Some humidity) ZB_ZCL_CLUSTER_SERVER_ROLE None,
      zcl_cluster_desc ZB_ZCL_CLUSTER_ID_PRESSURE_MEASUREMENT
        (array_size pressure) (Some pressure) ZB_ZCL_CLUSTER_SERVER_ROLE None,
      zcl_cluster_desc (Manuf_Cluster ZB_ZCL_CLUSTER_ID_TAG_MONITOR)
        (array_size tag_monitor) (Some tag_monitor) ZB_ZCL_CLUSTER_SERVER_ROLE (Some SMART_TAG_MANUF_CODE),
      zcl_cluster_desc ZB_ZCL_CLUSTER_ID_IDENTIFY
        0 None ZB_ZCL_CLUSTER_CLIENT_ROLE None]"

definition smart_tag_clusters :: "(attrib_list \<Rightarrow> nat) \<Rightarrow> zcl_cluster_desc list" where
  "smart_tag_clusters array_size = declare_smart_tag_cluster_list array_size
     (Standard_List basic_attr_list) (Standard_List identify_attr_list)
     (Standard_List power_config_attr_list) (Standard_List temp_attr_list)
     (Standard_List humidity_attr_list) (Standard_List pressure_attr_list)
     (Manuf_List tag_monitor_attr_list)"

record simple_desc =
  si_endpoint :: u8
  si_app_profile_id :: u16
  si_app_device_id :: u16
  si_app_device_version :: u8
  si_reserved :: u8
  si_in_cluster_count :: nat
  si_out_cluster_count :: nat
  si_cluster_list :: "zcl_cluster_id list"

definition declare_smart_tag_simple_desc ::
  "u16 \<Rightarrow> u8 \<Rightarrow> nat \<Rightarrow> nat \<Rightarrow> simple_desc" where
  "declare_smart_tag_simple_desc profile ep_id in_num out_num =
     \<lparr> si_endpoint = ep_id, si_app_profile_id = profile, si_app_device_id = SMART_TAG_DEVICE_ID,
       si_app_device_version = SMART_TAG_DEVICE_VERSION, si_reserved = 0,
       si_in_cluster_count = in_num, si_out_cluster_count = out_num,
       si_cluster_list =
         [ZB_ZCL_CLUSTER_ID_BASIC, ZB_ZCL_CLUSTER_ID_IDENTIFY, ZB_ZCL_CLUSTER_ID_POWER_CONFIG,
          ZB_ZCL_CLUSTER_ID_TEMP_MEASUREMENT, ZB_ZCL_CLUSTER_ID_REL_HUMIDITY_MEASUREMENT,
          ZB_ZCL_CLUSTER_ID_PRESSURE_MEASUREMENT,
          Manuf_Cluster ZB_ZCL_CLUSTER_ID_TAG_MONITOR, ZB_ZCL_CLUSTER_ID_IDENTIFY] \<rparr>"

record endpoint_desc =
  ep_id :: u8
  ep_profile_id :: u16
  ep_cluster_count :: nat
  ep_clusters :: "zcl_cluster_desc list"
  ep_simple_desc :: simple_desc
  ep_rep_info_count :: nat

definition declare_smart_tag_ep ::
  "u16 \<Rightarrow> u8 \<Rightarrow> zcl_cluster_desc list \<Rightarrow> endpoint_desc" where
  "declare_smart_tag_ep profile ep clusters =
     \<lparr> ep_id = ep, ep_profile_id = profile, ep_cluster_count = length clusters,
       ep_clusters = clusters,
       ep_simple_desc = declare_smart_tag_simple_desc profile ep SMART_TAG_IN_CLUSTER_NUM
                          SMART_TAG_OUT_CLUSTER_NUM,
       ep_rep_info_count = SMART_TAG_REPORT_ATTR_COUNT \<rparr>"

definition smart_tag_ep :: "u16 \<Rightarrow> (attrib_list \<Rightarrow> nat) \<Rightarrow> endpoint_desc" where
  "smart_tag_ep profile array_size =
     declare_smart_tag_ep profile SMART_TAG_ENDPOINT (smart_tag_clusters array_size)"

text \<open>
  The device context: the FOTA client endpoint first, when the library is built in. Registering
  hands it to ZBOSS; without the add-on nothing is.
\<close>

definition smart_tag_zb_ctx ::
  "('f, 'n, 'b) tag_env \<Rightarrow> u16 \<Rightarrow> (attrib_list \<Rightarrow> nat) \<Rightarrow> endpoint_desc \<Rightarrow> endpoint_desc list" where
  "smart_tag_zb_ctx env profile array_size zigbee_fota_client_ep =
     (if te_zigbee_fota env then [zigbee_fota_client_ep, smart_tag_ep profile array_size]
      else [smart_tag_ep profile array_size])"

definition zigbee_clusters_register ::
  "('f, 'n, 'b) tag_env \<Rightarrow> u16 \<Rightarrow> (attrib_list \<Rightarrow> nat) \<Rightarrow> endpoint_desc \<Rightarrow> endpoint_desc list option" where
  "zigbee_clusters_register env profile array_size fota_ep =
     (if te_zigbee_add_on env then Some (smart_tag_zb_ctx env profile array_size fota_ep) else None)"

subsection \<open>Attribute writes of the firmware\<close>

text \<open>
  \<open>set_attr\<close> and \<open>set_tag_attr\<close>: the call of \<open>zb_zcl_set_attr_val\<close> or of its
  manufacturer-specific form that a write of \<open>zigbee_clusters_update\<close> is.
\<close>

record zcl_set_call =
  sc_endpoint :: u8
  sc_cluster :: zcl_cluster_id
  sc_role :: zcl_role
  sc_attr :: zcl_attr
  sc_manuf_code :: "u16 option"
  sc_value :: zcl_value

definition set_attr :: "zcl_cluster_id \<Rightarrow> zcl_attr \<Rightarrow> zcl_value \<Rightarrow> zcl_set_call" where
  "set_attr cluster attr v =
     \<lparr> sc_endpoint = SMART_TAG_ENDPOINT, sc_cluster = cluster,
       sc_role = ZB_ZCL_CLUSTER_SERVER_ROLE, sc_attr = attr, sc_manuf_code = None, sc_value = v \<rparr>"

definition set_tag_attr :: "u16 \<Rightarrow> zcl_value \<Rightarrow> zcl_set_call" where
  "set_tag_attr attr v =
     \<lparr> sc_endpoint = SMART_TAG_ENDPOINT, sc_cluster = Manuf_Cluster ZB_ZCL_CLUSTER_ID_TAG_MONITOR,
       sc_role = ZB_ZCL_CLUSTER_SERVER_ROLE, sc_attr = Tag_Attr attr,
       sc_manuf_code = Some SMART_TAG_MANUF_CODE, sc_value = v \<rparr>"

fun set_call :: "zcl_write \<Rightarrow> zcl_set_call" where
  "set_call (TEMP_MEASUREMENT_VALUE, v) =
     set_attr ZB_ZCL_CLUSTER_ID_TEMP_MEASUREMENT TEMP_MEASUREMENT_VALUE v"
| "set_call (REL_HUMIDITY_MEASUREMENT_VALUE, v) =
     set_attr ZB_ZCL_CLUSTER_ID_REL_HUMIDITY_MEASUREMENT REL_HUMIDITY_MEASUREMENT_VALUE v"
| "set_call (PRESSURE_MEASUREMENT_VALUE, v) =
     set_attr ZB_ZCL_CLUSTER_ID_PRESSURE_MEASUREMENT PRESSURE_MEASUREMENT_VALUE v"
| "set_call (BATTERY_VOLTAGE, v) = set_attr ZB_ZCL_CLUSTER_ID_POWER_CONFIG BATTERY_VOLTAGE v"
| "set_call (BATTERY_PERCENTAGE_REMAINING, v) =
     set_attr ZB_ZCL_CLUSTER_ID_POWER_CONFIG BATTERY_PERCENTAGE_REMAINING v"
| "set_call (Tag_Attr a, v) = set_tag_attr a v"

subsection \<open>The declaration against its uses\<close>

lemmas tag_list_defs = tag_monitor_attr_list_def declare_tag_monitor_attrib_list_def
  manuf_spec_attr_desc_def

lemmas endpoint_defs = smart_tag_ep_def declare_smart_tag_ep_def smart_tag_clusters_def
  declare_smart_tag_cluster_list_def zcl_cluster_desc_def declare_smart_tag_simple_desc_def

definition reportable :: "'c zcl_attr_desc \<Rightarrow> bool" where
  "reportable a \<longleftrightarrow> ZB_ZCL_ATTR_ACCESS_REPORTING \<in> set (ad_access a)"

definition attr_writable :: "u16 \<Rightarrow> bool" where
  "attr_writable i \<longleftrightarrow>
     list_ex (\<lambda>a. ad_id a = i \<and> ZB_ZCL_ATTR_ACCESS_READ_WRITE \<in> set (ad_access a)) tag_monitor_attr_list"

fun value_has_type :: "zcl_value \<Rightarrow> zcl_type \<Rightarrow> bool" where
  "value_has_type (U8 _) t = (t = ZB_ZCL_ATTR_TYPE_U8)"
| "value_has_type (U16 _) t = (t = ZB_ZCL_ATTR_TYPE_U16 \<or> t = ZB_ZCL_ATTR_TYPE_16BITMAP)"
| "value_has_type (U32 _) t = (t = ZB_ZCL_ATTR_TYPE_U32)"
| "value_has_type (S16 _) t = False"
| "value_has_type (ZCL_String _) t = False"

lemma tag_list_ids: "map ad_id tag_monitor_attr_list = map of_nat [0..<15]"
  by (simp add: tag_list_defs tag_attr_defs upt_rec)

lemma tag_list_typed: "a \<in> set tag_monitor_attr_list \<Longrightarrow> value_has_type (ad_data a c) (ad_type a)"
  by (auto simp: tag_list_defs)

lemma attr_writable_iff:
  "attr_writable i \<longleftrightarrow>
     i = TAG_ATTR_OPERATING_MODE \<or> i = TAG_ATTR_SAMPLING_INTERVAL \<or> i = TAG_ATTR_BOOT_EPOCH"
  by (auto simp: attr_writable_def tag_list_defs)

text \<open>The table of ZBOSS for reported attributes has room: four standard ones and these.\<close>

lemma report_table_has_room:
  "4 + length (filter reportable tag_monitor_attr_list) \<le> ep_rep_info_count (smart_tag_ep p array_size)"
  by (simp add: endpoint_defs c_const tag_list_defs reportable_def)

text \<open>
  The simple descriptor a gateway reads says what the endpoint has: the server clusters first,
  as many as announced, then the client ones.
\<close>

lemma descriptor_matches_clusters:
  "let ep = smart_tag_ep p array_size; s = ep_simple_desc ep; servers = si_in_cluster_count s in
   si_endpoint s = ep_id ep \<and> si_cluster_list s = map cl_id (ep_clusters ep) \<and>
   length (si_cluster_list s) = servers + si_out_cluster_count s \<and>
   list_all (\<lambda>c. cl_role c = ZB_ZCL_CLUSTER_SERVER_ROLE) (take servers (ep_clusters ep)) \<and>
   list_all (\<lambda>c. cl_role c = ZB_ZCL_CLUSTER_CLIENT_ROLE) (drop servers (ep_clusters ep))"
  by (simp add: endpoint_defs c_const Let_def)

end
