(* ===== verification/Zigbee_Properties.thy ===== *)
theory Zigbee_Properties
  imports Zigbee_Tag_Cluster Device_Properties
begin

section \<open>The Tag Monitor cluster as a coordinator sees it\<close>

text \<open>
  The declared attribute table, the writes of a publication and the handler of the coordinator's
  writes agree: what is published is what is declared, what is declared writable is what is
  handled. (\<open>Zigbee_View\<close> shows when a written value is published.)
\<close>

subsection \<open>Publishing\<close>

fun tag_attribute :: "zcl_write \<Rightarrow> bool" where
  "tag_attribute (Tag_Attr _, _) = True"
| "tag_attribute _ = False"

definition published :: "sensor_data \<Rightarrow> 'c zcl_attr_desc \<Rightarrow> bool" where
  "published data a =
     (if ad_id a = TAG_ATTR_GAS_RESISTANCE then has_flag (sd_valid data) SENSOR_VALID_GAS else True)"

text \<open>A call reaches the cluster of its number, role and manufacturer code.\<close>

definition call_reaches :: "zcl_set_call \<Rightarrow> zcl_cluster_desc \<Rightarrow> bool" where
  "call_reaches call c \<longleftrightarrow> sc_cluster call = cl_id c \<and> sc_role call = cl_role c \<and>
     sc_manuf_code call = cl_manuf_code c"

lemma measured_not_tag:
  "filter tag_attribute (update_temperature data report) = []"
  "filter tag_attribute (update_humidity data report) = []"
  "filter tag_attribute (update_pressure data report) = []"
  "update_battery data report ctx = (ws, ctx') \<Longrightarrow> filter tag_attribute ws = []"
  by (auto simp: update_temperature_def update_humidity_def update_pressure_def update_battery_def
      Let_def split: if_splits)

lemma tag_monitor_writes_declared:
  "tag_monitor_writes data (dc_tag ctx) =
     map (\<lambda>a. (Tag_Attr (ad_id a), ad_data a ctx)) (filter (published data) tag_monitor_attr_list)"
  by (simp add: tag_monitor_writes_def tag_list_defs published_def tag_attr_defs)

lemma tag_monitor_writes_tag: "filter tag_attribute (tag_monitor_writes data tm) = tag_monitor_writes data tm"
  by (simp add: tag_monitor_writes_def)

lemma update_tag_writes:
  assumes "zigbee_clusters_update data s n config report stats ctx = (writes, ctx')"
  shows "filter tag_attribute writes =
    (if has_flag report REPORT_TAG_MONITOR then tag_monitor_writes data (dc_tag ctx') else [])"
  using assms measured_not_tag [of data report]
  by (auto simp: zigbee_clusters_update_def Let_def tag_monitor_writes_tag
      split: prod.splits if_splits)

lemma update_dc_tag:
  assumes "zigbee_clusters_update data s n config report stats ctx = (writes, ctx')"
    and "has_flag report REPORT_TAG_MONITOR"
  shows "dc_tag ctx' = tag_monitor_update data s n config stats (dc_tag ctx)"
  using assms
  by (auto simp: zigbee_clusters_update_def update_battery_def Let_def split: prod.splits if_splits)

lemma calls_reach_clusters:
  "list_ex (call_reaches (set_call w)) (ep_clusters (smart_tag_ep p array_size))"
  by (cases w rule: set_call.cases)
    (simp_all add: call_reaches_def set_attr_def set_tag_attr_def endpoint_defs)

text \<open>
  C27: a publication writes what the endpoint declares. The Tag Monitor writes are, in the order
  of the table, every declared attribute with the value its storage then has (the gas resistance
  only when the sample measured it) and none unless the Tag Monitor group is reported; the
  storage of every Tag Monitor attribute has the declared type, and none is declared twice. Every
  write, of this or of another cluster, addresses a server cluster of the endpoint under that
  cluster's manufacturer code. (The storage of the measurement clusters is ZBOSS's to update.)
\<close>

theorem published_as_declared:
  "case zigbee_clusters_update data s n config report stats ctx of (writes, ctx') \<Rightarrow>
     filter tag_attribute writes =
       (if has_flag report REPORT_TAG_MONITOR
        then map (\<lambda>a. (Tag_Attr (ad_id a), ad_data a ctx'))
               (filter (published data) tag_monitor_attr_list)
        else []) \<and>
     list_all (\<lambda>a. value_has_type (ad_data a ctx') (ad_type a)) tag_monitor_attr_list \<and>
     distinct (map ad_id tag_monitor_attr_list) \<and>
     list_all (\<lambda>w. sc_endpoint (set_call w) = ep_id (smart_tag_ep p array_size) \<and>
       list_ex (call_reaches (set_call w)) (ep_clusters (smart_tag_ep p array_size))) writes"
proof -
  obtain writes ctx' where
    u: "zigbee_clusters_update data s n config report stats ctx = (writes, ctx')" by fastforce
  have "distinct (map ad_id tag_monitor_attr_list)"
    by (simp add: tag_list_ids upt_rec)
  moreover have "sc_endpoint (set_call w) = ep_id (smart_tag_ep p array_size)" for w
    by (cases w rule: set_call.cases) (simp_all add: set_attr_def set_tag_attr_def endpoint_defs)
  ultimately show ?thesis
    by (simp add: u update_tag_writes [OF u] tag_monitor_writes_declared calls_reach_clusters list_all_iff tag_list_typed)
qed

subsection \<open>Writes of the coordinator\<close>

text \<open>The configuration a write asks for.\<close>

definition requested_config :: "attr_write \<Rightarrow> tag_config \<Rightarrow> tag_config option" where
  "requested_config w config =
     (if aw_attr_id w = TAG_ATTR_OPERATING_MODE
      then Some (config\<lparr>cfg_operating_mode := ucast (aw_value w)\<rparr>)
      else if aw_attr_id w = TAG_ATTR_SAMPLING_INTERVAL
      then Some (config\<lparr>cfg_sampling_interval_s := ucast (aw_value w)\<rparr>)
      else None)"

text \<open>A write in the cluster, by what it asks for.\<close>

lemma zcl_device_cb_tag:
  "zcl_device_cb env (Some w) d =
     (if aw_cluster_id w \<noteq> ZB_ZCL_CLUSTER_ID_TAG_MONITOR then (RET_NOT_IMPLEMENTED, d)
      else case requested_config w (dev_config d) of
        Some c \<Rightarrow> zcl_apply_config env c d
      | None \<Rightarrow> if aw_attr_id w = TAG_ATTR_BOOT_EPOCH
                then (case app_state_set_time_utc env (aw_value w) d of (err, e) \<Rightarrow>
                        (if err \<noteq> 0 then RET_INVALID_PARAMETER else RET_OK, e))
                else (RET_NOT_IMPLEMENTED, d))"
  by (simp add: zcl_device_cb_def requested_config_def app_config_get_def Let_def split: prod.split)

lemma zcl_apply_config_outcome:
  assumes "zcl_apply_config env c d = (status, d')"
  shows "status \<noteq> RET_NOT_IMPLEMENTED \<and>
    (if app_config_validate c then dev_config d' = c else status = RET_INVALID_PARAMETER \<and> d' = d) \<and>
    (status = RET_OK \<longrightarrow> app_config_validate c)"
proof -
  obtain err e where set: "app_config_set env c d = (err, e)" by fastforce
  show ?thesis
    using assms app_config_set_state [OF set]
    by (auto simp: zcl_apply_config_def set raise_event_def frame power_manager_config_changed_def
        split: if_splits)
qed

lemma statistics_boot_epoch [frame]:
  "stat_boot_epoch_utc (ac_statistics (dev_core (snd (app_raise_event env t sv v d)))) =
     stat_boot_epoch_utc (ac_statistics (dev_core d))"
  by (simp add: app_raise_event_def Let_def frame with_status_def with_statistics_def
      split: prod.split)

lemma set_time_outcome:
  assumes "app_state_set_time_utc env t d = (err, d')"
  shows "if smart_tag_boot_epoch_utc t (dev_uptime_s d) = 0 then err = - EINVAL \<and> d' = d
    else err = 0 \<and> dev_config d' = dev_config d \<and>
      stat_boot_epoch_utc (app_state_get_statistics d') = smart_tag_boot_epoch_utc t (dev_uptime_s d)"
  using assms
  by (auto simp: app_state_set_time_utc_def app_state_flush_statistics_def raise_event_def frame
      app_state_get_statistics_def with_statistics_def Let_def split: prod.splits if_splits)

text \<open>
  C28: the coordinator's writes are handled exactly where the table allows them. A write is
  answered with \<open>RET_NOT_IMPLEMENTED\<close>, and changes nothing, if and only if it is outside the Tag
  Monitor cluster or names an attribute that is not declared writable. A written mode or
  interval is the one in force afterwards when the configuration it gives is in range, and is
  refused without any change when it is not; a written time is refused, without any change,
  exactly when it does not lie after the boot, and otherwise the boot epoch in the statistics
  becomes the written time less the uptime, and the configuration stays.
\<close>

theorem writes_handled_as_declared:
  assumes "zcl_device_cb env (Some w) d = (status, d')"
  shows "(status = RET_NOT_IMPLEMENTED \<longleftrightarrow>
      \<not> (aw_cluster_id w = ZB_ZCL_CLUSTER_ID_TAG_MONITOR \<and> attr_writable (aw_attr_id w))) \<and>
    (if status = RET_NOT_IMPLEMENTED then d' = d
     else case requested_config w (dev_config d) of
       Some c \<Rightarrow> if app_config_validate c then dev_config d' = c
                 else status = RET_INVALID_PARAMETER \<and> d' = d
     | None \<Rightarrow> if smart_tag_boot_epoch_utc (aw_value w) (dev_uptime_s d) = 0
               then status = RET_INVALID_PARAMETER \<and> d' = d
               else status = RET_OK \<and> dev_config d' = dev_config d \<and>
                 stat_boot_epoch_utc (app_state_get_statistics d') =
                   smart_tag_boot_epoch_utc (aw_value w) (dev_uptime_s d))"
proof (cases "aw_cluster_id w = ZB_ZCL_CLUSTER_ID_TAG_MONITOR")
  case False
  then show ?thesis using assms by (simp add: zcl_device_cb_tag)
next
  case tag: True
  show ?thesis
  proof (cases "requested_config w (dev_config d)")
    case (Some c)
    have "attr_writable (aw_attr_id w)"
      using Some by (simp add: requested_config_def attr_writable_iff split: if_splits)
    then show ?thesis
      using assms tag Some zcl_apply_config_outcome [of env c d status d'] by (simp add: zcl_device_cb_tag)
  next
    case None
    then have "attr_writable (aw_attr_id w) \<longleftrightarrow> aw_attr_id w = TAG_ATTR_BOOT_EPOCH"
      by (simp add: requested_config_def attr_writable_iff split: if_splits)
    moreover obtain err e where "app_state_set_time_utc env (aw_value w) d = (err, e)" by fastforce
    ultimately show ?thesis
      using assms tag None set_time_outcome [of env "aw_value w" d err e]
      by (auto simp: zcl_device_cb_tag split: if_splits)
  qed
qed

subsection \<open>Witnesses\<close>

definition mode_write :: attr_write where
  "mode_write = \<lparr> aw_cluster_id = ZB_ZCL_CLUSTER_ID_TAG_MONITOR, aw_attr_id = TAG_ATTR_OPERATING_MODE,
     aw_value = 2 \<rparr>"

definition plain_tag :: "(u8 list, string \<Rightarrow> u8 list option, (u8 \<times> u8 list) list) device" where
  "plain_tag = mock_tag\<lparr>dev_config := TAG_CONFIG_DEFAULTS\<rparr>"

lemma mode_write_accepted: "\<exists>d'. zcl_device_cb mock_tag_env (Some mode_write) plain_tag = (RET_OK, d')"
proof -
  have "requested_config mode_write (dev_config plain_tag) =
      Some (TAG_CONFIG_DEFAULTS\<lparr>cfg_operating_mode := 2\<rparr>)"
    by (simp add: requested_config_def mode_write_def plain_tag_def)
  moreover have "fst (app_config_set mock_tag_env (TAG_CONFIG_DEFAULTS\<lparr>cfg_operating_mode := 2\<rparr>) plain_tag) = 0"
    by (simp add: app_config_set_def config_storage_save_def mock_tag_env_def map_settings_def Let_def
        app_config_validate_def TAG_CONFIG_DEFAULTS_def power_manager_config_changed_def)
  ultimately show ?thesis
    by (auto simp: zcl_device_cb_tag zcl_apply_config_def mode_write_def split: prod.split)
qed

theorem writes_handled_as_declared_witness:
  "\<exists>d'. zcl_device_cb mock_tag_env (Some mode_write) plain_tag = (RET_OK, d') \<and>
     attr_writable TAG_ATTR_OPERATING_MODE \<and>
     dev_config d' = TAG_CONFIG_DEFAULTS\<lparr>cfg_operating_mode := 2\<rparr>"
proof -
  obtain d' where ok: "zcl_device_cb mock_tag_env (Some mode_write) plain_tag = (RET_OK, d')"
    using mode_write_accepted by blast
  have "app_config_validate (TAG_CONFIG_DEFAULTS\<lparr>cfg_operating_mode := 2\<rparr>)"
    by (simp add: app_config_validate_def TAG_CONFIG_DEFAULTS_def)
  then show ?thesis
    using writes_handled_as_declared [OF ok] ok
    by (simp add: requested_config_def mode_write_def plain_tag_def)
qed

end
