(* ===== verification/Zigbee_View.thy ===== *)
theory Zigbee_View
  imports Preemption Zigbee_Properties
begin

section \<open>What the coordinator sees\<close>

text \<open>
  The reporting policy, the attribute writes and the tag's state together: the value of an
  attribute at the coordinator is the last one written. This theory relates those values to the
  status and the sample of the tag, over every history of samples, publications and rejoins.
\<close>

definition gateway :: "zcl_write list \<Rightarrow> zcl_attr \<Rightarrow> zcl_value option" where
  "gateway writes = map_of (rev writes)"

lemma gateway_append:
  "gateway (ws @ writes) a = (case gateway writes a of None \<Rightarrow> gateway ws a | Some v \<Rightarrow> Some v)"
  unfolding gateway_def rev_append map_of_append map_add_def ..

lemma gateway_nil [simp]: "gateway [] a = None"
  by (simp add: gateway_def)

lemma gateway_snoc [simp]: "gateway (ws @ [(x, v)]) a = (if a = x then Some v else gateway ws a)"
  by (simp add: gateway_def)

subsection \<open>One publication\<close>

text \<open>The attributes a publication writes, and what they are then.\<close>

definition battery_remaining :: "u8 \<Rightarrow> u8" where
  "battery_remaining percent = ucast (min (ucast percent * 2) 200 :: u16)"

definition pressure_kpa :: "s32 \<Rightarrow> s16" where
  "pressure_kpa pa = word_of_int (sint pa sdiv 1000)"

lemma gateway_measured:
  "gateway (update_temperature data r) a = (if a = TEMP_MEASUREMENT_VALUE \<and> bit r 0 \<and>
     has_flag (sd_valid data) SENSOR_VALID_TEMP_RH then Some (S16 (sd_temperature_c_x100 data)) else None)"
  "gateway (update_humidity data r) a = (if a = REL_HUMIDITY_MEASUREMENT_VALUE \<and> bit r 1 \<and>
     has_flag (sd_valid data) SENSOR_VALID_TEMP_RH then Some (U16 (sd_humidity_x100 data)) else None)"
  "gateway (update_pressure data r) a = (if a = PRESSURE_MEASUREMENT_VALUE \<and> bit r 2 \<and>
     has_flag (sd_valid data) SENSOR_VALID_PRESSURE then Some (S16 (pressure_kpa (sd_pressure_pa data))) else None)"
  "a \<noteq> BATTERY_VOLTAGE \<Longrightarrow> gateway (fst (update_battery data r ctx)) a =
     (if a = BATTERY_PERCENTAGE_REMAINING \<and> bit r 3 \<and> has_flag (sd_valid data) SENSOR_VALID_BATTERY
      then Some (U8 (battery_remaining (sd_battery_percent data))) else None)"
  by (auto simp: update_temperature_def update_humidity_def update_pressure_def update_battery_def
      pressure_kpa_def battery_remaining_def gateway_def flag_defs Let_def)

lemma gateway_tag_other:
  "\<not> tag_attribute (a, v) \<Longrightarrow> gateway (tag_monitor_writes data tm) a = None"
  by (auto simp: gateway_def tag_monitor_writes_def)

lemma gateway_tag:
  "gateway (tag_monitor_writes data tm) (Tag_Attr TAG_ATTR_MOTION_STATE) = Some (U8 (tm_motion_state tm))"
  "gateway (tag_monitor_writes data tm) (Tag_Attr TAG_ATTR_ORIENTATION) = Some (U8 (tm_orientation tm))"
  "gateway (tag_monitor_writes data tm) (Tag_Attr TAG_ATTR_TAMPER_STATE) = Some (U8 (tm_tamper_state tm))"
  "gateway (tag_monitor_writes data tm) (Tag_Attr TAG_ATTR_ALARM_FLAGS) = Some (U16 (tm_alarm_flags tm))"
  "gateway (tag_monitor_writes data tm) (Tag_Attr TAG_ATTR_SHOCK_COUNT) = Some (U32 (tm_shock_count tm))"
  "gateway (tag_monitor_writes data tm) (Tag_Attr TAG_ATTR_FREE_FALL_COUNT) = Some (U32 (tm_free_fall_count tm))"
  by (simp_all add: gateway_def tag_monitor_writes_def tag_attr_defs)

lemma update_writes:
  "zigbee_clusters_update data s n c r stats ctx = (writes, ctx') \<Longrightarrow>
   writes = update_temperature data r @ update_humidity data r @ update_pressure data r @
     fst (update_battery data r ctx) @
     (if bit r 4 then tag_monitor_writes data (tag_monitor_update data s n c stats
        (dc_tag (snd (update_battery data r ctx)))) else [])"
  by (auto simp: zigbee_clusters_update_def Let_def flag_defs split: prod.splits if_splits)

lemma gateway_update:
  assumes "zigbee_clusters_update data s n c r stats ctx = (writes, ctx')"
  shows "gateway writes TEMP_MEASUREMENT_VALUE =
      (if bit r 0 \<and> has_flag (sd_valid data) SENSOR_VALID_TEMP_RH
       then Some (S16 (sd_temperature_c_x100 data)) else None)"
    and "gateway writes REL_HUMIDITY_MEASUREMENT_VALUE =
      (if bit r 1 \<and> has_flag (sd_valid data) SENSOR_VALID_TEMP_RH
       then Some (U16 (sd_humidity_x100 data)) else None)"
    and "gateway writes PRESSURE_MEASUREMENT_VALUE =
      (if bit r 2 \<and> has_flag (sd_valid data) SENSOR_VALID_PRESSURE
       then Some (S16 (pressure_kpa (sd_pressure_pa data))) else None)"
    and "gateway writes BATTERY_PERCENTAGE_REMAINING =
      (if bit r 3 \<and> has_flag (sd_valid data) SENSOR_VALID_BATTERY
       then Some (U8 (battery_remaining (sd_battery_percent data))) else None)"
    and "gateway writes (Tag_Attr TAG_ATTR_MOTION_STATE) =
      (if bit r 4 then Some (U8 (st_motion_state s)) else None)"
    and "gateway writes (Tag_Attr TAG_ATTR_ORIENTATION) =
      (if bit r 4 then Some (U8 (st_orientation s)) else None)"
    and "gateway writes (Tag_Attr TAG_ATTR_TAMPER_STATE) =
      (if bit r 4 then Some (U8 (st_tamper s)) else None)"
    and "gateway writes (Tag_Attr TAG_ATTR_ALARM_FLAGS) =
      (if bit r 4 then Some (U16 (st_alarm_flags s)) else None)"
    and "gateway writes (Tag_Attr TAG_ATTR_SHOCK_COUNT) =
      (if bit r 4 then Some (U32 (st_shock_count s)) else None)"
    and "gateway writes (Tag_Attr TAG_ATTR_FREE_FALL_COUNT) =
      (if bit r 4 then Some (U32 (st_free_fall_count s)) else None)"
  unfolding update_writes [OF assms]
  by (auto simp: gateway_append gateway_measured gateway_tag gateway_tag_other tag_monitor_update_def)

subsection \<open>Publications and the baseline\<close>

text \<open>
  The coordinator's view agrees with the baseline of the reporting policy: for the status in any
  history, for the measurements when every published sample had them valid.
\<close>

definition status_seen :: "zcl_write list \<Rightarrow> baseline \<Rightarrow> bool" where
  "status_seen ws b \<longleftrightarrow>
     gateway ws (Tag_Attr TAG_ATTR_MOTION_STATE) = Some (U8 (bl_motion_state b)) \<and>
     gateway ws (Tag_Attr TAG_ATTR_ORIENTATION) = Some (U8 (bl_orientation b)) \<and>
     gateway ws (Tag_Attr TAG_ATTR_TAMPER_STATE) = Some (U8 (bl_tamper b)) \<and>
     gateway ws (Tag_Attr TAG_ATTR_ALARM_FLAGS) = Some (U16 (bl_alarm_flags b)) \<and>
     gateway ws (Tag_Attr TAG_ATTR_SHOCK_COUNT) = Some (U32 (bl_shock_count b)) \<and>
     gateway ws (Tag_Attr TAG_ATTR_FREE_FALL_COUNT) = Some (U32 (bl_free_fall_count b))"

definition sample_seen :: "zcl_write list \<Rightarrow> baseline \<Rightarrow> bool" where
  "sample_seen ws b \<longleftrightarrow>
     gateway ws TEMP_MEASUREMENT_VALUE = Some (S16 (bl_temperature b)) \<and>
     gateway ws REL_HUMIDITY_MEASUREMENT_VALUE = Some (U16 (bl_humidity b)) \<and>
     gateway ws PRESSURE_MEASUREMENT_VALUE = Some (S16 (pressure_kpa (bl_pressure b))) \<and>
     gateway ws BATTERY_PERCENTAGE_REMAINING = Some (U8 (battery_remaining (bl_battery_percent b)))"

definition measured :: "sensor_data \<Rightarrow> bool" where
  "measured data \<longleftrightarrow> has_flag (sd_valid data) SENSOR_VALID_TEMP_RH \<and>
     has_flag (sd_valid data) SENSOR_VALID_PRESSURE \<and> has_flag (sd_valid data) SENSOR_VALID_BATTERY"

text \<open>A step of the tag that is not a publication may forget the baseline, nothing more.\<close>

definition view :: "('f, 'n, 'b) device \<Rightarrow> baseline \<times> zcl_write list" where
  "view d = (zb_baseline (dev_zigbee d), zb_writes (dev_zigbee d))"

definition view_kept :: "('f, 'n, 'b) device \<Rightarrow> ('f, 'n, 'b) device \<Rightarrow> bool" where
  "view_kept d d' \<longleftrightarrow> view d' = view d \<or>
     view d' = (zigbee_reporting_force (zb_baseline (dev_zigbee d)), zb_writes (dev_zigbee d))"

inductive view_run ::
  "('f, 'n, 'b) tag_env \<Rightarrow> (sensor_data \<Rightarrow> bool) \<Rightarrow> ('f, 'n, 'b) device \<Rightarrow> bool" for env P where
  start: "view d = (zigbee_reporting_init, []) \<Longrightarrow> view_run env P d"
| publish: "view_run env P d \<Longrightarrow> (zb_joined (dev_zigbee d) \<Longrightarrow> P (app_state_get_last_sample d)) \<Longrightarrow>
    view_run env P (publish_attributes env d)"
| other: "view_run env P d \<Longrightarrow> view_kept d d' \<Longrightarrow> view_run env P d'"

text \<open>A publication of a joined tag, on the baseline and the writes.\<close>

lemma publish_outcome:
  assumes "zb_joined (dev_zigbee d)"
  defines "data \<equiv> app_state_get_last_sample d" and "s \<equiv> app_state_get_status d"
    and "b \<equiv> zb_baseline (dev_zigbee d)" and "ws \<equiv> zb_writes (dev_zigbee d)"
  defines "r \<equiv> zigbee_reporting_evaluate data s (app_config_get d) b"
  obtains (quiet) "r = 0" "publish_attributes env d = d"
  | (sent) n stats ctx writes ctx' where "r \<noteq> 0"
      "zigbee_clusters_update data s n (app_config_get d) r stats ctx = (writes, ctx')"
      "view (publish_attributes env d) = (zigbee_reporting_commit data s r b, ws @ writes)"
proof (cases "r = 0")
  case True
  then show ?thesis using quiet assms by (simp add: publish_attributes_def Let_def)
next
  case False
  obtain writes ctx' where "zigbee_clusters_update data s
      (li_record_count (event_log_get_info (te_flash env) (dev_events d))) (app_config_get d) r
      (app_state_get_statistics d) (zb_ctx (dev_zigbee d)) = (writes, ctx')" by fastforce
  then show ?thesis
    using sent False assms by (simp add: publish_attributes_def view_def Let_def)
qed

lemma commit_status_fields:
  assumes "r \<noteq> 0"
  shows "bl_motion_state (zigbee_reporting_commit d s r b) = (if bit r 4 then st_motion_state s else bl_motion_state b)"
    "bl_orientation (zigbee_reporting_commit d s r b) = (if bit r 4 then st_orientation s else bl_orientation b)"
    "bl_tamper (zigbee_reporting_commit d s r b) = (if bit r 4 then st_tamper s else bl_tamper b)"
    "bl_alarm_flags (zigbee_reporting_commit d s r b) = (if bit r 4 then st_alarm_flags s else bl_alarm_flags b)"
    "bl_shock_count (zigbee_reporting_commit d s r b) = (if bit r 4 then st_shock_count s else bl_shock_count b)"
    "bl_free_fall_count (zigbee_reporting_commit d s r b)
       = (if bit r 4 then st_free_fall_count s else bl_free_fall_count b)"
  using assms by (simp_all add: zigbee_reporting_commit_def Let_def flag_defs)

lemma first_reports_all: "\<not> bl_valid b \<Longrightarrow> n < 5 \<Longrightarrow> bit (zigbee_reporting_evaluate d s c b) n"
  by (simp add: bit_evaluate)

lemma sent_status_seen:
  assumes "zigbee_clusters_update data s n c r stats ctx = (writes, ctx')" and "r \<noteq> 0"
    and "r = zigbee_reporting_evaluate data s c b" and "bl_valid b \<longrightarrow> status_seen ws b"
  shows "status_seen (ws @ writes) (zigbee_reporting_commit data s r b)"
proof (cases "bl_valid b")
  case True
  then show ?thesis
    using assms(4) unfolding status_seen_def gateway_append gateway_update [OF assms(1)]
      commit_status_fields [OF assms(2)] by simp
next
  case False
  then have "bit r 4" using first_reports_all [of b 4] by (simp add: assms(3))
  then show ?thesis
    unfolding status_seen_def gateway_append gateway_update [OF assms(1)]
      commit_status_fields [OF assms(2)] by simp
qed

lemma sent_sample_seen:
  assumes "zigbee_clusters_update data s n c r stats ctx = (writes, ctx')" and "r \<noteq> 0"
    and "r = zigbee_reporting_evaluate data s c b" and "bl_valid b \<longrightarrow> sample_seen ws b" and "measured data"
  shows "sample_seen (ws @ writes) (zigbee_reporting_commit data s r b)"
proof (cases "bl_valid b")
  case True
  then show ?thesis
    using assms(4,5) unfolding sample_seen_def gateway_append gateway_update [OF assms(1)]
      commit_fields [OF assms(2)] measured_def by simp
next
  case False
  then have "bit r 0" "bit r 1" "bit r 2" "bit r 3"
    using first_reports_all [of b] by (simp_all add: assms(3))
  then show ?thesis
    using assms(5) unfolding sample_seen_def gateway_append gateway_update [OF assms(1)]
      commit_fields [OF assms(2)] measured_def by simp
qed

text \<open>What every publication establishes holds whenever there is a baseline.\<close>

lemma view_run_seen:
  assumes "view_run env P d" and "bl_valid (zb_baseline (dev_zigbee d))"
    and sent: "\<And>data s n c r stats ctx writes ctx' ws b.
      zigbee_clusters_update data s n c r stats ctx = (writes, ctx') \<Longrightarrow> r \<noteq> 0 \<Longrightarrow>
      r = zigbee_reporting_evaluate data s c b \<Longrightarrow> bl_valid b \<longrightarrow> seen ws b \<Longrightarrow> P data \<Longrightarrow>
      seen (ws @ writes) (zigbee_reporting_commit data s r b)"
  shows "seen (zb_writes (dev_zigbee d)) (zb_baseline (dev_zigbee d))"
  using assms(1,2)
proof (induction rule: view_run.induct)
  case (start d)
  then show ?case by (simp add: view_def zigbee_reporting_init_def)
next
  case (publish d)
  show ?case
  proof (cases "zb_joined (dev_zigbee d)")
    case True
    then show ?thesis
    proof (cases rule: publish_outcome [where env = env])
      case quiet
      then show ?thesis using publish by simp
    next
      case (sent n stats ctx writes ctx')
      then show ?thesis using assms(3) [OF sent(2,1) refl] publish.IH publish.hyps(2) True by (simp add: view_def)
    qed
  qed (use publish in \<open>simp add: publish_attributes_def\<close>)
next
  case (other d d')
  then show ?case by (auto simp: view_kept_def view_def zigbee_reporting_force_def)
qed

lemma view_run_status:
  "view_run env P d \<Longrightarrow> bl_valid (zb_baseline (dev_zigbee d)) \<Longrightarrow>
     status_seen (zb_writes (dev_zigbee d)) (zb_baseline (dev_zigbee d))"
  by (rule view_run_seen [where P = P]) (auto intro: sent_status_seen)

lemma view_run_sample:
  "view_run env measured d \<Longrightarrow> bl_valid (zb_baseline (dev_zigbee d)) \<Longrightarrow>
     sample_seen (zb_writes (dev_zigbee d)) (zb_baseline (dev_zigbee d))"
  by (rule view_run_seen [where P = measured]) (auto intro: sent_sample_seen)

text \<open>After a publication there is a baseline, and nothing in it calls for another report.\<close>

lemma published_baseline:
  assumes "zb_joined (dev_zigbee d)"
  shows "let b = zb_baseline (dev_zigbee (publish_attributes env d)); s = app_state_get_status d;
      data = app_state_get_last_sample d; c = app_config_get d in
    bl_valid b \<and> \<not> changed_status s b \<and>
    (bl_temperature b = sd_temperature_c_x100 data \<or> \<not> moved_temperature data c b) \<and>
    (bl_humidity b = sd_humidity_x100 data \<or> \<not> moved_humidity data c b) \<and>
    (bl_pressure b = sd_pressure_pa data \<or> \<not> moved_pressure data c b) \<and>
    (bl_battery_percent b = sd_battery_percent data \<or> \<not> moved_battery data b)"
  using assms
proof (cases rule: publish_outcome [where env = env])
  case quiet
  then have zero: "\<not> bit (zigbee_reporting_evaluate (app_state_get_last_sample d)
      (app_state_get_status d) (app_config_get d) (zb_baseline (dev_zigbee d))) n" for n
    by simp
  show ?thesis
    using zero [of 0] zero [of 1] zero [of 2] zero [of 3] zero [of 4] quiet(2)
    by (simp add: bit_evaluate Let_def)
next
  case (sent n stats ctx writes ctx')
  let ?b = "zb_baseline (dev_zigbee d)"
  let ?data = "app_state_get_last_sample d" and ?s = "app_state_get_status d" and ?c = "app_config_get d"
  let ?r = "zigbee_reporting_evaluate ?data ?s ?c ?b"
  have bits: "bl_valid ?b \<or> bit ?r n" if "n < 5" for n using first_reports_all [OF _ that] by auto
  have unmoved: "bit ?r 0 \<or> \<not> moved_temperature ?data ?c ?b" "bit ?r 1 \<or> \<not> moved_humidity ?data ?c ?b"
    "bit ?r 2 \<or> \<not> moved_pressure ?data ?c ?b" "bit ?r 3 \<or> \<not> moved_battery ?data ?b"
    "bit ?r 4 \<or> \<not> changed_status ?s ?b"
    using bits [of 0] bits [of 1] bits [of 2] bits [of 3] bits [of 4] by (auto simp: bit_evaluate)
  let ?b' = "zigbee_reporting_commit ?data ?s ?r ?b"
  note f = commit_fields [OF sent(1), where d = ?data and s = ?s and b = ?b]
  have "bl_temperature ?b' = sd_temperature_c_x100 ?data \<or> \<not> moved_temperature ?data ?c ?b'"
    using unmoved(1) unfolding moved_temperature_def f by (cases "bit ?r 0") simp_all
  moreover have "bl_humidity ?b' = sd_humidity_x100 ?data \<or> \<not> moved_humidity ?data ?c ?b'"
    using unmoved(2) unfolding moved_humidity_def f by (cases "bit ?r 1") simp_all
  moreover have "bl_pressure ?b' = sd_pressure_pa ?data \<or> \<not> moved_pressure ?data ?c ?b'"
    using unmoved(3) unfolding moved_pressure_def f by (cases "bit ?r 2") simp_all
  moreover have "bl_battery_percent ?b' = sd_battery_percent ?data \<or> \<not> moved_battery ?data ?b'"
    using unmoved(4) unfolding moved_battery_def f by (cases "bit ?r 3") simp_all
  moreover have "zb_baseline (dev_zigbee (publish_attributes env d)) = ?b'" using sent(3) by (simp add: view_def)
  ultimately show ?thesis using f(1,8) unmoved(5) by (simp only: Let_def) blast
qed

subsection \<open>The tag's own steps\<close>

named_theorems zview \<open>operations that leave what is published and the baseline alone\<close>

lemma view_field [zview]:
  "view (d\<lparr>dev_uptime_s := x0\<rparr>) = view d"
  "view (d\<lparr>dev_events := x1\<rparr>) = view d"
  "view (d\<lparr>dev_sensors := x2\<rparr>) = view d"
  "view (d\<lparr>dev_store := x3\<rparr>) = view d"
  "view (d\<lparr>dev_nvs := x4\<rparr>) = view d"
  "view (d\<lparr>dev_sensing := x5\<rparr>) = view d"
  "view (d\<lparr>dev_motion := x6\<rparr>) = view d"
  "view (d\<lparr>dev_led := x7\<rparr>) = view d"
  "view (d\<lparr>dev_config := x8\<rparr>) = view d"
  "view (d\<lparr>dev_core := x9\<rparr>) = view d"
  "view (d\<lparr>dev_power := x10\<rparr>) = view d"
  "view (d\<lparr>dev_gatt := x11\<rparr>) = view d"
  "view (d\<lparr>dev_stream := x12\<rparr>) = view d"
  "view (d\<lparr>dev_command := x13\<rparr>) = view d"
  "view (d\<lparr>dev_ble := x14\<rparr>) = view d"
  "view (d\<lparr>dev_bt := x15\<rparr>) = view d"
  "view (d\<lparr>dev_watchdog := x16\<rparr>) = view d"
  "view (d\<lparr>dev_rebooting := x17\<rparr>) = view d"
  by (simp_all add: view_def)

lemma view_publish_scheduled [zview]: "view (zb_schedule_publish d) = view d"
  by (simp add: zb_schedule_publish_def view_def)

lemma view_told [zview]:
  "view (on_event r s d) = view d" "view (on_sensor_data data s d) = view d"
  by (cases s; simp add: zview gatt_on_event_def gatt_on_sensor_data_def)+

lemma view_fold_told [zview]:
  "view (fold (on_event r) ss d) = view d" "view (fold (on_sensor_data data) ss d) = view d"
  by (induction ss arbitrary: d) (simp_all add: view_told)

lemma view_small [zview]:
  "view (led_set s on d) = view d"
  "view (app_state_flush_statistics env d) = view d"
  "view (app_state_set st d) = view d"
  "view (dev_feed n d) = view d"
  by (simp_all add: led_set_def app_state_flush_statistics_def app_state_set_def dev_feed_def zview
      Let_def split: prod.split)

lemma view_raise [zview]: "view (snd (app_raise_event env t sv v d)) = view d"
  "view (raise_event env ty sy v d) = view d"
  by (simp_all add: raise_event_def app_raise_event_def Let_def zview split: prod.split)

lemma view_ops [zview]:
  "view (app_state_reset_counters env d) = view d"
  "view (snd (gatt_notify env which data d)) = view d"
  "view (send_response env op st payload d) = view d"
  "view (finish_command env op err d) = view d"
  "view (log_abort d) = view d"
  "view (ccc_write which cv d) = view d"
  "view (run_notify_work env d) = view d"
  "view (run_stream_work env d) = view d"
  "view (snd (log_write_control env buf offset d)) = view d"
  "view (power_manager_config_changed d) = view d"
  "view (power_manager_sample_now d) = view d"
  "view (motion_trigger_fn d) = view d"
  "view (identify_cb bufid d) = view d"
  "view (snd (ble_config_write_command buf offset d)) = view d"
  "view (ble_manager_update_adv_data env d) = view d"
  by (simp_all add: gatt_notify_def send_response_def finish_command_def log_abort_def ccc_write_def
      run_notify_work_def run_stream_work_def log_write_control_def power_manager_config_changed_def
      power_manager_sample_now_def motion_trigger_fn_def app_state_reset_counters_def core_reset_counters_def
      identify_cb_def ble_config_write_command_def ble_manager_update_adv_data_def zview Let_def
      split: prod.split)

lemma view_advertising [zview]:
  "view (snd (ble_manager_start_advertising env d)) = view d"
  "view (ble_manager_stop_advertising env d) = view d"
  by (simp_all add: ble_manager_start_advertising_def ble_manager_stop_advertising_def Let_def zview
      split: prod.split)

lemma view_config_set [zview]: "view (snd (app_config_set env cfg d)) = view d"
  by (simp add: app_config_set_def zview Let_def split: prod.split)

lemma view_dest:
  "ble_manager_start_advertising env d = (err, d') \<Longrightarrow> view d' = view d"
  "app_config_set env cfg d = (err, d') \<Longrightarrow> view d' = view d"
  using view_advertising(1) [of env d] view_config_set [of env cfg d] by simp_all

lemma view_service [zview]:
  "view (power_manager_request_service_mode env d) = view d"
  "view (service_timeout_fn env d) = view d"
  "view (ble_disconnected env d) = view d"
  by (auto simp: power_manager_request_service_mode_def service_timeout_fn_def
      power_manager_end_service_mode_def ble_disconnected_def Let_def zview split: prod.split dest: view_dest)

lemma view_raising [zview]:
  "view (ble_connected env err d) = view d"
  "view (snd (ble_config_write env buf offset d)) = view d"
  "view (snd (app_state_set_time_utc env t d)) = view d"
  "view (snd (snd (app_state_snapshot_gas_baseline env d))) = view d"
  "view (snd (zcl_apply_config env config d)) = view d"
  by (auto simp: ble_connected_def ble_config_write_def app_state_set_time_utc_def
      app_state_snapshot_gas_baseline_def zcl_apply_config_def Let_def zview with_statistics_def
      split: prod.split dest: view_dest)

lemma view_raising_dest:
  "app_state_set_time_utc env t d = (err, d') \<Longrightarrow> view d' = view d"
  "app_state_snapshot_gas_baseline env d = (err, th, d') \<Longrightarrow> view d' = view d"
  "app_config_set_mode env m d = (err, d') \<Longrightarrow> view d' = view d"
  using view_raising(3) [of env t d] view_raising(4) [of env d]
  by (auto simp: app_config_set_mode_def dest: view_dest)

lemma view_clear:
  "clear_event_log env d = Some (err, d') \<Longrightarrow> view d' = view d"
  "clear_sensor_log env d = Some (err, d') \<Longrightarrow> view d' = view d"
  by (auto simp: clear_event_log_def clear_sensor_log_def zview split: option.splits)

lemma view_factory_reset:
  "app_state_factory_reset env d = Some d' \<Longrightarrow> view d' = view d"
  by (auto simp: factory_reset_defs app_config_reset_def Let_def zview
      split: option.splits prod.splits dest!: view_dest view_clear)

lemma view_command: "run_command_work env d = Some d' \<Longrightarrow> view d' = view d"
  by (auto simp: run_command_work_def command_work_fn_def Let_def zview
      split: if_splits option.splits prod.splits
      dest!: view_clear view_factory_reset view_raising_dest simp del: One_nat_def)

lemma view_zcl [zview]: "view (snd (zcl_device_cb env w d)) = view d"
  by (auto simp: zcl_device_cb_def Let_def zview split: option.split prod.split dest: view_raising_dest)

lemma view_zigbee [zview]:
  "view (d\<lparr>dev_zigbee := (dev_zigbee d)\<lparr>zb_joined := j, zb_joining := k\<rparr>\<rparr>) = view d"
  "view (d\<lparr>dev_zigbee := (dev_zigbee d)\<lparr>zb_joining := k\<rparr>\<rparr>) = view d"
  "view (d\<lparr>dev_zigbee := (dev_zigbee d)\<lparr>zb_ota_in_progress := k\<rparr>\<rparr>) = view d"
  "view (d\<lparr>dev_zigbee := (dev_zigbee d)\<lparr>zb_publish := n\<rparr>\<rparr>) = view d"
  by (simp_all add: view_def)

lemma view_fota [zview]: "view (fota_evt_handler env evt d) = view d"
  by (simp add: fota_evt_handler_def Let_def zview split: fota_evt.split)

lemma view_forced:
  "view (d\<lparr>dev_zigbee := (dev_zigbee d)\<lparr>zb_baseline := zigbee_reporting_force (zb_baseline (dev_zigbee d)),
     zb_publish := n\<rparr>\<rparr>) = (zigbee_reporting_force (fst (view d)), snd (view d))"
  by (simp add: view_def)

lemma view_kept_iff:
  "view_kept d d' \<longleftrightarrow> view d' = view d \<or> view d' = (zigbee_reporting_force (fst (view d)), snd (view d))"
  by (simp add: view_kept_def view_def)

lemma view_signal: "view_kept d (zboss_signal_handler env sig ok d)"
  by (auto simp: view_kept_iff zboss_signal_handler_def zboss_commissioned_def zboss_left_def Let_def
      view_forced zview split: zb_signal.split)

lemma handle_view:
  assumes "handle env e d = Some d'" and "not_sample e" and "e \<noteq> Publish"
  shows "view_kept d d'"
proof (cases e)
  case Command_Work
  then show ?thesis using assms(1) view_command by (auto simp: view_kept_iff split: if_splits)
next
  case Factory_Reset_Work
  then show ?thesis using assms(1) view_factory_reset by (auto simp: view_kept_iff factory_reset_work_fn_def)
next
  case (Zigbee_Signal sig ok)
  then show ?thesis using assms(1) view_signal by auto
qed (use assms in \<open>auto simp: view_kept_iff button_press_work_fn_def zview split: if_splits\<close>)

lemma view_sampling: "view (snd (sampling_step env hw (pc, d))) = view d"
  by (cases "(env, hw, pc, d)" rule: sampling_step.cases)
    (auto simp: raise_log_def raise_count_def raise_light_def take_sample_now_def zview Let_def
      split: prod.split)

text \<open>At startup nothing has been published.\<close>

lemma view_init [zview]:
  "view (app_state_subscribe sub d) = view d"
  "view (app_config_init d) = view d"
  "view (app_state_init d) = view d"
  "view (power_manager_start d) = view d"
  "view (snd (ble_manager_init env d)) = view d"
  by (auto simp: app_state_subscribe_def app_config_init_def app_state_init_def power_manager_start_def
      ble_manager_init_def ble_gatt_init_ok ble_config_init_def set_device_name_def zview Let_def
      split: option.split prod.split list.split)

lemma view_zigbee_init:
  "view d = (zigbee_reporting_init, []) \<Longrightarrow> view (snd (zigbee_manager_init env d)) = (zigbee_reporting_init, [])"
  by (simp add: zigbee_manager_init_def zview Let_def) (simp add: view_def)

lemma view_main:
  "view (tag_main env hw (device_at_reset env pe ps fe fs nvs bt)) = (zigbee_reporting_init, [])"
proof -
  let ?d = "main_application env (main_storage env hw (device_at_reset env pe ps fe fs nvs bt))"
  have "view (device_at_reset env pe ps fe fs nvs bt) = (zigbee_reporting_init, [])"
    by (simp add: view_def device_at_reset_def zigbee_manager_boot_def)
  then have "view ?d = (zigbee_reporting_init, [])"
    by (simp add: main_application_def main_storage_def zview Let_def)
  then have "view (snd (zigbee_manager_init env
      (snd (ble_manager_init env (app_state_set APP_STATE_ZIGBEE_START ?d))))) = (zigbee_reporting_init, [])"
    by (intro view_zigbee_init) (simp add: zview)
  then show ?thesis by (simp add: tag_main_def main_stacks_def zview Let_def)
qed

text \<open>Every state of the tag, with the sampling thread preempted anywhere, is the end of such a run.\<close>

lemma publish_scheduled_run:
  assumes "view_run env P d" and "zb_joined (dev_zigbee d) \<Longrightarrow> P (app_state_get_last_sample d)"
  shows "view_run env P (run_publish env d)"
proof (cases "zb_publish (dev_zigbee d) = 0")
  case False
  let ?d = "d\<lparr>dev_zigbee := (dev_zigbee d)\<lparr>zb_publish := zb_publish (dev_zigbee d) - 1\<rparr>\<rparr>"
  have "view_run env P ?d"
    using view_run.other [OF assms(1)] by (simp add: view_kept_iff zview)
  then have "view_run env P (publish_attributes env ?d)"
    using assms(2) by (intro view_run.publish) (simp_all add: app_state_get_last_sample_def)
  then show ?thesis using False by (simp add: run_publish_def)
qed (use assms in \<open>simp add: run_publish_def\<close>)

lemma view_run_step:
  assumes run: "view_run env P d" and "preempt_step env (pc, r, d) (pc', r', d')"
    and "zb_joined (dev_zigbee d) \<Longrightarrow> P (app_state_get_last_sample d)"
  shows "view_run env P d'"
  using assms(2)
proof (cases rule: preempt_step.cases)
  case (sampling hw)
  then have "view d' = view d" using view_sampling [of env hw pc d] by simp
  then show ?thesis using view_run.other [OF run] by (simp add: view_kept_iff)
next
  case (handler ev d1)
  have "view_run env P d1"
  proof (cases "ev = Publish")
    case True
    then show ?thesis using handler publish_scheduled_run [OF run] assms(3) by simp
  next
    case False
    then show ?thesis using handler handle_view view_run.other [OF run] by blast
  qed
  then show ?thesis using view_run.other [of env P d1 d'] handler by (simp add: view_kept_iff zview)
next
  case reboot
  then show ?thesis using view_run.other [OF run] by (simp add: view_kept_iff zview)
qed

lemma main_view_run: "view_run env P (tag_main env hw (device_at_reset env pe ps fe fs nvs bt))"
  by (rule view_run.start) (rule view_main)

lemma reach_view_run: "preempt_reach env (pc, r, d) \<Longrightarrow> view_run env (\<lambda>_. True) d"
proof (induction "(pc, r, d)" arbitrary: pc r d rule: preempt_reach.induct)
  case (boot hw pe ps fe fs nvs bt)
  show ?case by (rule main_view_run)
next
  case (more s)
  then show ?case by (cases s) (auto intro: view_run_step)
qed

subsection \<open>What is seen after a publication\<close>

lemma publish_joined: "zb_joined (dev_zigbee (publish_attributes env d)) = zb_joined (dev_zigbee d)"
  by (simp add: publish_attributes_def Let_def split: prod.split)

lemma publish_core: "dev_core (publish_attributes env d) = dev_core d"
  by (simp add: publish_attributes_def Let_def split: prod.split)

text \<open>
  C24: after a publication the coordinator sees the status of the tag. In every state the joined tag can
  be in, with the sampling thread preempted anywhere and whatever was published, forgotten or
  lost by a rejoin before, a scheduled publication leaves the motion state, orientation, tamper
  state, alarm flags, shock count and free fall count last written to the Tag Monitor cluster
  equal to those of the status; when it writes nothing they already were.
\<close>

theorem gateway_sees_status:
  assumes "preempt_reach env (pc, r, d)" and "zb_joined (dev_zigbee d)" and "0 < zb_publish (dev_zigbee d)"
    and "handle env Publish d = Some d'"
  shows "let s = app_state_get_status d'; seen = gateway (zb_writes (dev_zigbee d')) in
    seen (Tag_Attr TAG_ATTR_MOTION_STATE) = Some (U8 (st_motion_state s)) \<and>
    seen (Tag_Attr TAG_ATTR_ORIENTATION) = Some (U8 (st_orientation s)) \<and>
    seen (Tag_Attr TAG_ATTR_TAMPER_STATE) = Some (U8 (st_tamper s)) \<and>
    seen (Tag_Attr TAG_ATTR_ALARM_FLAGS) = Some (U16 (st_alarm_flags s)) \<and>
    seen (Tag_Attr TAG_ATTR_SHOCK_COUNT) = Some (U32 (st_shock_count s)) \<and>
    seen (Tag_Attr TAG_ATTR_FREE_FALL_COUNT) = Some (U32 (st_free_fall_count s))"
proof -
  let ?d = "d\<lparr>dev_zigbee := (dev_zigbee d)\<lparr>zb_publish := zb_publish (dev_zigbee d) - 1\<rparr>\<rparr>"
  have d': "d' = publish_attributes env ?d" using assms(3,4) by (simp add: run_publish_def)
  have run: "view_run env (\<lambda>_. True) d'"
    using publish_scheduled_run [OF reach_view_run [OF assms(1)]] assms(4) by simp
  have base: "bl_valid (zb_baseline (dev_zigbee d'))"
    "\<not> changed_status (app_state_get_status d') (zb_baseline (dev_zigbee d'))"
    using published_baseline [of ?d env] assms(2)
    by (simp_all add: d' Let_def app_state_get_status_def publish_core)
  then show ?thesis
    using view_run_status [OF run base(1)] by (simp add: status_seen_def changed_status_def Let_def)
qed

text \<open>
  C25: the measurements the coordinator holds follow the sample. When every sample published so far
  had its temperature, humidity, pressure and battery valid (without that,
  \<open>invalid_reading_becomes_baseline\<close>), then after each publication the last temperature and
  humidity written equal those of the sample or differ from them by less than the delta; the
  last pressure written is that of a reading that equals or is within the delta of the sample's,
  cut to whole kilopascals; and the battery percentage is the current one.
\<close>

theorem gateway_measurements_close:
  assumes "view_run env measured d" and "zb_joined (dev_zigbee d)" and "measured (app_state_get_last_sample d)"
  shows "let data = app_state_get_last_sample d; c = app_config_get d;
      seen = gateway (zb_writes (dev_zigbee (publish_attributes env d))) in
    (\<exists>t. seen TEMP_MEASUREMENT_VALUE = Some (S16 t) \<and> (t = sd_temperature_c_x100 data \<or>
       \<bar>sint (sd_temperature_c_x100 data) - sint t\<bar> < uint (cfg_report_temp_delta_c_x100 c))) \<and>
    (\<exists>h. seen REL_HUMIDITY_MEASUREMENT_VALUE = Some (U16 h) \<and> (h = sd_humidity_x100 data \<or>
       \<bar>uint (sd_humidity_x100 data) - uint h\<bar> < uint (cfg_report_humidity_delta_x100 c))) \<and>
    (\<exists>p. seen PRESSURE_MEASUREMENT_VALUE = Some (S16 (word_of_int (sint p sdiv 1000))) \<and>
       (p = sd_pressure_pa data \<or>
        \<bar>sint (sd_pressure_pa data) - sint p\<bar> < uint (cfg_report_pressure_delta_pa c))) \<and>
    seen BATTERY_PERCENTAGE_REMAINING =
      Some (U8 (ucast (min (ucast (sd_battery_percent data) * 2) 200 :: u16)))"
proof -
  let ?d' = "publish_attributes env d"
  let ?b = "zb_baseline (dev_zigbee ?d')" and ?data = "app_state_get_last_sample d"
  have run: "view_run env measured ?d'" using assms by (intro view_run.publish)
  note base = published_baseline [OF assms(2), of env, unfolded Let_def]
  note seen = view_run_sample [OF run, unfolded sample_seen_def] base
  have "\<not> moved_battery ?data ?b \<Longrightarrow> bl_battery_percent ?b = sd_battery_percent ?data"
    using assms(3) by (simp add: moved_battery_def measured_def BATTERY_DELTA_PERCENT_def word_uint_eq_iff)
  then have "bl_battery_percent ?b = sd_battery_percent ?data" using base by blast
  then show ?thesis
    using seen assms(3)
    by (auto simp: Let_def measured_def moved_temperature_def moved_humidity_def moved_pressure_def
        battery_remaining_def pressure_kpa_def not_le)
qed

subsection \<open>What the coordinator writes\<close>








subsection \<open>Witnesses\<close>

text \<open>The tag of the witnesses joins a network and publishes.\<close>

theorem gateway_sees_status_witness:
  "\<exists>d d'. view_kept mock_tag d \<and> handle mock_tag_env Publish d = Some d' \<and>
    gateway (zb_writes (dev_zigbee d')) (Tag_Attr TAG_ATTR_TAMPER_STATE)
      = Some (U8 (st_tamper (app_state_get_status d')))"
proof -
  let ?d1 = "zboss_signal_handler mock_tag_env ZB_BDB_SIGNAL_STEERING True mock_tag"
  let ?d = "?d1\<lparr>dev_rebooting := False\<rparr>"
  have "preempt_reach mock_tag_env (Awake, dev_rebooting ?d1, ?d)"
    using preempt_reach.more [OF mock_tag_preempt preempt_step.handler [OF mock_tag_running,
          of "Zigbee_Signal ZB_BDB_SIGNAL_STEERING True" mock_tag_env ?d1]] by simp
  moreover have "zb_joined (dev_zigbee ?d)" "0 < zb_publish (dev_zigbee ?d)"
    by (simp_all add: zboss_signal_handler_def zboss_commissioned_def Let_def frame)
  moreover obtain d' where "handle mock_tag_env Publish ?d = Some d'" by simp
  ultimately have "gateway (zb_writes (dev_zigbee d')) (Tag_Attr TAG_ATTR_TAMPER_STATE)
      = Some (U8 (st_tamper (app_state_get_status d')))"
    using gateway_sees_status [of mock_tag_env Awake "dev_rebooting ?d1" ?d d'] by (simp add: Let_def)
  moreover have "view_kept mock_tag ?d"
    using view_signal [of mock_tag mock_tag_env] by (simp add: view_kept_iff zview)
  ultimately show ?thesis using \<open>handle mock_tag_env Publish ?d = Some d'\<close> by blast
qed

text \<open>It has a first sample of 21.5 degrees and 80 percent, joins, and publishes.\<close>

definition warm_sample :: sensor_data where
  "warm_sample = sensor_data_zero\<lparr>sd_temperature_c_x100 := 2150, sd_battery_percent := 80,
     sd_valid := SENSOR_VALID_TEMP_RH OR SENSOR_VALID_PRESSURE OR SENSOR_VALID_BATTERY\<rparr>"

theorem gateway_measurements_close_witness:
  "let d = mock_tag\<lparr>dev_core := (dev_core mock_tag)\<lparr>ac_last_sample := warm_sample\<rparr>,
             dev_zigbee := (dev_zigbee mock_tag)\<lparr>zb_joined := True\<rparr>\<rparr>;
       seen = gateway (zb_writes (dev_zigbee (publish_attributes mock_tag_env d))) in
   (\<exists>t. seen TEMP_MEASUREMENT_VALUE = Some (S16 t) \<and>
     (t = 2150 \<or> \<bar>2150 - sint t\<bar> < uint (cfg_report_temp_delta_c_x100 (app_config_get d)))) \<and>
   seen BATTERY_PERCENTAGE_REMAINING = Some (U8 160)"
proof -
  let ?d = "mock_tag\<lparr>dev_core := (dev_core mock_tag)\<lparr>ac_last_sample := warm_sample\<rparr>,
             dev_zigbee := (dev_zigbee mock_tag)\<lparr>zb_joined := True\<rparr>\<rparr>"
  have "view_run mock_tag_env measured mock_tag"
    by (simp add: mock_tag_def main_view_run)
  then have "view_run mock_tag_env measured ?d"
    by (rule view_run.other) (simp add: view_kept_def view_def)
  moreover have "zb_joined (dev_zigbee ?d)" "app_state_get_last_sample ?d = warm_sample" "measured warm_sample"
    by (simp_all add: app_state_get_last_sample_def measured_def warm_sample_def flag_defs bit_or_iff)
  ultimately show ?thesis
    using gateway_measurements_close [of mock_tag_env ?d] by (auto simp: Let_def warm_sample_def)
qed


end
