(* ===== verification/Hw_Validation.thy ===== *)
theory Hw_Validation
  imports Flash_Manager Sensor_Manager
begin

section \<open>Hardware validation: the harness\<close>

text \<open>
  \<open>src/validation/hw_validation.c\<close>: the report, and the tests every board has. The hardware is a
  state \<open>'h\<close> the functions of \<open>validation_hw\<close> read and change; a test takes and returns the
  results so far and that state. A test that polls is a partial function: \<open>None\<close> if it never
  stops polling. The detail texts are formatted for the log only and are left out.
\<close>

datatype result = RESULT_PASS | RESULT_FAIL | RESULT_SKIP | RESULT_MANUAL

record test_result =
  tr_name :: string
  tr_result :: result

text \<open>\<open>vs_who_am_i_accel_cs\<close> and \<open>vs_who_am_i_baro_cs\<close> are static variables of the HOLyiot tests.\<close>

record 'h validation =
  vs_results :: "test_result list"
  vs_who_am_i_accel_cs :: u8
  vs_who_am_i_baro_cs :: u8
  vs_hw :: 'h

datatype gpio_pin = LED_RED | LED_GREEN | LED_BLUE | USER_BUTTON | ADXL_INT1

datatype validation_bus = I2C_BUS | SPI_ACCEL | SPI_BARO | SPI_BMI270 | EXT_FLASH

datatype i2c_device = SHT40 | BME688 | ADXL367

text \<open>
  Zephyr's GPIO, I2C, SPI, ADC and flash functions, the kernel clock, and what the device tree and
  the configuration say. Reads give the error and the data; a SPI transfer sends bytes, discards
  some and returns some.
\<close>

record 'h validation_hw =
  vh_gpio_is_ready :: "gpio_pin \<Rightarrow> bool"
  vh_gpio_configure :: "gpio_pin \<Rightarrow> 'h \<Rightarrow> int \<times> 'h"
  vh_gpio_interrupt_configure :: "gpio_pin \<Rightarrow> bool \<Rightarrow> 'h \<Rightarrow> int \<times> 'h"
  vh_gpio_set :: "gpio_pin \<Rightarrow> bool \<Rightarrow> 'h \<Rightarrow> 'h"
  vh_gpio_get :: "gpio_pin \<Rightarrow> 'h \<Rightarrow> int \<times> 'h"
  vh_uptime :: "'h \<Rightarrow> int"
  vh_sleep :: "nat \<Rightarrow> 'h \<Rightarrow> 'h"
  vh_flash :: "'h flash_env"
  vh_erase_value :: "u8 option"
  vh_event_partition :: u8
  vh_sensor_partition :: u8
  vh_destructive :: bool
  vh_adc_is_ready :: bool
  vh_adc_channel_setup :: int
  vh_adc_sequence_init :: int
  vh_adc_read :: "'h \<Rightarrow> (int \<times> s16) \<times> 'h"
  vh_adc_raw_to_millivolts :: "s32 \<Rightarrow> int \<times> s32"
  vh_is_ready :: "validation_bus \<Rightarrow> bool"
  vh_i2c_addr :: "i2c_device \<Rightarrow> u8"
  vh_i2c_write :: "u8 \<Rightarrow> u8 list \<Rightarrow> 'h \<Rightarrow> int \<times> 'h"
  vh_i2c_read :: "u8 \<Rightarrow> nat \<Rightarrow> 'h \<Rightarrow> (int \<times> u8 list) \<times> 'h"
  vh_i2c_burst_read :: "u8 \<Rightarrow> u8 \<Rightarrow> nat \<Rightarrow> 'h \<Rightarrow> (int \<times> u8 list) \<times> 'h"
  vh_i2c_reg_write :: "u8 \<Rightarrow> u8 \<Rightarrow> u8 \<Rightarrow> 'h \<Rightarrow> int \<times> 'h"
  vh_spi_transceive :: "validation_bus \<Rightarrow> u8 list \<Rightarrow> nat \<Rightarrow> nat \<Rightarrow> 'h \<Rightarrow> (int \<times> u8 list) \<times> 'h"
  vh_spi_write :: "validation_bus \<Rightarrow> u8 list \<Rightarrow> 'h \<Rightarrow> int \<times> 'h"
  vh_read_jedec_id :: "'h \<Rightarrow> (int \<times> u8 list) \<times> 'h"

text \<open>A call of the hardware, with and without a result.\<close>

definition on_hw :: "('h \<Rightarrow> 'r \<times> 'h) \<Rightarrow> 'h validation \<Rightarrow> 'r \<times> 'h validation" where
  "on_hw f v = (case f (vs_hw v) of (r, h) \<Rightarrow> (r, v\<lparr>vs_hw := h\<rparr>))"

definition do_hw :: "('h \<Rightarrow> 'h) \<Rightarrow> 'h validation \<Rightarrow> 'h validation" where
  "do_hw f v = v\<lparr>vs_hw := f (vs_hw v)\<rparr>"

fun result_text :: "result \<Rightarrow> string" where
  "result_text RESULT_PASS = ''PASS''"
| "result_text RESULT_FAIL = ''FAIL''"
| "result_text RESULT_SKIP = ''SKIP''"
| "result_text RESULT_MANUAL = ''CHECK''"

definition MAX_TESTS :: nat where [c_const]: "MAX_TESTS = 16"

definition hw_validation_record :: "string \<Rightarrow> result \<Rightarrow> 'h validation \<Rightarrow> 'h validation" where
  "hw_validation_record name result v =
     (if length (vs_results v) \<ge> MAX_TESTS then v
      else v\<lparr>vs_results := vs_results v @ [\<lparr> tr_name = name, tr_result = result \<rparr>]\<rparr>)"

subsection \<open>LEDs\<close>

definition led_sequence :: "(bool \<times> bool \<times> bool) list" where
  "led_sequence =
     [(True, False, False), (False, True, False), (False, False, True), (True, True, False),
      (False, True, True), (True, False, True), (True, True, True)]"

definition set_leds :: "'h validation_hw \<Rightarrow> bool \<times> bool \<times> bool \<Rightarrow> 'h validation \<Rightarrow> 'h validation" where
  "set_leds hw c v = (case c of (r, g, b) \<Rightarrow>
     do_hw (vh_gpio_set hw LED_BLUE b) (do_hw (vh_gpio_set hw LED_GREEN g) (do_hw (vh_gpio_set hw LED_RED r) v)))"

definition show_colour :: "'h validation_hw \<Rightarrow> bool \<times> bool \<times> bool \<Rightarrow> 'h validation \<Rightarrow> 'h validation" where
  "show_colour hw c v = do_hw (vh_sleep hw 700) (set_leds hw c v)"

definition test_leds :: "'h validation_hw \<Rightarrow> 'h validation \<Rightarrow> 'h validation" where
  "test_leds hw v =
     (if \<not> vh_gpio_is_ready hw LED_RED \<or> \<not> vh_gpio_is_ready hw LED_GREEN \<or> \<not> vh_gpio_is_ready hw LED_BLUE
      then hw_validation_record ''RGB LED'' RESULT_FAIL v
      else
        let v = snd (on_hw (vh_gpio_configure hw LED_RED) v);
            v = snd (on_hw (vh_gpio_configure hw LED_GREEN) v);
            v = snd (on_hw (vh_gpio_configure hw LED_BLUE) v);
            v = fold (show_colour hw) led_sequence v;
            v = set_leds hw (False, False, False) v
        in hw_validation_record ''RGB LED'' RESULT_MANUAL v)"

subsection \<open>Button\<close>

definition BUTTON_WAIT_S :: int where [c_const]: "BUTTON_WAIT_S = 10"

partial_function (option) wait_release ::
  "'h validation_hw \<Rightarrow> int \<Rightarrow> 'h validation \<Rightarrow> 'h validation option" where
  "wait_release hw deadline v =
     (case on_hw (vh_gpio_get hw USER_BUTTON) v of (pressed, v) \<Rightarrow>
      if pressed = 1 \<and> vh_uptime hw (vs_hw v) < deadline
      then wait_release hw deadline (do_hw (vh_sleep hw 10) v)
      else Some v)"

definition button_released :: "'h validation_hw \<Rightarrow> 'h validation \<Rightarrow> 'h validation" where
  "button_released hw v =
     (case on_hw (vh_gpio_get hw USER_BUTTON) v of (pressed, v) \<Rightarrow>
      hw_validation_record ''Button'' (if pressed = 0 then RESULT_PASS else RESULT_FAIL) v)"

partial_function (option) wait_press ::
  "'h validation_hw \<Rightarrow> int \<Rightarrow> 'h validation \<Rightarrow> 'h validation option" where
  "wait_press hw deadline v =
     (if \<not> vh_uptime hw (vs_hw v) < deadline
      then Some (hw_validation_record ''Button'' RESULT_FAIL v)
      else case on_hw (vh_gpio_get hw USER_BUTTON) v of (pressed, v) \<Rightarrow>
      if pressed = 1 then map_option (button_released hw) (wait_release hw deadline v)
      else wait_press hw deadline (do_hw (vh_sleep hw 20) v))"

definition test_button :: "'h validation_hw \<Rightarrow> 'h validation \<Rightarrow> 'h validation option" where
  "test_button hw v =
     (if \<not> vh_gpio_is_ready hw USER_BUTTON then Some (hw_validation_record ''Button'' RESULT_FAIL v)
      else case on_hw (vh_gpio_configure hw USER_BUTTON) v of (err, v) \<Rightarrow>
      if err \<noteq> 0 then Some (hw_validation_record ''Button'' RESULT_FAIL v)
      else case on_hw (vh_gpio_get hw USER_BUTTON) v of (idle, v) \<Rightarrow>
      if idle \<noteq> 0 then Some (hw_validation_record ''Button'' RESULT_FAIL v)
      else wait_press hw (vh_uptime hw (vs_hw v) + BUTTON_WAIT_S * 1000) v)"

subsection \<open>Log storage\<close>

definition log_pattern :: "u8 list" where
  "log_pattern = [0x53, 0x6d, 0x61, 0x72, 0x74, 0x54, 0x61, 0x67]"

text \<open>The test after the partition is open and its page size known.\<close>

definition rewrite_sector :: "'h validation_hw \<Rightarrow> u32 \<Rightarrow> 'h validation \<Rightarrow> 'h validation" where
  "rewrite_sector hw page_size v =
     (case on_hw (\<lambda>h. fe_erase (vh_flash hw) h 0 page_size) v of (err, v) \<Rightarrow>
      if err \<noteq> 0 then hw_validation_record ''Log R/W'' RESULT_FAIL v
      else case fe_read (vh_flash hw) (vs_hw v) 0 8 of (err, buffer) \<Rightarrow>
      if err \<noteq> 0 then hw_validation_record ''Log R/W'' RESULT_FAIL v
      else
        let blank = (case vh_erase_value hw of None \<Rightarrow> 0xff | Some value \<Rightarrow> value) in
        if \<exists>b \<in> set buffer. b \<noteq> blank then hw_validation_record ''Log R/W'' RESULT_FAIL v
        else case on_hw (\<lambda>h. fe_write (vh_flash hw) h 0 log_pattern) v of (err, v) \<Rightarrow>
        if err \<noteq> 0 then hw_validation_record ''Log R/W'' RESULT_FAIL v
        else case fe_read (vh_flash hw) (vs_hw v) 0 8 of (err, buffer) \<Rightarrow>
        if err \<noteq> 0 then hw_validation_record ''Log R/W'' RESULT_FAIL v
        else if buffer \<noteq> log_pattern then hw_validation_record ''Log R/W'' RESULT_FAIL v
        else hw_validation_record ''Log R/W'' RESULT_PASS
               (snd (on_hw (\<lambda>h. fe_erase (vh_flash hw) h 0 page_size) v)))"

definition test_log_readwrite :: "'h validation_hw \<Rightarrow> 'h validation \<Rightarrow> 'h validation" where
  "test_log_readwrite hw v =
     (if \<not> vh_destructive hw then hw_validation_record ''Log R/W'' RESULT_SKIP v
      else case fe_open (vh_flash hw) (vh_event_partition hw) of (err, area) \<Rightarrow>
      if err \<noteq> 0 then hw_validation_record ''Log R/W'' RESULT_FAIL v
      else case fe_page_info (vh_flash hw) (fa_off area) of (err, page_size) \<Rightarrow>
      if err \<noteq> 0 then hw_validation_record ''Log R/W'' RESULT_FAIL v
      else rewrite_sector hw page_size v)"

definition test_log_map :: "'h validation_hw \<Rightarrow> 'h validation \<Rightarrow> 'h validation" where
  "test_log_map hw v =
     (if fst (fe_open (vh_flash hw) (vh_event_partition hw)) \<noteq> 0
      then hw_validation_record ''Log map'' RESULT_FAIL v
      else if fst (fe_open (vh_flash hw) (vh_sensor_partition hw)) \<noteq> 0
      then hw_validation_record ''Log map'' RESULT_FAIL v
      else hw_validation_record ''Log map'' RESULT_PASS v)"

subsection \<open>Battery\<close>

definition test_battery :: "'h validation_hw \<Rightarrow> 'h validation \<Rightarrow> 'h validation" where
  "test_battery hw v =
     (if \<not> vh_adc_is_ready hw then hw_validation_record ''Battery'' RESULT_FAIL v
      else if vh_adc_channel_setup hw \<noteq> 0 then hw_validation_record ''Battery'' RESULT_FAIL v
      else if vh_adc_sequence_init hw \<noteq> 0 then hw_validation_record ''Battery'' RESULT_FAIL v
      else case on_hw (vh_adc_read hw) v of ((err, raw), v) \<Rightarrow>
      if err \<noteq> 0 then hw_validation_record ''Battery'' RESULT_FAIL v
      else case vh_adc_raw_to_millivolts hw (scast raw) of (err, millivolts) \<Rightarrow>
      if err \<noteq> 0 then hw_validation_record ''Battery'' RESULT_FAIL v
      else if sint millivolts < 1800 \<or> sint millivolts > 3600
      then hw_validation_record ''Battery'' RESULT_FAIL v
      else hw_validation_record ''Battery'' RESULT_PASS v)"

subsection \<open>The buses\<close>

text \<open>
  The loop of both boards' \<open>test_i2c_scan\<close>: a zero-length write to every address; the addresses
  that answered.
\<close>

definition probe :: "'h validation_hw \<Rightarrow> u8 \<Rightarrow> u8 list \<times> 'h validation \<Rightarrow> u8 list \<times> 'h validation" where
  "probe hw addr st =
     (case st of (found, v) \<Rightarrow>
      case on_hw (vh_i2c_write hw addr []) v of (err, v) \<Rightarrow>
        (if err = 0 then found @ [addr] else found, v))"

definition scan_bus :: "'h validation_hw \<Rightarrow> 'h validation \<Rightarrow> u8 list \<times> 'h validation" where
  "scan_bus hw v = fold (probe hw) (map of_nat [0x08..<0x78]) ([], v)"

subsection \<open>Report\<close>

record report =
  rp_passed :: nat
  rp_failed :: nat
  rp_manual :: nat
  rp_skipped :: nat

definition count_result :: "test_result \<Rightarrow> report \<Rightarrow> report" where
  "count_result t r =
     (case tr_result t of
        RESULT_PASS \<Rightarrow> r\<lparr>rp_passed := rp_passed r + 1\<rparr>
      | RESULT_FAIL \<Rightarrow> r\<lparr>rp_failed := rp_failed r + 1\<rparr>
      | RESULT_MANUAL \<Rightarrow> r\<lparr>rp_manual := rp_manual r + 1\<rparr>
      | RESULT_SKIP \<Rightarrow> r\<lparr>rp_skipped := rp_skipped r + 1\<rparr>)"

text \<open>Steady red on any failure, steady green otherwise.\<close>

definition print_report :: "'h validation_hw \<Rightarrow> 'h validation \<Rightarrow> report \<times> 'h validation" where
  "print_report hw v =
     (let r = fold count_result (vs_results v)
                \<lparr> rp_passed = 0, rp_failed = 0, rp_manual = 0, rp_skipped = 0 \<rparr>
      in (r, if vh_gpio_is_ready hw LED_RED
             then set_leds hw (rp_failed r > 0, rp_failed r = 0, False) v else v))"

text \<open>\<open>board_tests\<close> is \<open>hw_validation_board_tests\<close> of the board in the build.\<close>

definition run_all_tests ::
  "('h validation \<Rightarrow> 'h validation option) \<Rightarrow> 'h validation_hw \<Rightarrow> 'h validation \<Rightarrow>
   (report \<times> 'h validation) option" where
  "run_all_tests board_tests hw v =
     (case board_tests (test_leds hw (v\<lparr>vs_results := []\<rparr>)) of
        None \<Rightarrow> None
      | Some v \<Rightarrow> map_option (print_report hw)
          (test_button hw (test_battery hw (test_log_readwrite hw (test_log_map hw v)))))"

text \<open>
  \<open>main\<close>: the first run, and whether the loop that follows is entered; then one round of that loop,
  in which a press and release of the button runs the tests again.
\<close>

definition validation_main ::
  "('h validation \<Rightarrow> 'h validation option) \<Rightarrow> 'h validation_hw \<Rightarrow> 'h validation \<Rightarrow>
   (bool \<times> 'h validation) option" where
  "validation_main board_tests hw v =
     map_option (\<lambda>(_, v). (vh_gpio_is_ready hw USER_BUTTON, v)) (run_all_tests board_tests hw v)"

partial_function (option) wait_rerun :: "'h validation_hw \<Rightarrow> 'h validation \<Rightarrow> 'h validation option" where
  "wait_rerun hw v =
     (case on_hw (vh_gpio_get hw USER_BUTTON) v of (pressed, v) \<Rightarrow>
      if pressed = 1 then wait_rerun hw (do_hw (vh_sleep hw 20) v) else Some v)"

definition validation_round ::
  "('h validation \<Rightarrow> 'h validation option) \<Rightarrow> 'h validation_hw \<Rightarrow> 'h validation \<Rightarrow> 'h validation option" where
  "validation_round board_tests hw v =
     (case on_hw (vh_gpio_get hw USER_BUTTON) v of (pressed, v) \<Rightarrow>
      map_option (do_hw (vh_sleep hw 50))
        (if pressed = 1 then
           Option.bind (wait_rerun hw v) (\<lambda>v. map_option snd (run_all_tests board_tests hw v))
         else Some v))"

subsection \<open>Every test records one result\<close>

abbreviation result_names :: "'h validation \<Rightarrow> string list" where
  "result_names v \<equiv> map tr_name (vs_results v)"

text \<open>
  The clock: a sleep takes at least the time asked for, and reading a pin does not set the clock
  back.
\<close>

definition clock_advances :: "'h validation_hw \<Rightarrow> bool" where
  "clock_advances hw \<longleftrightarrow>
     (\<forall>ms h. vh_uptime hw h + int ms \<le> vh_uptime hw (vh_sleep hw ms h)) \<and>
     (\<forall>pin h. vh_uptime hw h \<le> vh_uptime hw (snd (vh_gpio_get hw pin h)))"

named_theorems validation_defs

declare on_hw_def [validation_defs] do_hw_def [validation_defs] set_leds_def [validation_defs]
  case_prod_unfold [validation_defs] Let_def [validation_defs]

lemma record_names [simp]:
  "length (vs_results v) < MAX_TESTS \<Longrightarrow> result_names (hw_validation_record n r v) = result_names v @ [n]"
  by (simp add: hw_validation_record_def)

text \<open>The name a test adds, after those of the tests before it.\<close>

lemma next_name:
  assumes "\<And>v. length (vs_results v) < MAX_TESTS \<Longrightarrow> result_names (test v) = result_names v @ [n]"
    and "result_names v = ns" and "length ns < 16"
  shows "result_names (test v) = ns @ [n]"
proof -
  have "length (vs_results v) < MAX_TESTS"
    using assms(2,3) length_map [of tr_name "vs_results v"] by (simp add: MAX_TESTS_def)
  then show ?thesis using assms(1,2) by simp
qed

lemma next_name_option:
  assumes "\<And>v. length (vs_results v) < MAX_TESTS \<Longrightarrow>
      \<exists>v'. test v = Some v' \<and> result_names v' = result_names v @ [n]"
    and "result_names v = ns" and "length ns < 16"
  obtains v' where "test v = Some v'" and "result_names v' = ns @ [n]"
proof -
  have "length (vs_results v) < MAX_TESTS"
    using assms(2,3) length_map [of tr_name "vs_results v"] by (simp add: MAX_TESTS_def)
  then show ?thesis using assms(1) [of v] assms(2) that by auto
qed

lemma show_colours_results [simp]: "vs_results (fold (show_colour hw) cs v) = vs_results v"
  by (induction cs arbitrary: v) (auto simp: show_colour_def validation_defs)

lemma test_leds_names:
  "length (vs_results v) < MAX_TESTS \<Longrightarrow> result_names (test_leds hw v) = result_names v @ [''RGB LED'']"
  by (simp add: test_leds_def validation_defs del: list.map)

lemma test_log_map_names:
  "length (vs_results v) < MAX_TESTS \<Longrightarrow> result_names (test_log_map hw v) = result_names v @ [''Log map'']"
  by (simp add: test_log_map_def)

lemma test_log_readwrite_names:
  "length (vs_results v) < MAX_TESTS \<Longrightarrow>
   result_names (test_log_readwrite hw v) = result_names v @ [''Log R/W'']"
  by (simp add: test_log_readwrite_def rewrite_sector_def validation_defs)

lemma test_battery_names:
  "length (vs_results v) < MAX_TESTS \<Longrightarrow> result_names (test_battery hw v) = result_names v @ [''Battery'']"
  by (simp add: test_battery_def validation_defs)

lemma probes_results [simp]: "vs_results (snd (fold (probe hw) as st)) = vs_results (snd st)"
  by (induction as arbitrary: st) (auto simp: probe_def validation_defs split: prod.splits)

lemma scan_bus_results [simp]: "scan_bus hw v = (found, v') \<Longrightarrow> vs_results v' = vs_results v"
  unfolding scan_bus_def by (metis probes_results snd_conv)

subsection \<open>The polling loops stop at their deadlines\<close>

lemma poll_progress:
  assumes clock: "clock_advances hw" and get: "vh_gpio_get hw pin h = (level, h')"
    and "vh_uptime hw h < deadline" and "0 < ms"
  shows "nat (deadline - vh_uptime hw (vh_sleep hw ms h')) < nat (deadline - vh_uptime hw h)"
proof -
  have "vh_uptime hw h \<le> vh_uptime hw h'"
    using clock get unfolding clock_advances_def by (metis snd_conv)
  moreover have "vh_uptime hw h' + int ms \<le> vh_uptime hw (vh_sleep hw ms h')"
    using clock unfolding clock_advances_def by blast
  ultimately show ?thesis using assms(3,4) by linarith
qed

lemma poll_before:
  assumes "clock_advances hw" and "vh_gpio_get hw pin h = (level, h')" and "vh_uptime hw h' < deadline"
  shows "vh_uptime hw h < deadline"
  using assms unfolding clock_advances_def by (metis snd_conv order.strict_trans1)

lemma wait_release_ends:
  assumes "clock_advances hw"
  shows "\<exists>v'. wait_release hw deadline v = Some v' \<and> vs_results v' = vs_results v"
proof (induction "nat (deadline - vh_uptime hw (vs_hw v))" arbitrary: v rule: less_induct)
  case less
  obtain pressed h where get: "vh_gpio_get hw USER_BUTTON (vs_hw v) = (pressed, h)" by fastforce
  show ?case
  proof (cases "pressed = 1 \<and> vh_uptime hw h < deadline")
    case True
    then have "nat (deadline - vh_uptime hw (vh_sleep hw 10 h)) < nat (deadline - vh_uptime hw (vs_hw v))"
      by (intro poll_progress [OF assms get]) (auto intro: poll_before [OF assms get])
    then have "nat (deadline - vh_uptime hw (vs_hw (do_hw (vh_sleep hw 10) (v\<lparr>vs_hw := h\<rparr>)))) <
      nat (deadline - vh_uptime hw (vs_hw v))" by (simp add: do_hw_def)
    from less.hyps [OF this] show ?thesis
      using True get by (subst wait_release.simps) (simp add: on_hw_def do_hw_def)
  next
    case False
    then show ?thesis using get by (subst wait_release.simps) (auto simp: on_hw_def)
  qed
qed

lemma wait_press_ends:
  assumes "clock_advances hw" and "length (vs_results v) < MAX_TESTS"
  shows "\<exists>v'. wait_press hw deadline v = Some v' \<and> result_names v' = result_names v @ [''Button'']"
  using assms(2)
proof (induction "nat (deadline - vh_uptime hw (vs_hw v))" arbitrary: v rule: less_induct)
  case less
  obtain pressed h where get: "vh_gpio_get hw USER_BUTTON (vs_hw v) = (pressed, h)" by fastforce
  consider (late) "\<not> vh_uptime hw (vs_hw v) < deadline"
    | (pressed) "vh_uptime hw (vs_hw v) < deadline" "pressed = 1"
    | (again) "vh_uptime hw (vs_hw v) < deadline" "pressed \<noteq> 1" by blast
  then show ?case
  proof cases
    case late
    then show ?thesis
      using less.prems by (subst wait_press.simps) (simp add: validation_defs)
  next
    case pressed
    obtain w where w: "wait_release hw deadline (v\<lparr>vs_hw := h\<rparr>) = Some w" "vs_results w = vs_results v"
      using wait_release_ends [OF assms(1), of deadline "v\<lparr>vs_hw := h\<rparr>"] by auto
    show ?thesis
      using pressed get w less.prems
      by (subst wait_press.simps) (auto simp: button_released_def validation_defs split: prod.splits)
  next
    case again
    have "nat (deadline - vh_uptime hw (vs_hw (do_hw (vh_sleep hw 20) (v\<lparr>vs_hw := h\<rparr>)))) <
      nat (deadline - vh_uptime hw (vs_hw v))"
      using poll_progress [OF assms(1) get again(1), of 20] by (simp add: do_hw_def)
    from less.hyps [OF this] show ?thesis
      using again get less.prems by (subst wait_press.simps) (simp add: on_hw_def do_hw_def)
  qed
qed

lemma test_button_ends:
  assumes "clock_advances hw" and "length (vs_results v) < MAX_TESTS"
  shows "\<exists>v'. test_button hw v = Some v' \<and> result_names v' = result_names v @ [''Button'']"
proof -
  obtain err h1 where c: "vh_gpio_configure hw USER_BUTTON (vs_hw v) = (err, h1)" by fastforce
  obtain idle h2 where g: "vh_gpio_get hw USER_BUTTON h1 = (idle, h2)" by fastforce
  have "length (vs_results (v\<lparr>vs_hw := h2\<rparr>)) < MAX_TESTS" using assms(2) by simp
  from wait_press_ends [OF assms(1) this, of "vh_uptime hw h2 + BUTTON_WAIT_S * 1000"]
  show ?thesis
    using assms(2) c g by (auto simp: test_button_def validation_defs)
qed

subsection \<open>The report counts them\<close>

definition count_of :: "result \<Rightarrow> test_result list \<Rightarrow> nat" where
  "count_of r ts = length (filter (\<lambda>t. tr_result t = r) ts)"

lemma fold_count_result:
  "fold count_result ts rp =
     \<lparr> rp_passed = rp_passed rp + count_of RESULT_PASS ts,
       rp_failed = rp_failed rp + count_of RESULT_FAIL ts,
       rp_manual = rp_manual rp + count_of RESULT_MANUAL ts,
       rp_skipped = rp_skipped rp + count_of RESULT_SKIP ts \<rparr>"
  by (induction ts arbitrary: rp) (auto simp: count_result_def count_of_def split: result.splits)

text \<open>The report a list of results deserves.\<close>

definition report_of :: "test_result list \<Rightarrow> report" where
  "report_of ts =
     \<lparr> rp_passed = count_of RESULT_PASS ts, rp_failed = count_of RESULT_FAIL ts,
       rp_manual = count_of RESULT_MANUAL ts, rp_skipped = count_of RESULT_SKIP ts \<rparr>"

lemma print_report_counts:
  "fst (print_report hw v) = report_of (vs_results v)"
  "vs_results (snd (print_report hw v)) = vs_results v"
  by (auto simp: print_report_def fold_count_result report_of_def Let_def validation_defs
      split: prod.splits)

lemma no_failure_iff: "rp_failed (report_of ts) = 0 \<longleftrightarrow> (\<forall>t \<in> set ts. tr_result t \<noteq> RESULT_FAIL)"
  by (auto simp: report_of_def count_of_def filter_empty_conv)

text \<open>A run with board tests that add their names after the LED test.\<close>

lemma run_all_tests_ends:
  assumes clock: "clock_advances hw"
    and board: "\<And>v. result_names v = [''RGB LED''] \<Longrightarrow>
      \<exists>v'. board_tests v = Some v' \<and> result_names v' = result_names v @ names"
    and room: "length names \<le> 11"
  shows "\<exists>v'. run_all_tests board_tests hw v = Some (report_of (vs_results v'), v') \<and>
    result_names v' = [''RGB LED''] @ names @ [''Log map'', ''Log R/W'', ''Battery'', ''Button'']"
proof -
  define v1 where "v1 = test_leds hw (v\<lparr>vs_results := []\<rparr>)"
  have "result_names v1 = [''RGB LED'']"
    unfolding v1_def by (rule next_name [of "test_leds hw" _ _ "[]", simplified]) (auto simp: test_leds_names)
  then obtain v2 where v2: "board_tests v1 = Some v2" "result_names v2 = [''RGB LED''] @ names"
    using board by metis
  define v5 where "v5 = test_battery hw (test_log_readwrite hw (test_log_map hw v2))"
  note n = next_name [OF test_log_map_names v2(2)]
  note n = next_name [OF test_log_readwrite_names n]
  note n = next_name [OF test_battery_names n]
  have v5: "result_names v5 = [''RGB LED''] @ names @ [''Log map'', ''Log R/W'', ''Battery'']"
    using n room by (simp add: v5_def)
  obtain v6 where v6: "test_button hw v5 = Some v6"
    "result_names v6 = [''RGB LED''] @ names @ [''Log map'', ''Log R/W'', ''Battery'', ''Button'']"
    using next_name_option [OF test_button_ends [OF clock] v5] room by auto
  define w where "w = snd (print_report hw v6)"
  have w: "vs_results w = vs_results v6" unfolding w_def by (rule print_report_counts)
  have p: "print_report hw v6 = (report_of (vs_results w), w)"
    unfolding w unfolding w_def by (metis print_report_counts(1) prod.collapse)
  have "run_all_tests board_tests hw v = Some (report_of (vs_results w), w)"
    unfolding run_all_tests_def v1_def [symmetric] v2(1) option.case v5_def [symmetric] v6(1) option.map p ..
  then show ?thesis using v6(2) unfolding w [symmetric] by blast
qed

end
