(* ===== verification/Hw_Validation_Holyiot.thy ===== *)
theory Hw_Validation_Holyiot
  imports Hw_Validation
begin

section \<open>Hardware validation: HOLyiot 25025\<close>

text \<open>\<open>src/validation/hw_validation_holyiot.c\<close>: the bus and sensor tests of this board.\<close>

subsection \<open>Register access\<close>

definition st_read_regs ::
  "'h validation_hw \<Rightarrow> validation_bus \<Rightarrow> u8 \<Rightarrow> nat \<Rightarrow> bool \<Rightarrow> 'h validation \<Rightarrow> (int \<times> u8 list) \<times> 'h validation" where
  "st_read_regs hw spec reg count needs_ms_bit v =
     (let cmd = reg OR 0x80;
          cmd = (if needs_ms_bit \<and> count > 1 then cmd OR 0x40 else cmd)
      in on_hw (vh_spi_transceive hw spec [cmd] 1 count) v)"

definition st_write_reg ::
  "'h validation_hw \<Rightarrow> validation_bus \<Rightarrow> u8 \<Rightarrow> u8 \<Rightarrow> 'h validation \<Rightarrow> int \<times> 'h validation" where
  "st_write_reg hw spec reg val v = on_hw (vh_spi_write hw spec [reg AND 0x7f, val]) v"

definition identify_st_part :: "u8 \<Rightarrow> string" where
  "identify_st_part who_am_i =
     (if who_am_i = 0x33 then ''LIS2DH12 accelerometer''
      else if who_am_i = 0xb1 then ''LPS22HB pressure sensor''
      else if who_am_i = 0xb3 then ''LPS22HH pressure sensor''
      else if who_am_i = 0xb4 then ''LPS22DF pressure sensor''
      else ''unknown'')"

subsection \<open>I2C bus and SHT40\<close>

text \<open>CRC-8 with polynomial 0x31, most significant bit first.\<close>

definition sensirion_crc_bit :: "u8 \<Rightarrow> u8" where
  "sensirion_crc_bit crc =
     (if crc AND 0x80 \<noteq> 0 then push_bit 1 crc XOR 0x31 else push_bit 1 crc)"

definition sensirion_crc :: "u8 list \<Rightarrow> u8" where
  "sensirion_crc bs = fold (\<lambda>b crc. (sensirion_crc_bit ^^ 8) (crc XOR b)) bs 0xff"

definition holyiot_test_i2c_scan :: "'h validation_hw \<Rightarrow> 'h validation \<Rightarrow> 'h validation" where
  "holyiot_test_i2c_scan hw v =
     (if \<not> vh_is_ready hw I2C_BUS then hw_validation_record ''I2C bus'' RESULT_FAIL v
      else case scan_bus hw v of (found, v) \<Rightarrow>
      if length found = 0 then hw_validation_record ''I2C bus'' RESULT_FAIL v
      else hw_validation_record ''I2C bus'' RESULT_PASS v)"

text \<open>The two words of a measurement, each with its checksum, as hundredths.\<close>

definition sht40_words_ok :: "u8 list \<Rightarrow> bool" where
  "sht40_words_ok rx \<longleftrightarrow> sensirion_crc [rx ! 0, rx ! 1] = rx ! 2 \<and> sensirion_crc [rx ! 3, rx ! 4] = rx ! 5"

definition sht40_temperature :: "u8 list \<Rightarrow> int" where
  "sht40_temperature rx = - 4500 + 17500 * uint (join16 (rx ! 1) (rx ! 0)) div 65535"

definition sht40_humidity :: "u8 list \<Rightarrow> int" where
  "sht40_humidity rx = - 600 + 12500 * uint (join16 (rx ! 4) (rx ! 3)) div 65535"

text \<open>The serial number is only logged, but its command and read reach the bus.\<close>

definition sht40_serial :: "'h validation_hw \<Rightarrow> 'h validation \<Rightarrow> 'h validation" where
  "sht40_serial hw v =
     (case on_hw (vh_i2c_write hw (vh_i2c_addr hw SHT40) [0x89]) v of (err, v) \<Rightarrow>
      if err = 0
      then snd (on_hw (vh_i2c_read hw (vh_i2c_addr hw SHT40) 6) (do_hw (vh_sleep hw 10) v))
      else v)"

definition sht40_measure :: "'h validation_hw \<Rightarrow> 'h validation \<Rightarrow> 'h validation" where
  "sht40_measure hw v =
     (case on_hw (vh_i2c_write hw (vh_i2c_addr hw SHT40) [0xfd]) v of (err, v) \<Rightarrow>
      if err \<noteq> 0 then hw_validation_record ''SHT40'' RESULT_FAIL v
      else case on_hw (vh_i2c_read hw (vh_i2c_addr hw SHT40) 6) (do_hw (vh_sleep hw 10) v) of
        ((err, rx), v) \<Rightarrow>
      if err \<noteq> 0 then hw_validation_record ''SHT40'' RESULT_FAIL v
      else if \<not> sht40_words_ok rx then hw_validation_record ''SHT40'' RESULT_FAIL v
      else if sht40_temperature rx < - 1000 \<or> sht40_temperature rx > 6000
      then hw_validation_record ''SHT40'' RESULT_FAIL v
      else if sht40_humidity rx < 0 \<or> sht40_humidity rx > 10000
      then hw_validation_record ''SHT40'' RESULT_FAIL v
      else hw_validation_record ''SHT40'' RESULT_PASS v)"

definition test_sht40 :: "'h validation_hw \<Rightarrow> 'h validation \<Rightarrow> 'h validation" where
  "test_sht40 hw v =
     (if \<not> vh_is_ready hw I2C_BUS then hw_validation_record ''SHT40'' RESULT_SKIP v
      else case on_hw (vh_i2c_write hw (vh_i2c_addr hw SHT40) [0x94]) v of (err, v) \<Rightarrow>
      if err \<noteq> 0 then hw_validation_record ''SHT40'' RESULT_FAIL v
      else sht40_measure hw (sht40_serial hw (do_hw (vh_sleep hw 2) v)))"

subsection \<open>What is on each chip select\<close>

definition is_lps22 :: "u8 \<Rightarrow> bool" where
  "is_lps22 who_am_i \<longleftrightarrow> who_am_i = 0xb1 \<or> who_am_i = 0xb3 \<or> who_am_i = 0xb4"

text \<open>The transfer stores the byte it received, if any, in the static variable.\<close>

definition received :: "u8 list \<Rightarrow> u8 \<Rightarrow> u8" where
  "received bs old = (case bs of [] \<Rightarrow> old | b # _ \<Rightarrow> b)"

definition test_spi_identity :: "'h validation_hw \<Rightarrow> 'h validation \<Rightarrow> 'h validation" where
  "test_spi_identity hw v =
     (if \<not> vh_is_ready hw SPI_ACCEL \<or> \<not> vh_is_ready hw SPI_BARO
      then hw_validation_record ''SPI sensors'' RESULT_FAIL v
      else case st_read_regs hw SPI_ACCEL 0x0f 1 False v of ((err, bs), v) \<Rightarrow>
      let v = v\<lparr>vs_who_am_i_accel_cs := received bs (vs_who_am_i_accel_cs v)\<rparr> in
      if err \<noteq> 0 then hw_validation_record ''SPI sensors'' RESULT_FAIL v
      else case st_read_regs hw SPI_BARO 0x0f 1 False v of ((err, bs), v) \<Rightarrow>
      let v = v\<lparr>vs_who_am_i_baro_cs := received bs (vs_who_am_i_baro_cs v)\<rparr> in
      if err \<noteq> 0 then hw_validation_record ''SPI sensors'' RESULT_FAIL v
      else if vs_who_am_i_accel_cs v = 0x33 \<and> is_lps22 (vs_who_am_i_baro_cs v)
      then hw_validation_record ''SPI sensors'' RESULT_PASS v
      else if vs_who_am_i_baro_cs v = 0x33 \<and> is_lps22 (vs_who_am_i_accel_cs v)
      then hw_validation_record ''SPI sensors'' RESULT_FAIL v
      else hw_validation_record ''SPI sensors'' RESULT_FAIL v)"

subsection \<open>LIS2DH12\<close>

definition accel_spec :: "'h validation \<Rightarrow> validation_bus option" where
  "accel_spec v =
     (if vs_who_am_i_accel_cs v = 0x33 then Some SPI_ACCEL
      else if vs_who_am_i_baro_cs v = 0x33 then Some SPI_BARO
      else None)"

definition lis2dh12_axis :: "u8 list \<Rightarrow> nat \<Rightarrow> s16" where
  "lis2dh12_axis raw i = signed_drop_bit 4 (join16 (raw ! (i * 2)) (raw ! (i * 2 + 1)))"

definition lis2dh12_magnitude_sq :: "u8 list \<Rightarrow> int" where
  "lis2dh12_magnitude_sq raw =
     sint (lis2dh12_axis raw 0) * sint (lis2dh12_axis raw 0) +
     sint (lis2dh12_axis raw 1) * sint (lis2dh12_axis raw 1) +
     sint (lis2dh12_axis raw 2) * sint (lis2dh12_axis raw 2)"

text \<open>The loop that counts up to the square root.\<close>

partial_function (option) magnitude_loop :: "u32 \<Rightarrow> u32 \<Rightarrow> u32 option" where
  "magnitude_loop sq magnitude =
     (if (magnitude + 1) * (magnitude + 1) \<le> sq then magnitude_loop sq (magnitude + 1)
      else Some magnitude)"

definition lis2dh12_verdict :: "u32 \<Rightarrow> result" where
  "lis2dh12_verdict magnitude =
     (if magnitude < 700 \<or> magnitude > 1300 then RESULT_FAIL else RESULT_PASS)"

definition test_lis2dh12 :: "'h validation_hw \<Rightarrow> 'h validation \<Rightarrow> 'h validation option" where
  "test_lis2dh12 hw v =
     (case accel_spec v of
        None \<Rightarrow> Some (hw_validation_record ''LIS2DH12'' RESULT_SKIP v)
      | Some spec \<Rightarrow>
          (case st_write_reg hw spec 0x20 0x57 v of (err, v) \<Rightarrow>
           if err \<noteq> 0 then Some (hw_validation_record ''LIS2DH12'' RESULT_FAIL v)
           else case st_write_reg hw spec 0x23 0x88 v of (err, v) \<Rightarrow>
           if err \<noteq> 0 then Some (hw_validation_record ''LIS2DH12'' RESULT_FAIL v)
           else case st_read_regs hw spec 0x28 6 True (do_hw (vh_sleep hw 100) v) of ((err, raw), v) \<Rightarrow>
           if err \<noteq> 0 then Some (hw_validation_record ''LIS2DH12'' RESULT_FAIL v)
           else map_option (\<lambda>magnitude. hw_validation_record ''LIS2DH12'' (lis2dh12_verdict magnitude) v)
                  (magnitude_loop (word_of_int (lis2dh12_magnitude_sq raw)) 0)))"

subsection \<open>LPS22\<close>

definition baro_spec :: "'h validation \<Rightarrow> validation_bus option" where
  "baro_spec v =
     (if is_lps22 (vs_who_am_i_baro_cs v) then Some SPI_BARO
      else if is_lps22 (vs_who_am_i_accel_cs v) then Some SPI_ACCEL
      else None)"

definition lps22_pressure_pa :: "u8 list \<Rightarrow> u32" where
  "lps22_pressure_pa raw =
     (let counts = push_bit 16 (ucast (raw ! 2)) OR push_bit 8 (ucast (raw ! 1)) OR ucast (raw ! 0)
      in (counts * 100) div 4096)"

definition test_lps22 :: "'h validation_hw \<Rightarrow> 'h validation \<Rightarrow> 'h validation" where
  "test_lps22 hw v =
     (case baro_spec v of
        None \<Rightarrow> hw_validation_record ''LPS22'' RESULT_SKIP v
      | Some spec \<Rightarrow>
          (case st_write_reg hw spec 0x10 0x22 v of (err, v) \<Rightarrow>
           if err \<noteq> 0 then hw_validation_record ''LPS22'' RESULT_FAIL v
           else case st_read_regs hw spec 0x28 3 False (do_hw (vh_sleep hw 200) v) of ((err, raw), v) \<Rightarrow>
           if err \<noteq> 0 then hw_validation_record ''LPS22'' RESULT_FAIL v
           else if lps22_pressure_pa raw < 80000 \<or> lps22_pressure_pa raw > 110000
           then hw_validation_record ''LPS22'' RESULT_FAIL v
           else hw_validation_record ''LPS22'' RESULT_PASS v))"

subsection \<open>External flash\<close>

definition test_flash_id :: "'h validation_hw \<Rightarrow> 'h validation \<Rightarrow> 'h validation" where
  "test_flash_id hw v =
     (if \<not> vh_is_ready hw EXT_FLASH then hw_validation_record ''SPI NOR ID'' RESULT_FAIL v
      else case on_hw (vh_read_jedec_id hw) v of ((err, jedec), v) \<Rightarrow>
      if err \<noteq> 0 then hw_validation_record ''SPI NOR ID'' RESULT_FAIL v
      else if jedec ! 0 = 0x00 \<or> jedec ! 0 = 0xff then hw_validation_record ''SPI NOR ID'' RESULT_FAIL v
      else if jedec ! 0 = 0x68 \<and> jedec ! 1 = 0x10 \<and> jedec ! 2 = 0x15
      then hw_validation_record ''SPI NOR ID'' RESULT_PASS v
      else hw_validation_record ''SPI NOR ID'' RESULT_FAIL v)"

definition holyiot_board_tests :: "'h validation_hw \<Rightarrow> 'h validation \<Rightarrow> 'h validation option" where
  "holyiot_board_tests hw v =
     (let v = v\<lparr>vs_who_am_i_accel_cs := 0, vs_who_am_i_baro_cs := 0\<rparr>;
          v = test_spi_identity hw (test_sht40 hw (holyiot_test_i2c_scan hw v))
      in map_option (\<lambda>v. test_flash_id hw (test_lps22 hw v)) (test_lis2dh12 hw v))"

subsection \<open>The checksum\<close>

text \<open>One step of the checksum, and so the checksum of any number of bytes, is linear.\<close>

lemma and_0x80_iff: "(x :: u8) AND 0x80 \<noteq> 0 \<longleftrightarrow> bit x 7"
  by (simp add: and_exp_eq_0_iff_not_bit [where n = 7, simplified])

lemma sensirion_crc_bit_xor:
  "sensirion_crc_bit (x XOR y) = sensirion_crc_bit x XOR sensirion_crc_bit y"
  unfolding sensirion_crc_bit_def and_0x80_iff
  by (auto simp: bit_xor_iff push_bit_xor ac_simps)

lemma sensirion_crc_bits_xor:
  "(sensirion_crc_bit ^^ n) (x XOR y) = (sensirion_crc_bit ^^ n) x XOR (sensirion_crc_bit ^^ n) y"
  by (induction n) (simp_all add: sensirion_crc_bit_xor)

lemma sensirion_crc_word:
  "sensirion_crc [a, b] =
     (sensirion_crc_bit ^^ 16) a XOR (sensirion_crc_bit ^^ 8) b XOR (sensirion_crc_bit ^^ 16) 0xff"
proof -
  have "(sensirion_crc_bit ^^ 16) x = (sensirion_crc_bit ^^ 8) ((sensirion_crc_bit ^^ 8) x)" for x
    using funpow_add [of 8 8 sensirion_crc_bit] by (simp add: o_def)
  then show ?thesis
    by (simp add: sensirion_crc_def sensirion_crc_bits_xor ac_simps xor.left_commute del: funpow.simps)
qed

text \<open>The polynomial has a constant term, so the step loses nothing.\<close>

lemma sensirion_crc_bit_eq_0: "sensirion_crc_bit x = 0 \<longleftrightarrow> x = 0"
proof
  assume z: "sensirion_crc_bit x = 0"
  have "\<not> bit x 7"
  proof
    assume "bit x 7"
    then have "bit (sensirion_crc_bit x) 0"
      unfolding sensirion_crc_bit_def and_0x80_iff
      by (simp only: if_True bit_xor_iff bit_push_bit_iff) (simp add: bit_0)
    then show False using z by simp
  qed
  then have shifted: "push_bit 1 x = 0"
    using z unfolding sensirion_crc_bit_def and_0x80_iff by simp
  have "\<not> bit x k" for k
  proof
    assume k: "bit x k"
    then have "k < 8" using bit_imp_le_length [of x k] by simp
    moreover have "k \<noteq> 7" using k \<open>\<not> bit x 7\<close> by auto
    ultimately have "bit (push_bit 1 x) (Suc k)"
      using k by (simp only: bit_push_bit_iff) simp
    then show False using shifted by (simp only: bit_0_eq) simp
  qed
  then show "x = 0" by (simp add: bit_eq_iff)
qed (simp add: sensirion_crc_bit_def)

lemma inj_sensirion_crc_bits: "inj (sensirion_crc_bit ^^ n)"
proof (rule inj_fn, rule injI)
  fix x y assume "sensirion_crc_bit x = sensirion_crc_bit y"
  then have "sensirion_crc_bit (x XOR y) = 0" by (simp add: sensirion_crc_bit_xor)
  then have "x XOR y = 0" by (simp add: sensirion_crc_bit_eq_0)
  then show "x = y" by (metis xor.assoc xor.right_neutral xor_self_eq)
qed

lemma xor_cancel:
  "(a :: u8) XOR c = b XOR c \<longleftrightarrow> a = b"
  "(c :: u8) XOR a = c XOR b \<longleftrightarrow> a = b"
  by (metis xor.assoc xor.right_neutral xor_self_eq) (metis xor.assoc xor.left_neutral xor_self_eq)

lemma sensirion_crc_word_eq_iff:
  "sensirion_crc [a, b] = sensirion_crc [a', b] \<longleftrightarrow> a = a'"
  "sensirion_crc [a, b] = sensirion_crc [a, b'] \<longleftrightarrow> b = b'"
  by (auto simp: sensirion_crc_word xor_cancel inj_eq [OF inj_sensirion_crc_bits])

lemma sht40_words_ok_corrupted:
  assumes "sht40_words_ok rx" and "length rx = 6" and "i < 6" and "b \<noteq> rx ! i"
  shows "\<not> sht40_words_ok (rx[i := b])"
proof -
  have "i \<in> {0, 1, 2, 3, 4, 5}" using assms(3) by auto
  then show ?thesis
    using assms(1,2,4) sensirion_crc_word_eq_iff [of "rx ! 0" "rx ! 1"]
      sensirion_crc_word_eq_iff [of "rx ! 3" "rx ! 4"]
    by (auto simp: sht40_words_ok_def) metis+
qed

subsection \<open>The magnitude loop\<close>

lemma lis2dh12_axis_bounds: "- 2048 \<le> sint (lis2dh12_axis raw i) \<and> sint (lis2dh12_axis raw i) \<le> 2047"
  using sint_ge [of "join16 (raw ! (i * 2)) (raw ! (i * 2 + 1)) :: s16"]
    sint_lt [of "join16 (raw ! (i * 2)) (raw ! (i * 2 + 1)) :: s16"]
  by (simp add: lis2dh12_axis_def sint_signed_drop_bit_eq drop_bit_eq_div) linarith

lemma square_bound: "- 2048 \<le> (x :: int) \<Longrightarrow> x \<le> 2047 \<Longrightarrow> 0 \<le> x * x \<and> x * x \<le> 4194304"
  using mult_mono [of "\<bar>x\<bar>" 2048 "\<bar>x\<bar>" 2048] by simp

lemma lis2dh12_magnitude_sq_bounds:
  "0 \<le> lis2dh12_magnitude_sq raw \<and> lis2dh12_magnitude_sq raw \<le> 12582912"
  using square_bound [of "sint (lis2dh12_axis raw 0)"] square_bound [of "sint (lis2dh12_axis raw 1)"]
    square_bound [of "sint (lis2dh12_axis raw 2)"]
    lis2dh12_axis_bounds [of raw 0] lis2dh12_axis_bounds [of raw 1] lis2dh12_axis_bounds [of raw 2]
  by (simp add: lis2dh12_magnitude_sq_def)

lemma magnitude_loop_ends:
  assumes "unat sq < 2 ^ 28" and "unat m * unat m \<le> unat sq"
  shows "\<exists>r. magnitude_loop sq m = Some r \<and>
    unat r * unat r \<le> unat sq \<and> unat sq < (unat r + 1) * (unat r + 1)"
  using assms(2)
proof (induction "2 ^ 14 - unat m" arbitrary: m rule: less_induct)
  case less
  have m: "unat m < 2 ^ 14"
  proof (rule ccontr)
    assume "\<not> unat m < 2 ^ 14"
    then have "2 ^ 14 * 2 ^ 14 \<le> unat m * unat m" by (intro mult_mono) auto
    then show False using less.prems assms(1) by simp
  qed
  then have s: "unat (m + 1) = unat m + 1" by (simp add: unat_word_ariths)
  have "(unat m + 1) * (unat m + 1) \<le> 2 ^ 14 * 2 ^ 14" using m by (intro mult_mono) auto
  then have sqr: "unat ((m + 1) * (m + 1)) = (unat m + 1) * (unat m + 1)"
    unfolding unat_word_ariths(2) s by simp
  show ?case
  proof (cases "(m + 1) * (m + 1) \<le> sq")
    case True
    then have le: "unat (m + 1) * unat (m + 1) \<le> unat sq" using sqr s by (simp add: word_le_nat_alt)
    from True show ?thesis
      using less.hyps [OF _ le] s m by (subst magnitude_loop.simps) simp
  next
    case False
    then have "unat sq < (unat m + 1) * (unat m + 1)" using sqr by (simp add: word_le_nat_alt)
    then show ?thesis
      using False less.prems by (subst magnitude_loop.simps) simp
  qed
qed

lemma test_lis2dh12_magnitude:
  "\<exists>r. magnitude_loop (word_of_int (lis2dh12_magnitude_sq raw)) 0 = Some r \<and>
     int (unat r) ^ 2 \<le> lis2dh12_magnitude_sq raw \<and> lis2dh12_magnitude_sq raw < (int (unat r) + 1) ^ 2"
proof -
  note b = lis2dh12_magnitude_sq_bounds [of raw]
  have u: "int (unat (word_of_int (lis2dh12_magnitude_sq raw) :: u32)) = lis2dh12_magnitude_sq raw"
    using b by (simp add: uint_word_of_int)
  then have "unat (word_of_int (lis2dh12_magnitude_sq raw) :: u32) < 2 ^ 28"
    by (intro of_nat_less_imp_less [where 'a = int]) (simp only: u, use b in simp)
  from magnitude_loop_ends [OF this, of 0] obtain r where r:
    "magnitude_loop (word_of_int (lis2dh12_magnitude_sq raw)) 0 = Some r"
    "unat r * unat r \<le> unat (word_of_int (lis2dh12_magnitude_sq raw) :: u32)"
    "unat (word_of_int (lis2dh12_magnitude_sq raw) :: u32) < (unat r + 1) * (unat r + 1)" by auto
  then have "int (unat r * unat r) \<le> lis2dh12_magnitude_sq raw"
    "lis2dh12_magnitude_sq raw < int ((unat r + 1) * (unat r + 1))"
    using u by linarith+
  with r(1) show ?thesis by (intro exI [of _ r]) (simp add: power2_eq_square algebra_simps)
qed

subsection \<open>Every test records one result\<close>

lemma st_regs_results [simp]:
  "vs_results (snd (st_read_regs hw spec reg n ms v)) = vs_results v"
  "vs_results (snd (st_write_reg hw spec reg val v)) = vs_results v"
  by (simp_all add: st_read_regs_def st_write_reg_def validation_defs)

lemma holyiot_scan_names:
  "length (vs_results v) < MAX_TESTS \<Longrightarrow>
   result_names (holyiot_test_i2c_scan hw v) = result_names v @ [''I2C bus'']"
  by (auto simp: holyiot_test_i2c_scan_def split: prod.splits)

lemma sht40_serial_results [simp]: "vs_results (sht40_serial hw v) = vs_results v"
  by (simp add: sht40_serial_def validation_defs)

lemma sht40_measure_names:
  "length (vs_results v) < MAX_TESTS \<Longrightarrow> result_names (sht40_measure hw v) = result_names v @ [''SHT40'']"
  by (simp add: sht40_measure_def validation_defs)

lemma test_sht40_names:
  "length (vs_results v) < MAX_TESTS \<Longrightarrow> result_names (test_sht40 hw v) = result_names v @ [''SHT40'']"
  by (simp add: test_sht40_def validation_defs sht40_measure_names)

lemma test_spi_identity_names:
  "length (vs_results v) < MAX_TESTS \<Longrightarrow>
   result_names (test_spi_identity hw v) = result_names v @ [''SPI sensors'']"
  by (simp add: test_spi_identity_def case_prod_unfold Let_def)

lemma test_lps22_names:
  "length (vs_results v) < MAX_TESTS \<Longrightarrow> result_names (test_lps22 hw v) = result_names v @ [''LPS22'']"
  by (simp add: test_lps22_def do_hw_def case_prod_unfold split: option.splits)

lemma test_flash_id_names:
  "length (vs_results v) < MAX_TESTS \<Longrightarrow>
   result_names (test_flash_id hw v) = result_names v @ [''SPI NOR ID'']"
  by (simp add: test_flash_id_def validation_defs)

lemma test_lis2dh12_ends:
  assumes "length (vs_results v) < MAX_TESTS"
  shows "\<exists>v'. test_lis2dh12 hw v = Some v' \<and> result_names v' = result_names v @ [''LIS2DH12'']"
proof -
  have "\<exists>m. magnitude_loop (word_of_int (lis2dh12_magnitude_sq raw)) 0 = Some m" for raw
    using test_lis2dh12_magnitude by blast
  then obtain m where "\<And>raw. magnitude_loop (word_of_int (lis2dh12_magnitude_sq raw)) 0 = Some (m raw)"
    by metis
  then show ?thesis
    using assms by (simp add: test_lis2dh12_def do_hw_def case_prod_unfold split: option.splits)
qed

lemma holyiot_board_tests_names:
  assumes "result_names v = [''RGB LED'']"
  shows "\<exists>v'. holyiot_board_tests hw v = Some v' \<and> result_names v' = result_names v @
    [''I2C bus'', ''SHT40'', ''SPI sensors'', ''LIS2DH12'', ''LPS22'', ''SPI NOR ID'']"
proof -
  define v0 where "v0 = v\<lparr>vs_who_am_i_accel_cs := 0, vs_who_am_i_baro_cs := 0\<rparr>"
  define v3 where "v3 = test_spi_identity hw (test_sht40 hw (holyiot_test_i2c_scan hw v0))"
  have v0: "result_names v0 = [''RGB LED'']" using assms by (simp add: v0_def)
  note n = next_name [OF holyiot_scan_names v0]
  note n = next_name [OF test_sht40_names n]
  note n = next_name [OF test_spi_identity_names n]
  have v3: "result_names v3 = [''RGB LED'', ''I2C bus'', ''SHT40'', ''SPI sensors'']"
    using n by (simp add: v3_def)
  obtain v4 where v4: "test_lis2dh12 hw v3 = Some v4"
    "result_names v4 = [''RGB LED'', ''I2C bus'', ''SHT40'', ''SPI sensors'', ''LIS2DH12'']"
    by (rule next_name_option [of "test_lis2dh12 hw", OF test_lis2dh12_ends v3]) auto
  note n = next_name [OF test_flash_id_names next_name [OF test_lps22_names v4(2)]]
  have "holyiot_board_tests hw v = Some (test_flash_id hw (test_lps22 hw v4))"
    using v4(1) by (simp add: holyiot_board_tests_def v0_def v3_def Let_def)
  then show ?thesis using n assms by simp
qed

end
