(* ===== verification/Hw_Validation_Tag.thy ===== *)
theory Hw_Validation_Tag
  imports Hw_Validation
begin

section \<open>Hardware validation: nRF54L15 Tag\<close>

text \<open>\<open>src/validation/hw_validation_tag.c\<close>: the bus and sensor tests of this board.\<close>

definition BME688_REG_CHIP_ID :: u8 where [c_const]: "BME688_REG_CHIP_ID = 0xd0"
definition BME688_CHIP_ID :: u8 where [c_const]: "BME688_CHIP_ID = 0x61"
definition ADXL367_REG_DEVID_AD :: u8 where [c_const]: "ADXL367_REG_DEVID_AD = 0x00"
definition ADXL367_DEVID_AD :: u8 where [c_const]: "ADXL367_DEVID_AD = 0xad"
definition ADXL367_DEVID_MST :: u8 where [c_const]: "ADXL367_DEVID_MST = 0x1d"
definition ADXL367_PARTID :: u8 where [c_const]: "ADXL367_PARTID = 0xf2"
definition BMI270_REG_CHIP_ID :: u8 where [c_const]: "BMI270_REG_CHIP_ID = 0x00"
definition BMI270_CHIP_ID :: u8 where [c_const]: "BMI270_CHIP_ID = 0x24"
definition ADXL367_REG_SOFT_RESET :: u8 where [c_const]: "ADXL367_REG_SOFT_RESET = 0x1f"
definition ADXL367_REG_INTMAP1_LWR :: u8 where [c_const]: "ADXL367_REG_INTMAP1_LWR = 0x2a"
definition ADXL367_REG_FILTER_CTL :: u8 where [c_const]: "ADXL367_REG_FILTER_CTL = 0x2c"
definition ADXL367_REG_POWER_CTL :: u8 where [c_const]: "ADXL367_REG_POWER_CTL = 0x2d"
definition ADXL367_SOFT_RESET_KEY :: u8 where [c_const]: "ADXL367_SOFT_RESET_KEY = 0x52"
definition ADXL367_INTMAP1_DATA_RDY :: u8 where [c_const]: "ADXL367_INTMAP1_DATA_RDY = 0x01"
definition ADXL367_FILTER_ODR_100HZ :: u8 where [c_const]: "ADXL367_FILTER_ODR_100HZ = 0x03"
definition ADXL367_POWER_MEASURE :: u8 where [c_const]: "ADXL367_POWER_MEASURE = 0x02"
definition ADXL_INT_WAIT_MS :: int where [c_const]: "ADXL_INT_WAIT_MS = 2000"

subsection \<open>I2C bus and identities\<close>

definition tag_test_i2c_scan :: "'h validation_hw \<Rightarrow> 'h validation \<Rightarrow> 'h validation" where
  "tag_test_i2c_scan hw v =
     (if \<not> vh_is_ready hw I2C_BUS then hw_validation_record ''I2C bus'' RESULT_FAIL v
      else case scan_bus hw v of (found, v) \<Rightarrow>
      if length found = 0 then hw_validation_record ''I2C bus'' RESULT_FAIL v
      else if vh_i2c_addr hw BME688 \<notin> set found \<or> vh_i2c_addr hw ADXL367 \<notin> set found
      then hw_validation_record ''I2C bus'' RESULT_FAIL v
      else hw_validation_record ''I2C bus'' RESULT_PASS v)"

definition test_bme688 :: "'h validation_hw \<Rightarrow> 'h validation \<Rightarrow> 'h validation" where
  "test_bme688 hw v =
     (if \<not> vh_is_ready hw I2C_BUS then hw_validation_record ''BME688'' RESULT_FAIL v
      else case on_hw (vh_i2c_burst_read hw (vh_i2c_addr hw BME688) BME688_REG_CHIP_ID 1) v of
        ((err, bs), v) \<Rightarrow>
      if err \<noteq> 0 then hw_validation_record ''BME688'' RESULT_FAIL v
      else if bs ! 0 \<noteq> BME688_CHIP_ID then hw_validation_record ''BME688'' RESULT_FAIL v
      else hw_validation_record ''BME688'' RESULT_PASS v)"

definition test_adxl367 :: "'h validation_hw \<Rightarrow> 'h validation \<Rightarrow> 'h validation" where
  "test_adxl367 hw v =
     (if \<not> vh_is_ready hw I2C_BUS then hw_validation_record ''ADXL367'' RESULT_FAIL v
      else case on_hw (vh_i2c_burst_read hw (vh_i2c_addr hw ADXL367) ADXL367_REG_DEVID_AD 4) v of
        ((err, bs), v) \<Rightarrow>
      if err \<noteq> 0 then hw_validation_record ''ADXL367'' RESULT_FAIL v
      else if bs ! 0 \<noteq> ADXL367_DEVID_AD \<or> bs ! 1 \<noteq> ADXL367_DEVID_MST
      then hw_validation_record ''ADXL367'' RESULT_FAIL v
      else if bs ! 2 \<noteq> ADXL367_PARTID then hw_validation_record ''ADXL367'' RESULT_FAIL v
      else hw_validation_record ''ADXL367'' RESULT_PASS v)"

subsection \<open>The interrupt line\<close>

text \<open>The loop that polls INT1 until the deadline: whether it was seen high.\<close>

partial_function (option) wait_int1 ::
  "'h validation_hw \<Rightarrow> int \<Rightarrow> 'h validation \<Rightarrow> (bool \<times> 'h validation) option" where
  "wait_int1 hw deadline v =
     (if \<not> vh_uptime hw (vs_hw v) < deadline then Some (False, v)
      else case on_hw (vh_gpio_get hw ADXL_INT1) v of (level, v) \<Rightarrow>
      if level = 1 then Some (True, v)
      else wait_int1 hw deadline (do_hw (vh_sleep hw 5) v))"

definition adxl367_write :: "'h validation_hw \<Rightarrow> u8 \<Rightarrow> u8 \<Rightarrow> 'h validation \<Rightarrow> int \<times> 'h validation" where
  "adxl367_write hw reg val v = on_hw (vh_i2c_reg_write hw (vh_i2c_addr hw ADXL367) reg val) v"

text \<open>The three configuration writes are all made; the errors are or-ed.\<close>

definition adxl367_data_ready :: "'h validation_hw \<Rightarrow> 'h validation \<Rightarrow> 'h validation option" where
  "adxl367_data_ready hw v =
     (case adxl367_write hw ADXL367_REG_INTMAP1_LWR ADXL367_INTMAP1_DATA_RDY v of (err1, v) \<Rightarrow>
      case adxl367_write hw ADXL367_REG_FILTER_CTL ADXL367_FILTER_ODR_100HZ v of (err2, v) \<Rightarrow>
      case adxl367_write hw ADXL367_REG_POWER_CTL ADXL367_POWER_MEASURE v of (err3, v) \<Rightarrow>
      if err1 \<noteq> 0 \<or> err2 \<noteq> 0 \<or> err3 \<noteq> 0
      then Some (hw_validation_record ''ADXL367 INT1'' RESULT_FAIL v)
      else map_option
        (\<lambda>(seen_high, v).
           let v = snd (adxl367_write hw ADXL367_REG_POWER_CTL 0x00 v) in
           if \<not> seen_high then hw_validation_record ''ADXL367 INT1'' RESULT_FAIL v
           else hw_validation_record ''ADXL367 INT1'' RESULT_PASS v)
        (wait_int1 hw (vh_uptime hw (vs_hw v) + ADXL_INT_WAIT_MS) v))"

definition test_adxl367_interrupt :: "'h validation_hw \<Rightarrow> 'h validation \<Rightarrow> 'h validation option" where
  "test_adxl367_interrupt hw v =
     (if \<not> vh_is_ready hw I2C_BUS then Some (hw_validation_record ''ADXL367 INT1'' RESULT_FAIL v)
      else if \<not> vh_gpio_is_ready hw ADXL_INT1 then Some (hw_validation_record ''ADXL367 INT1'' RESULT_FAIL v)
      else case on_hw (vh_gpio_configure hw ADXL_INT1) v of (err, v) \<Rightarrow>
      if err \<noteq> 0 then Some (hw_validation_record ''ADXL367 INT1'' RESULT_FAIL v)
      else case on_hw (vh_gpio_interrupt_configure hw ADXL_INT1 True) v of (err, v) \<Rightarrow>
      if err \<noteq> 0 then Some (hw_validation_record ''ADXL367 INT1'' RESULT_FAIL v)
      else
        let v = snd (on_hw (vh_gpio_interrupt_configure hw ADXL_INT1 False) v) in
        case adxl367_write hw ADXL367_REG_SOFT_RESET ADXL367_SOFT_RESET_KEY v of (err, v) \<Rightarrow>
        if err \<noteq> 0 then Some (hw_validation_record ''ADXL367 INT1'' RESULT_FAIL v)
        else adxl367_data_ready hw (do_hw (vh_sleep hw 10) v))"

subsection \<open>BMI270\<close>

definition bmi270_read_reg :: "'h validation_hw \<Rightarrow> u8 \<Rightarrow> 'h validation \<Rightarrow> (int \<times> u8 list) \<times> 'h validation" where
  "bmi270_read_reg hw reg v = on_hw (vh_spi_transceive hw SPI_BMI270 [reg OR 0x80] 2 1) v"

definition test_bmi270 :: "'h validation_hw \<Rightarrow> 'h validation \<Rightarrow> 'h validation" where
  "test_bmi270 hw v =
     (if \<not> vh_is_ready hw SPI_BMI270 then hw_validation_record ''BMI270'' RESULT_FAIL v
      else
        let v = do_hw (vh_sleep hw 1) (snd (bmi270_read_reg hw BMI270_REG_CHIP_ID v)) in
        case bmi270_read_reg hw BMI270_REG_CHIP_ID v of ((err, bs), v) \<Rightarrow>
        if err \<noteq> 0 then hw_validation_record ''BMI270'' RESULT_FAIL v
        else if bs ! 0 = 0x00 \<or> bs ! 0 = 0xff then hw_validation_record ''BMI270'' RESULT_FAIL v
        else if bs ! 0 \<noteq> BMI270_CHIP_ID then hw_validation_record ''BMI270'' RESULT_FAIL v
        else hw_validation_record ''BMI270'' RESULT_PASS v)"

definition tag_board_tests :: "'h validation_hw \<Rightarrow> 'h validation \<Rightarrow> 'h validation option" where
  "tag_board_tests hw v =
     map_option (test_bmi270 hw)
       (test_adxl367_interrupt hw (test_adxl367 hw (test_bme688 hw (tag_test_i2c_scan hw v))))"

subsection \<open>Every test records one result\<close>

lemma tag_scan_names:
  "length (vs_results v) < MAX_TESTS \<Longrightarrow>
   result_names (tag_test_i2c_scan hw v) = result_names v @ [''I2C bus'']"
  by (auto simp: tag_test_i2c_scan_def split: prod.splits)

lemma test_bme688_names:
  "length (vs_results v) < MAX_TESTS \<Longrightarrow> result_names (test_bme688 hw v) = result_names v @ [''BME688'']"
  by (simp add: test_bme688_def validation_defs)

lemma test_adxl367_names:
  "length (vs_results v) < MAX_TESTS \<Longrightarrow> result_names (test_adxl367 hw v) = result_names v @ [''ADXL367'']"
  by (simp add: test_adxl367_def validation_defs)

lemma bmi270_read_results [simp]: "vs_results (snd (bmi270_read_reg hw reg v)) = vs_results v"
  by (simp add: bmi270_read_reg_def validation_defs)

lemma test_bmi270_names:
  "length (vs_results v) < MAX_TESTS \<Longrightarrow> result_names (test_bmi270 hw v) = result_names v @ [''BMI270'']"
  by (simp add: test_bmi270_def do_hw_def case_prod_unfold Let_def)

lemma wait_int1_ends:
  assumes "clock_advances hw"
  shows "\<exists>seen v'. wait_int1 hw deadline v = Some (seen, v') \<and> vs_results v' = vs_results v"
proof (induction "nat (deadline - vh_uptime hw (vs_hw v))" arbitrary: v rule: less_induct)
  case less
  obtain level h where get: "vh_gpio_get hw ADXL_INT1 (vs_hw v) = (level, h)" by fastforce
  show ?case
  proof (cases "vh_uptime hw (vs_hw v) < deadline \<and> level \<noteq> 1")
    case True
    then have "nat (deadline - vh_uptime hw (vs_hw (do_hw (vh_sleep hw 5) (v\<lparr>vs_hw := h\<rparr>)))) <
      nat (deadline - vh_uptime hw (vs_hw v))"
      using poll_progress [OF assms get, of deadline 5] by (simp add: do_hw_def)
    from less.hyps [OF this] show ?thesis
      using True get by (subst wait_int1.simps) (simp add: on_hw_def do_hw_def)
  next
    case False
    then show ?thesis using get by (subst wait_int1.simps) (auto simp: on_hw_def)
  qed
qed

lemma adxl367_write_results [simp]: "vs_results (snd (adxl367_write hw reg val v)) = vs_results v"
  by (simp add: adxl367_write_def validation_defs)

lemma adxl367_data_ready_ends:
  assumes "clock_advances hw" and "length (vs_results v) < MAX_TESTS"
  shows "\<exists>v'. adxl367_data_ready hw v = Some v' \<and> result_names v' = result_names v @ [''ADXL367 INT1'']"
proof -
  have "\<exists>r. wait_int1 hw d w = Some r \<and> vs_results (snd r) = vs_results w" for d w
    using wait_int1_ends [OF assms(1), of d w] by auto
  then obtain f where f: "\<And>d w. wait_int1 hw d w = Some (f d w)"
    "\<And>d w. vs_results (snd (f d w)) = vs_results w" by metis
  show ?thesis
    using assms(2) by (simp add: adxl367_data_ready_def case_prod_unfold Let_def f)
qed

lemma test_adxl367_interrupt_ends:
  assumes "clock_advances hw" and "length (vs_results v) < MAX_TESTS"
  shows "\<exists>v'. test_adxl367_interrupt hw v = Some v' \<and>
    result_names v' = result_names v @ [''ADXL367 INT1'']"
proof -
  have "\<exists>v'. adxl367_data_ready hw w = Some v' \<and> result_names v' = result_names v @ [''ADXL367 INT1'']"
    if "vs_results w = vs_results v" for w
    using adxl367_data_ready_ends [OF assms(1), of w] assms(2) that by simp
  then show ?thesis
    using assms(2) by (simp add: test_adxl367_interrupt_def validation_defs adxl367_write_def)
qed

lemma tag_board_tests_names:
  assumes "clock_advances hw" and "result_names v = [''RGB LED'']"
  shows "\<exists>v'. tag_board_tests hw v = Some v' \<and> result_names v' = result_names v @
    [''I2C bus'', ''BME688'', ''ADXL367'', ''ADXL367 INT1'', ''BMI270'']"
proof -
  define v3 where "v3 = test_adxl367 hw (test_bme688 hw (tag_test_i2c_scan hw v))"
  note n = next_name [OF tag_scan_names assms(2)]
  note n = next_name [OF test_bme688_names n]
  note n = next_name [OF test_adxl367_names n]
  have v3: "result_names v3 = [''RGB LED'', ''I2C bus'', ''BME688'', ''ADXL367'']"
    using n by (simp add: v3_def)
  obtain v4 where v4: "test_adxl367_interrupt hw v3 = Some v4"
    "result_names v4 = [''RGB LED'', ''I2C bus'', ''BME688'', ''ADXL367'', ''ADXL367 INT1'']"
    by (rule next_name_option [of "test_adxl367_interrupt hw",
          OF test_adxl367_interrupt_ends [OF assms(1)] v3]) auto
  show ?thesis
    using next_name [OF test_bmi270_names v4(2)] v4(1) assms(2)
    by (simp add: tag_board_tests_def v3_def)
qed

end
