(* ===== verification/Hw_Validation_Properties.thy ===== *)
theory Hw_Validation_Properties
  imports Hw_Validation_Holyiot Hw_Validation_Tag
begin

section \<open>Hardware validation: what a run delivers\<close>

text \<open>The properties of the two validation builds, and a small board to run them on.\<close>

text \<open>
  A bench board: a clock that only sleeps move, every bus answering, and an SHT40 that sends a
  measurement whose first byte was damaged on the way.
\<close>

definition bench_words :: "u8 list" where
  "bench_words = [0xbe, 0xef, 0x92, 0xbe, 0xef, 0x92]"

definition bench_flash :: "int flash_env" where
  "bench_flash =
     \<lparr> fe_open = \<lambda>_. (- 2, \<lparr> fa_off = 0, fa_size = 0 \<rparr>), fe_dev_ready = \<lambda>_. False,
       fe_page_info = \<lambda>_. (- 22, 0), fe_read = \<lambda>_ _ _. (- 5, []), fe_write = \<lambda>h _ _. (- 5, h),
       fe_erase = \<lambda>h _ _. (- 5, h), fe_crc16 = \<lambda>seed _. seed \<rparr>"

definition bench_board :: "int validation_hw" where
  "bench_board =
     \<lparr> vh_gpio_is_ready = \<lambda>_. True, vh_gpio_configure = \<lambda>_ h. (0, h),
       vh_gpio_interrupt_configure = \<lambda>_ _ h. (0, h), vh_gpio_set = \<lambda>_ _ h. h,
       vh_gpio_get = \<lambda>pin h. (if pin = ADXL_INT1 then 1 else 0, h),
       vh_uptime = \<lambda>h. h, vh_sleep = \<lambda>ms h. h + int ms,
       vh_flash = bench_flash, vh_erase_value = None, vh_event_partition = 0, vh_sensor_partition = 1,
       vh_destructive = True, vh_adc_is_ready = True, vh_adc_channel_setup = 0, vh_adc_sequence_init = 0,
       vh_adc_read = \<lambda>h. ((0, 3000), h), vh_adc_raw_to_millivolts = \<lambda>x. (0, x),
       vh_is_ready = \<lambda>_. True, vh_i2c_addr = \<lambda>_. 0x44, vh_i2c_write = \<lambda>_ _ h. (0, h),
       vh_i2c_read = \<lambda>_ _ h. ((0, bench_words[0 := 0xbf]), h),
       vh_i2c_burst_read = \<lambda>_ _ n h. ((0, replicate n 0), h), vh_i2c_reg_write = \<lambda>_ _ _ h. (0, h),
       vh_spi_transceive = \<lambda>_ _ _ n h. ((0, replicate n 0), h), vh_spi_write = \<lambda>_ _ h. (0, h),
       vh_read_jedec_id = \<lambda>h. ((0, [0x68, 0x10, 0x15]), h) \<rparr>"

definition bench_start :: "int validation" where
  "bench_start =
     \<lparr> vs_results = [], vs_who_am_i_accel_cs = 0, vs_who_am_i_baro_cs = 0, vs_hw = 0 \<rparr>"

lemma bench_words_ok: "sht40_words_ok bench_words"
  by code_simp

lemma bench_clock: "clock_advances bench_board"
  by (simp add: clock_advances_def bench_board_def)

text \<open>C37: a validation run of either board ends and reports every test of that board.\<close>

theorem validation_run_reports_every_test:
  assumes "clock_advances hw"
  shows "(\<exists>v'. run_all_tests (holyiot_board_tests hw) hw v = Some (report_of (vs_results v'), v') \<and>
      result_names v' = [''RGB LED'', ''I2C bus'', ''SHT40'', ''SPI sensors'', ''LIS2DH12'', ''LPS22'',
        ''SPI NOR ID'', ''Log map'', ''Log R/W'', ''Battery'', ''Button'']) \<and>
    (\<exists>v'. run_all_tests (tag_board_tests hw) hw v = Some (report_of (vs_results v'), v') \<and>
      result_names v' = [''RGB LED'', ''I2C bus'', ''BME688'', ''ADXL367'', ''ADXL367 INT1'', ''BMI270'',
        ''Log map'', ''Log R/W'', ''Battery'', ''Button''])"
  using run_all_tests_ends [OF assms holyiot_board_tests_names [where hw = hw], where v = v]
    run_all_tests_ends [OF assms tag_board_tests_names [OF assms], where v = v]
  by simp

lemma validation_run_reports_every_test_witness:
  "(\<exists>v'. run_all_tests (holyiot_board_tests bench_board) bench_board bench_start =
      Some (report_of (vs_results v'), v') \<and> length (vs_results v') = 11) \<and>
   (\<exists>v'. run_all_tests (tag_board_tests bench_board) bench_board bench_start =
      Some (report_of (vs_results v'), v') \<and> length (vs_results v') = 10)"
proof -
  have "length (vs_results w) = length ns" if "result_names w = ns" for w :: "int validation" and ns
    using that by (metis length_map)
  then show ?thesis
    using validation_run_reports_every_test [OF bench_clock, of bench_start] by fastforce
qed

text \<open>C38: a measurement with one damaged byte is refused.\<close>

theorem sht40_refuses_damaged_byte:
  assumes "sht40_words_ok rx" and "length rx = 6" and "i < 6" and "b \<noteq> rx ! i"
    and "vh_i2c_write hw (vh_i2c_addr hw SHT40) [0xfd] (vs_hw v) = (0, h)"
    and "vh_i2c_read hw (vh_i2c_addr hw SHT40) 6 (vh_sleep hw 10 h) = ((0, rx[i := b]), h')"
  shows "sht40_measure hw v = hw_validation_record ''SHT40'' RESULT_FAIL (v\<lparr>vs_hw := h'\<rparr>)"
  using sht40_words_ok_corrupted [OF assms(1-4)] assms(5,6)
  by (simp add: sht40_measure_def validation_defs)

lemma sht40_refuses_damaged_byte_witness:
  "sht40_measure bench_board bench_start =
     hw_validation_record ''SHT40'' RESULT_FAIL (bench_start\<lparr>vs_hw := 10\<rparr>)"
  by (rule sht40_refuses_damaged_byte [where rx = bench_words and i = 0 and b = "0xbf" and h = 0])
    (simp_all add: bench_words_ok, simp_all add: bench_words_def bench_board_def bench_start_def)

end
