(* ===== verification/Unit_Tests.thy ===== *)
theory Unit_Tests
  imports Motion_Manager App_Alarms Zigbee_Reporting Config_Storage
begin

section \<open>The unit tests of the policy modules\<close>

text \<open>
  \<open>tests/unit/test_smart_tag.c\<close>, \<open>test_motion_classifier.c\<close>, \<open>test_shock_detector.c\<close>,
  \<open>test_motion_manager.c\<close>, \<open>test_app_alarms.c\<close>, \<open>test_zigbee_reporting.c\<close> and
  \<open>test_config_migrate.c\<close>: each test is its calls, in order, and the conjunction of its assertions.
  The model passes every one of them, as the code does on the host. Assertions on null pointers have no
  counterpart. The tests of the configuration and of the flash log are in \<open>Unit_Tests_State\<close>.
\<close>

definition TEST_ASSERT_BITS_HIGH :: "'a::len word \<Rightarrow> 'a word \<Rightarrow> bool" where
  "TEST_ASSERT_BITS_HIGH bits actual \<longleftrightarrow> actual AND bits = bits"

definition TEST_ASSERT_BITS_LOW :: "'a::len word \<Rightarrow> 'a word \<Rightarrow> bool" where
  "TEST_ASSERT_BITS_LOW bits actual \<longleftrightarrow> actual AND bits = 0"

subsection \<open>Shared types and helpers\<close>

definition test_battery_percent_full :: bool where
  "test_battery_percent_full \<longleftrightarrow>
     smart_tag_battery_percent 3000 = 100 \<and> smart_tag_battery_percent 3300 = 100"

definition test_battery_percent_empty :: bool where
  "test_battery_percent_empty \<longleftrightarrow>
     smart_tag_battery_percent 2000 = 0 \<and> smart_tag_battery_percent 1500 = 0"

definition test_battery_percent_mid :: bool where
  "test_battery_percent_mid \<longleftrightarrow> smart_tag_battery_percent 2500 = 50"

text \<open>\<open>sizeof\<close> is the number of bytes of a value, \<open>offsetof\<close> the place its field is read from.\<close>

definition test_sensor_data_packed_size :: bool where
  "test_sensor_data_packed_size \<longleftrightarrow>
     (let header = \<lparr> ch_chunk_index = 0, ch_log_id = 0, ch_record_count = 0, ch_flags = 0,
                     ch_record_size = 0, ch_first_seq = 0xa1b2c3d4 \<rparr>;
          event = \<lparr> ev_timestamp = 0, ev_type = 0, ev_severity = 0, ev_value = 0 \<rparr> in
      length (sensor_data_bytes sensor_data_zero) = 38 \<and>
      length (sensor_log_record_bytes (smart_tag_fill_log_record sensor_data_zero False)) = 17 \<and>
      length (event_record_bytes event) = 8 \<and>
      length (tag_config_bytes TAG_CONFIG_DEFAULTS) = 40 \<and>
      length (tag_statistics_bytes tag_statistics_zero) = 42 \<and>
      length (chunk_header_bytes header) = 10 \<and>
      SMART_TAG_PROTOCOL_VERSION = 4 \<and>
      rd32 (chunk_header_bytes header) 6 = 0xa1b2c3d4 \<and>
      event_code EVENT_GAS_LOW + 1 = event_code EVENT_TIME_SET)"

definition test_gas_alarm_floor :: bool where
  "test_gas_alarm_floor \<longleftrightarrow>
     smart_tag_gas_alarm_floor 0 = 0 \<and> smart_tag_gas_alarm_floor 100000 = 70000"

definition test_boot_epoch_helpers :: bool where
  "test_boot_epoch_helpers \<longleftrightarrow>
     smart_tag_boot_epoch_utc 0 10 = 0 \<and> smart_tag_boot_epoch_utc 5 10 = 0 \<and>
     smart_tag_boot_epoch_utc 1000 10 = 990 \<and>
     smart_tag_utc_from_uptime 0 10 = 0 \<and> smart_tag_utc_from_uptime 990 10 = 1000"

definition test_log_record_from_sample :: bool where
  "test_log_record_from_sample \<longleftrightarrow>
     (let data = sensor_data_zero\<lparr>sd_timestamp := 42, sd_temperature_c_x100 := 2150,
                   sd_humidity_x100 := 4000, sd_pressure_pa := 101325,
                   sd_gas_resistance_ohm := 80000,
                   sd_valid := SENSOR_VALID_TEMP_RH OR SENSOR_VALID_PRESSURE OR SENSOR_VALID_GAS,
                   sd_motion := True\<rparr>;
          rec = smart_tag_fill_log_record data True in
      slr_timestamp rec = 42 \<and> slr_temperature rec = 2150 \<and> slr_gas_resistance_ohm rec = 80000 \<and>
      TEST_ASSERT_BITS_HIGH SENSOR_FLAG_MOVING (slr_flags rec) \<and>
      TEST_ASSERT_BITS_HIGH SENSOR_FLAG_ALARM (slr_flags rec) \<and>
      TEST_ASSERT_BITS_HIGH SENSOR_VALID_GAS (slr_flags rec))"

lemma smart_tag_tests_pass:
  "test_battery_percent_full" "test_battery_percent_empty" "test_battery_percent_mid"
  "test_gas_alarm_floor" "test_boot_epoch_helpers" "test_log_record_from_sample"
  by code_simp+

lemma packed_size_test_passes: "test_sensor_data_packed_size"
  by (simp add: test_sensor_data_packed_size_def wire_defs le32_def le16_def rd32_def Let_def
      SMART_TAG_PROTOCOL_VERSION_def)

subsection \<open>The motion classifier\<close>

definition classifier_sample :: "s16 \<Rightarrow> s16 \<Rightarrow> s16 \<Rightarrow> u16 \<Rightarrow> sensor_data" where
  "classifier_sample x y z mag = sensor_data_zero\<lparr>sd_accel_x_mg := x, sd_accel_y_mg := y,
     sd_accel_z_mg := z, sd_magnitude_mg := mag, sd_valid := SENSOR_VALID_ACCEL\<rparr>"

definition test_classifier_rest_is_inactive :: bool where
  "test_classifier_rest_is_inactive \<longleftrightarrow> (let data = classifier_sample 0 0 1000 1000 in
     motion_classifier_deviation data = 0 \<and> \<not> motion_classifier_is_active data 150)"

definition test_classifier_active_when_above_threshold :: bool where
  "test_classifier_active_when_above_threshold \<longleftrightarrow>
     motion_classifier_is_active (classifier_sample 0 0 1000 1200) 150"

definition test_classifier_not_active_at_threshold :: bool where
  "test_classifier_not_active_at_threshold \<longleftrightarrow>
     \<not> motion_classifier_is_active (classifier_sample 0 0 1000 1150) 150"

definition test_classifier_negative_deviation :: bool where
  "test_classifier_negative_deviation \<longleftrightarrow> (let data = classifier_sample 0 0 0 200 in
     motion_classifier_deviation data = -800 \<and> motion_classifier_is_active data 150)"

definition test_classifier_z_up :: bool where
  "test_classifier_z_up \<longleftrightarrow>
     motion_classifier_orientation (classifier_sample 10 20 980 1000) = ORIENTATION_Z_UP"

definition test_classifier_z_down :: bool where
  "test_classifier_z_down \<longleftrightarrow>
     motion_classifier_orientation (classifier_sample 10 20 (-980) 1000) = ORIENTATION_Z_DOWN"

definition test_classifier_y_up :: bool where
  "test_classifier_y_up \<longleftrightarrow>
     motion_classifier_orientation (classifier_sample 10 900 20 1000) = ORIENTATION_Y_UP"

definition test_classifier_x_down :: bool where
  "test_classifier_x_down \<longleftrightarrow>
     motion_classifier_orientation (classifier_sample (-900) 10 20 1000) = ORIENTATION_X_DOWN"

definition test_classifier_unknown_when_tumbling :: bool where
  "test_classifier_unknown_when_tumbling \<longleftrightarrow>
     motion_classifier_orientation (classifier_sample 100 100 100 173) = ORIENTATION_UNKNOWN"

lemma classifier_tests_pass:
  "test_classifier_rest_is_inactive" "test_classifier_active_when_above_threshold"
  "test_classifier_not_active_at_threshold" "test_classifier_negative_deviation"
  "test_classifier_z_up" "test_classifier_z_down" "test_classifier_y_up" "test_classifier_x_down"
  "test_classifier_unknown_when_tumbling"
  by code_simp+

subsection \<open>The shock detector\<close>

definition shock_sample :: "u16 \<Rightarrow> sensor_data" where
  "shock_sample mag = sensor_data_zero\<lparr>sd_magnitude_mg := mag, sd_valid := SENSOR_VALID_ACCEL\<rparr>"

definition test_shock_fires_once_per_impact :: bool where
  "test_shock_fires_once_per_impact \<longleftrightarrow>
     (let rest = shock_sample 1000; hit = shock_sample (1000 + 5000);
          s = shock_detector_init;
          (r1, s) = shock_detector_process hit 4000 300 s;
          (r2, s) = shock_detector_process hit 4000 300 s;
          (r3, s) = shock_detector_process rest 4000 300 s;
          (r4, s) = shock_detector_process hit 4000 300 s in
      shr_shock r1 \<and> shr_peak_mg r1 = 5000 \<and> \<not> shr_shock r2 \<and> \<not> shr_shock r3 \<and> shr_shock r4)"

definition test_shock_tracks_peak :: bool where
  "test_shock_tracks_peak \<longleftrightarrow>
     (let (r, s) = shock_detector_process (sensor_data_zero\<lparr>sd_magnitude_mg := 6000\<rparr>) 4000 300
                     shock_detector_init in
      shock_detector_peak s = 5000 \<and> shock_detector_peak (shock_detector_reset_peak s) = 0)"

definition test_free_fall_fires_once_until_rearm :: bool where
  "test_free_fall_fires_once_until_rearm \<longleftrightarrow>
     (let fall = shock_sample 50; rest = shock_sample 1000;
          s = shock_detector_init;
          (r1, s) = shock_detector_process fall 4000 300 s;
          (r2, s) = shock_detector_process fall 4000 300 s;
          (r3, s) = shock_detector_process (sensor_data_zero\<lparr>sd_magnitude_mg := 400\<rparr>) 4000 300 s;
          (r4, s) = shock_detector_process rest 4000 300 s;
          (r5, s) = shock_detector_process fall 4000 300 s in
      shr_free_fall r1 \<and> \<not> shr_free_fall r2 \<and> \<not> shr_free_fall r3 \<and> shr_free_fall r5)"

definition test_rest_is_quiet :: bool where
  "test_rest_is_quiet \<longleftrightarrow>
     (let (r, s) = shock_detector_process (sensor_data_zero\<lparr>sd_magnitude_mg := 1000\<rparr>) 4000 300
                     shock_detector_init in
      \<not> shr_shock r \<and> \<not> shr_free_fall r \<and> shr_peak_mg r = 0)"

lemma shock_tests_pass:
  "test_shock_fires_once_per_impact" "test_shock_tracks_peak"
  "test_free_fall_fires_once_until_rearm" "test_rest_is_quiet"
  by code_simp+

subsection \<open>The motion manager\<close>

definition accel :: "u32 \<Rightarrow> s16 \<Rightarrow> s16 \<Rightarrow> s16 \<Rightarrow> u16 \<Rightarrow> sensor_data" where
  "accel ts x y z mag = sensor_data_zero\<lparr>sd_timestamp := ts, sd_accel_x_mg := x, sd_accel_y_mg := y,
     sd_accel_z_mg := z, sd_magnitude_mg := mag, sd_valid := SENSOR_VALID_ACCEL\<rparr>"

definition test_motion_start_and_stop_after_timeout :: bool where
  "test_motion_start_and_stop_after_timeout \<longleftrightarrow>
     (let config = TAG_CONFIG_DEFAULTS; m = motion_manager_init config;
          (data, r1, m1) = motion_manager_process (accel 0 0 0 980 1000) m;
          (data2, r2, m2) = motion_manager_process (accel 1 0 0 980 1200) m1;
          (data, r3, m3) = motion_manager_process (accel 5 0 0 980 1200) m2;
          (data, r4, m4) = motion_manager_process (accel 10 0 0 980 1000) m3;
          (data, r5, m5) = motion_manager_process
             (accel (5 + ucast (cfg_motion_timeout_s config)) 0 0 980 1000) m4 in
      mr_events r1 AND MOTION_EVENT_START = 0 \<and>
      mr_motion_state r1 = motion_state_code MOTION_STATE_STATIONARY \<and>
      mr_events r2 AND MOTION_EVENT_START \<noteq> 0 \<and>
      mr_motion_state r2 = motion_state_code MOTION_STATE_MOVING \<and>
      motion_manager_state m2 = MOTION_STATE_MOVING \<and> sd_motion data2 \<and>
      mr_motion_state r3 = motion_state_code MOTION_STATE_MOVING \<and>
      mr_motion_state r4 = motion_state_code MOTION_STATE_MOVING \<and>
      mr_events r4 AND MOTION_EVENT_STOP = 0 \<and>
      mr_events r5 AND MOTION_EVENT_STOP \<noteq> 0 \<and>
      mr_motion_state r5 = motion_state_code MOTION_STATE_STATIONARY \<and>
      mr_movement_duration_s r5 = 4 \<and> motion_manager_total_movement_s m5 = 4 \<and>
      motion_manager_orientation m5 = ORIENTATION_Z_UP)"

definition test_tamper_after_settled_shock_and_reorient :: bool where
  "test_tamper_after_settled_shock_and_reorient \<longleftrightarrow>
     (let m = motion_manager_init TAG_CONFIG_DEFAULTS;
          (data, r1, m1) = motion_manager_process (accel 0 10 20 980 1000) m;
          (data, r2, m2) = motion_manager_process (accel 300 900 10 20 6000) m1 in
      mr_orientation r1 = orientation_code ORIENTATION_Z_UP \<and>
      mr_events r1 AND MOTION_EVENT_TAMPER = 0 \<and>
      mr_events r2 AND MOTION_EVENT_SHOCK \<noteq> 0 \<and> mr_events r2 AND MOTION_EVENT_ORIENTATION \<noteq> 0 \<and>
      mr_events r2 AND MOTION_EVENT_TAMPER \<noteq> 0 \<and> motion_manager_tamper m2 \<and>
      \<not> motion_manager_tamper (motion_manager_clear_tamper m2))"

definition test_shock_without_settle_is_not_tamper :: bool where
  "test_shock_without_settle_is_not_tamper \<longleftrightarrow>
     (let m = motion_manager_init TAG_CONFIG_DEFAULTS;
          (data, r1, m1) = motion_manager_process (accel 0 10 20 980 1000) m;
          (data, r2, m2) = motion_manager_process (accel 10 900 10 20 6000) m1 in
      mr_events r2 AND MOTION_EVENT_SHOCK \<noteq> 0 \<and> mr_events r2 AND MOTION_EVENT_TAMPER = 0)"

definition test_reorient_without_shock_is_not_tamper :: bool where
  "test_reorient_without_shock_is_not_tamper \<longleftrightarrow>
     (let m = motion_manager_init TAG_CONFIG_DEFAULTS;
          (data, r1, m1) = motion_manager_process (accel 0 10 20 980 1000) m;
          (data, r2, m2) = motion_manager_process (accel 300 900 10 20 1000) m1 in
      mr_events r2 AND MOTION_EVENT_ORIENTATION \<noteq> 0 \<and> mr_events r2 AND MOTION_EVENT_TAMPER = 0 \<and>
      mr_events r2 AND MOTION_EVENT_SHOCK = 0)"

lemma motion_manager_tests_pass:
  "test_motion_start_and_stop_after_timeout" "test_tamper_after_settled_shock_and_reorient"
  "test_shock_without_settle_is_not_tamper" "test_reorient_without_shock_is_not_tamper"
  by code_simp+

subsection \<open>The alarms\<close>

text \<open>\<open>app_alarms_eval\<close> returns the flags and the events, whose number is \<open>n\<close> of the tests.\<close>

definition test_alarms_temp_high_latches_once :: bool where
  "test_alarms_temp_high_latches_once \<longleftrightarrow>
     (let data = sensor_data_zero\<lparr>sd_valid := SENSOR_VALID_TEMP_RH, sd_temperature_c_x100 := 4100\<rparr>;
          (flags, events) = app_alarms_eval data TAG_CONFIG_DEFAULTS 0 0;
          (flags2, events2) = app_alarms_eval data TAG_CONFIG_DEFAULTS 0 flags in
      TEST_ASSERT_BITS_HIGH ALARM_TEMP_HIGH flags \<and> length events = 1 \<and>
      ae_type (events ! 0) = event_code EVENT_TEMP_HIGH \<and>
      length events2 = 0 \<and> TEST_ASSERT_BITS_HIGH ALARM_TEMP_HIGH flags2)"

definition test_alarms_temp_clears_in_window :: bool where
  "test_alarms_temp_clears_in_window \<longleftrightarrow>
     (let data = sensor_data_zero\<lparr>sd_valid := SENSOR_VALID_TEMP_RH, sd_temperature_c_x100 := 2000\<rparr>;
          (flags, events) = app_alarms_eval data TAG_CONFIG_DEFAULTS 0 (ALARM_TEMP_HIGH OR ALARM_TEMP_LOW) in
      TEST_ASSERT_BITS_LOW (ALARM_TEMP_HIGH OR ALARM_TEMP_LOW) flags \<and> length events = 0)"

definition test_alarms_battery_needs_hysteresis_to_clear :: bool where
  "test_alarms_battery_needs_hysteresis_to_clear \<longleftrightarrow>
     (let data = sensor_data_zero\<lparr>sd_valid := SENSOR_VALID_BATTERY, sd_battery_mv := 2300\<rparr>;
          (flags, events) = app_alarms_eval data TAG_CONFIG_DEFAULTS 0 0;
          (flags2, events2) = app_alarms_eval (data\<lparr>sd_battery_mv := 2450\<rparr>) TAG_CONFIG_DEFAULTS 0 flags;
          (flags3, events3) = app_alarms_eval (data\<lparr>sd_battery_mv := 2500\<rparr>) TAG_CONFIG_DEFAULTS 0 flags2 in
      TEST_ASSERT_BITS_HIGH ALARM_BATTERY_LOW flags \<and>
      ae_type (events ! 0) = event_code EVENT_BATTERY_LOW \<and>
      TEST_ASSERT_BITS_HIGH ALARM_BATTERY_LOW flags2 \<and> TEST_ASSERT_BITS_LOW ALARM_BATTERY_LOW flags3)"

definition test_alarms_gas_zero_threshold_disabled :: bool where
  "test_alarms_gas_zero_threshold_disabled \<longleftrightarrow>
     (let data = sensor_data_zero\<lparr>sd_valid := SENSOR_VALID_GAS, sd_gas_resistance_ohm := 1\<rparr>;
          (flags, events) = app_alarms_eval data (TAG_CONFIG_DEFAULTS\<lparr>cfg_gas_low_threshold_ohm := 0\<rparr>) 0 0 in
      flags = 0 \<and> length events = 0)"

definition test_alarms_gas_floor_fires_and_clears :: bool where
  "test_alarms_gas_floor_fires_and_clears \<longleftrightarrow>
     (let config = TAG_CONFIG_DEFAULTS\<lparr>cfg_gas_low_threshold_ohm := 50000\<rparr>;
          data = sensor_data_zero\<lparr>sd_valid := SENSOR_VALID_GAS, sd_gas_resistance_ohm := 40000\<rparr>;
          (flags, events) = app_alarms_eval data config 0 0;
          (flags2, events2) = app_alarms_eval (data\<lparr>sd_gas_resistance_ohm := 60000\<rparr>) config 0 flags in
      TEST_ASSERT_BITS_HIGH ALARM_GAS_LOW flags \<and> ae_type (events ! 0) = event_code EVENT_GAS_LOW \<and>
      ae_value (events ! 0) = 40 \<and> TEST_ASSERT_BITS_LOW ALARM_GAS_LOW flags2)"

definition test_alarms_sensor_fault_is_subset_not_equality :: bool where
  "test_alarms_sensor_fault_is_subset_not_equality \<longleftrightarrow>
     (let expected = SENSOR_VALID_TEMP_RH OR SENSOR_VALID_PRESSURE OR SENSOR_VALID_ACCEL OR
                     SENSOR_VALID_BATTERY OR SENSOR_VALID_GAS;
          data = sensor_data_zero\<lparr>sd_valid := expected OR SENSOR_VALID_GYRO\<rparr>;
          (flags, events) = app_alarms_eval data TAG_CONFIG_DEFAULTS expected 0;
          (flags2, events2) = app_alarms_eval (data\<lparr>sd_valid := SENSOR_VALID_TEMP_RH\<rparr>)
                                TAG_CONFIG_DEFAULTS expected flags in
      TEST_ASSERT_BITS_LOW ALARM_SENSOR_FAULT flags \<and> TEST_ASSERT_BITS_HIGH ALARM_SENSOR_FAULT flags2 \<and>
      ae_type (events2 ! 0) = event_code EVENT_SENSOR_FAULT)"

definition test_alarms_humidity_high :: bool where
  "test_alarms_humidity_high \<longleftrightarrow>
     (let data = sensor_data_zero\<lparr>sd_valid := SENSOR_VALID_TEMP_RH, sd_temperature_c_x100 := 2000,
                   sd_humidity_x100 := 8500\<rparr>;
          (flags, events) = app_alarms_eval data TAG_CONFIG_DEFAULTS 0 0 in
      TEST_ASSERT_BITS_HIGH ALARM_HUMIDITY_HIGH flags \<and>
      ae_type (events ! 0) = event_code EVENT_HUMIDITY_HIGH)"

lemma alarm_tests_pass:
  "test_alarms_temp_high_latches_once" "test_alarms_temp_clears_in_window"
  "test_alarms_battery_needs_hysteresis_to_clear" "test_alarms_gas_zero_threshold_disabled"
  "test_alarms_gas_floor_fires_and_clears" "test_alarms_sensor_fault_is_subset_not_equality"
  "test_alarms_humidity_high"
  by code_simp+

subsection \<open>The reporting policy\<close>

definition env_sample :: "s16 \<Rightarrow> u16 \<Rightarrow> s32 \<Rightarrow> u8 \<Rightarrow> u32 \<Rightarrow> sensor_data" where
  "env_sample t rh pa batt ts = sensor_data_zero\<lparr>sd_timestamp := ts, sd_temperature_c_x100 := t,
     sd_humidity_x100 := rh, sd_pressure_pa := pa, sd_battery_percent := batt,
     sd_valid := SENSOR_VALID_TEMP_RH OR SENSOR_VALID_PRESSURE OR SENSOR_VALID_BATTERY\<rparr>"

definition quiet_status :: tag_status where
  "quiet_status = tag_status_zero\<lparr>st_motion_state := motion_state_code MOTION_STATE_STATIONARY\<rparr>"

text \<open>The sample the tests start from, and the baseline once it has been reported.\<close>

definition first_report :: sensor_data where "first_report = env_sample 2500 4000 101325 90 10"

definition reported :: "sensor_data \<Rightarrow> baseline" where
  "reported data = zigbee_reporting_commit data quiet_status
     (REPORT_TEMPERATURE OR REPORT_HUMIDITY OR REPORT_PRESSURE OR REPORT_BATTERY OR REPORT_TAG_MONITOR)
     zigbee_reporting_init"

definition test_reporting_first_sample_sends_all :: bool where
  "test_reporting_first_sample_sends_all \<longleftrightarrow>
     zigbee_reporting_evaluate first_report quiet_status TAG_CONFIG_DEFAULTS zigbee_reporting_init =
       REPORT_TEMPERATURE OR REPORT_HUMIDITY OR REPORT_PRESSURE OR REPORT_BATTERY OR REPORT_TAG_MONITOR"

definition test_reporting_below_delta_is_quiet :: bool where
  "test_reporting_below_delta_is_quiet \<longleftrightarrow>
     (let b = zigbee_reporting_init;
          b = zigbee_reporting_commit first_report quiet_status
                (zigbee_reporting_evaluate first_report quiet_status TAG_CONFIG_DEFAULTS b) b;
          data = first_report\<lparr>sd_timestamp := 20, sd_temperature_c_x100 := 2540\<rparr> in
      zigbee_reporting_evaluate data quiet_status TAG_CONFIG_DEFAULTS b = 0)"

definition test_reporting_humidity_pressure_battery_deltas :: bool where
  "test_reporting_humidity_pressure_battery_deltas \<longleftrightarrow>
     (let b = reported first_report;
          data = first_report\<lparr>sd_timestamp := 11, sd_humidity_x100 := 4400\<rparr>;
          data2 = data\<lparr>sd_humidity_x100 := 4000, sd_pressure_pa := 101325 + 200\<rparr>;
          data3 = data2\<lparr>sd_pressure_pa := 101325, sd_battery_percent := 88\<rparr> in
      zigbee_reporting_evaluate data quiet_status TAG_CONFIG_DEFAULTS b = REPORT_HUMIDITY \<and>
      zigbee_reporting_evaluate data2 quiet_status TAG_CONFIG_DEFAULTS b = REPORT_PRESSURE \<and>
      zigbee_reporting_evaluate data3 quiet_status TAG_CONFIG_DEFAULTS b = REPORT_BATTERY)"

definition test_reporting_temperature_delta :: bool where
  "test_reporting_temperature_delta \<longleftrightarrow>
     (let data = first_report\<lparr>sd_timestamp := 20, sd_temperature_c_x100 := 2550\<rparr> in
      zigbee_reporting_evaluate data quiet_status TAG_CONFIG_DEFAULTS (reported first_report)
        = REPORT_TEMPERATURE)"

definition test_reporting_heartbeat_on_max_interval :: bool where
  "test_reporting_heartbeat_on_max_interval \<longleftrightarrow>
     (let data = first_report\<lparr>sd_timestamp := 10 + ucast (cfg_report_max_interval_s TAG_CONFIG_DEFAULTS)\<rparr> in
      zigbee_reporting_evaluate data quiet_status TAG_CONFIG_DEFAULTS (reported first_report) =
        REPORT_TEMPERATURE OR REPORT_HUMIDITY OR REPORT_PRESSURE OR REPORT_BATTERY OR REPORT_TAG_MONITOR)"

definition test_reporting_motion_is_immediate :: bool where
  "test_reporting_motion_is_immediate \<longleftrightarrow>
     zigbee_reporting_evaluate (first_report\<lparr>sd_timestamp := 11\<rparr>)
       (quiet_status\<lparr>st_motion_state := motion_state_code MOTION_STATE_MOVING\<rparr>) TAG_CONFIG_DEFAULTS
       (reported first_report) = REPORT_TAG_MONITOR"

definition test_reporting_gas_delta :: bool where
  "test_reporting_gas_delta \<longleftrightarrow>
     (let data = first_report\<lparr>sd_gas_resistance_ohm := 50000,
                   sd_valid := sd_valid first_report OR SENSOR_VALID_GAS\<rparr>;
          data2 = data\<lparr>sd_timestamp := 11, sd_gas_resistance_ohm := 40000\<rparr> in
      zigbee_reporting_evaluate data2 quiet_status TAG_CONFIG_DEFAULTS (reported data) = REPORT_TAG_MONITOR)"

definition test_reporting_gas_disabled_when_delta_zero :: bool where
  "test_reporting_gas_disabled_when_delta_zero \<longleftrightarrow>
     (let config = TAG_CONFIG_DEFAULTS\<lparr>cfg_report_gas_delta_ohm := 0\<rparr>;
          data = first_report\<lparr>sd_gas_resistance_ohm := 50000,
                   sd_valid := sd_valid first_report OR SENSOR_VALID_GAS\<rparr>;
          data2 = data\<lparr>sd_timestamp := 11, sd_gas_resistance_ohm := 1\<rparr> in
      zigbee_reporting_evaluate data2 quiet_status config (reported data) = 0)"

definition test_reporting_force_resets_baseline :: bool where
  "test_reporting_force_resets_baseline \<longleftrightarrow>
     zigbee_reporting_evaluate first_report quiet_status TAG_CONFIG_DEFAULTS
       (zigbee_reporting_force (reported first_report)) \<noteq> 0"

definition test_reporting_commit_zero_is_noop :: bool where
  "test_reporting_commit_zero_is_noop \<longleftrightarrow>
     zigbee_reporting_evaluate first_report quiet_status TAG_CONFIG_DEFAULTS
       (zigbee_reporting_commit first_report quiet_status 0 zigbee_reporting_init) \<noteq> 0"

lemma reporting_tests_pass:
  "test_reporting_first_sample_sends_all" "test_reporting_below_delta_is_quiet"
  "test_reporting_humidity_pressure_battery_deltas" "test_reporting_temperature_delta"
  "test_reporting_heartbeat_on_max_interval" "test_reporting_motion_is_immediate"
  "test_reporting_gas_delta" "test_reporting_gas_disabled_when_delta_zero"
  "test_reporting_force_resets_baseline" "test_reporting_commit_zero_is_noop"
  by code_simp+

subsection \<open>The stored settings\<close>

definition settings_blob :: "u16 \<Rightarrow> u16 \<Rightarrow> u8 list \<Rightarrow> u8 list" where
  "settings_blob schema body_size body =
     tag_settings_header_bytes \<lparr> th_schema = schema, th_body_size = body_size \<rparr> @ body"

definition test_config_roundtrip :: bool where
  "test_config_roundtrip \<longleftrightarrow>
     (let c = TAG_CONFIG_DEFAULTS\<lparr>cfg_sampling_interval_s := 90, cfg_gas_low_threshold_ohm := 50000\<rparr>;
          blob = tag_config_encode c 64 in
      length blob = 44 \<and>
      (case tag_config_decode blob of
         Inl err \<Rightarrow> False
       | Inr out \<Rightarrow> cfg_sampling_interval_s out = 90 \<and> cfg_gas_low_threshold_ohm out = 50000 \<and>
           cfg_operating_mode out = cfg_operating_mode c))"

definition test_config_v0_blob_loads :: bool where
  "test_config_v0_blob_loads \<longleftrightarrow>
     (let v0 = TAG_CONFIG_DEFAULTS\<lparr>cfg_sampling_interval_s := 15, cfg_led_enabled := 0\<rparr>;
          blob = take TAG_CONFIG_V0_SIZE (tag_config_bytes v0) in
      case tag_config_decode blob of
        Inl err \<Rightarrow> False
      | Inr out \<Rightarrow> cfg_sampling_interval_s out = 15 \<and> cfg_led_enabled out = 0 \<and>
          cfg_motion_threshold_mg out = cfg_motion_threshold_mg v0)"

text \<open>The last two bytes of the blob are not set by the test; they are arbitrary.\<close>

definition test_config_short_schema_body_keeps_new_defaults :: "u8 list \<Rightarrow> bool" where
  "test_config_short_schema_body_keeps_new_defaults rest \<longleftrightarrow>
     (case tag_config_decode (settings_blob TAG_CONFIG_SCHEMA 2 ([30, 0] @ rest)) of
        Inl err \<Rightarrow> False
      | Inr out \<Rightarrow> cfg_sampling_interval_s out = 30 \<and> cfg_motion_timeout_s out = 30 \<and>
          cfg_led_enabled out = 1)"

definition test_config_rejects_unknown_schema :: "u8 list \<Rightarrow> bool" where
  "test_config_rejects_unknown_schema rest \<longleftrightarrow>
     tag_config_decode (settings_blob 99 2 rest) = Inl (- EINVAL)"

definition test_config_rejects_truncated_header :: bool where
  "test_config_rejects_truncated_header \<longleftrightarrow> tag_config_decode [1, 0, 40] = Inl (- EINVAL)"

definition test_config_rejects_body_past_end :: "u8 list \<Rightarrow> bool" where
  "test_config_rejects_body_past_end rest \<longleftrightarrow>
     tag_config_decode (settings_blob TAG_CONFIG_SCHEMA 100 rest) = Inl (- EINVAL)"

definition test_stats_v0_sets_epoch_zero :: bool where
  "test_stats_v0_sets_epoch_zero \<longleftrightarrow>
     (let v0 = le32 7 @ le32 1234 @ le32 0 @ le32 3 @ le32 0 @ le32 0 @ le32 0 @
               le16 4500 @ le16 2100 @ le16 0 @ le16 0 @ le16 1 @ le16 0xabcd in
      case tag_stats_decode v0 of
        Inl err \<Rightarrow> False
      | Inr out \<Rightarrow> stat_boot_count out = 7 \<and> stat_total_uptime_s out = 1234 \<and> stat_shock_count out = 3 \<and>
          stat_max_shock_mg out = 4500 \<and> stat_sensor_faults out = 1 \<and> stat_boot_epoch_utc out = 0)"

definition test_stats_roundtrip_keeps_epoch :: bool where
  "test_stats_roundtrip_keeps_epoch \<longleftrightarrow>
     (let s = tag_statistics_zero\<lparr>stat_boot_count := 4, stat_boot_epoch_utc := 1700000000\<rparr>;
          blob = tag_stats_encode s 64 in
      length blob = 46 \<and>
      (case tag_stats_decode blob of
         Inl err \<Rightarrow> False
       | Inr out \<Rightarrow> stat_boot_count out = 4 \<and> stat_boot_epoch_utc out = 1700000000))"

text \<open>An empty list is the length 0 of the code.\<close>

definition test_encode_rejects_undersized_buffer :: bool where
  "test_encode_rejects_undersized_buffer \<longleftrightarrow> tag_config_encode TAG_CONFIG_DEFAULTS 4 = []"

definition test_stats_rejects_bad_framed_blobs :: "u8 list \<Rightarrow> bool" where
  "test_stats_rejects_bad_framed_blobs rest \<longleftrightarrow>
     tag_stats_decode (settings_blob 99 2 rest) = Inl (- EINVAL) \<and>
     tag_stats_decode (settings_blob TAG_STATS_SCHEMA 100 rest) = Inl (- EINVAL) \<and>
     tag_stats_decode (take 2 (settings_blob TAG_STATS_SCHEMA 100 rest)) = Inl (- EINVAL)"

lemma migrate_tests_pass:
  "test_config_roundtrip" "test_config_v0_blob_loads" "test_config_rejects_truncated_header"
  "test_stats_v0_sets_epoch_zero" "test_stats_roundtrip_keeps_epoch"
  "test_encode_rejects_undersized_buffer"
  by code_simp+

lemma short_body_test_passes: "test_config_short_schema_body_keeps_new_defaults [x, y]"
  by (simp add: test_config_short_schema_body_keeps_new_defaults_def settings_blob_def tag_config_decode_def
      tag_settings_header_bytes_def tag_settings_header_of_bytes_def copy_onto_defaults_def c_const
      TAG_CONFIG_DEFAULTS_def wire_defs le16_def le32_def rd16_def rd32_def join16_def Let_def)

lemma migrate_tests_pass_any_rest:
  assumes "length rest = 4"
  shows "test_config_rejects_unknown_schema rest" "test_config_rejects_body_past_end rest"
    "test_stats_rejects_bad_framed_blobs rest"
  using assms
  by (simp_all add: test_config_rejects_unknown_schema_def test_config_rejects_body_past_end_def
      test_stats_rejects_bad_framed_blobs_def settings_blob_def tag_config_decode_def tag_stats_decode_def
      c_const Let_def)

end
