(* ===== verification/Unit_Tests_State.thy ===== *)
theory Unit_Tests_State
  imports Unit_Tests Mock_Tag Log_Properties
begin

section \<open>The unit tests of the configuration and of the flash log\<close>

text \<open>
  \<open>tests/unit/test_app_config.c\<close> on a tag at reset, whose settings store starts from the defaults and
  accepts every save, as the stub \<open>config_storage_stub.c\<close> does; and
  \<open>tests/unit/test_flash_manager.c\<close> on the flash area of \<open>flash_mock.c\<close>.
\<close>

subsection \<open>The configuration\<close>

definition test_config_defaults_are_valid :: bool where
  "test_config_defaults_are_valid \<longleftrightarrow> app_config_validate TAG_CONFIG_DEFAULTS"

definition test_config_rejects_zero_interval :: bool where
  "test_config_rejects_zero_interval \<longleftrightarrow>
     \<not> app_config_validate (TAG_CONFIG_DEFAULTS\<lparr>cfg_sampling_interval_s := 0\<rparr>)"

definition test_config_rejects_huge_interval :: bool where
  "test_config_rejects_huge_interval \<longleftrightarrow>
     \<not> app_config_validate (TAG_CONFIG_DEFAULTS\<lparr>cfg_sampling_interval_s := 3601\<rparr>)"

definition test_config_rejects_inverted_temp_window :: bool where
  "test_config_rejects_inverted_temp_window \<longleftrightarrow>
     \<not> app_config_validate (TAG_CONFIG_DEFAULTS\<lparr>cfg_temp_high_c_x100 := 0, cfg_temp_low_c_x100 := 100\<rparr>)"

definition test_config_rejects_humidity_over_100 :: bool where
  "test_config_rejects_humidity_over_100 \<longleftrightarrow>
     \<not> app_config_validate (TAG_CONFIG_DEFAULTS\<lparr>cfg_humidity_high_x100 := 10001\<rparr>)"

definition test_config_rejects_bad_mode :: bool where
  "test_config_rejects_bad_mode \<longleftrightarrow>
     \<not> app_config_validate (TAG_CONFIG_DEFAULTS\<lparr>cfg_operating_mode := 3\<rparr>)"

definition test_config_rejects_non_boolean_flags :: bool where
  "test_config_rejects_non_boolean_flags \<longleftrightarrow>
     \<not> app_config_validate (TAG_CONFIG_DEFAULTS\<lparr>cfg_led_enabled := 2\<rparr>)"

definition test_config_rejects_out_of_range_thresholds :: bool where
  "test_config_rejects_out_of_range_thresholds \<longleftrightarrow>
     \<not> app_config_validate (TAG_CONFIG_DEFAULTS\<lparr>cfg_motion_timeout_s := 0\<rparr>) \<and>
     \<not> app_config_validate (TAG_CONFIG_DEFAULTS\<lparr>cfg_motion_threshold_mg := 10\<rparr>) \<and>
     \<not> app_config_validate (TAG_CONFIG_DEFAULTS\<lparr>cfg_shock_threshold_mg := 100\<rparr>) \<and>
     \<not> app_config_validate (TAG_CONFIG_DEFAULTS\<lparr>cfg_free_fall_threshold_mg := 901\<rparr>) \<and>
     \<not> app_config_validate (TAG_CONFIG_DEFAULTS\<lparr>cfg_battery_low_mv := 1000\<rparr>) \<and>
     \<not> app_config_validate (TAG_CONFIG_DEFAULTS\<lparr>cfg_report_max_interval_s := 30\<rparr>) \<and>
     \<not> app_config_validate (TAG_CONFIG_DEFAULTS\<lparr>cfg_ble_service_window_s := 5\<rparr>)"

text \<open>\<open>config_storage_stub_reset\<close> and \<open>app_config_init\<close>.\<close>

definition config_under_test :: "(u8 list, string \<Rightarrow> u8 list option, (u8 \<times> u8 list) list) device" where
  "config_under_test = app_config_init
     (device_at_reset mock_tag_env 0 1 flash_mock_reset flash_mock_reset Map.empty [])"

definition test_config_set_rejects_and_keeps_previous :: bool where
  "test_config_set_rejects_and_keeps_previous \<longleftrightarrow>
     (let bad = TAG_CONFIG_DEFAULTS\<lparr>cfg_sampling_interval_s := 0\<rparr>;
          (err, d) = app_config_set mock_tag_env bad config_under_test in
      err = - EINVAL \<and> cfg_sampling_interval_s (app_config_get d) = 60)"

definition test_config_effective_interval_by_mode :: bool where
  "test_config_effective_interval_by_mode \<longleftrightarrow>
     (let d0 = config_under_test;
          (err1, d1) = app_config_set_mode mock_tag_env (ucast (tag_mode_code TAG_MODE_ASSET)) d0;
          (err2, d2) = app_config_set_mode mock_tag_env (ucast (tag_mode_code TAG_MODE_SHIPPING)) d1 in
      app_config_effective_interval_s d0 = 60 \<and>
      err1 = 0 \<and> app_config_effective_interval_s d1 = 30 \<and>
      err2 = 0 \<and> app_config_effective_interval_s d2 = 15)"

definition test_config_reset_restores_defaults :: bool where
  "test_config_reset_restores_defaults \<longleftrightarrow>
     (let (err1, d1) = app_config_set_sampling_interval mock_tag_env 120 config_under_test;
          (err2, d2) = app_config_reset mock_tag_env d1 in
      err1 = 0 \<and> err2 = 0 \<and> app_config_effective_interval_s d2 = 60)"

lemma validate_tests_pass:
  "test_config_defaults_are_valid" "test_config_rejects_zero_interval"
  "test_config_rejects_huge_interval" "test_config_rejects_inverted_temp_window"
  "test_config_rejects_humidity_over_100" "test_config_rejects_bad_mode"
  "test_config_rejects_non_boolean_flags" "test_config_rejects_out_of_range_thresholds"
  by code_simp+

lemma mock_config_saved:
  "app_config_validate c \<Longrightarrow> \<exists>d'. app_config_set mock_tag_env c d = (0, d') \<and> dev_config d' = c"
  by (simp add: app_config_set_def config_storage_save_def mock_tag_env_def map_settings_def Let_def
      power_manager_config_changed_def)

lemma config_under_test_defaults: "dev_config config_under_test = TAG_CONFIG_DEFAULTS"
  by (simp add: config_under_test_def app_config_init_def device_at_reset_def config_storage_boot_def
      config_storage_load_def Let_def)

lemma config_tests_pass:
  "test_config_set_rejects_and_keeps_previous" "test_config_effective_interval_by_mode"
  "test_config_reset_restores_defaults"
proof -
  let ?d0 = config_under_test and ?env = mock_tag_env
  let ?asset = "TAG_CONFIG_DEFAULTS\<lparr>cfg_operating_mode := 1\<rparr>"
  let ?shipping = "TAG_CONFIG_DEFAULTS\<lparr>cfg_operating_mode := 2\<rparr>"
  let ?slow = "TAG_CONFIG_DEFAULTS\<lparr>cfg_sampling_interval_s := 120\<rparr>"
  have valid: "app_config_validate ?asset" "app_config_validate ?shipping" "app_config_validate ?slow"
    "app_config_validate TAG_CONFIG_DEFAULTS"
    by code_simp+
  obtain d1 where d1: "app_config_set ?env ?asset ?d0 = (0, d1)" "dev_config d1 = ?asset"
    using mock_config_saved [OF valid(1)] by blast
  obtain d2 where d2: "app_config_set ?env ?shipping d1 = (0, d2)" "dev_config d2 = ?shipping"
    using mock_config_saved [OF valid(2)] by blast
  obtain d3 where d3: "app_config_set ?env ?slow ?d0 = (0, d3)" "dev_config d3 = ?slow"
    using mock_config_saved [OF valid(3)] by blast
  obtain d4 where d4: "app_config_set ?env TAG_CONFIG_DEFAULTS d3 = (0, d4)" "dev_config d4 = TAG_CONFIG_DEFAULTS"
    using mock_config_saved [OF valid(4)] by blast
  have set_mode: "app_config_set_mode ?env 1 ?d0 = (0, d1)" "app_config_set_mode ?env 2 d1 = (0, d2)"
    using d1 d2 by (simp_all add: app_config_set_mode_def app_config_get_def config_under_test_defaults)
  have intervals: "app_config_effective_interval_s ?d0 = 60" "app_config_effective_interval_s d1 = 30"
    "app_config_effective_interval_s d2 = 15" "app_config_effective_interval_s d4 = 60"
    by (simp_all add: app_config_effective_interval_s_def mode_interval_divider_def d1(2) d2(2) d4(2)
        config_under_test_defaults TAG_CONFIG_DEFAULTS_def Let_def)
  show "test_config_set_rejects_and_keeps_previous"
    by (simp add: test_config_set_rejects_and_keeps_previous_def app_config_set_def app_config_validate_def
        TAG_CONFIG_DEFAULTS_def app_config_get_def config_under_test_defaults Let_def)
  show "test_config_effective_interval_by_mode"
    by (simp add: test_config_effective_interval_by_mode_def set_mode intervals Let_def)
  show "test_config_reset_restores_defaults"
    using d3(1) d4(1) by (simp add: test_config_reset_restores_defaults_def app_config_set_sampling_interval_def
        app_config_get_def config_under_test_defaults app_config_reset_def intervals Let_def)
qed

subsection \<open>The flash log\<close>

definition open_log :: "int \<times> flash_log" where
  "open_log = flash_log_init mock_env flash_mock_reset (log_instance 1 8)"

definition test_flash_append_and_read :: bool where
  "test_flash_append_and_read \<longleftrightarrow>
     (let rec = [1, 2, 3, 4, 5, 6, 7, 8];
          (err0, log) = open_log;
          (err1, seq, log, f) = flash_log_append mock_env log flash_mock_reset rec;
          (n, out) = flash_log_read mock_env log f 1 1;
          info = flash_log_get_info mock_env log f in
      err0 = 0 \<and> err1 = 0 \<and> seq = Some 1 \<and> n = 1 \<and> out = [rec] \<and>
      li_record_count info = 1 \<and> li_oldest_seq info = 1 \<and> li_newest_seq info = 1 \<and> li_ready info = 1)"

definition test_flash_get_oldest :: bool where
  "test_flash_get_oldest \<longleftrightarrow>
     (let (err0, log) = open_log;
          (err1, _, log, f) = flash_log_append mock_env log flash_mock_reset (10 # replicate 7 0);
          (err2, _, log, f) = flash_log_append mock_env log f (20 # replicate 7 0);
          (err3, out) = flash_log_get_oldest mock_env log f in
      err0 = 0 \<and> err1 = 0 \<and> err2 = 0 \<and> err3 = 0 \<and> (case out of None \<Rightarrow> False | Some rec \<Rightarrow> rec ! 0 = 10))"

text \<open>The checksum of the first slot is corrupted in the raw memory.\<close>

definition corrupt_first_crc :: "u8 list \<Rightarrow> u8 list" where
  "corrupt_first_crc f = f[2 := f ! 2 XOR 0xff, 3 := f ! 3 XOR 0xff]"

definition test_flash_torn_write_skipped_on_rescan :: bool where
  "test_flash_torn_write_skipped_on_rescan \<longleftrightarrow>
     (let (err0, log) = open_log;
          (err1, _, log, f) = flash_log_append mock_env log flash_mock_reset (replicate 8 9);
          f = corrupt_first_crc f;
          (err2, log) = flash_log_init mock_env f log;
          info = flash_log_get_info mock_env log f;
          (n, out) = flash_log_read mock_env log f 1 1 in
      err0 = 0 \<and> err1 = 0 \<and> err2 = 0 \<and> li_record_count info = 0 \<and> n = 0)"

definition test_flash_erase_resets_sequence :: bool where
  "test_flash_erase_resets_sequence \<longleftrightarrow>
     (let rec = 1 # replicate 7 0;
          (err0, log) = open_log;
          (err1, _, log, f) = flash_log_append mock_env log flash_mock_reset rec in
      case flash_log_erase mock_env log f of
        None \<Rightarrow> False
      | Some (err2, log, f, _) \<Rightarrow>
          (let info = flash_log_get_info mock_env log f;
               (err3, seq, log, f) = flash_log_append mock_env log f rec in
           err0 = 0 \<and> err1 = 0 \<and> err2 = 0 \<and> li_record_count info = 0 \<and> err3 = 0 \<and> seq = Some 1))"

text \<open>One round of the loop that fills the log, with the assertion on its error so far.\<close>

definition wrap_append ::
  "nat \<Rightarrow> bool \<times> u32 option \<times> flash_log \<times> u8 list \<Rightarrow> bool \<times> u32 option \<times> flash_log \<times> u8 list" where
  "wrap_append i st =
     (case st of (ok, _, log, f) \<Rightarrow>
      case flash_log_append mock_env log f (of_nat (i + 1) # replicate 7 0) of
        (err, seq, log, f) \<Rightarrow> (ok \<and> err = 0, seq, log, f))"

definition test_flash_wrap_drops_oldest_sector :: bool where
  "test_flash_wrap_drops_oldest_sector \<longleftrightarrow>
     (let (err0, log) = open_log; info0 = flash_log_get_info mock_env log flash_mock_reset;
          (ok, seq, log, f) = fold wrap_append [0..<8] (True, None, log, flash_mock_reset);
          info = flash_log_get_info mock_env log f;
          (err1, seq1, log, f) = flash_log_append mock_env log f (99 # replicate 7 0);
          info1 = flash_log_get_info mock_env log f in
      err0 = 0 \<and> li_capacity info0 = 8 \<and> ok \<and> li_record_count info = 8 \<and> li_oldest_seq info = 1 \<and>
      err1 = 0 \<and> li_oldest_seq info1 > 1 \<and> seq1 = Some (li_newest_seq info1) \<and>
      li_record_count info1 < 8 + 1)"

definition test_flash_rejects_oversized_payload :: bool where
  "test_flash_rejects_oversized_payload \<longleftrightarrow>
     fst (flash_log_init mock_env flash_mock_reset (log_instance 1 64)) = - EINVAL"

definition test_flash_unready_returns_enodev :: bool where
  "test_flash_unready_returns_enodev \<longleftrightarrow>
     (let dead = log_instance 0 8 in
      fst (flash_log_append mock_env dead flash_mock_reset (replicate 8 0)) = - ENODEV \<and>
      fst (flash_log_read mock_env dead flash_mock_reset 1 1) = - ENODEV \<and>
      (case flash_log_erase mock_env dead flash_mock_reset of None \<Rightarrow> False | Some (err, _) \<Rightarrow> err = - ENODEV))"

lemma flash_error_tests_pass:
  "test_flash_rejects_oversized_payload" "test_flash_unready_returns_enodev"
  by (simp_all add: test_flash_rejects_oversized_payload_def test_flash_unready_returns_enodev_def
      flash_log_init_def flash_log_append_def flash_log_read_def flash_log_erase_def log_instance_def
      MAX_PAYLOAD_def Let_def)

subsubsection \<open>The tests that pass by what is proved of the log\<close>

text \<open>The log under test is ready, with the entries \<open>es\<close>, and \<open>n\<close> is the next sequence number.\<close>

definition under_test :: "log_entry list \<Rightarrow> nat \<Rightarrow> flash_log \<Rightarrow> u8 list \<Rightarrow> bool" where
  "under_test es n log f \<longleftrightarrow> ring_inv mock_env (\<lambda>mem. mem) mock_medium_ok log f \<and>
     ring_entries mock_env (\<lambda>mem. mem) log f = es \<and> fl_next_seq log = of_nat n \<and> n < 100 \<and>
     fl_payload_size log = 8 \<and> fl_total_slots log = 8 \<and> fl_slots_per_sector log = 2"

lemma open_log_under_test: "\<exists>log. open_log = (0, log) \<and> under_test [] 1 log flash_mock_reset"
proof -
  obtain log where init: "flash_log_init mock_env flash_mock_reset (log_instance 1 8) = (0, log)"
    and fields: "fl_payload_size log = 8 \<and> fl_total_slots log = 8 \<and> fl_slots_per_sector log = 2"
    by (simp add: flash_log_init_def log_instance_def mock_env_def c_const Let_def)
  have blank: "mock_medium_ok flash_mock_reset" "flash_mock_reset = replicate 256 0xff"
    "fe_open mock_env (fl_partition_id (log_instance 1 8)) = (0, \<lparr> fa_off = 0, fa_size = 256 \<rparr>)"
    "fe_page_info mock_env (fa_off \<lparr> fa_off = 0, fa_size = 256 \<rparr>) = (0, 64)"
    by (simp_all add: mock_medium_ok_def flash_mock_reset_def mock_env_def c_const)
  have ring: "ring_inv mock_env (\<lambda>mem. mem) mock_medium_ok log flash_mock_reset"
    "ring_entries mock_env (\<lambda>mem. mem) log flash_mock_reset = []"
    by (rule mock.flash_log_init_blank [OF init blank(1,2) _ blank(3) _ blank(4)]; simp)+
  then have "fl_next_seq log = 1"
    using mock.length_ring_entries [of log flash_mock_reset] by (auto simp: ring_inv_def unat_eq_zero)
  then show ?thesis using init fields ring by (simp add: open_log_def under_test_def)
qed

lemma append_under_test:
  assumes "under_test es n log f" and "length rec = 8" and "n < 99"
  shows "\<exists>log' f'. flash_log_append mock_env log f rec = (0, Some (of_nat n), log', f') \<and>
    under_test (spec_append 8 2 es (of_nat n, rec)) (n + 1) log' f'"
proof -
  have "unat (fl_next_seq log) = n" using assms(1) by (simp add: under_test_def unat_of_nat)
  with mock.flash_log_append_correct [of log f rec] assms show ?thesis by (auto simp: under_test_def)
qed

lemma read_under_test:
  "under_test es n log f \<Longrightarrow> flash_log_read mock_env log f start_seq max_n =
     (let out = spec_read es start_seq max_n in (int (length out), out))"
  by (simp add: under_test_def mock.flash_log_read_correct)

lemma info_under_test:
  "under_test es n log f \<Longrightarrow> flash_log_get_info mock_env log f =
     \<lparr> li_record_count = of_nat (length es), li_capacity = 8,
       li_oldest_seq = (if es = [] then 0 else fst (hd es)),
       li_newest_seq = (if es = [] then 0 else fst (last es)), li_record_size = 8, li_ready = 1 \<rparr>"
  by (simp add: under_test_def mock.flash_log_get_info_correct Let_def)

lemma append_test_passes: "test_flash_append_and_read"
proof -
  obtain log where log: "open_log = (0, log)" "under_test [] 1 log flash_mock_reset"
    using open_log_under_test by blast
  obtain log1 f1 where app: "flash_log_append mock_env log flash_mock_reset [1, 2, 3, 4, 5, 6, 7, 8]
      = (0, Some 1, log1, f1)" "under_test [(1, [1, 2, 3, 4, 5, 6, 7, 8])] 2 log1 f1"
    using append_under_test [OF log(2), of "[1, 2, 3, 4, 5, 6, 7, 8]"] by (auto simp: spec_append_def numeral_2_eq_2)
  show ?thesis
    by (simp add: test_flash_append_and_read_def log(1) app(1) read_under_test [OF app(2)]
        info_under_test [OF app(2)] spec_read_def Let_def)
qed

lemma oldest_test_passes: "test_flash_get_oldest"
proof -
  let ?a = "10 # replicate 7 0 :: u8 list" and ?b = "20 # replicate 7 0 :: u8 list"
  obtain log where log: "open_log = (0, log)" "under_test [] 1 log flash_mock_reset"
    using open_log_under_test by blast
  obtain log1 f1 where app1: "flash_log_append mock_env log flash_mock_reset ?a = (0, Some 1, log1, f1)"
    "under_test [(1, ?a)] 2 log1 f1"
    using append_under_test [OF log(2), of ?a] by (auto simp: spec_append_def numeral_2_eq_2)
  obtain log2 f2 where app2: "flash_log_append mock_env log1 f1 ?b = (0, Some 2, log2, f2)"
    "under_test [(1, ?a), (2, ?b)] 3 log2 f2"
    using append_under_test [OF app1(2), of ?b] by (auto simp: spec_append_def numeral_3_eq_3)
  have "flash_log_get_oldest mock_env log2 f2 = (0, Some ?a)"
    using app2(2) by (simp add: under_test_def mock.flash_log_get_oldest_correct)
  then show ?thesis by (simp add: test_flash_get_oldest_def log(1) app1(1) app2(1))
qed

lemma erase_test_passes: "test_flash_erase_resets_sequence"
proof -
  let ?r = "1 # replicate 7 0 :: u8 list"
  obtain log where log: "open_log = (0, log)" "under_test [] 1 log flash_mock_reset"
    using open_log_under_test by blast
  obtain log1 f1 where app1: "flash_log_append mock_env log flash_mock_reset ?r = (0, Some 1, log1, f1)"
    "under_test [(1, ?r)] 2 log1 f1"
    using append_under_test [OF log(2), of ?r] by (auto simp: spec_append_def numeral_2_eq_2)
  obtain log2 f2 k where erase: "flash_log_erase mock_env log1 f1 = Some (0, log2, f2, k)"
    "ring_inv mock_env (\<lambda>mem. mem) mock_medium_ok log2 f2" "ring_entries mock_env (\<lambda>mem. mem) log2 f2 = []"
    "same_geometry log2 log1"
    using mock.flash_log_erase_correct app1(2) unfolding under_test_def by blast
  have "fl_used_slots log2 = 0"
    using erase(3) mock.length_ring_entries [of log2 f2] by (simp add: unat_eq_zero)
  then have two: "under_test [] 1 log2 f2"
    using erase(2-4) app1(2) by (auto simp: under_test_def same_geometry_def ring_inv_def)
  obtain log3 f3 where app2: "flash_log_append mock_env log2 f2 ?r = (0, Some 1, log3, f3)"
    using append_under_test [OF two, of ?r] by auto
  show ?thesis
    by (simp add: test_flash_erase_resets_sequence_def log(1) app1(1) erase(1) info_under_test [OF two]
        app2 Let_def)
qed

text \<open>The loop of the wrap test, after \<open>k\<close> of its rounds.\<close>

abbreviation numbered :: "nat \<Rightarrow> log_entry list" where
  "numbered k \<equiv> map (\<lambda>i. (of_nat (i + 1), of_nat (i + 1) # replicate 7 0)) [0..<k]"

lemma wrap_loop:
  assumes "under_test [] 1 log flash_mock_reset" and "k \<le> 8"
  shows "\<exists>seq log' f'. fold wrap_append [0..<k] (True, None, log, flash_mock_reset) = (True, seq, log', f') \<and>
    under_test (numbered k) (k + 1) log' f'"
  using assms(2)
proof (induction k)
  case 0
  then show ?case using assms(1) by simp
next
  case (Suc k)
  then obtain seq log' f' where loop: "fold wrap_append [0..<k] (True, None, log, flash_mock_reset) = (True, seq, log', f')"
    "under_test (numbered k) (k + 1) log' f'" by auto
  obtain log2 f2 where app: "flash_log_append mock_env log' f' (of_nat (k + 1) # replicate 7 0)
      = (0, Some (of_nat (k + 1)), log2, f2)"
    "under_test (spec_append 8 2 (numbered k) (of_nat (k + 1), of_nat (k + 1) # replicate 7 0)) (k + 1 + 1) log2 f2"
    using append_under_test [OF loop(2), of "of_nat (k + 1) # replicate 7 0"] Suc.prems by auto
  have "spec_append 8 2 (numbered k) (of_nat (k + 1), of_nat (k + 1) # replicate 7 0) = numbered (Suc k)"
    using Suc.prems by (simp add: spec_append_def)
  moreover have "fold wrap_append [0..<Suc k] (True, None, log, flash_mock_reset) = (True, Some (of_nat (k + 1)), log2, f2)"
    using loop(1) app(1) by (simp del: of_nat_Suc) (simp add: wrap_append_def)
  ultimately show ?case using app(2) by auto
qed

lemma wrap_test_passes: "test_flash_wrap_drops_oldest_sector"
proof -
  let ?r = "99 # replicate 7 0 :: u8 list"
  define es1 es2 where "es1 = numbered 8" and "es2 = spec_append 8 2 (numbered 8) (9, ?r)"
  obtain log where log: "open_log = (0, log)" "under_test [] 1 log flash_mock_reset"
    using open_log_under_test by blast
  obtain seq log1 f1 where full: "fold wrap_append [0..<8] (True, None, log, flash_mock_reset) = (True, seq, log1, f1)"
    "under_test es1 9 log1 f1"
    using wrap_loop [OF log(2), of 8] by (auto simp: es1_def)
  obtain log2 f2 where app: "flash_log_append mock_env log1 f1 ?r = (0, Some 9, log2, f2)" "under_test es2 10 log2 f2"
    using append_under_test [OF full(2), of ?r] by (auto simp: es1_def es2_def)
  have upt8: "[0..<8::nat] = [0, 1, 2, 3, 4, 5, 6, 7]" by (simp add: upt_rec eval_nat_numeral)
  have entries: "length es1 = 8" "fst (hd es1) = 1" "es1 \<noteq> []" "length es2 = 7" "fst (hd es2) = 3"
    "fst (last es2) = 9" "es2 \<noteq> []"
    by (simp_all add: es1_def es2_def spec_append_def upt8)
  show ?thesis
    unfolding test_flash_wrap_drops_oldest_sector_def
    by (simp add: log(1) full(1) app(1) info_under_test [OF log(2)] info_under_test [OF full(2)]
        info_under_test [OF app(2)] entries Let_def del: upt_Suc)
qed

text \<open>The medium after the first append: its slot, and erased cells.\<close>

lemma first_append:
  assumes "fl_head_slot log = 0" and "fl_sector_size log = 64" and "fl_payload_size log = 8" and "length rec = 8"
    and "flash_log_append mock_env log flash_mock_reset rec = (0, seq, log', f')"
  shows "\<exists>s. f' = slot_bytes s @ replicate 224 0xff \<and> length (slot_payload s) = 24 \<and>
    slot_crc_field s = slot_crc mock_env s"
proof -
  obtain err log1 f1 where room: "make_room mock_env log flash_mock_reset = (err, log1, f1)" by (metis prod_cases3)
  have erase: "fe_erase mock_env flash_mock_reset 0 64 = (0, flash_mock_reset)"
    by (simp add: mock_env_def mock_flash_area_erase_def mock_out_of_range_def flash_mock_reset_def c_const
        flip: replicate_add)
  have one: "err = 0" "f1 = flash_mock_reset" "fl_head_slot log1 = 0" "fl_payload_size log1 = 8"
    using room assms(1-3) erase by (auto simp: make_room_def Let_def split: if_splits)
  let ?s = "new_slot mock_env log1 rec"
  have s: "length (slot_payload ?s) = 24" "slot_crc_field ?s = slot_crc mock_env ?s"
    using assms(4) one(4) by (simp_all add: new_slot_def slot_crc_def MAX_PAYLOAD_def Let_def)
  then have len: "length (slot_bytes ?s) = 32" by (simp add: slot_bytes_def)
  have "fe_write mock_env flash_mock_reset 0 (slot_bytes ?s) = (0, slot_bytes ?s @ replicate 224 0xff)"
    using len map2_and_erased [of "slot_bytes ?s"]
    by (simp add: mock_env_def mock_flash_area_write_def mock_out_of_range_def flash_mock_reset_def c_const)
  then have "f' = slot_bytes ?s @ replicate 224 0xff"
    using assms(5) room one by (simp add: flash_log_append_def Let_def split: if_splits)
  then show ?thesis using s by blast
qed

text \<open>With its checksum flipped, that slot is not valid any more, and there is no other.\<close>

lemma corrupt_first_crc_Cons:
  "corrupt_first_crc (a # b # c # d # rest) = a # b # (c XOR 0xff) # (d XOR 0xff) # rest"
  by (simp add: corrupt_first_crc_def numeral_2_eq_2 numeral_3_eq_3)

lemma corrupt_slot_bytes:
  "corrupt_first_crc (slot_bytes s @ rest) =
     slot_bytes (s\<lparr>slot_crc_field := join16 (ucast (slot_crc_field s) XOR 0xff)
                                       (ucast (drop_bit 8 (slot_crc_field s)) XOR 0xff)\<rparr>) @ rest"
  by (simp add: slot_bytes_def le16_def corrupt_first_crc_Cons)

lemma flipped_byte: "b XOR 0xff \<noteq> (b :: u8)"
proof
  assume "b XOR 0xff = b"
  then have "b XOR (b XOR 0xff) = b XOR b" by (rule arg_cong)
  then show False by (simp flip: xor.assoc)
qed

lemma corrupted_slot:
  assumes "length (slot_payload s) = 24" and "slot_crc_field s = slot_crc mock_env s" and "i < 8"
  shows "valid_at mock_env (\<lambda>mem. mem) (corrupt_first_crc (slot_bytes s @ replicate 224 0xff)) i = None"
proof -
  let ?c = "slot_crc_field s"
  define bad where "bad = s\<lparr>slot_crc_field := join16 (ucast ?c XOR 0xff) (ucast (drop_bit 8 ?c) XOR 0xff)\<rparr>"
  have f: "corrupt_first_crc (slot_bytes s @ replicate 224 0xff) = slot_bytes bad @ replicate 224 0xff"
    by (simp add: corrupt_slot_bytes bad_def)
  have len: "length (slot_payload bad) = 24" using assms(1) by (simp add: bad_def)
  then have size: "length (slot_bytes bad) = 32" by simp
  show ?thesis
  proof (cases "i = 0")
    case True
    have "slot_crc_field bad \<noteq> ?c"
      using flipped_byte [of "ucast ?c"] by (auto simp: bad_def dest: arg_cong [where f = "ucast :: u16 \<Rightarrow> u8"])
    then have "\<not> slot_valid mock_env bad" using assms(2) by (simp add: slot_valid_def slot_crc_def bad_def)
    then show ?thesis using True len size
      by (simp add: f valid_at_def slot_option_def slot_cells_def Let_def)
  next
    case False
    then have "slot_cells (\<lambda>mem. mem) (slot_bytes bad @ replicate 224 0xff) i = erased_slot"
      using size assms(3) by (auto simp: slot_cells_def erased_slot_def)
    then show ?thesis by (simp add: f valid_at_def)
  qed
qed

lemma torn_write_test_passes: "test_flash_torn_write_skipped_on_rescan"
proof -
  obtain log where open_ok: "open_log = (0, log)" "under_test [] 1 log flash_mock_reset"
    using open_log_under_test by blast
  obtain seq log1 f1 where app: "flash_log_append mock_env log flash_mock_reset (replicate 8 9) = (0, seq, log1, f1)"
    "under_test (spec_append 8 2 [] (1, replicate 8 9)) 2 log1 f1"
    using append_under_test [OF open_ok(2), of "replicate 8 9"] by (auto simp: numeral_2_eq_2)
  have geo: "fl_head_slot log = 0" "fl_sector_size log = 64" "fl_payload_size log = 8"
    using open_ok(2) by (auto simp: under_test_def ring_inv_def ring_core_def ring_geometry_def
        ring_entries_def ring_slots_def Let_def word_unat_eq_iff)
  obtain s where s: "f1 = slot_bytes s @ replicate 224 0xff" "length (slot_payload s) = 24"
    "slot_crc_field s = slot_crc mock_env s"
    using first_append [OF geo _ app(1)] by auto
  define f2 where "f2 = corrupt_first_crc f1"
  have f2: "length f2 = 256" using s(2) by (simp add: f2_def s(1) corrupt_slot_bytes)
  have "read_valid mock_env f2 (of_nat p) = None" if "p < 8" for p
  proof -
    have "unat (of_nat p :: u32) = p" using that by (simp add: unat_of_nat)
    then show ?thesis
      using mock.read_valid_eq [of f2 "of_nat p"] corrupted_slot [OF s(2,3) that] f2 that
      by (simp add: mock_medium_ok_def f2_def s(1) c_const)
  qed
  note none = this
  define log0 where "log0 = log_sized log1 \<lparr> fa_off = 0, fa_size = 256 \<rparr> 64"
  have "fl_total_slots log0 = 8" by (simp add: log0_def log_sized_def Let_def c_const)
  then have scanned: "scan mock_env f2 log0 = log0\<lparr>fl_head_slot := 0, fl_tail_slot := 0, fl_used_slots := 0,
      fl_next_seq := 1\<rparr>"
    using none by (intro mock.scan_blank) simp
  obtain log2 where init: "flash_log_init mock_env f2 log1 = (0, log2)" "fl_used_slots log2 = 0" "fl_ready log2"
    using flash_log_init_success_iff [of mock_env log1 "\<lparr> fa_off = 0, fa_size = 256 \<rparr>" 64 f2] scanned app(2)
    by (auto simp: log0_def log_guards_def mock_env_def under_test_def c_const)
  show ?thesis
    by (simp add: test_flash_torn_write_skipped_on_rescan_def open_ok(1) app(1) f2_def [symmetric] init Let_def
        flash_log_get_info_def flash_log_read_def)
qed

subsection \<open>The test runner\<close>

text \<open>
  \<open>main\<close> of \<open>test_runner.c\<close>: the tests in its order, and as its exit status the number of those that
  failed, which is what \<open>UNITY_END\<close> returns. \<open>rest2\<close> and \<open>rest4\<close> are the bytes that four of the tests leave
  unset in the blobs they decode.
\<close>

definition test_runner :: "u8 list \<Rightarrow> u8 list \<Rightarrow> nat" where
  "test_runner rest2 rest4 = length (filter Not [
      test_classifier_rest_is_inactive, test_classifier_active_when_above_threshold,
      test_classifier_not_active_at_threshold, test_classifier_negative_deviation,
      test_classifier_z_up, test_classifier_z_down, test_classifier_y_up, test_classifier_x_down,
      test_classifier_unknown_when_tumbling, test_shock_fires_once_per_impact,
      test_shock_tracks_peak, test_free_fall_fires_once_until_rearm, test_rest_is_quiet,
      test_reporting_first_sample_sends_all, test_reporting_below_delta_is_quiet,
      test_reporting_temperature_delta, test_reporting_humidity_pressure_battery_deltas,
      test_reporting_heartbeat_on_max_interval, test_reporting_motion_is_immediate,
      test_reporting_gas_delta, test_reporting_gas_disabled_when_delta_zero,
      test_reporting_force_resets_baseline, test_reporting_commit_zero_is_noop,
      test_config_defaults_are_valid, test_config_rejects_zero_interval,
      test_config_rejects_huge_interval, test_config_rejects_inverted_temp_window,
      test_config_rejects_humidity_over_100, test_config_rejects_bad_mode,
      test_config_rejects_non_boolean_flags, test_config_rejects_out_of_range_thresholds,
      test_config_set_rejects_and_keeps_previous, test_config_effective_interval_by_mode,
      test_config_reset_restores_defaults, test_flash_append_and_read, test_flash_get_oldest,
      test_flash_torn_write_skipped_on_rescan, test_flash_erase_resets_sequence,
      test_flash_wrap_drops_oldest_sector, test_flash_rejects_oversized_payload,
      test_flash_unready_returns_enodev, test_battery_percent_full, test_battery_percent_empty,
      test_battery_percent_mid, test_sensor_data_packed_size, test_log_record_from_sample,
      test_gas_alarm_floor, test_boot_epoch_helpers, test_config_roundtrip,
      test_config_v0_blob_loads, test_config_short_schema_body_keeps_new_defaults rest2,
      test_config_rejects_unknown_schema rest4, test_config_rejects_truncated_header,
      test_stats_v0_sets_epoch_zero, test_stats_roundtrip_keeps_epoch,
      test_encode_rejects_undersized_buffer, test_stats_rejects_bad_framed_blobs rest4,
      test_config_rejects_body_past_end rest4, test_alarms_temp_high_latches_once,
      test_alarms_temp_clears_in_window, test_alarms_battery_needs_hysteresis_to_clear,
      test_alarms_gas_zero_threshold_disabled, test_alarms_gas_floor_fires_and_clears,
      test_alarms_sensor_fault_is_subset_not_equality, test_alarms_humidity_high,
      test_motion_start_and_stop_after_timeout, test_tamper_after_settled_shock_and_reorient,
      test_shock_without_settle_is_not_tamper, test_reorient_without_shock_is_not_tamper])"

lemma none_failed: "filter Not (True # results) = filter Not results"
  by simp

lemma unit_tests_pass:
  assumes "length rest2 = 2" and "length rest4 = 4"
  shows "test_runner rest2 rest4 = 0"
proof -
  obtain x y where "rest2 = [x, y]" using assms(1) by (auto simp: length_Suc_conv numeral_2_eq_2)
  show ?thesis
    unfolding \<open>rest2 = [x, y]\<close> test_runner_def
    by (simp only: none_failed filter.simps(1) short_body_test_passes smart_tag_tests_pass packed_size_test_passes
        classifier_tests_pass shock_tests_pass motion_manager_tests_pass alarm_tests_pass reporting_tests_pass
        migrate_tests_pass validate_tests_pass config_tests_pass append_test_passes oldest_test_passes
        erase_test_passes wrap_test_passes torn_write_test_passes flash_error_tests_pass list.size
        migrate_tests_pass_any_rest [OF assms(2)])
qed

end
