(* ===== verification/Spec2Isabelle.thy ===== *)
theory Spec2Isabelle
  imports Log_Properties Torn_Write Motion_Manager App_Alarms Zigbee_Reporting Config_Storage
    Led_Manager Lps22hb Sensor_Manager Ble_Live_Transfer Device_Operations Config_Race Event_Path
    Zigbee_View Hw_Validation_Properties Unit_Tests_State
begin

text \<open>
  Verification development of the nRF54L15 smart tag firmware (\<open>src/src\<close>, \<open>src/drivers\<close>).

  \<^bold>\<open>The program.\<close> The tag samples its sensors on a timer, classifies motion, raises alarms, keeps an
  event log and a sensor log in flash, and is served over Bluetooth LE and Zigbee. One sampling
  thread (\<open>power_manager.c\<close>) reads the board's sensors (\<open>sensor_manager.c\<close> and a board backend)
  and gives the sample to \<open>app_process_sensor_data\<close> in \<open>app_state.c\<close>, which asks the motion
  manager and the alarm policy, appends to the logs, drives the LED, and calls its two
  subscribers, \<open>ble_gatt.c\<close> and \<open>zigbee_manager.c\<close>. Everything else runs from work items, timers
  and the callbacks of the two stacks. Configuration and statistics live in the settings
  subsystem behind \<open>config_storage.c\<close>.

  \<^bold>\<open>Theories and code.\<close>
  \<^item> \<open>Prelude\<close>: machine words, error codes, little-endian packing, masks as bits.
  \<^item> \<open>Smart_Tag\<close>: \<open>app/smart_tag.h\<close>, every struct as a record, its packed layout as bytes.
  \<^item> \<open>Flash_Manager\<close>: \<open>storage/flash_manager.c\<close>, operation by operation. \<open>Ring_Arith\<close>, \<open>Flash_Ring\<close>
    and \<open>Flash_Recovery\<close>: its abstraction as a bounded queue, the ring invariant, and recovery at
    boot. \<open>Flash_Mock\<close>: the flash area of the unit tests, on which the locale is interpreted.
    \<open>Log_Properties\<close> and \<open>Torn_Write\<close>: the properties of the log.
  \<^item> \<open>Storage_Logs\<close>: \<open>storage/event_log.c\<close> and \<open>storage/sensor_log.c\<close>.
  \<^item> \<open>Motion_Classifier\<close>, \<open>Shock_Detector\<close>, \<open>Motion_Manager\<close>: \<open>motion/\<close>.
    \<open>Motion_Sections\<close>: a sample of the motion manager cut before each read of the configuration.
  \<^item> \<open>App_Alarms\<close>: \<open>app/app_alarms.c\<close>. \<open>Zigbee_Reporting\<close> and \<open>Zigbee_Clusters\<close>:
    \<open>zigbee/zigbee_reporting.c\<close> and \<open>zigbee/zigbee_clusters.c\<close>. \<open>Zigbee_Tag_Cluster\<close>:
    \<open>zigbee/zigbee_tag_cluster.h\<close> and the endpoint declared with it; \<open>Zigbee_Properties\<close>: the
    firmware against that declaration. \<open>Zigbee_View\<close>: what the coordinator holds against the
    tag's status and sample.
  \<^item> \<open>Config_Migrate\<close>, \<open>Config_Storage\<close>: \<open>storage/config_migrate.c\<close>, \<open>storage/config_storage.c\<close>.
  \<^item> \<open>Led_Manager\<close>: \<open>ui/led_manager.c\<close>. \<open>Watchdog\<close>: \<open>power/watchdog.c\<close>.
  \<^item> \<open>Lps22hb\<close>: \<open>drivers/sensor/lps22hb_spi\<close>. \<open>Sensor_Manager\<close>: \<open>sensors/\<close>, with both boards.
  \<^item> \<open>Ble_Gatt\<close>, \<open>Ble_Log\<close>: the state and the work items of \<open>ble/ble_gatt.c\<close> and \<open>ble/ble_log.c\<close>.
    \<open>Ble_Transfer\<close>: a whole download. \<open>Ble_Live_Transfer\<close>: a download between whose chunks the tag
    goes on logging.
  \<^item> \<open>Device\<close>: the static variables of all modules as one record \<open>device\<close>, and what the code calls
    outside the repository as the record \<open>tag_env\<close>. On these, \<open>App_Config\<close>, \<open>App_State\<close>,
    \<open>Ble_Manager\<close>, \<open>Power_Manager\<close>, \<open>Ble_Config\<close>, \<open>Zigbee_Manager\<close> (with \<open>zigbee_ota.c\<close>) and
    \<open>App_Main\<close> model the files of the same names. \<open>App_Main\<close> also has the running tag:
    \<open>handle\<close> is one interrupt, timer, work item or request, \<open>tag_step\<close> the relation it gives, and
    \<open>tag_reach\<close> the states after \<open>main\<close> and any number of steps.
  \<^item> \<open>Device_Invariants\<close>: what every operation leaves alone and keeps, up to all reachable states.
  \<^item> \<open>Sampling_Thread\<close>: \<open>sampling_thread_fn\<close> and \<open>app_process_sensor_data\<close> cut where the code takes
    and releases a lock, with a program counter. \<open>preempt_step\<close> runs a section of the thread or a
    whole handler, \<open>preempt_reach\<close> gives the states, which include those of \<open>tag_reach\<close>
    (\<open>tag_reach_preempt\<close>). \<open>Preemption\<close>: the order of the events and the end of a round.
  \<^item> \<open>Mock_Tag\<close>: a concrete tag for the witnesses. \<open>Device_Properties\<close>, \<open>Device_Operations\<close>,
    \<open>Device_Logs\<close>, \<open>Factory_Reset\<close>: the properties across components. \<open>Power_Cut\<close>: what \<open>main\<close>
    finds again after power failed between any two steps (\<open>restart_from\<close>). \<open>Event_Path\<close>: an event from
    its detection to the packet the client decodes. \<open>Config_Race\<close>: \<open>app_config_set\<close>
    cut into sections and two calls of it interleaved.
  \<^item> \<open>Hw_Validation\<close>, \<open>Hw_Validation_Holyiot\<close>, \<open>Hw_Validation_Tag\<close>: \<open>validation/\<close>, the separate image
    that tests a board: the harness and the tests of each board, on a record of the hardware.
    \<open>Hw_Validation_Properties\<close>: what a run delivers.
  \<^item> \<open>Unit_Tests\<close>, \<open>Unit_Tests_State\<close>: \<open>tests/unit/\<close>, the 69 tests of \<open>test_runner.c\<close> on the models
    above, the assertions of each as one formula.

  \<^bold>\<open>How state and effects are modelled.\<close> A function that changes static variables takes and returns
  the record of its module, or the whole \<open>device\<close> when it reaches several. Integers have the width
  of the C type (\<open>u8\<close>, \<open>u16\<close>, \<open>u32\<close>, and \<open>s16\<close>, \<open>s32\<close> read with \<open>sint\<close>) and wrap as it does;
  error codes are \<open>int\<close>, negative as in the code. A struct sent or stored is the list of its bytes.
  A work item and an interrupt handler are each one step. The sampling thread, the lowest in
  priority, is one step in \<open>tag_step\<close> and preemptible between any two of its locked sections in
  \<open>preempt_step\<close>. A pending work item or timer is a field
  that says so; the event loop may run a pending item at any time, and the clock is set
  arbitrarily. Rebooting is the flag \<open>dev_rebooting\<close>, after which nothing runs; a handler that
  sleeps before it reboots lets the rest of the firmware run meanwhile (the second component of
  \<open>tag_system\<close>). Log output has no
  counterpart.

  \<^bold>\<open>Interfaces.\<close> The locale \<open>flash_partition\<close> is the documented behaviour of the flash area
  functions on a working partition, and the ring lemmas are proved in it; it is interpreted on the
  unit tests' flash area (and, for a log longer than one chunk, on a larger one). The locale
  \<open>record_log\<close> is what a download needs of a log, and \<open>growing_log\<close> extends it by what an append does to it; by \<open>sublocale\<close> every flash partition
  provides both. Zephyr's drivers, the settings subsystem, the Bluetooth
  host, ZBOSS and the FOTA library are parameters: functions in \<open>flash_env\<close>, \<open>settings_env\<close>,
  \<open>sensor_hw\<close>, \<open>bluetooth\<close>, \<open>watchdog_hw\<close>, \<open>zcl_constants\<close> and
  \<open>validation_hw\<close>. Where a property needs more of them it is a named hypothesis
  (\<open>settings_store_ok\<close>, \<open>settings_writable\<close>, \<open>hw_healthy\<close>, \<open>clock_advances\<close>), and its witness
  instantiates it.

  \<^bold>\<open>What is shown.\<close> The flash log refines a bounded queue, survives reboots and arbitrary
  media, and a write of a record that power cuts short is all or nothing as far as its checksum
  tells the difference; a power cut between two steps of the tag loses neither a record nor the configuration, and a
  configuration written over Bluetooth is the one read back before and after it; a download from
  inside the log whose notifications are taken delivers the log, also when the log grows under
  it; every queued event is put into the event
  log once and in order, whatever preempts the thread that queued it, and that thread always
  gets back to its wait; what a client decodes is what was detected; the alarm, motion,
  shock and reporting policies do what their thresholds say; settings round-trip and migrate; and
  for every state of the tag, with the sampling thread preempted anywhere: the configuration in force is valid and shared by its
  users (when no two writes of it overlap), the counters agree, the status holds values of its enumerations, the radio is only on
  inside a service window, queued work is scheduled, and every handler returns. What the
  Zigbee endpoint declares is what is published, and its writable attributes are the ones whose
  writes are handled; after each publication the motion state, orientation, tamper, alarm flags,
  shock and free fall counts last written to the Zigbee stack are those of the tag, and the
  temperature and humidity are within the configured deltas of the sample; what a coordinator wrote is what the next report of
  its group carries. A run of the
  validation image ends and reports every test.
  Properties of the kind \<open>error\<close> pin down where the code does not do what its comments say, or what
  goes wrong when two writes of the configuration overlap. The models pass the repository's own unit
  tests (\<open>unit_tests_pass\<close>).

  \<^bold>\<open>Bounds and fuel.\<close> The erase loop is a \<open>partial_function\<close>, its end is proved
  (\<open>erase_empties_log\<close>). \<open>stream_run\<close> runs the download's work item with fuel; every run sends at
  least one record or ends the transfer, so fuel above the number of stored records is enough, and
  \<open>download_delivers\<close> proves the result for that fuel; \<open>download_from_zero_repeats\<close> needs one
  record more. \<open>logs_ok\<close> counts the sequence numbers left:
  at 32 bits a log that is never erased stops being a ring only after four billion records, which
  is a hypothesis where it matters. The polling loops of the validation image are
  \<open>partial_function\<close>s; they end at their deadlines when the clock advances.

  \<^bold>\<open>Not modelled.\<close> What the ZBOSS macros expand to and the permissions of the GATT table belong to
  the stacks. Creating the sampling thread, \<open>report_identity\<close> (logging), and the
  floating-point conversions of \<open>sensor_value\<close> (parameters of \<open>sensor_hw\<close>) are not modelled either.
  Preemption inside a handler other than the sampling thread is not: a handler is one step, except
  for the calls of \<open>app_config_set\<close> that \<open>Config_Race\<close> interleaves. The 500 ms that the factory
  reset sleeps before its reboot is a wait in \<open>preempt_step\<close>, where everything else runs during
  it, and takes no time in \<open>tag_step\<close>. A write cut short by a power failure is modelled for the
  records of the logs only. That a value written to the Zigbee stack reaches the coordinator is
  ZBOSS's. The two thresholds that
  \<open>motion_manager_process\<close> passes in one call are read in one section. Of the unit tests the
  assertions on null pointers have no counterpart, and their framework is third-party code. The
  device tree and Kconfig are input of the build.
\<close>

end
